(* ===== verification/Prelude.thy ===== *)
theory Prelude
  imports Main "HOL-Library.State_Monad" "HOL-Library.AList" "HOL-Library.Sublist"
    "HOL-Library.Char_ord" "HOL-Library.List_Lexorder"
begin

section \<open>Shared vocabulary and automation\<close>

text \<open>
  What every component uses: Go's string maps as association lists, the state monad of
  the external world, and two small program logics over it. \<open>keeps P m\<close> says that \<open>m\<close>
  never leaves the states described by \<open>P\<close>; \<open>hoare P m Q\<close> also speaks of the result.
  Their rules are collected in \<open>keeps\<close> and \<open>hoare\<close>, so that a proof about a handler is
  one \<open>intro\<close> over its control structure.
\<close>

named_theorems keeps \<open>frame rules for programs over the external world\<close>
named_theorems hoare \<open>Hoare rules for programs over the external world\<close>
named_theorems gomap \<open>facts on Go string maps\<close>


subsection \<open>Go string maps\<close>

text \<open>
  A Go \<open>map[string]string\<close> is an association list without duplicate keys. Its order stands
  for the order in which a \<open>range\<close> loop visits the entries, which Go leaves open: a
  statement proved for every list is proved for every visiting order.
\<close>

type_synonym 'v gomap = "(string \<times> 'v) list"
type_synonym smap = "string gomap"

definition mget :: "smap \<Rightarrow> string \<Rightarrow> string" where
  \<comment> \<open>Go's \<open>m[k]\<close>: the zero value when the key is absent\<close>
  "mget m k = (case map_of m k of None \<Rightarrow> '''' | Some v \<Rightarrow> v)"

definition wf_map :: "'v gomap \<Rightarrow> bool" where
  "wf_map m = distinct (map fst m)"

abbreviation mset_key :: "string \<Rightarrow> 'v \<Rightarrow> 'v gomap \<Rightarrow> 'v gomap" where
  \<comment> \<open>Go's \<open>m[k] = v\<close>\<close>
  "mset_key \<equiv> AList.update"

lemma mget_Some [gomap]: "map_of m k = Some v \<Longrightarrow> mget m k = v"
  by (simp add: mget_def)

lemma mget_None [gomap]: "map_of m k = None \<Longrightarrow> mget m k = ''''"
  by (simp add: mget_def)

lemma mget_Nil [simp]: "mget [] k = ''''"
  by (simp add: mget_def)

lemma mget_Cons [simp]: "mget ((k, v) # m) k' = (if k = k' then v else mget m k')"
  by (simp add: mget_def)

lemma mget_nonempty: "mget m k \<noteq> '''' \<Longrightarrow> map_of m k = Some (mget m k)"
  by (auto simp: mget_def split: option.splits)

lemma wf_map_Nil [simp, intro]: "wf_map []"
  by (simp add: wf_map_def)

lemma wf_map_Cons [simp]: "wf_map ((k, v) # m) = (k \<notin> fst ` set m \<and> wf_map m)"
  by (simp add: wf_map_def)

lemma wf_map_set [gomap, intro]: "wf_map m \<Longrightarrow> wf_map (mset_key k v m)"
  by (simp add: wf_map_def distinct_update)

lemma map_of_mset_key [gomap, simp]: "map_of (mset_key k v m) = (map_of m)(k \<mapsto> v)"
  by (rule update_conv')

lemma wf_map_filter [gomap, intro]: "wf_map m \<Longrightarrow> wf_map (filter P m)"
  unfolding wf_map_def by (induction m) auto

lemma wf_map_in: "wf_map m \<Longrightarrow> (k, v) \<in> set m \<longleftrightarrow> map_of m k = Some v"
  by (auto simp: wf_map_def)

text \<open>The same map visited in another order has the same lookups.\<close>

lemma map_of_perm:
  assumes "wf_map m" "set m = set m'" "wf_map m'"
  shows "map_of m = map_of m'"
proof
  fix k
  show "map_of m k = map_of m' k"
    using assms by (metis not_Some_eq wf_map_in)
qed


text \<open>
  \<open>for k, v := range m { out[k'] = u }\<close>, where the body stores at most one entry:
  \<open>f k v\<close> is the entry it stores, if any.
\<close>

fun range_put :: "(string \<Rightarrow> 'v \<Rightarrow> (string \<times> 'u) option) \<Rightarrow> 'v gomap \<Rightarrow> 'u gomap \<Rightarrow> 'u gomap" where
  "range_put f [] out = out"
| "range_put f ((k, v) # m) out =
     range_put f m (case f k v of None \<Rightarrow> out | Some (k', u) \<Rightarrow> mset_key k' u out)"

lemma wf_map_range_put [gomap, intro]: "wf_map out \<Longrightarrow> wf_map (range_put f m out)"
proof (induction m arbitrary: out)
  case Nil
  then show ?case by simp
next
  case (Cons e m)
  obtain k v where "e = (k, v)" by fastforce
  then show ?case using Cons by (auto split: option.split intro: Cons.IH wf_map_set)
qed

text \<open>A key that no visited entry stores keeps its old value.\<close>

lemma range_put_other:
  "(\<And>k v u. (k, v) \<in> set m \<Longrightarrow> f k v \<noteq> Some (k', u)) \<Longrightarrow>
   map_of (range_put f m out) k' = map_of out k'"
proof (induction m arbitrary: out)
  case Nil
  then show ?case by simp
next
  case (Cons e m)
  obtain k v where e: "e = (k, v)" by fastforce
  have tail: "map_of (range_put f m out') k' = map_of out' k'" for out'
    by (rule Cons.IH) (use Cons.prems in auto)
  show ?case
  proof (cases "f k v")
    case None
    with e tail show ?thesis by simp
  next
    case (Some ku)
    moreover have "fst ku \<noteq> k'"
      using Cons.prems [of k v "snd ku"] Some e by (cases ku) auto
    ultimately show ?thesis using e tail by (cases ku) simp
  qed
qed

lemma range_put_keys:
  assumes "k' \<in> fst ` set (range_put f m out)" "k' \<notin> fst ` set out"
  shows "\<exists>k v u. (k, v) \<in> set m \<and> f k v = Some (k', u)"
proof (rule ccontr)
  assume "\<not> ?thesis"
  then have "map_of (range_put f m out) k' = map_of out k'"
    by (intro range_put_other) blast
  with assms show False by (metis map_of_eq_None_iff)
qed

text \<open>
  A key that exactly one source key can store: \<open>g k\<close> is the only source key of \<open>k\<close>.
\<close>

lemma range_put_at:
  assumes "wf_map m"
    and src: "\<And>k v k' u. f k v = Some (k', u) \<Longrightarrow> k = g k'"
  shows "map_of (range_put f m out) k' =
         (case map_of m (g k') of
            None \<Rightarrow> map_of out k'
          | Some v \<Rightarrow> (case f (g k') v of
                        Some (k2, u) \<Rightarrow> if k2 = k' then Some u else map_of out k'
                      | None \<Rightarrow> map_of out k'))"
  using assms(1)
proof (induction m arbitrary: out)
  case Nil
  then show ?case by simp
next
  case (Cons e m)
  obtain k v where e: "e = (k, v)" by fastforce
  define out1 where "out1 = (case f k v of None \<Rightarrow> out | Some (k2, u) \<Rightarrow> mset_key k2 u out)"
  have step: "range_put f (e # m) out = range_put f m out1"
    by (simp add: e out1_def)
  show ?case
  proof (cases "k = g k'")
    case True
    with Cons.prems e have "g k' \<notin> fst ` set m" by simp
    then have "map_of (range_put f m out1) k' = map_of out1 k'"
      by (intro range_put_other) (metis fst_conv image_eqI src)
    with True e show ?thesis
      unfolding step by (simp add: out1_def split: option.split prod.split)
  next
    case False
    then have "map_of out1 k' = map_of out k'"
      by (auto simp: out1_def split: option.split dest: src)
    then show ?thesis
      unfolding step using Cons.IH [of out1] Cons.prems e False
      by (simp cong: option.case_cong if_cong)
  qed
qed

corollary range_put_same_key:
  assumes "wf_map m" and same: "\<And>k v k' u. f k v = Some (k', u) \<Longrightarrow> k' = k"
  shows "map_of (range_put f m out) k =
         (case map_of m k of
            None \<Rightarrow> map_of out k
          | Some v \<Rightarrow> (case f k v of Some ku \<Rightarrow> Some (snd ku) | None \<Rightarrow> map_of out k))"
proof -
  have src: "f k v = Some (k', u) \<Longrightarrow> k = k'" for k v k' u
    using same by metis
  show ?thesis
    using range_put_at [OF assms(1), of f "\<lambda>k. k", OF src]
    by (auto split: option.split dest: same)
qed


subsection \<open>Programs over the external world\<close>

text \<open>
  A call to the Kubernetes API or to the PCE reads and changes the world outside the
  operator: a value of \<open>('w, 'a) state\<close>, with the world \<open>'w\<close> left open. Go's two results
  \<open>(value, error)\<close> are a sum, and its lone \<open>error\<close> result is an option.
\<close>

abbreviation ret :: "'a \<Rightarrow> ('w, 'a) state" where
  "ret \<equiv> State_Monad.return"

definition keeps :: "('w \<Rightarrow> bool) \<Rightarrow> ('w, 'a) state \<Rightarrow> bool" where
  "keeps P m \<longleftrightarrow> (\<forall>w. P w \<longrightarrow> P (snd (run_state m w)))"

definition hoare :: "('w \<Rightarrow> bool) \<Rightarrow> ('w, 'a) state \<Rightarrow> ('a \<Rightarrow> 'w \<Rightarrow> bool) \<Rightarrow> bool" where
  "hoare P m Q \<longleftrightarrow> (\<forall>w. P w \<longrightarrow> (case run_state m w of (r, w') \<Rightarrow> Q r w'))"

lemma keeps_hoare: "keeps P m \<longleftrightarrow> hoare P m (\<lambda>_. P)"
  by (simp add: keeps_def hoare_def split_beta)

lemma keepsD: "keeps P m \<Longrightarrow> P w \<Longrightarrow> run_state m w = (r, w') \<Longrightarrow> P w'"
  by (metis keeps_def snd_conv)

lemma hoareD: "hoare P m Q \<Longrightarrow> P w \<Longrightarrow> run_state m w = (r, w') \<Longrightarrow> Q r w'"
  by (fastforce simp: hoare_def)

lemma hoareI: "(\<And>w r w'. P w \<Longrightarrow> run_state m w = (r, w') \<Longrightarrow> Q r w') \<Longrightarrow> hoare P m Q"
  by (auto simp: hoare_def split: prod.split)

lemma keepsI: "(\<And>w r w'. P w \<Longrightarrow> run_state m w = (r, w') \<Longrightarrow> P w') \<Longrightarrow> keeps P m"
  by (simp add: keeps_hoare hoareI)

lemma hoare_pre: "hoare P' m Q \<Longrightarrow> (\<And>w. P w \<Longrightarrow> P' w) \<Longrightarrow> hoare P m Q"
  by (auto simp: hoare_def)

lemma hoare_post: "hoare P m Q' \<Longrightarrow> (\<And>r w. Q' r w \<Longrightarrow> Q r w) \<Longrightarrow> hoare P m Q"
  by (fastforce simp: hoare_def)

lemma hoare_conj: "hoare P m Q \<Longrightarrow> hoare P m R \<Longrightarrow> hoare P m (\<lambda>r w. Q r w \<and> R r w)"
  by (fastforce simp: hoare_def)

lemma hoare_return [hoare]: "(\<And>w. P w \<Longrightarrow> Q x w) \<Longrightarrow> hoare P (ret x) Q"
  by (simp add: hoare_def)

lemma hoare_bind:
  "hoare P m R \<Longrightarrow> (\<And>x. hoare (R x) (f x) Q) \<Longrightarrow> hoare P (State_Monad.bind m f) Q"
  by (fastforce simp: hoare_def split: prod.splits)

lemma hoare_if [hoare]:
  "(b \<Longrightarrow> hoare P m Q) \<Longrightarrow> (\<not> b \<Longrightarrow> hoare P n Q) \<Longrightarrow> hoare P (if b then m else n) Q"
  by simp

lemma hoare_case_sum [hoare]:
  "(\<And>e. r = Inl e \<Longrightarrow> hoare P (f e) Q) \<Longrightarrow> (\<And>x. r = Inr x \<Longrightarrow> hoare P (g x) Q)
   \<Longrightarrow> hoare P (case r of Inl e \<Rightarrow> f e | Inr x \<Rightarrow> g x) Q"
  by (cases r) auto

lemma hoare_case_option [hoare]:
  "(r = None \<Longrightarrow> hoare P m Q) \<Longrightarrow> (\<And>x. r = Some x \<Longrightarrow> hoare P (g x) Q)
   \<Longrightarrow> hoare P (case r of None \<Rightarrow> m | Some x \<Rightarrow> g x) Q"
  by (cases r) auto

lemma hoare_case_prod [hoare]:
  "(\<And>a b. r = (a, b) \<Longrightarrow> hoare P (f a b) Q) \<Longrightarrow> hoare P (case r of (a, b) \<Rightarrow> f a b) Q"
  by (cases r) auto

lemma hoare_Let [hoare]: "hoare P (f x) Q \<Longrightarrow> hoare P (let y = x in f y) Q"
  by simp

lemma keeps_return [keeps, simp]: "keeps P (ret x)"
  by (simp add: keeps_def)

lemma keeps_bind [keeps]:
  "keeps P m \<Longrightarrow> (\<And>x. keeps P (f x)) \<Longrightarrow> keeps P (State_Monad.bind m f)"
  by (auto simp: keeps_hoare intro: hoare_bind)

lemma keeps_if [keeps]:
  "(b \<Longrightarrow> keeps P m) \<Longrightarrow> (\<not> b \<Longrightarrow> keeps P n) \<Longrightarrow> keeps P (if b then m else n)"
  by simp

lemma keeps_case_sum [keeps]:
  "(\<And>e. r = Inl e \<Longrightarrow> keeps P (f e)) \<Longrightarrow> (\<And>x. r = Inr x \<Longrightarrow> keeps P (g x))
   \<Longrightarrow> keeps P (case r of Inl e \<Rightarrow> f e | Inr x \<Rightarrow> g x)"
  by (cases r) auto

lemma keeps_case_option [keeps]:
  "(r = None \<Longrightarrow> keeps P m) \<Longrightarrow> (\<And>x. r = Some x \<Longrightarrow> keeps P (g x))
   \<Longrightarrow> keeps P (case r of None \<Rightarrow> m | Some x \<Rightarrow> g x)"
  by (cases r) auto

lemma keeps_case_prod [keeps]:
  "(\<And>a b. r = (a, b) \<Longrightarrow> keeps P (f a b)) \<Longrightarrow> keeps P (case r of (a, b) \<Rightarrow> f a b)"
  by (cases r) auto

lemma keeps_Let [keeps]: "keeps P (f x) \<Longrightarrow> keeps P (let y = x in f y)"
  by simp

text \<open>What a program can return, whatever the world does: \<open>returns m Q\<close>.\<close>

abbreviation returns :: "('w, 'a) state \<Rightarrow> ('a \<Rightarrow> bool) \<Rightarrow> bool" where
  "returns m Q \<equiv> hoare (\<lambda>_. True) m (\<lambda>r _. Q r)"

lemma returnsD: "returns m Q \<Longrightarrow> run_state m w = (r, w') \<Longrightarrow> Q r"
  by (rule hoareD) simp_all

lemma hoare_keepsI: "keeps P m \<Longrightarrow> returns m Q \<Longrightarrow> hoare P m (\<lambda>r w. P w \<and> Q r)"
  by (auto simp: hoare_def keeps_def split_beta)

text \<open>Sequencing under an invariant: what is known of the first result is a pure fact.\<close>

lemma hoare_bind_pure:
  "hoare P m (\<lambda>r w. P w \<and> Q r) \<Longrightarrow> (\<And>x. Q x \<Longrightarrow> hoare P (f x) R) \<Longrightarrow>
   hoare P (State_Monad.bind m f) R"
  by (fastforce simp: hoare_def split: prod.splits)

lemma hoare_bind_keeps:
  "keeps P m \<Longrightarrow> (\<And>x. hoare P (f x) R) \<Longrightarrow> hoare P (State_Monad.bind m f) R"
  by (auto simp: keeps_hoare intro: hoare_bind)

lemma keeps_bind_pure:
  "hoare P m (\<lambda>r w. P w \<and> Q r) \<Longrightarrow> (\<And>x. Q x \<Longrightarrow> keeps P (f x)) \<Longrightarrow>
   keeps P (State_Monad.bind m f)"
  by (auto simp: keeps_hoare intro: hoare_bind_pure)

lemma hoare_imp_keeps: "hoare P m (\<lambda>r w. P w \<and> Q r) \<Longrightarrow> keeps P m"
  by (auto simp: keeps_hoare elim: hoare_post)

lemma hoare_any: "hoare P m (\<lambda>_ _. True)"
  by (auto simp: hoare_def)

text \<open>Sequencing when only the result of the second program is of interest.\<close>

lemma returns_bind: "(\<And>x. returns (f x) Q) \<Longrightarrow> returns (State_Monad.bind m f) Q"
  by (rule hoare_bind [OF hoare_any])

lemma returns_bind_val:
  "returns m R \<Longrightarrow> (\<And>x. R x \<Longrightarrow> returns (f x) Q) \<Longrightarrow> returns (State_Monad.bind m f) Q"
  by (fastforce simp: hoare_def split: prod.splits)


subsection \<open>Lists\<close>

text \<open>
  Go's \<open>for i := range xs { if p(xs[i]) { return xs[i] } }\<close> is \<open>List.find\<close>.
\<close>

lemma find_SomeD: "List.find p xs = Some x \<Longrightarrow> x \<in> set xs \<and> p x"
  by (metis find_Some_iff nth_mem)

lemma find_NoneD: "List.find p xs = None \<Longrightarrow> x \<in> set xs \<Longrightarrow> \<not> p x"
  by (auto simp: find_None_iff)

lemma filter_empty_all: "(\<And>x. x \<in> set xs \<Longrightarrow> \<not> p x) \<Longrightarrow> filter p xs = []"
  by (simp add: filter_empty_conv)

end
