(* ===== verification/Go_Lib.thy ===== *)
theory Go_Lib
  imports Prelude
begin

section \<open>What the operator uses of Go: text, durations, errors\<close>

text \<open>
  Strings are byte lists. This theory holds decimal formatting (\<open>%d\<close>), \<open>%q\<close> and \<open>%v\<close> of
  the arguments the operator formats, \<open>time.Duration\<close> and its text, \<open>strconv.Atoi\<close>, the
  last path segment helpers, and the error values of \<open>internal/pce/errors.go\<close> with
  \<open>errors.Is\<close> and \<open>errors.As\<close> on them.
\<close>


subsection \<open>Text\<close>

definition digit_char :: "nat \<Rightarrow> char" where
  "digit_char d = char_of (48 + d)"

fun dec_nat :: "nat \<Rightarrow> string" where
  "dec_nat n = (if n < 10 then [digit_char n] else dec_nat (n div 10) @ [digit_char (n mod 10)])"

declare dec_nat.simps [simp del]

definition dec_int :: "int \<Rightarrow> string" where
  \<comment> \<open>\<open>fmt.Sprintf("%d")\<close>\<close>
  "dec_int i = (if i < 0 then ''-'' @ dec_nat (nat (- i)) else dec_nat (nat i))"

definition hex_char :: "nat \<Rightarrow> char" where
  "hex_char d = (if d < 10 then char_of (48 + d) else char_of (87 + d))"

fun quote_char :: "char \<Rightarrow> string" where
  \<comment> \<open>one byte of \<open>fmt.Sprintf("%q")\<close>; bytes above 126 are passed through (printable UTF-8)\<close>
  "quote_char c =
     (let n = (of_char c :: nat) in
      if n = 34 \<or> n = 92 then [char_of (92::nat), c]
      else if n = 7 then [char_of (92::nat), CHR ''a'']
      else if n = 8 then [char_of (92::nat), CHR ''b'']
      else if n = 9 then [char_of (92::nat), CHR ''t'']
      else if n = 10 then [char_of (92::nat), CHR ''n'']
      else if n = 11 then [char_of (92::nat), CHR ''v'']
      else if n = 12 then [char_of (92::nat), CHR ''f'']
      else if n = 13 then [char_of (92::nat), CHR ''r'']
      else if n < 32 \<or> n = 127
        then [char_of (92::nat), CHR ''x'', hex_char (n div 16), hex_char (n mod 16)]
      else [c])"

definition go_quote :: "string \<Rightarrow> string" where
  "go_quote s = char_of (34::nat) # concat (map quote_char s) @ [char_of (34::nat)]"

fun join_sep :: "string \<Rightarrow> string list \<Rightarrow> string" where
  "join_sep sep [] = []"
| "join_sep sep [s] = s"
| "join_sep sep (s # ss) = s @ sep @ join_sep sep ss"

definition fmt_strings :: "string list \<Rightarrow> string" where
  \<comment> \<open>\<open>%v\<close> of a \<open>[]string\<close>\<close>
  "fmt_strings ss = ''['' @ join_sep '' '' ss @ '']''"

definition last_segment :: "string \<Rightarrow> string" where
  \<comment> \<open>the part after the last slash: what \<open>ContainerClusterUUID\<close>, \<open>lastPathSegment\<close> and
      \<open>lastPathSegmentPub\<close> compute, each in its own way\<close>
  "last_segment s = rev (takeWhile (\<lambda>c. c \<noteq> CHR ''/'') (rev s))"

lemma last_segment_no_slash: "CHR ''/'' \<notin> set (last_segment s)"
  by (auto simp: last_segment_def dest: set_takeWhileD)

lemma takeWhile_rev_all:
  "CHR ''/'' \<notin> set t \<Longrightarrow> takeWhile (\<lambda>c. c \<noteq> CHR ''/'') (rev t) = rev t"
  unfolding takeWhile_eq_all_conv set_rev by blast

lemma last_segment_append: "CHR ''/'' \<notin> set t \<Longrightarrow> last_segment (s @ CHR ''/'' # t) = t"
  by (simp add: last_segment_def takeWhile_tail takeWhile_rev_all)

lemma last_segment_whole: "CHR ''/'' \<notin> set s \<Longrightarrow> last_segment s = s"
  by (simp add: last_segment_def takeWhile_rev_all)

definition last_index :: "string \<Rightarrow> char \<Rightarrow> nat option" where
  \<comment> \<open>\<open>strings.LastIndex\<close> of one character; \<open>None\<close> is \<open>-1\<close>\<close>
  "last_index s c =
     (let n = length (takeWhile (\<lambda>d. d \<noteq> c) (rev s))
      in if n = length s then None else Some (length s - Suc n))"

definition after_last_index :: "string \<Rightarrow> string" where
  \<comment> \<open>\<open>if i := strings.LastIndex(s, "/"); i >= 0 { return s[i+1:] }; return s\<close>\<close>
  "after_last_index s = (case last_index s (CHR ''/'') of Some i \<Rightarrow> drop (Suc i) s | None \<Rightarrow> s)"

fun scan_back :: "string \<Rightarrow> nat \<Rightarrow> string" where
  \<comment> \<open>\<open>for i := len(s) - 1; i >= 0; i--\<close>, with \<open>n = i + 1\<close>\<close>
  "scan_back s 0 = s"
| "scan_back s (Suc i) = (if s ! i = CHR ''/'' then drop (Suc i) s else scan_back s i)"

lemma last_slash_cases:
  obtains (none) "CHR ''/'' \<notin> set s" | (split) t u where "s = t @ CHR ''/'' # u" "CHR ''/'' \<notin> set u"
  using split_list_last by metis

lemma after_last_index_segment: "after_last_index s = last_segment s"
proof (cases s rule: last_slash_cases)
  case none
  then show ?thesis
    by (simp add: after_last_index_def last_index_def takeWhile_rev_all last_segment_whole)
next
  case (split t u)
  have "takeWhile (\<lambda>d. d \<noteq> CHR ''/'') (rev u @ CHR ''/'' # rev t) = rev u"
    by (simp add: takeWhile_tail takeWhile_rev_all [OF split(2)])
  then show ?thesis unfolding split(1)
    by (simp add: after_last_index_def last_index_def last_segment_append [OF split(2)])
qed

lemma scan_back_plain: "n \<le> length s \<Longrightarrow> CHR ''/'' \<notin> set (take n s) \<Longrightarrow> scan_back s n = s"
  by (induction n) (auto simp: take_Suc_conv_app_nth)

lemma scan_back_skip:
  "CHR ''/'' \<notin> set u \<Longrightarrow> n \<le> length u \<Longrightarrow>
   scan_back (t @ CHR ''/'' # u) (Suc (length t) + n) = u"
proof (induction n)
  case (Suc n)
  then have "u ! n \<noteq> CHR ''/''" by (metis Suc_le_lessD nth_mem)
  with Suc show ?case by (simp add: nth_append)
qed simp

lemma scan_back_segment: "scan_back s (length s) = last_segment s"
proof (cases s rule: last_slash_cases)
  case none
  then show ?thesis by (simp add: scan_back_plain last_segment_whole)
next
  case (split t u)
  then show ?thesis
    using scan_back_skip [OF split(2), of "length u" t] by (simp add: last_segment_append)
qed


subsection \<open>Integers and durations\<close>

definition wrap64 :: "int \<Rightarrow> int" where
  \<comment> \<open>\<open>int64\<close> arithmetic: two's complement wrap-around\<close>
  "wrap64 i = (i + 2 ^ 63) mod 2 ^ 64 - 2 ^ 63"

lemma wrap64_id: "- (2 ^ 63) \<le> i \<Longrightarrow> i < 2 ^ 63 \<Longrightarrow> wrap64 i = i"
  by (simp add: wrap64_def)

lemma wrap64_bounds: "- (2 ^ 63) \<le> wrap64 i \<and> wrap64 i < 2 ^ 63"
  by (simp add: wrap64_def)

text \<open>A \<open>time.Duration\<close> is a number of nanoseconds.\<close>

type_synonym duration = int

definition second :: duration where "second = 1000000000"
definition minute :: duration where "minute = 60 * second"
definition hour :: duration where "hour = 60 * minute"

definition is_digit :: "char \<Rightarrow> bool" where
  "is_digit c \<longleftrightarrow> 48 \<le> (of_char c :: nat) \<and> (of_char c :: nat) \<le> 57"

definition digits_value :: "string \<Rightarrow> nat" where
  "digits_value s = foldl (\<lambda>n c. 10 * n + (of_char c - 48)) 0 s"

definition atoi :: "string \<Rightarrow> int option" where
  \<comment> \<open>\<open>strconv.Atoi\<close>: optional sign, decimal digits, \<open>int64\<close> range; \<open>None\<close> is its error\<close>
  "atoi s =
     (let (neg, ds) = (case s of
            [] \<Rightarrow> (False, [])
          | c # cs \<Rightarrow> if c = CHR ''-'' then (True, cs)
                     else if c = CHR ''+'' then (False, cs) else (False, s));
          v = (if neg then - int (digits_value ds) else int (digits_value ds))
      in if ds \<noteq> [] \<and> list_all is_digit ds \<and> - (2 ^ 63) \<le> v \<and> v < 2 ^ 63
         then Some v else None)"

text \<open>Reading back a printed number.\<close>

lemma digits_value_snoc: "digits_value (s @ [c]) = 10 * digits_value s + (of_char c - 48)"
  by (simp add: digits_value_def)

lemma of_digit_char: "d < 10 \<Longrightarrow> of_char (digit_char d) = 48 + d"
  by (simp add: digit_char_def)

lemma digits_value_dec_nat: "digits_value (dec_nat n) = n"
proof (induction n rule: dec_nat.induct)
  case (1 n)
  show ?case
  proof (cases "n < 10")
    case True
    then show ?thesis by (subst dec_nat.simps) (simp add: digits_value_def of_digit_char)
  next
    case False
    with 1 show ?thesis
      by (subst dec_nat.simps) (simp add: digits_value_snoc of_digit_char)
  qed
qed

lemma dec_nat_digits: "list_all is_digit (dec_nat n) \<and> dec_nat n \<noteq> []"
proof (induction n rule: dec_nat.induct)
  case (1 n)
  have "is_digit (digit_char (n mod 10))" "n < 10 \<Longrightarrow> is_digit (digit_char n)"
    by (simp_all add: is_digit_def of_digit_char)
  with 1 show ?case
    by (subst (1 2) dec_nat.simps) auto
qed

lemma atoi_dec_nat: "n < 2 ^ 63 \<Longrightarrow> atoi (dec_nat n) = Some (int n)"
proof -
  assume n: "n < 2 ^ 63"
  obtain c cs where c: "dec_nat n = c # cs" using dec_nat_digits [of n] by (cases "dec_nat n") auto
  with dec_nat_digits [of n] have "is_digit c" by simp
  then have "c \<noteq> CHR ''-''" "c \<noteq> CHR ''+''" by (auto simp: is_digit_def)
  then show ?thesis using n dec_nat_digits [of n] digits_value_dec_nat [of n] c
    by (auto simp: atoi_def list_all_iff)
qed

fun pad_left :: "nat \<Rightarrow> string \<Rightarrow> string" where
  "pad_left n s = replicate (n - length s) (CHR ''0'') @ s"

definition frac_part :: "nat \<Rightarrow> nat \<Rightarrow> string" where
  \<comment> \<open>\<open>fmtFrac\<close>: the fraction \<open>v / 10^prec\<close> without trailing zeros\<close>
  "frac_part v prec =
     (let ds = rev (dropWhile (\<lambda>c. c = CHR ''0'') (rev (pad_left prec (dec_nat (v mod 10 ^ prec)))))
      in if ds = [] then [] else CHR ''.'' # ds)"

definition duration_string :: "duration \<Rightarrow> string" where
  \<comment> \<open>\<open>Duration.String\<close> (\<open>%s\<close> of a duration); the micro sign is its two UTF-8 bytes\<close>
  "duration_string d =
     (let u = nat \<bar>d\<bar>; sign = (if d < 0 then ''-'' else '''') in
      if u = 0 then ''0s''
      else if u < 1000 then sign @ dec_nat u @ ''ns''
      else if u < 1000000 then sign @ dec_nat (u div 1000) @ frac_part u 3 @ map char_of [194::nat, 181] @ ''s''
      else if u < 1000000000 then sign @ dec_nat (u div 1000000) @ frac_part u 6 @ ''ms''
      else let s = u div 1000000000; m = s div 60; h = m div 60;
               secs = dec_nat (s mod 60) @ frac_part u 9 @ ''s'' in
           if m = 0 then sign @ secs
           else if h = 0 then sign @ dec_nat (m mod 60) @ ''m'' @ secs
           else sign @ dec_nat h @ ''h'' @ dec_nat (m mod 60) @ ''m'' @ secs)"


subsection \<open>Errors\<close>

text \<open>
  The error values that flow through the operator: the three of \<open>internal/pce/errors.go\<close>,
  the sentinel of \<open>policybackend.go\<close>, plain \<open>fmt.Errorf\<close> texts, \<open>%w\<close> wrapping,
  \<open>errors.Join\<close>, and the Kubernetes API's errors, of which the operator tells apart
  NotFound only (\<open>apierrors.IsNotFound\<close>, \<open>client.IgnoreNotFound\<close>).
\<close>

datatype go_error =
    ErrLabelNotFound
  | APIError (api_status: int) (api_body: string)
  | RateLimitError (rl_retry_after: duration)
  | ErrRuleSetPendingDeletion
  | ErrorText string
  | WrapError string go_error
  | JoinError "go_error list"
  | KubeNotFound string
  | KubeError string

fun error_string :: "go_error \<Rightarrow> string" where
  "error_string ErrLabelNotFound = ''illumio label not found''"
| "error_string (APIError s b) = ''pce api error: status '' @ dec_int s @ '': '' @ b"
| "error_string (RateLimitError d) = ''pce rate limited, retry after '' @ duration_string d"
| "error_string ErrRuleSetPendingDeletion =
     ''owned ruleset has an unprovisioned pending deletion in the PCE''"
| "error_string (ErrorText s) = s"
| "error_string (WrapError s e) = s @ error_string e"
| "error_string (JoinError es) = join_sep [char_of (10::nat)] (map error_string es)"
| "error_string (KubeNotFound s) = s"
| "error_string (KubeError s) = s"

fun is_label_not_found :: "go_error \<Rightarrow> bool" where
  \<comment> \<open>\<open>errors.Is(err, pce.ErrLabelNotFound)\<close>\<close>
  "is_label_not_found ErrLabelNotFound = True"
| "is_label_not_found (WrapError _ e) = is_label_not_found e"
| "is_label_not_found (JoinError es) = list_ex is_label_not_found es"
| "is_label_not_found _ = False"

fun is_pending_deletion :: "go_error \<Rightarrow> bool" where
  \<comment> \<open>\<open>errors.Is(err, errRuleSetPendingDeletion)\<close>\<close>
  "is_pending_deletion ErrRuleSetPendingDeletion = True"
| "is_pending_deletion (WrapError _ e) = is_pending_deletion e"
| "is_pending_deletion (JoinError es) = list_ex is_pending_deletion es"
| "is_pending_deletion _ = False"

fun as_api_error :: "go_error \<Rightarrow> (int \<times> string) option"
  and as_api_error_list :: "go_error list \<Rightarrow> (int \<times> string) option" where
  \<comment> \<open>\<open>errors.As\<close> with an \<open>*APIError\<close>: the first in the error's tree\<close>
  "as_api_error (APIError s b) = Some (s, b)"
| "as_api_error (WrapError _ e) = as_api_error e"
| "as_api_error (JoinError es) = as_api_error_list es"
| "as_api_error ErrLabelNotFound = None"
| "as_api_error (RateLimitError _) = None"
| "as_api_error ErrRuleSetPendingDeletion = None"
| "as_api_error (ErrorText _) = None"
| "as_api_error (KubeNotFound _) = None"
| "as_api_error (KubeError _) = None"
| "as_api_error_list [] = None"
| "as_api_error_list (e # es) =
     (case as_api_error e of Some r \<Rightarrow> Some r | None \<Rightarrow> as_api_error_list es)"

fun as_rate_limit :: "go_error \<Rightarrow> duration option"
  and as_rate_limit_list :: "go_error list \<Rightarrow> duration option" where
  \<comment> \<open>\<open>errors.As\<close> with a \<open>*RateLimitError\<close>\<close>
  "as_rate_limit (RateLimitError d) = Some d"
| "as_rate_limit (WrapError _ e) = as_rate_limit e"
| "as_rate_limit (JoinError es) = as_rate_limit_list es"
| "as_rate_limit ErrLabelNotFound = None"
| "as_rate_limit (APIError _ _) = None"
| "as_rate_limit ErrRuleSetPendingDeletion = None"
| "as_rate_limit (ErrorText _) = None"
| "as_rate_limit (KubeNotFound _) = None"
| "as_rate_limit (KubeError _) = None"
| "as_rate_limit_list [] = None"
| "as_rate_limit_list (e # es) =
     (case as_rate_limit e of Some r \<Rightarrow> Some r | None \<Rightarrow> as_rate_limit_list es)"

definition is_not_found :: "go_error \<Rightarrow> bool" where
  "is_not_found e = (case as_api_error e of Some (s, _) \<Rightarrow> s = 404 | None \<Rightarrow> False)"

fun is_kube_not_found :: "go_error \<Rightarrow> bool" where
  \<comment> \<open>\<open>apierrors.IsNotFound\<close>\<close>
  "is_kube_not_found (KubeNotFound _) = True"
| "is_kube_not_found _ = False"

definition ignore_not_found :: "go_error \<Rightarrow> go_error option" where
  \<comment> \<open>\<open>client.IgnoreNotFound\<close>\<close>
  "ignore_not_found e = (if is_kube_not_found e then None else Some e)"

definition errors_join :: "go_error list \<Rightarrow> go_error option" where
  \<comment> \<open>\<open>errors.Join\<close> of non-nil errors: nil for none\<close>
  "errors_join es = (if es = [] then None else Some (JoinError es))"

end
