(* ===== verification/Api_Types.thy ===== *)
theory Api_Types
  imports Go_Lib
begin

section \<open>The custom resources (api/v1alpha1)\<close>

text \<open>
  The Go structs of the custom resources as records, one record per struct, with the parts
  of \<open>ObjectMeta\<close> and \<open>metav1.Condition\<close> that the operator reads or writes. Optional
  strings are empty strings, as in Go. Then \<open>labelmode.go\<close> and \<open>scope.go\<close>, the two files
  of the package that hold code.
\<close>


subsection \<open>Kubernetes metadata and conditions\<close>

record object_meta =
  om_name :: string
  om_namespace :: string
  om_uid :: string
  om_generation :: int
  om_labels :: smap
  om_annotations :: smap
  om_finalizers :: "string list"
  om_deleting :: bool \<comment> \<open>\<open>DeletionTimestamp\<close> is set\<close>

datatype condition_status = ConditionTrue | ConditionFalse | ConditionUnknown

record condition =
  c_type :: string
  c_status :: condition_status
  c_reason :: string
  c_message :: string
  c_generation :: int

definition new_condition :: "string \<Rightarrow> condition_status \<Rightarrow> string \<Rightarrow> string \<Rightarrow> condition" where
  \<comment> \<open>a composite literal that leaves \<open>ObservedGeneration\<close> at its zero value\<close>
  "new_condition t s r m =
     \<lparr>c_type = t, c_status = s, c_reason = r, c_message = m, c_generation = 0\<rparr>"

record label_requirement =
  lr_key :: string
  lr_operator :: string
  lr_values :: "string list"

record label_selector =
  sel_match_labels :: smap
  sel_match_expressions :: "label_requirement list"


subsection \<open>PCEConnection\<close>

record secret_reference =
  secref_name :: string
  secref_namespace :: string

record pce_connection_spec =
  pcs_pce_url :: string
  pcs_org_id :: int
  pcs_credentials_secret_ref :: secret_reference
  pcs_external_data_set :: string

record pce_connection_status =
  pcst_conditions :: "condition list"
  pcst_observed_generation :: int

record pce_connection =
  conn_meta :: object_meta
  conn_spec :: pce_connection_spec
  conn_status :: pce_connection_status


subsection \<open>ClusterProfile\<close>

record node_pairing_profile_spec =
  npp_existing_name :: string
  npp_labels :: smap
  npp_enforcement_mode :: string

record namespace_match =
  nm_name_pattern :: string
  nm_labels :: smap

record label_assignment =
  la_value :: string
  la_from_namespace_label :: string

record namespace_rule =
  nr_match :: namespace_match
  nr_managed :: bool
  nr_assign_labels :: "label_assignment gomap"
  nr_enforcement_mode :: string

record system_namespaces_spec =
  sns_manage :: bool
  sns_patterns :: "string list"
  sns_labels :: smap
  sns_enforcement_mode :: string

record onboarding_spec =
  ob_mode :: string
  ob_container_cluster_name :: string
  ob_credentials_output_secret :: string
  ob_node_pairing_profile :: node_pairing_profile_spec

record cluster_profile_spec =
  cps_pce_connection_ref :: string
  cps_onboarding :: onboarding_spec
  cps_provisioning_mode :: string
  cps_policy_scope_labels :: "string list"
  cps_unknown_label_mode :: string
  cps_system_namespaces :: system_namespaces_spec
  cps_namespace_rules :: "namespace_rule list"

record cluster_profile_status =
  cpst_conditions :: "condition list"
  cpst_container_cluster_href :: string
  cpst_container_cluster_id :: string
  cpst_managed_namespaces :: int
  cpst_observed_generation :: int

record cluster_profile =
  cp_meta :: object_meta
  cp_spec :: cluster_profile_spec
  cp_status :: cluster_profile_status


subsection \<open>SegmentationIntent and SegmentationPolicy\<close>

record intent_port =
  ip_port :: int
  ip_protocol :: string

record intent_allow =
  ia_from :: smap
  ia_from_intra_namespace :: smap
  ia_ports :: "intent_port list"

record seg_intent_spec =
  sis_provider :: smap
  sis_allow :: "intent_allow list"
  sis_allow_intra_namespace :: bool
  sis_enforcement :: string

record seg_intent_status =
  ss_conditions :: "condition list"
  ss_workloads_affected :: int
  ss_effective_enforcement :: string
  ss_enforcement_set_by :: string
  ss_unknown_label_mode :: string
  ss_unknown_label_mode_set_by :: string
  ss_deferred_labels :: "string list"
  ss_created_labels :: "string list"
  ss_observed_generation :: int

record seg_intent =
  si_meta :: object_meta
  si_spec :: seg_intent_spec
  si_status :: seg_intent_status

record network_policy_peer =
  np_pod_selector :: "label_selector option"
  np_namespace_selector :: "label_selector option"

record network_policy_port =
  npp_port :: int
  npp_protocol :: string

record ingress_rule =
  ir_from :: "network_policy_peer list"
  ir_ports :: "network_policy_port list"

record seg_policy_spec =
  sps_pod_selector :: label_selector
  sps_ingress :: "ingress_rule list"
  sps_policy_types :: "string list"
  sps_enforcement :: string

text \<open>\<open>SegmentationPolicyStatus\<close> has the fields of \<open>SegmentationIntentStatus\<close>, one for one.\<close>

type_synonym seg_policy_status = seg_intent_status

record seg_policy =
  sp_meta :: object_meta
  sp_spec :: seg_policy_spec
  sp_status :: seg_policy_status


subsection \<open>PolicyInsight\<close>

text \<open>A \<open>metav1.Time\<close> is its distance from the epoch in nanoseconds; a nil pointer is \<open>None\<close>.\<close>

type_synonym instant = int

record flow_finding =
  ff_peer :: smap
  ff_peer_ip :: string
  ff_port :: int
  ff_protocol :: string
  ff_connections :: int
  ff_decision :: string
  ff_last_detected :: "instant option"

record observation_window =
  ow_from :: "instant option"
  ow_to :: "instant option"

record decision_counts =
  dc_allowed :: int
  dc_potentially_blocked :: int
  dc_blocked :: int
  dc_unknown :: int
  dc_total :: int

record preflight_summary =
  pfs_inbound :: decision_counts
  pfs_outbound :: decision_counts

record policy_insight_status =
  pis_conditions :: "condition list"
  pis_observed_window :: "observation_window option"
  pis_summary :: "preflight_summary option"
  pis_flows_analyzed :: int
  pis_inbound_blocked_count :: int
  pis_outbound_blocked_count :: int
  pis_truncated :: bool
  pis_would_block_inbound :: "flow_finding list"
  pis_would_block_inbound_truncated :: bool
  pis_would_block_outbound :: "flow_finding list"
  pis_would_block_outbound_truncated :: bool
  pis_observed_generation :: int
  pis_observed_refresh :: string

record policy_insight =
  pi_meta :: object_meta
  pi_lookback_days :: int \<comment> \<open>\<open>PolicyInsightSpec\<close> has this one field\<close>
  pi_status :: policy_insight_status


subsection \<open>RuleView\<close>

record rule_view_spec =
  rvs_refresh_interval_minutes :: int
  rvs_policy_version :: string

record rule_summary =
  rsm_href :: string
  rsm_ruleset_name :: string
  rsm_owned_by :: string
  rsm_type :: string
  rsm_enabled :: bool
  rsm_consumers :: "string list"
  rsm_services :: "string list"

record rule_view_status =
  rvst_conditions :: "condition list"
  rvst_observed_at :: "instant option"
  rvst_rule_count :: int
  rvst_owned_count :: int
  rvst_external_count :: int
  rvst_truncated :: bool
  rvst_rules :: "rule_summary list"
  rvst_observed_generation :: int
  rvst_observed_refresh :: string

record rule_view =
  rv_meta :: object_meta
  rv_spec :: rule_view_spec
  rv_status :: rule_view_status

definition RuleOwnedByOperator :: string where "RuleOwnedByOperator = ''operator''"
definition RuleOwnedByExternal :: string where "RuleOwnedByExternal = ''external''"


subsection \<open>Unknown-label modes (labelmode.go)\<close>

definition UnknownLabelStrict :: string where "UnknownLabelStrict = ''strict''"
definition UnknownLabelSkip :: string where "UnknownLabelSkip = ''skip''"
definition UnknownLabelCreate :: string where "UnknownLabelCreate = ''create''"

definition AnnotationUnknownLabelMode :: string where
  "AnnotationUnknownLabelMode = ''microsegment.io/unknown-label-mode''"

definition LabelKeyRole :: string where "LabelKeyRole = ''role''"
definition LabelKeyApp :: string where "LabelKeyApp = ''app''"
definition LabelKeyEnv :: string where "LabelKeyEnv = ''env''"
definition LabelKeyLoc :: string where "LabelKeyLoc = ''loc''"

definition SetBySourceCR :: string where "SetBySourceCR = ''cr''"
definition SetBySourceNamespace :: string where "SetBySourceNamespace = ''namespace''"
definition SetBySourceClusterProfile :: string where "SetBySourceClusterProfile = ''clusterprofile''"
definition SetBySourceDefault :: string where "SetBySourceDefault = ''default''"

lemmas label_mode_names =
  UnknownLabelStrict_def UnknownLabelSkip_def UnknownLabelCreate_def
  AnnotationUnknownLabelMode_def SetBySourceCR_def SetBySourceNamespace_def
  SetBySourceClusterProfile_def SetBySourceDefault_def

lemmas label_key_names = LabelKeyRole_def LabelKeyApp_def LabelKeyEnv_def LabelKeyLoc_def

definition validUnknownLabelMode :: "string \<Rightarrow> bool" where
  "validUnknownLabelMode m \<longleftrightarrow>
     m = UnknownLabelStrict \<or> m = UnknownLabelSkip \<or> m = UnknownLabelCreate"

definition ResolveUnknownLabelMode :: "string \<Rightarrow> smap \<Rightarrow> smap \<Rightarrow> string \<times> string" where
  "ResolveUnknownLabelMode cpDefault nsAnnotations crAnnotations =
     (let v = mget crAnnotations AnnotationUnknownLabelMode in
      if validUnknownLabelMode v then (v, SetBySourceCR)
      else let v = mget nsAnnotations AnnotationUnknownLabelMode in
      if validUnknownLabelMode v then (v, SetBySourceNamespace)
      else if validUnknownLabelMode cpDefault then (cpDefault, SetBySourceClusterProfile)
      else (UnknownLabelStrict, SetBySourceDefault))"

lemma ResolveUnknownLabelMode_valid:
  "validUnknownLabelMode (fst (ResolveUnknownLabelMode d ns cr))"
  by (simp add: ResolveUnknownLabelMode_def validUnknownLabelMode_def Let_def)


subsection \<open>Ruleset scope labels (scope.go)\<close>

definition DefaultPolicyScopeLabels :: "string list" where
  "DefaultPolicyScopeLabels = [LabelKeyApp, LabelKeyEnv]"

definition ScopeLabelKeys :: "cluster_profile_spec \<Rightarrow> string list" where
  "ScopeLabelKeys s =
     (if cps_policy_scope_labels s = [] then DefaultPolicyScopeLabels
      else cps_policy_scope_labels s)"


subsection \<open>Condition types, reasons and annotation keys\<close>

definition ConditionConnected :: string where "ConditionConnected = ''Connected''"
definition ConditionOnboarded :: string where "ConditionOnboarded = ''Onboarded''"
definition ConditionNamespacesReconciled :: string where
  "ConditionNamespacesReconciled = ''NamespacesReconciled''"
definition ConditionReady :: string where "ConditionReady = ''Ready''"
definition ConditionProvisioned :: string where "ConditionProvisioned = ''Provisioned''"

definition ReasonConnected :: string where "ReasonConnected = ''Connected''"
definition ReasonSecretMissing :: string where "ReasonSecretMissing = ''SecretMissing''"
definition ReasonAuthFailed :: string where "ReasonAuthFailed = ''AuthFailed''"
definition ReasonRateLimited :: string where "ReasonRateLimited = ''RateLimited''"
definition ReasonPCEUnreachable :: string where "ReasonPCEUnreachable = ''PCEUnreachable''"
definition ReasonCompiled :: string where "ReasonCompiled = ''Compiled''"
definition ReasonRejected :: string where "ReasonRejected = ''Rejected''"
definition ReasonClusterProfileNotReady :: string where
  "ReasonClusterProfileNotReady = ''ClusterProfileNotReady''"
definition ReasonProvisioned :: string where "ReasonProvisioned = ''Provisioned''"
definition ReasonProvisionPending :: string where "ReasonProvisionPending = ''ProvisionPending''"
definition ReasonPCEStateConflict :: string where "ReasonPCEStateConflict = ''PCEStateConflict''"
definition ConditionLabelMapOverlap :: string where "ConditionLabelMapOverlap = ''LabelMapOverlap''"
definition ReasonOnboarded :: string where "ReasonOnboarded = ''Onboarded''"
definition ReasonPCEConnectionNotReady :: string where
  "ReasonPCEConnectionNotReady = ''PCEConnectionNotReady''"
definition ReasonOnboardFailed :: string where "ReasonOnboardFailed = ''OnboardFailed''"
definition ReasonReconciled :: string where "ReasonReconciled = ''Reconciled''"
definition ReasonNamespaceErrors :: string where "ReasonNamespaceErrors = ''NamespaceReconcileErrors''"
definition ReasonComputed :: string where "ReasonComputed = ''Computed''"
definition ReasonNoScopeLabels :: string where "ReasonNoScopeLabels = ''NoScopeLabels''"
definition ReasonSynced :: string where "ReasonSynced = ''Synced''"
definition AnnotationRefresh :: string where "AnnotationRefresh = ''microsegment.io/refresh''"
definition ReasonQueryFailed :: string where "ReasonQueryFailed = ''QueryFailed''"

definition AnnotationProvisionApprove :: string where
  "AnnotationProvisionApprove = ''microsegment.io/provision''"
definition AnnotationManaged :: string where
  "AnnotationManaged = ''microsegment.io/managed''"
definition AnnotationEnforcement :: string where
  "AnnotationEnforcement = ''microsegment.io/enforcement''"
definition AnnotationLabelPrefix :: string where
  "AnnotationLabelPrefix = ''microsegment.io/label.''"

lemmas condition_names =
  ConditionConnected_def ConditionOnboarded_def ConditionNamespacesReconciled_def
  ConditionReady_def ConditionProvisioned_def ConditionLabelMapOverlap_def

lemmas reason_names =
  ReasonConnected_def ReasonSecretMissing_def ReasonAuthFailed_def ReasonRateLimited_def
  ReasonPCEUnreachable_def ReasonCompiled_def ReasonRejected_def
  ReasonClusterProfileNotReady_def ReasonProvisioned_def ReasonProvisionPending_def
  ReasonPCEStateConflict_def ReasonQueryFailed_def

lemmas annotation_names =
  AnnotationProvisionApprove_def AnnotationManaged_def AnnotationEnforcement_def
  AnnotationLabelPrefix_def

subsection \<open>Properties\<close>

text \<open>
  The unknown-label mode is the first valid one of the resource's annotation, the
  namespace's annotation and the profile's default, reported with its source; without a
  valid one it is strict by default. Invalid values are passed over, not reported.
\<close>
theorem ResolveUnknownLabelMode_precedence:
  "ResolveUnknownLabelMode cpDefault nsAnnotations crAnnotations =
     hd (filter (validUnknownLabelMode \<circ> fst)
       [(mget crAnnotations AnnotationUnknownLabelMode, SetBySourceCR),
        (mget nsAnnotations AnnotationUnknownLabelMode, SetBySourceNamespace),
        (cpDefault, SetBySourceClusterProfile),
        (UnknownLabelStrict, SetBySourceDefault)])"
  by (simp add: ResolveUnknownLabelMode_def Let_def validUnknownLabelMode_def)

end
