(* ===== verification/Go_Path.thy ===== *)
theory Go_Path
  imports Go_Lib
begin

section \<open>The glob matcher of Go's path package\<close>

text \<open>
  \<open>path.Match\<close> as \<open>cwpmatch.go\<close> uses it on namespace names: the pattern is cut into chunks
  at its stars, each chunk is matched at the first place it fits. \<open>None\<close> is
  \<open>ErrBadPattern\<close>. Bytes stand for runes, which is exact for ASCII text (Kubernetes names
  are ASCII). The lemmas at the end say what literal patterns and literal prefixes followed
  by a star match; those are the shapes of the operator's built-in patterns.
\<close>

fun drop_stars :: "string \<Rightarrow> bool \<times> string" where
  "drop_stars [] = (False, [])"
| "drop_stars (c # cs) = (if c = CHR ''*'' then (True, snd (drop_stars cs)) else (False, c # cs))"

definition backslash :: char where "backslash = char_of (92::nat)"

fun scan_span :: "bool \<Rightarrow> string \<Rightarrow> string \<times> string" where
  "scan_span inrange [] = ([], [])"
| "scan_span inrange [c] =
     (if c = CHR ''*'' \<and> \<not> inrange then ([], [c]) else ([c], []))"
| "scan_span inrange (c # d # cs) =
     (if c = backslash then (let (a, b) = scan_span inrange cs in (c # d # a, b))
      else if c = CHR ''*'' \<and> \<not> inrange then ([], c # d # cs)
      else let inrange' = (if c = CHR ''['' then True else if c = CHR '']'' then False else inrange);
               (a, b) = scan_span inrange' (d # cs) in (c # a, b))"

definition scan_chunk :: "string \<Rightarrow> bool \<times> string \<times> string" where
  "scan_chunk p = (let (star, q) = drop_stars p; (a, b) = scan_span False q in (star, a, b))"

fun get_esc :: "string \<Rightarrow> (char \<times> string) option" where
  "get_esc chunk =
     (let chunk' = (case chunk of
          [] \<Rightarrow> None
        | c # cs \<Rightarrow> if c = CHR ''-'' \<or> c = CHR '']'' then None
                   else if c = backslash then (if cs = [] then None else Some cs)
                   else Some (c # cs))
      in case chunk' of
           None \<Rightarrow> None
         | Some ch \<Rightarrow> (case ch of r # (d # ds) \<Rightarrow> Some (r, d # ds) | _ \<Rightarrow> None))"

lemma get_esc_length: "get_esc chunk = Some (r, rest) \<Longrightarrow> length rest < length chunk"
  by (auto split: list.splits if_splits)

declare get_esc.simps [simp del]

function class_loop :: "char \<Rightarrow> nat \<Rightarrow> bool \<Rightarrow> string \<Rightarrow> (bool \<times> string) option" where
  "class_loop r n m chunk =
     (if chunk \<noteq> [] \<and> hd chunk = CHR '']'' \<and> n > 0 then Some (m, tl chunk)
      else case get_esc chunk of
             None \<Rightarrow> None
           | Some (lo, ch1) \<Rightarrow>
               (case (if hd ch1 = CHR ''-'' then get_esc (tl ch1) else Some (lo, ch1)) of
                  None \<Rightarrow> None
                | Some (hi, ch2) \<Rightarrow>
                    class_loop r (Suc n)
                      (m \<or> ((of_char lo :: nat) \<le> of_char r \<and> (of_char r :: nat) \<le> of_char hi)) ch2))"
  by pat_completeness auto
termination
proof (relation "measure (\<lambda>(r, n, m, chunk). length chunk)", goal_cases)
  case (2 r n m chunk x lo ch1 y hi ch2)
  then have "length ch1 < length chunk" by (auto dest: get_esc_length)
  moreover have "length ch2 \<le> length ch1"
    using 2 by (auto split: if_splits dest!: get_esc_length)
  ultimately show ?case by simp
qed simp

declare class_loop.simps [simp del]

lemma class_loop_length: "class_loop r n m chunk = Some (b, rest) \<Longrightarrow> length rest < length chunk"
proof (induction r n m chunk rule: class_loop.induct)
  case (1 r n m chunk)
  show ?case
  proof (cases "chunk \<noteq> [] \<and> hd chunk = CHR '']'' \<and> n > 0")
    case True
    with "1.prems" show ?thesis by (auto simp: class_loop.simps [of r n m chunk])
  next
    case False
    then obtain lo ch1 hi ch2 where
      e: "get_esc chunk = Some (lo, ch1)"
        "(if hd ch1 = CHR ''-'' then get_esc (tl ch1) else Some (lo, ch1)) = Some (hi, ch2)"
      and c: "class_loop r (Suc n)
               (m \<or> ((of_char lo :: nat) \<le> of_char r \<and> (of_char r :: nat) \<le> of_char hi)) ch2 = Some (b, rest)"
      using "1.prems" by (subst (asm) class_loop.simps) (auto split: option.splits)
    have "length rest < length ch2" using "1.IH" [OF False e(1) refl e(2) refl c] .
    moreover have "length ch1 < length chunk" using e(1) by (rule get_esc_length)
    moreover have "length ch2 \<le> length ch1"
      using e(2) by (auto split: if_splits dest!: get_esc_length)
    ultimately show ?thesis by simp
  qed
qed

text \<open>
  \<open>matchChunk\<close>: the flag records that the match has failed and only the pattern's syntax
  is still checked.
\<close>

function match_chunk :: "bool \<Rightarrow> string \<Rightarrow> string \<Rightarrow> string option option" where
  "match_chunk failed [] s = Some (if failed then None else Some s)"
| "match_chunk failed (c # cs) s =
     (let failed = (failed \<or> s = []) in
      if c = CHR ''['' then
        (let r = (if failed then char_of (0::nat) else hd s);
             s' = (if failed then s else tl s);
             (negated, ch) = (if cs \<noteq> [] \<and> hd cs = CHR ''^'' then (True, tl cs) else (False, cs))
         in case class_loop r 0 False ch of
              None \<Rightarrow> None
            | Some (m, ch') \<Rightarrow> match_chunk (failed \<or> m = negated) ch' s')
      else if c = CHR ''?'' then
        match_chunk (failed \<or> hd s = CHR ''/'') cs (if failed then s else tl s)
      else if c = backslash then
        (case cs of
           [] \<Rightarrow> None
         | d # ds \<Rightarrow> match_chunk (failed \<or> d \<noteq> hd s) ds (if failed then s else tl s))
      else match_chunk (failed \<or> c \<noteq> hd s) cs (if failed then s else tl s))"
  by pat_completeness auto
termination
proof (relation "measure (\<lambda>(failed, chunk, s). length chunk)", goal_cases)
  case (2 failed c cs s x xa xb xc xd xe xf xg xh)
  then show ?case
    by (auto dest!: class_loop_length split: if_splits)
qed auto

declare match_chunk.simps(2) [simp del]

fun skip_match :: "string \<Rightarrow> bool \<Rightarrow> string \<Rightarrow> string option option" where
  "skip_match chunk is_last [] = Some None"
| "skip_match chunk is_last (c # cs) =
     (if c = CHR ''/'' then Some None
      else case match_chunk False chunk cs of
             None \<Rightarrow> None
           | Some None \<Rightarrow> skip_match chunk is_last cs
           | Some (Some t) \<Rightarrow>
               if is_last \<and> t \<noteq> [] then skip_match chunk is_last cs else Some (Some t))"

lemma drop_stars_length: "length (snd (drop_stars p)) \<le> length p"
  by (induction p) auto

lemma drop_stars_star: "fst (drop_stars p) \<Longrightarrow> length (snd (drop_stars p)) < length p"
  by (cases p) (auto simp: less_Suc_eq_le drop_stars_length split: if_splits)

lemma drop_stars_no_star: "\<not> fst (drop_stars p) \<Longrightarrow> snd (drop_stars p) = p \<and> (p = [] \<or> hd p \<noteq> CHR ''*'')"
  by (cases p) auto

lemma scan_span_split: "scan_span b p = (a, r) \<Longrightarrow> p = a @ r"
  by (induction b p arbitrary: a r rule: scan_span.induct) (auto split: if_splits prod.splits)

lemma scan_span_progress: "p \<noteq> [] \<Longrightarrow> hd p \<noteq> CHR ''*'' \<Longrightarrow> fst (scan_span b p) \<noteq> []"
  by (cases "(b, p)" rule: scan_span.cases) (auto split: prod.splits)

lemma scan_chunk_length:
  assumes "scan_chunk p = (star, a, r)" "p \<noteq> []"
  shows "length r < length p"
proof -
  obtain q where q: "drop_stars p = (star, q)" "scan_span False q = (a, r)"
    using assms(1) by (auto simp: scan_chunk_def split: prod.splits)
  then have len: "length q = length a + length r" by (auto dest: scan_span_split)
  show ?thesis
  proof (cases star)
    case True
    with q(1) drop_stars_star [of p] have "length q < length p" by simp
    with len show ?thesis by simp
  next
    case False
    with q(1) drop_stars_no_star [of p] assms(2) have "q = p" "hd p \<noteq> CHR ''*''" by auto
    with q(2) scan_span_progress [of p False] assms(2) have "a \<noteq> []" by auto
    with len \<open>q = p\<close> show ?thesis by simp
  qed
qed

function pattern_ok :: "string \<Rightarrow> bool" where
  "pattern_ok p =
     (if p = [] then True
      else case scan_chunk p of
             (_, chunk, rest) \<Rightarrow> match_chunk False chunk [] \<noteq> None \<and> pattern_ok rest)"
  by pat_completeness auto
termination
  by (relation "measure length") (auto dest: scan_chunk_length [OF sym])

declare pattern_ok.simps [simp del]

function path_match :: "string \<Rightarrow> string \<Rightarrow> bool option" where
  "path_match p name =
     (if p = [] then Some (name = [])
      else case scan_chunk p of
        (star, chunk, rest) \<Rightarrow>
          if star \<and> chunk = [] then Some (CHR ''/'' \<notin> set name)
          else
            (case match_chunk False chunk name of
               None \<Rightarrow> None
             | Some t \<Rightarrow>
                 (case (if (case t of None \<Rightarrow> False | Some t' \<Rightarrow> t' = [] \<or> rest \<noteq> []) then Some t
                        else if star then skip_match chunk (rest = []) name else Some None) of
                    None \<Rightarrow> None
                  | Some (Some t') \<Rightarrow> path_match rest t'
                  | Some None \<Rightarrow> if pattern_ok rest then Some False else None)))"
  by pat_completeness auto
termination
  by (relation "measure (\<lambda>(p, name). length p)") (auto dest: scan_chunk_length [OF sym])

declare path_match.simps [simp del]

definition path_matches :: "string \<Rightarrow> string \<Rightarrow> bool" where
  \<comment> \<open>\<open>ok, _ := path.Match(p, name)\<close>: the error is dropped, and \<open>ok\<close> is false on an error\<close>
  "path_matches p name = (path_match p name = Some True)"


subsection \<open>Literal patterns and literal prefixes\<close>

definition plain_char :: "char \<Rightarrow> bool" where
  "plain_char c \<longleftrightarrow> c \<notin> {CHR ''*'', CHR ''?'', CHR ''['', backslash}"

abbreviation literal :: "string \<Rightarrow> bool" where
  "literal \<equiv> list_all plain_char"

lemma match_chunk_plain:
  "plain_char c \<Longrightarrow>
   match_chunk failed (c # cs) s =
     match_chunk (failed \<or> s = [] \<or> c \<noteq> hd s) cs (if failed \<or> s = [] then s else tl s)"
  by (subst match_chunk.simps) (simp add: plain_char_def Let_def)

lemma match_chunk_literal_failed: "literal p \<Longrightarrow> match_chunk True p s = Some None"
  by (induction p arbitrary: s) (simp_all add: match_chunk_plain)

lemma match_chunk_literal:
  "literal p \<Longrightarrow>
   match_chunk False p s = Some (if prefix p s then Some (drop (length p) s) else None)"
proof (induction p arbitrary: s)
  case Nil
  then show ?case by simp
next
  case (Cons c p)
  then show ?case
    by (cases s; cases "c = hd s") (simp_all add: match_chunk_plain match_chunk_literal_failed)
qed

lemma drop_stars_literal: "literal p \<Longrightarrow> drop_stars p = (False, p)"
  by (cases p) (auto simp: plain_char_def)

lemma scan_span_literal:
  "literal p \<Longrightarrow> CHR '']'' \<notin> set p \<Longrightarrow> r = [] \<or> hd r = CHR ''*'' \<Longrightarrow> length r \<le> 1 \<Longrightarrow>
   scan_span False (p @ r) = (p, r)"
proof (induction p)
  case Nil
  then show ?case by (cases r) auto
next
  case (Cons c p)
  then show ?case
    by (cases "p @ r") (auto simp: plain_char_def)
qed

lemma scan_chunk_literal:
  "literal p \<Longrightarrow> CHR '']'' \<notin> set p \<Longrightarrow> p \<noteq> [] \<Longrightarrow> r = [] \<or> r = ''*'' \<Longrightarrow>
   scan_chunk (p @ r) = (False, p, r)"
  using scan_span_literal [of p r]
  by (cases p) (auto simp: scan_chunk_def plain_char_def)

lemma path_match_star: "path_match ''*'' s = Some (CHR ''/'' \<notin> set s)"
  by (subst path_match.simps) (simp add: scan_chunk_def)

lemma path_match_literal:
  assumes "literal p" "CHR '']'' \<notin> set p" "p \<noteq> []"
  shows "path_match p s = Some (p = s)"
proof -
  have "path_match [] t = Some (t = [])" for t
    by (subst path_match.simps) simp
  moreover have "pattern_ok []" by (subst pattern_ok.simps) simp
  moreover have "prefix p s \<and> length s \<le> length p \<longleftrightarrow> p = s"
    by (auto simp: prefix_def)
  ultimately show ?thesis
    using assms scan_chunk_literal [of p "[]"]
    by (subst path_match.simps) (auto simp: match_chunk_literal)
qed

lemma path_match_prefix:
  assumes "literal p" "CHR '']'' \<notin> set p"
  shows "path_match (p @ ''*'') s = Some (\<exists>t. s = p @ t \<and> CHR ''/'' \<notin> set t)"
proof (cases "p = []")
  case True
  then show ?thesis by (simp add: path_match_star)
next
  case False
  have "pattern_ok ''*''"
    by (subst pattern_ok.simps) (simp add: scan_chunk_def pattern_ok.simps [of "[]"])
  then show ?thesis
    using assms False scan_chunk_literal [of p "''*''"]
    by (subst path_match.simps)
      (auto simp: match_chunk_literal path_match_star prefix_def)
qed

lemma path_matches_literal:
  "literal p \<Longrightarrow> CHR '']'' \<notin> set p \<Longrightarrow> p \<noteq> [] \<Longrightarrow> path_matches p s \<longleftrightarrow> p = s"
  by (simp add: path_matches_def path_match_literal)

lemma path_matches_prefix:
  "literal p \<Longrightarrow> CHR '']'' \<notin> set p \<Longrightarrow>
   path_matches (p @ ''*'') s \<longleftrightarrow> (\<exists>t. s = p @ t \<and> CHR ''/'' \<notin> set t)"
  by (simp add: path_matches_def path_match_prefix)

end
