(* ===== verification/Cwp_Match.thy ===== *)
theory Cwp_Match
  imports Api_Types Go_Path
begin

section \<open>The desired configuration of a namespace (cwpmatch.go)\<close>

text \<open>
  \<open>ComputeDesiredCWP\<close> decides for one namespace whether it is managed, its Illumio labels
  and its enforcement mode, from the profile's rules, the system-namespace settings and the
  namespace's annotations. \<open>desired_spec\<close> states the documented precedence directly on
  lookups, and \<open>ComputeDesiredCWP_spec\<close> relates the two.
\<close>

definition enforcementIdle :: string where "enforcementIdle = ''idle''"
definition enforcementVisibilityOnly :: string where
  "enforcementVisibilityOnly = ''visibility_only''"

record desired_cwp =
  d_managed :: bool
  d_labels :: smap
  d_enforcement_mode :: string

definition defaultSystemPatterns :: "string list" where
  "defaultSystemPatterns = [''openshift-*'', ''kube-*'', ''default'']"

definition systemPatterns :: "system_namespaces_spec \<Rightarrow> string list" where
  "systemPatterns sys =
     (if sns_patterns sys \<noteq> [] then sns_patterns sys else defaultSystemPatterns)"

fun matchesAnyPattern :: "string \<Rightarrow> string list \<Rightarrow> bool" where
  "matchesAnyPattern name [] = False"
| "matchesAnyPattern name (p # ps) =
     (if path_matches p name then True else matchesAnyPattern name ps)"

fun labels_match :: "smap \<Rightarrow> smap \<Rightarrow> bool" where
  "labels_match [] nsLabels = True"
| "labels_match ((k, v) # required) nsLabels =
     (if mget nsLabels k \<noteq> v then False else labels_match required nsLabels)"

definition ruleMatches :: "namespace_match \<Rightarrow> string \<Rightarrow> smap \<Rightarrow> bool" where
  "ruleMatches m name nsLabels =
     (if nm_name_pattern m \<noteq> '''' \<and> \<not> path_matches (nm_name_pattern m) name then False
      else labels_match (nm_labels m) nsLabels)"

fun assigned_value :: "smap \<Rightarrow> label_assignment \<Rightarrow> string option" where
  "assigned_value nsLabels a =
     (if la_value a \<noteq> '''' then Some (la_value a)
      else if la_from_namespace_label a \<noteq> '''' then
        (case map_of nsLabels (la_from_namespace_label a) of
           Some v \<Rightarrow> if v \<noteq> '''' then Some v else None
         | None \<Rightarrow> None)
      else None)"

definition resolveAssignLabels :: "label_assignment gomap \<Rightarrow> smap \<Rightarrow> smap" where
  "resolveAssignLabels assign nsLabels =
     range_put (\<lambda>key a. map_option (Pair key) (assigned_value nsLabels a)) assign []"

definition lower_char :: "char \<Rightarrow> char" where
  "lower_char c =
     (let n = (of_char c :: nat) in if 65 \<le> n \<and> n \<le> 90 then char_of (n + 32) else c)"

definition equal_fold_true :: "string \<Rightarrow> bool" where
  \<comment> \<open>\<open>strings.EqualFold(v, "true")\<close>: no letter of the word has a non-ASCII fold\<close>
  "equal_fold_true v = (map lower_char v = ''true'')"

definition label_annotation :: "string \<Rightarrow> string \<Rightarrow> (string \<times> string) option" where
  "label_annotation k v =
     (if prefix AnnotationLabelPrefix k \<and> v \<noteq> '''' then
        let labelKey = drop (length AnnotationLabelPrefix) k in
        if labelKey \<noteq> '''' then Some (labelKey, v) else None
      else None)"

definition applyAnnotationOverrides :: "desired_cwp \<Rightarrow> smap \<Rightarrow> desired_cwp" where
  "applyAnnotationOverrides d annos =
     (let d = (case map_of annos AnnotationManaged of
                 Some v \<Rightarrow> d\<lparr>d_managed := equal_fold_true v\<rparr>
               | None \<Rightarrow> d);
          d = (case map_of annos AnnotationEnforcement of
                 Some v \<Rightarrow> if v \<noteq> '''' then d\<lparr>d_enforcement_mode := v\<rparr> else d
               | None \<Rightarrow> d)
      in d\<lparr>d_labels := range_put label_annotation annos (d_labels d)\<rparr>)"

definition copyLabels :: "smap \<Rightarrow> smap" where
  "copyLabels m = range_put (\<lambda>k v. Some (k, v)) m []"

fun first_rule :: "namespace_rule list \<Rightarrow> string \<Rightarrow> smap \<Rightarrow> desired_cwp \<Rightarrow> desired_cwp" where
  \<comment> \<open>the loop of step 1, left by \<open>break\<close> at the first match\<close>
  "first_rule [] name nsLabels d = d"
| "first_rule (r # rules) name nsLabels d =
     (if ruleMatches (nr_match r) name nsLabels then
        d\<lparr>d_managed := nr_managed r,
          d_labels := resolveAssignLabels (nr_assign_labels r) nsLabels,
          d_enforcement_mode := nr_enforcement_mode r\<rparr>
      else first_rule rules name nsLabels d)"

definition ComputeDesiredCWP ::
  "string \<Rightarrow> smap \<Rightarrow> smap \<Rightarrow> namespace_rule list \<Rightarrow> system_namespaces_spec \<Rightarrow> desired_cwp" where
  "ComputeDesiredCWP name nsLabels nsAnnotations rules sys =
     (let d = \<lparr>d_managed = False, d_labels = [], d_enforcement_mode = ''''\<rparr>;
          d = first_rule rules name nsLabels d;
          d = (if sns_manage sys \<and> matchesAnyPattern name (systemPatterns sys) then
                 d\<lparr>d_managed := True,
                   d_labels := copyLabels (sns_labels sys),
                   d_enforcement_mode := sns_enforcement_mode sys\<rparr>
               else d);
          d = applyAnnotationOverrides d nsAnnotations
      in if d_managed d \<and> (d_enforcement_mode d = '''' \<or> d_enforcement_mode d = enforcementIdle)
         then d\<lparr>d_enforcement_mode := enforcementVisibilityOnly\<rparr> else d)"


subsection \<open>Lookups in the maps the code builds\<close>

lemma matchesAnyPattern_iff: "matchesAnyPattern name ps \<longleftrightarrow> (\<exists>p \<in> set ps. path_matches p name)"
  by (induction ps) auto

lemma labels_match_iff:
  "labels_match required nsLabels \<longleftrightarrow> (\<forall>(k, v) \<in> set required. mget nsLabels k = v)"
  by (induction required nsLabels rule: labels_match.induct) auto

lemma resolveAssignLabels_lookup:
  "wf_map assign \<Longrightarrow>
   map_of (resolveAssignLabels assign ns) k = Option.bind (map_of assign k) (assigned_value ns)"
  unfolding resolveAssignLabels_def
  by (subst range_put_same_key) (auto split: option.split simp del: assigned_value.simps)

lemma copyLabels_lookup: "wf_map m \<Longrightarrow> map_of (copyLabels m) = map_of m"
  unfolding copyLabels_def by (rule ext, subst range_put_same_key) (auto split: option.split)

lemma wf_resolveAssignLabels [gomap, intro]: "wf_map (resolveAssignLabels assign ns)"
  by (simp add: resolveAssignLabels_def wf_map_range_put)

lemma wf_copyLabels [gomap, intro]: "wf_map (copyLabels m)"
  by (simp add: copyLabels_def wf_map_range_put)

lemma label_annotation_src:
  "label_annotation k v = Some (k', u) \<longleftrightarrow>
     k = AnnotationLabelPrefix @ k' \<and> u = v \<and> v \<noteq> '''' \<and> k' \<noteq> ''''"
  by (auto simp: label_annotation_def Let_def prefix_def)

lemma label_annotations_lookup:
  assumes "wf_map annos"
  shows "map_of (range_put label_annotation annos out) k =
         (if k = '''' then map_of out k
          else case map_of annos (AnnotationLabelPrefix @ k) of
                 Some v \<Rightarrow> if v = '''' then map_of out k else Some v
               | None \<Rightarrow> map_of out k)"
proof -
  have src: "label_annotation k v = Some (k', u) \<Longrightarrow> k = AnnotationLabelPrefix @ k'" for k v k' u
    by (simp add: label_annotation_src)
  show ?thesis
    by (subst range_put_at [OF assms src])
      (auto simp: label_annotation_def Let_def split: option.split)
qed


subsection \<open>The documented precedence\<close>

text \<open>
  The specification works on lookups: \<open>(managed, key \<mapsto> value, mode)\<close>. System namespaces win
  over the first matching rule, which wins over the unmanaged default; annotations override
  each of the three independently; a managed namespace never idles.
\<close>

definition base_spec ::
  "string \<Rightarrow> smap \<Rightarrow> namespace_rule list \<Rightarrow> system_namespaces_spec
   \<Rightarrow> bool \<times> (string \<rightharpoonup> string) \<times> string" where
  "base_spec name nsLabels rules sys =
     (if sns_manage sys \<and> (\<exists>p \<in> set (systemPatterns sys). path_matches p name)
      then (True, map_of (sns_labels sys), sns_enforcement_mode sys)
      else case List.find (\<lambda>r. ruleMatches (nr_match r) name nsLabels) rules of
             Some r \<Rightarrow> (nr_managed r,
                       (\<lambda>k. Option.bind (map_of (nr_assign_labels r) k) (assigned_value nsLabels)),
                       nr_enforcement_mode r)
           | None \<Rightarrow> (False, Map.empty, ''''))"

definition desired_spec ::
  "string \<Rightarrow> smap \<Rightarrow> smap \<Rightarrow> namespace_rule list \<Rightarrow> system_namespaces_spec
   \<Rightarrow> bool \<times> (string \<rightharpoonup> string) \<times> string" where
  "desired_spec name nsLabels annos rules sys =
     (let (managed0, labels0, mode0) = base_spec name nsLabels rules sys;
          managed = (case map_of annos AnnotationManaged of
                       Some v \<Rightarrow> equal_fold_true v | None \<Rightarrow> managed0);
          mode = (if mget annos AnnotationEnforcement \<noteq> ''''
                  then mget annos AnnotationEnforcement else mode0)
      in (managed,
          (\<lambda>k. if k \<noteq> '''' \<and> mget annos (AnnotationLabelPrefix @ k) \<noteq> ''''
               then Some (mget annos (AnnotationLabelPrefix @ k)) else labels0 k),
          (if managed \<and> mode \<in> {'''', enforcementIdle} then enforcementVisibilityOnly else mode)))"

definition wf_profile_maps :: "namespace_rule list \<Rightarrow> system_namespaces_spec \<Rightarrow> bool" where
  "wf_profile_maps rules sys \<longleftrightarrow>
     wf_map (sns_labels sys) \<and> (\<forall>r \<in> set rules. wf_map (nr_assign_labels r))"

lemma first_rule_find:
  "first_rule rules name ns d =
     (case List.find (\<lambda>r. ruleMatches (nr_match r) name ns) rules of
        Some r \<Rightarrow> d\<lparr>d_managed := nr_managed r,
                    d_labels := resolveAssignLabels (nr_assign_labels r) ns,
                    d_enforcement_mode := nr_enforcement_mode r\<rparr>
      | None \<Rightarrow> d)"
  by (induction rules) auto

definition base_config ::
  "string \<Rightarrow> smap \<Rightarrow> namespace_rule list \<Rightarrow> system_namespaces_spec \<Rightarrow> desired_cwp" where
  "base_config name nsLabels rules sys =
     (let d = first_rule rules name nsLabels
                \<lparr>d_managed = False, d_labels = [], d_enforcement_mode = ''''\<rparr>
      in if sns_manage sys \<and> matchesAnyPattern name (systemPatterns sys) then
           d\<lparr>d_managed := True,
             d_labels := copyLabels (sns_labels sys),
             d_enforcement_mode := sns_enforcement_mode sys\<rparr>
         else d)"

lemma base_config_refines:
  assumes "wf_profile_maps rules sys"
  shows "(d_managed (base_config name ns rules sys),
          map_of (d_labels (base_config name ns rules sys)),
          d_enforcement_mode (base_config name ns rules sys)) = base_spec name ns rules sys"
  using assms
  by (auto simp: base_config_def base_spec_def first_rule_find Let_def matchesAnyPattern_iff
        wf_profile_maps_def copyLabels_lookup resolveAssignLabels_lookup
      dest!: find_SomeD split: option.split)

lemma applyAnnotationOverrides_fields:
  "d_managed (applyAnnotationOverrides d annos) =
     (case map_of annos AnnotationManaged of Some v \<Rightarrow> equal_fold_true v | None \<Rightarrow> d_managed d)"
  "d_enforcement_mode (applyAnnotationOverrides d annos) =
     (if mget annos AnnotationEnforcement \<noteq> '''' then mget annos AnnotationEnforcement
      else d_enforcement_mode d)"
  "d_labels (applyAnnotationOverrides d annos) = range_put label_annotation annos (d_labels d)"
  by (auto simp: applyAnnotationOverrides_def Let_def mget_def split: option.split)

lemma ComputeDesiredCWP_base:
  "ComputeDesiredCWP name ns annos rules sys =
     (let d = applyAnnotationOverrides (base_config name ns rules sys) annos
      in if d_managed d \<and> (d_enforcement_mode d = '''' \<or> d_enforcement_mode d = enforcementIdle)
         then d\<lparr>d_enforcement_mode := enforcementVisibilityOnly\<rparr> else d)"
  by (simp add: ComputeDesiredCWP_def base_config_def Let_def)

lemma ComputeDesiredCWP_spec:
  assumes "wf_profile_maps rules sys" "wf_map annos"
  shows "(let d = ComputeDesiredCWP name ns annos rules sys
          in (d_managed d, map_of (d_labels d), d_enforcement_mode d))
         = desired_spec name ns annos rules sys"
proof -
  obtain m l e where spec: "base_spec name ns rules sys = (m, l, e)"
    by (cases "base_spec name ns rules sys")
  with base_config_refines [OF assms(1), of name ns]
  have base: "d_managed (base_config name ns rules sys) = m"
    "map_of (d_labels (base_config name ns rules sys)) = l"
    "d_enforcement_mode (base_config name ns rules sys) = e" by simp_all
  have labels: "map_of (range_put label_annotation annos (d_labels (base_config name ns rules sys))) =
    (\<lambda>k. if k \<noteq> '''' \<and> mget annos (AnnotationLabelPrefix @ k) \<noteq> ''''
         then Some (mget annos (AnnotationLabelPrefix @ k)) else l k)"
    by (rule ext) (auto simp: label_annotations_lookup [OF assms(2)] base mget_def split: option.split)
  show ?thesis
    by (simp add: ComputeDesiredCWP_base desired_spec_def spec Let_def
        applyAnnotationOverrides_fields base labels cong: option.case_cong)
qed

lemma wf_ComputeDesiredCWP_labels:
  "wf_map (d_labels (ComputeDesiredCWP name ns annos rules sys))"
  by (auto simp: ComputeDesiredCWP_base base_config_def Let_def first_rule_find
      applyAnnotationOverrides_fields intro!: wf_map_range_put split: option.split)

subsection \<open>Properties\<close>

text \<open>
  C18: The desired configuration follows the documented precedence: system namespaces over
  the first matching rule over unmanaged; each annotation overrides its own field; the
  labels of a rule are its literal values or the namespace labels they name; a managed
  namespace without a usable mode gets visibility only.
\<close>
theorem ComputeDesiredCWP_refines:
  assumes "wf_profile_maps rules sys" and "wf_map annos"
  shows "(let d = ComputeDesiredCWP name nsLabels annos rules sys
          in (d_managed d, map_of (d_labels d), d_enforcement_mode d))
         = desired_spec name nsLabels annos rules sys"
  by (rule ComputeDesiredCWP_spec [OF assms])

theorem ComputeDesiredCWP_refines_witness:
  "d_enforcement_mode (ComputeDesiredCWP ''shop'' [(''team'', ''a'')]
      [(''microsegment.io/enforcement'', ''full'')]
      [\<lparr>nr_match = \<lparr>nm_name_pattern = ''sh*'', nm_labels = []\<rparr>, nr_managed = True,
        nr_assign_labels = [(''app'', \<lparr>la_value = '''', la_from_namespace_label = ''team''\<rparr>)],
        nr_enforcement_mode = ''idle''\<rparr>]
      \<lparr>sns_manage = True, sns_patterns = [], sns_labels = [], sns_enforcement_mode = ''''\<rparr>) = ''full''"
proof -
  let ?rules = "[\<lparr>nr_match = \<lparr>nm_name_pattern = ''sh*'', nm_labels = []\<rparr>, nr_managed = True,
        nr_assign_labels = [(''app'', \<lparr>la_value = '''', la_from_namespace_label = ''team''\<rparr>)],
        nr_enforcement_mode = ''idle''\<rparr>]"
  let ?sys = "\<lparr>sns_manage = True, sns_patterns = [], sns_labels = [], sns_enforcement_mode = ''''\<rparr>"
  have "wf_profile_maps ?rules ?sys" by (simp add: wf_profile_maps_def)
  from ComputeDesiredCWP_refines [OF this, of "[(''microsegment.io/enforcement'', ''full'')]" "''shop''" "[(''team'', ''a'')]"]
  show ?thesis
    by (simp add: Let_def desired_spec_def AnnotationEnforcement_def enforcementIdle_def split: prod.splits)
qed

text \<open>
  A managed namespace is never left idle or without a mode, whatever the profile and the
  annotations say.
\<close>
theorem ComputeDesiredCWP_never_idles:
  "\<not> (d_managed (ComputeDesiredCWP name nsLabels annos rules sys) \<and>
      d_enforcement_mode (ComputeDesiredCWP name nsLabels annos rules sys) \<in> {'''', enforcementIdle})"
  by (auto simp: ComputeDesiredCWP_base Let_def enforcementIdle_def enforcementVisibilityOnly_def)

lemma mget_perm: "map_of m = map_of m' \<Longrightarrow> mget m = mget m'"
  by (rule ext) (simp add: mget_def)

lemma assigned_value_perm: "map_of ns = map_of ns' \<Longrightarrow> assigned_value ns = assigned_value ns'"
  by (rule ext) simp

lemma ruleMatches_perm: "map_of ns = map_of ns' \<Longrightarrow> ruleMatches m name ns = ruleMatches m name ns'"
  by (simp add: ruleMatches_def labels_match_iff mget_perm [of ns ns'])

text \<open>Only the lookups in the namespace's maps matter.\<close>

lemma ComputeDesiredCWP_cong:
  assumes "wf_profile_maps rules sys" "wf_map annos" "wf_map annos'"
    and annos: "map_of annos = map_of annos'" and labels: "map_of nsLabels = map_of nsLabels'"
  shows "(let d = ComputeDesiredCWP name nsLabels annos rules sys
          in (d_managed d, map_of (d_labels d), d_enforcement_mode d)) =
         (let d = ComputeDesiredCWP name nsLabels' annos' rules sys
          in (d_managed d, map_of (d_labels d), d_enforcement_mode d))"
proof -
  have "desired_spec name nsLabels annos rules sys = desired_spec name nsLabels' annos' rules sys"
    by (simp add: desired_spec_def base_spec_def annos mget_perm [OF annos]
        ruleMatches_perm [OF labels] assigned_value_perm [OF labels] cong: if_cong option.case_cong
        del: assigned_value.simps)
  then show ?thesis by (simp only: ComputeDesiredCWP_spec [OF assms(1)] assms(2,3))
qed

text \<open>
  The result does not depend on the order in which Go visits the namespace's labels and
  annotations: managed flag, mode and the label of every key are the same for every order.
\<close>
theorem ComputeDesiredCWP_order:
  assumes "wf_profile_maps rules sys"
    and "wf_map annos" "wf_map annos'" "set annos = set annos'"
    and "wf_map nsLabels" "wf_map nsLabels'" "set nsLabels = set nsLabels'"
  shows "(let d = ComputeDesiredCWP name nsLabels annos rules sys
          in (d_managed d, map_of (d_labels d), d_enforcement_mode d)) =
         (let d = ComputeDesiredCWP name nsLabels' annos' rules sys
          in (d_managed d, map_of (d_labels d), d_enforcement_mode d))"
  using assms by (intro ComputeDesiredCWP_cong map_of_perm)

theorem ComputeDesiredCWP_order_witness:
  "let a = (''microsegment.io/label.env'', ''prod''); b = (''microsegment.io/managed'', ''TRUE'');
       sys = \<lparr>sns_manage = False, sns_patterns = [], sns_labels = [], sns_enforcement_mode = ''''\<rparr>
   in d_managed (ComputeDesiredCWP ''x'' [] [a, b] [] sys) = d_managed (ComputeDesiredCWP ''x'' [] [b, a] [] sys)"
proof -
  let ?a = "(''microsegment.io/label.env'', ''prod'')" and ?b = "(''microsegment.io/managed'', ''TRUE'')"
  let ?sys = "\<lparr>sns_manage = False, sns_patterns = [], sns_labels = [], sns_enforcement_mode = ''''\<rparr>"
  have "wf_profile_maps [] ?sys" "wf_map [?a, ?b]" "wf_map [?b, ?a]" "set [?a, ?b] = set [?b, ?a]"
    by (auto simp: wf_profile_maps_def)
  from ComputeDesiredCWP_order [OF this wf_map_Nil wf_map_Nil refl, of "''x''"]
  show ?thesis by (simp add: Let_def)
qed

text \<open>
  The built-in system patterns select exactly the namespaces named \<open>openshift-*\<close>,
  \<open>kube-*\<close> and \<open>default\<close>.
\<close>
theorem defaultSystemPatterns_select:
  assumes "CHR ''/'' \<notin> set name"
  shows "matchesAnyPattern name defaultSystemPatterns \<longleftrightarrow>
    prefix ''openshift-'' name \<or> prefix ''kube-'' name \<or> name = ''default''"
proof -
  have plain: "literal ''openshift-''" "literal ''kube-''" "literal ''default''"
    by code_simp+
  have "path_matches ''openshift-*'' name \<longleftrightarrow> prefix ''openshift-'' name"
    "path_matches ''kube-*'' name \<longleftrightarrow> prefix ''kube-'' name"
    using path_matches_prefix [OF plain(1), of name] path_matches_prefix [OF plain(2), of name] assms
    by (auto simp: prefix_def)
  moreover have "path_matches ''default'' name \<longleftrightarrow> name = ''default''"
    using path_matches_literal [OF plain(3), of name] by auto
  ultimately show ?thesis by (simp add: matchesAnyPattern_iff defaultSystemPatterns_def)
qed

theorem defaultSystemPatterns_select_witness:
  "matchesAnyPattern ''kube-system'' defaultSystemPatterns \<and> \<not> matchesAnyPattern ''kubernetes'' defaultSystemPatterns"
  using defaultSystemPatterns_select [of "''kube-system''"] defaultSystemPatterns_select [of "''kubernetes''"]
  by simp

end
