(* ===== verification/Pce_Types.thy ===== *)
theory Pce_Types
  imports Go_Lib
begin

section \<open>PCE objects (internal/pce)\<close>

text \<open>
  The structs of the PCE REST API that the operator exchanges, one record per Go struct. A
  pointer field is an option; \<open>omitempty\<close> strings are empty strings.
\<close>

record owner =
  ow_data_set :: string
  ow_reference :: string

record label =
  lbl_href :: string
  lbl_key :: string
  lbl_value :: string
  lbl_external_data_set :: string
  lbl_external_data_reference :: string

record label_ref =
  lref_href :: string

record rule_set_scope =
  rss_label :: label_ref

record actor =
  ac_label :: "label_ref option"
  ac_actors :: string

definition ActorAllWorkloads :: string where "ActorAllWorkloads = ''ams''"

definition AllWorkloadsActor :: actor where
  "AllWorkloadsActor = \<lparr>ac_label = None, ac_actors = ActorAllWorkloads\<rparr>"

record ingress_service =
  is_proto :: int
  is_port :: int
  is_href :: string

record service =
  svc_href :: string
  svc_name :: string

definition AllServicesName :: string where "AllServicesName = ''All Services''"

record resolve_labels_as =
  rla_providers :: "string list"
  rla_consumers :: "string list"

record rule_set =
  rs_href :: string
  rs_name :: string
  rs_enabled :: bool
  rs_scopes :: "rule_set_scope list list"
  rs_external_data_set :: string
  rs_external_data_reference :: string
  rs_update_type :: string

definition RuleSetUpdateTypeDelete :: string where "RuleSetUpdateTypeDelete = ''delete''"

record sec_rule =
  sr_href :: string
  sr_enabled :: bool
  sr_resolve_labels_as :: resolve_labels_as
  sr_providers :: "actor list"
  sr_consumers :: "actor list"
  sr_ingress_services :: "ingress_service list"
  sr_unscoped_consumers :: bool

record provision_result =
  pr_href :: string
  pr_version :: int
  pr_workloads_affected :: int

record config =
  cfg_pce_url :: string
  cfg_org_id :: int
  cfg_api_key :: string
  cfg_api_secret :: string

end
