(* ===== verification/Policy_IR.thy ===== *)
theory Policy_IR
  imports Cwp_Match Pce_Types
begin

section \<open>From the two policy front ends to PCE rules (policyir.go)\<close>

text \<open>
  \<open>CompileIntent\<close> and \<open>CompilePolicy\<close> lower the two custom resources to the same
  \<open>compiled_allow\<close> list, or report the first unsupported construct; \<open>BuildRuleSet\<close> and
  \<open>BuildRules\<close> turn resolved allows into the PCE draft objects; \<open>StrictestEnforcement\<close>
  orders the enforcement modes. What a compiled allow means for a connection is
  \<open>allow_permits\<close>; what the NetworkPolicy-style resource means is \<open>peer_permits\<close>.
\<close>

definition resolveWorkloads :: string where "resolveWorkloads = ''workloads''"
definition defaultExternalDataSet :: string where "defaultExternalDataSet = ''illumio-operator''"
definition policyTypeIngress :: string where "policyTypeIngress = ''Ingress''"
definition enforcementSelective :: string where "enforcementSelective = ''selective''"
definition enforcementFull :: string where "enforcementFull = ''full''"
definition protoNameTCP :: string where "protoNameTCP = ''TCP''"
definition protoNameUDP :: string where "protoNameUDP = ''UDP''"

record resolved_allow =
  ra_consumer_hrefs :: "string list"
  ra_all_workloads :: bool
  ra_intra_scope :: bool
  ra_ports :: "ingress_service list"

record compiled_allow =
  ca_from :: smap
  ca_all_workloads :: bool
  ca_intra_scope :: bool
  ca_ports :: "ingress_service list"

definition RuleSetName :: "string \<Rightarrow> string \<Rightarrow> string" where
  "RuleSetName namespace crName = ''k8s-'' @ namespace @ ''-'' @ crName"

definition BuildRuleSet :: "string \<Rightarrow> string \<Rightarrow> string list \<Rightarrow> owner \<Rightarrow> rule_set" where
  "BuildRuleSet namespace crName providerHrefs ow =
     \<lparr>rs_href = '''', rs_name = RuleSetName namespace crName, rs_enabled = True,
      rs_scopes = [map (\<lambda>h. \<lparr>rss_label = \<lparr>lref_href = h\<rparr>\<rparr>) providerHrefs],
      rs_external_data_set = ow_data_set ow,
      rs_external_data_reference = ow_reference ow,
      rs_update_type = ''''\<rparr>"

definition label_actor :: "string \<Rightarrow> actor" where
  "label_actor h = \<lparr>ac_label = Some \<lparr>lref_href = h\<rparr>, ac_actors = ''''\<rparr>"

definition BuildRules :: "string list \<Rightarrow> string \<Rightarrow> resolved_allow list \<Rightarrow> sec_rule list" where
  "BuildRules providerHrefs allServicesHref allows =
     (let providers = (if providerHrefs = [] then [AllWorkloadsActor]
                       else map label_actor providerHrefs)
      in map (\<lambda>a.
           let consumers = (if ra_all_workloads a then [AllWorkloadsActor]
                            else map label_actor (ra_consumer_hrefs a));
               ingress = (if ra_ports a = []
                          then [\<lparr>is_proto = 0, is_port = 0, is_href = allServicesHref\<rparr>]
                          else ra_ports a)
           in \<lparr>sr_href = '''', sr_enabled = True,
               sr_resolve_labels_as =
                 \<lparr>rla_providers = [resolveWorkloads], rla_consumers = [resolveWorkloads]\<rparr>,
               sr_providers = providers, sr_consumers = consumers,
               sr_ingress_services = ingress,
               sr_unscoped_consumers = (\<not> ra_intra_scope a)\<rparr>) allows)"

definition protoNumber :: "string \<Rightarrow> int" where
  "protoNumber protocol = (if protocol = protoNameUDP then 17 else 6)"


subsection \<open>SegmentationIntent\<close>

definition intent_port_service :: "intent_port \<Rightarrow> ingress_service" where
  "intent_port_service p =
     \<lparr>is_proto = protoNumber (ip_protocol p), is_port = ip_port p, is_href = ''''\<rparr>"

fun compile_intent_allows ::
  "nat \<Rightarrow> intent_allow list \<Rightarrow> compiled_allow list \<Rightarrow> go_error + compiled_allow list" where
  "compile_intent_allows i [] out = Inr out"
| "compile_intent_allows i (a # as) out =
     (let hasFrom = (length (ia_from a) > 0);
          hasIntra = (length (ia_from_intra_namespace a) > 0)
      in if hasFrom = hasIntra then
           Inl (ErrorText (''allow['' @ dec_nat i @
             '']: set exactly one of from (cross-app) or fromIntraNamespace (same-namespace)''))
         else
           let ports = map intent_port_service (ia_ports a) in
           if hasFrom then
             compile_intent_allows (Suc i) as
               (out @ [\<lparr>ca_from = ia_from a, ca_all_workloads = False,
                        ca_intra_scope = False, ca_ports = ports\<rparr>])
           else
             compile_intent_allows (Suc i) as
               (out @ [\<lparr>ca_from = ia_from_intra_namespace a, ca_all_workloads = False,
                        ca_intra_scope = True, ca_ports = ports\<rparr>]))"

definition CompileIntent :: "seg_intent_spec \<Rightarrow> go_error + compiled_allow list" where
  "CompileIntent spec =
     (let out = (if sis_allow_intra_namespace spec
                 then [\<lparr>ca_from = [], ca_all_workloads = True, ca_intra_scope = True, ca_ports = []\<rparr>]
                 else [])
      in case compile_intent_allows 0 (sis_allow spec) out of
           Inl e \<Rightarrow> Inl e
         | Inr out \<Rightarrow>
             if out = [] then
               Inl (ErrorText ''intent is empty: set spec.allow or spec.allowIntraNamespace'')
             else Inr out)"


subsection \<open>SegmentationPolicy\<close>

definition policy_port_service :: "network_policy_port \<Rightarrow> ingress_service" where
  "policy_port_service p =
     \<lparr>is_proto = protoNumber (npp_protocol p), is_port = npp_port p, is_href = ''''\<rparr>"

definition peer_at :: "nat \<Rightarrow> nat \<Rightarrow> string" where
  "peer_at i j = ''ingress['' @ dec_nat i @ ''].from['' @ dec_nat j @ '']: ''"

fun unsupported_policy_type :: "string list \<Rightarrow> go_error option" where
  "unsupported_policy_type [] = None"
| "unsupported_policy_type (t # ts) =
     (if t \<noteq> policyTypeIngress then
        Some (ErrorText (''unsupported policyType '' @ go_quote t @ '': only Ingress is supported''))
      else unsupported_policy_type ts)"

definition compile_peer ::
  "nat \<Rightarrow> nat \<Rightarrow> ingress_service list \<Rightarrow> network_policy_peer \<Rightarrow> go_error + compiled_allow" where
  "compile_peer i j ports peer =
     (if np_pod_selector peer = None \<and> np_namespace_selector peer = None then
        Inl (ErrorText (peer_at i j @
          ''a podSelector or namespaceSelector is required (ipBlock is not supported)''))
      else if np_pod_selector peer \<noteq> None \<and> np_namespace_selector peer \<noteq> None then
        Inl (ErrorText (peer_at i j @
          ''set podSelector (same-namespace, intra-scope) OR namespaceSelector (cross-namespace, extra-scope), not both''))
      else
        let (sel, intra) = (case np_pod_selector peer of
                              Some s \<Rightarrow> (s, True)
                            | None \<Rightarrow> (the (np_namespace_selector peer), False))
        in if length (sel_match_expressions sel) > 0 then
             Inl (ErrorText (peer_at i j @ ''matchExpressions are not supported; use matchLabels''))
           else if intra \<and> length (sel_match_labels sel) = 0 then
             Inr \<lparr>ca_from = [], ca_all_workloads = True, ca_intra_scope = True, ca_ports = ports\<rparr>
           else if length (sel_match_labels sel) = 0 then
             Inl (ErrorText (peer_at i j @ ''namespaceSelector requires matchLabels''))
           else
             Inr \<lparr>ca_from = copyLabels (sel_match_labels sel), ca_all_workloads = False,
                  ca_intra_scope = intra, ca_ports = ports\<rparr>)"

fun compile_peers ::
  "nat \<Rightarrow> nat \<Rightarrow> ingress_service list \<Rightarrow> network_policy_peer list \<Rightarrow> compiled_allow list
   \<Rightarrow> go_error + compiled_allow list" where
  "compile_peers i j ports [] out = Inr out"
| "compile_peers i j ports (peer # peers) out =
     (case compile_peer i j ports peer of
        Inl e \<Rightarrow> Inl e
      | Inr a \<Rightarrow> compile_peers i (Suc j) ports peers (out @ [a]))"

fun compile_ingress ::
  "nat \<Rightarrow> ingress_rule list \<Rightarrow> compiled_allow list \<Rightarrow> go_error + compiled_allow list" where
  "compile_ingress i [] out = Inr out"
| "compile_ingress i (ing # ings) out =
     (if length (ir_from ing) = 0 then
        Inl (ErrorText (''ingress['' @ dec_nat i @
          ''].from must list at least one peer (allow-all is not supported)''))
      else
        case compile_peers i 0 (map policy_port_service (ir_ports ing)) (ir_from ing) out of
          Inl e \<Rightarrow> Inl e
        | Inr out \<Rightarrow> compile_ingress (Suc i) ings out)"

definition CompilePolicy :: "seg_policy_spec \<Rightarrow> go_error + compiled_allow list" where
  "CompilePolicy spec =
     (case unsupported_policy_type (sps_policy_types spec) of
        Some e \<Rightarrow> Inl e
      | None \<Rightarrow>
          if length (sel_match_expressions (sps_pod_selector spec)) > 0 then
            Inl (ErrorText ''spec.podSelector: matchExpressions are not supported; use matchLabels to narrow the provider'')
          else compile_ingress 0 (sps_ingress spec) [])"


subsection \<open>Enforcement modes\<close>

definition enforcementRank :: "string \<Rightarrow> int" where
  \<comment> \<open>a map read with \<open>enforcementRank[m]\<close>: absent modes rank 0\<close>
  "enforcementRank m =
     (if m = enforcementIdle then 1
      else if m = enforcementVisibilityOnly then 2
      else if m = enforcementSelective then 3
      else if m = enforcementFull then 4
      else 0)"

fun strictest_from :: "string \<Rightarrow> string list \<Rightarrow> string" where
  "strictest_from best [] = best"
| "strictest_from best (m # ms) =
     strictest_from (if enforcementRank m > enforcementRank best then m else best) ms"

definition StrictestEnforcement :: "string list \<Rightarrow> string" where
  "StrictestEnforcement modes = strictest_from '''' modes"

definition validEnforcement :: "string \<Rightarrow> bool" where
  \<comment> \<open>the empty mode or one of the four the API server admits in a spec\<close>
  "validEnforcement m \<longleftrightarrow> m = '''' \<or> enforcementRank m > 0"

lemmas enforcement_names =
  enforcementIdle_def enforcementVisibilityOnly_def enforcementSelective_def enforcementFull_def

lemma enforcementRank_nonneg [simp]: "0 \<le> enforcementRank m"
  by (simp add: enforcementRank_def)

lemma enforcementRank_empty [simp]: "enforcementRank '''' = 0"
  by (simp add: enforcementRank_def enforcement_names)

lemma enforcementRank_inj:
  "validEnforcement m \<Longrightarrow> validEnforcement m' \<Longrightarrow> enforcementRank m = enforcementRank m' \<Longrightarrow> m = m'"
  by (auto simp: validEnforcement_def enforcementRank_def enforcement_names split: if_splits)

lemma strictest_from_ge:
  "m \<in> insert best (set ms) \<Longrightarrow> enforcementRank m \<le> enforcementRank (strictest_from best ms)"
proof (induction ms arbitrary: best m)
  case Nil
  then show ?case by simp
next
  case (Cons n ms)
  let ?best = "if enforcementRank n > enforcementRank best then n else best"
  have "enforcementRank ?best \<le> enforcementRank (strictest_from ?best ms)"
    by (rule Cons.IH) simp
  moreover have "enforcementRank best \<le> enforcementRank ?best"
    "enforcementRank n \<le> enforcementRank ?best" by auto
  ultimately show ?case using Cons.prems Cons.IH [of m ?best] by auto
qed

lemma strictest_from_in: "strictest_from best ms \<in> insert best (set ms)"
proof (induction ms arbitrary: best)
  case Nil
  then show ?case by simp
next
  case (Cons m ms)
  show ?case using Cons.IH [of "if enforcementRank m > enforcementRank best then m else best"]
    by (auto split: if_splits)
qed

lemma strictest_valid:
  "validEnforcement best \<Longrightarrow> \<forall>m \<in> set ms. validEnforcement m \<Longrightarrow> validEnforcement (strictest_from best ms)"
  using strictest_from_in [of best ms] by auto

subsection \<open>The intent compiler in closed form\<close>

definition one_consumer_kind :: "intent_allow \<Rightarrow> bool" where
  "one_consumer_kind a \<longleftrightarrow> (ia_from a \<noteq> []) \<noteq> (ia_from_intra_namespace a \<noteq> [])"

definition compiled_intent_allow :: "intent_allow \<Rightarrow> compiled_allow" where
  "compiled_intent_allow a =
     \<lparr>ca_from = (if ia_from a \<noteq> [] then ia_from a else ia_from_intra_namespace a),
      ca_all_workloads = False, ca_intra_scope = (ia_from a = []),
      ca_ports = map intent_port_service (ia_ports a)\<rparr>"

lemma compile_intent_allows_ok:
  "list_all one_consumer_kind as \<Longrightarrow>
   compile_intent_allows i as out = Inr (out @ map compiled_intent_allow as)"
  by (induction as arbitrary: i out)
    (auto simp: one_consumer_kind_def compiled_intent_allow_def Let_def)

lemma compile_intent_allows_bad:
  "\<not> list_all one_consumer_kind as \<Longrightarrow> isl (compile_intent_allows i as out)"
  by (induction as arbitrary: i out) (auto simp: one_consumer_kind_def Let_def)

definition supported_intent :: "seg_intent_spec \<Rightarrow> bool" where
  "supported_intent spec \<longleftrightarrow>
     list_all one_consumer_kind (sis_allow spec) \<and>
     (sis_allow spec \<noteq> [] \<or> sis_allow_intra_namespace spec)"

definition intra_namespace_allow :: compiled_allow where
  "intra_namespace_allow =
     \<lparr>ca_from = [], ca_all_workloads = True, ca_intra_scope = True, ca_ports = []\<rparr>"

lemma CompileIntent_supported:
  "supported_intent spec \<Longrightarrow>
   CompileIntent spec =
     Inr ((if sis_allow_intra_namespace spec then [intra_namespace_allow] else [])
          @ map compiled_intent_allow (sis_allow spec))"
  by (auto simp: CompileIntent_def supported_intent_def compile_intent_allows_ok
      intra_namespace_allow_def)

lemma CompileIntent_unsupported: "\<not> supported_intent spec \<Longrightarrow> isl (CompileIntent spec)"
proof (cases "list_all one_consumer_kind (sis_allow spec)")
  case True
  moreover assume "\<not> supported_intent spec"
  ultimately show ?thesis
    by (simp add: CompileIntent_def supported_intent_def compile_intent_allows_ok)
next
  case False
  obtain out where out: "CompileIntent spec =
      (case compile_intent_allows 0 (sis_allow spec) out of
         Inl e \<Rightarrow> Inl e
       | Inr out \<Rightarrow> if out = [] then
               Inl (ErrorText ''intent is empty: set spec.allow or spec.allowIntraNamespace'')
             else Inr out)"
    unfolding CompileIntent_def Let_def by blast
  from compile_intent_allows_bad [OF False, of 0 out] show ?thesis
    unfolding out by (auto simp: isl_def)
qed


subsection \<open>The NetworkPolicy compiler in closed form\<close>

fun supported_peer :: "network_policy_peer \<Rightarrow> bool" where
  "supported_peer peer =
     (case (np_pod_selector peer, np_namespace_selector peer) of
        (Some s, None) \<Rightarrow> sel_match_expressions s = []
      | (None, Some s) \<Rightarrow> sel_match_expressions s = [] \<and> sel_match_labels s \<noteq> []
      | _ \<Rightarrow> False)"

definition compiled_peer :: "ingress_service list \<Rightarrow> network_policy_peer \<Rightarrow> compiled_allow" where
  "compiled_peer ports peer =
     (case np_pod_selector peer of
        Some s \<Rightarrow> \<lparr>ca_from = copyLabels (sel_match_labels s),
                  ca_all_workloads = (sel_match_labels s = []), ca_intra_scope = True,
                  ca_ports = ports\<rparr>
      | None \<Rightarrow> \<lparr>ca_from = copyLabels (sel_match_labels (the (np_namespace_selector peer))),
                 ca_all_workloads = False, ca_intra_scope = False, ca_ports = ports\<rparr>)"

lemma compile_peer_ok:
  "supported_peer peer \<Longrightarrow> compile_peer i j ports peer = Inr (compiled_peer ports peer)"
  by (auto simp: compile_peer_def compiled_peer_def copyLabels_def split: option.splits)

lemma compile_peer_bad: "\<not> supported_peer peer \<Longrightarrow> isl (compile_peer i j ports peer)"
  by (auto simp: compile_peer_def split: option.splits)

declare supported_peer.simps [simp del]

lemma compile_peers_ok:
  "list_all supported_peer peers \<Longrightarrow>
   compile_peers i j ports peers out = Inr (out @ map (compiled_peer ports) peers)"
  by (induction peers arbitrary: j out) (auto simp: compile_peer_ok)

lemma compile_peers_bad:
  "\<not> list_all supported_peer peers \<Longrightarrow> isl (compile_peers i j ports peers out)"
proof (induction peers arbitrary: j out)
  case Nil
  then show ?case by simp
next
  case (Cons peer peers)
  then show ?case
    using compile_peer_bad [of peer i j ports]
    by (cases "compile_peer i j ports peer") (auto simp: compile_peer_ok)
qed

definition supported_ingress :: "ingress_rule \<Rightarrow> bool" where
  "supported_ingress ing \<longleftrightarrow> ir_from ing \<noteq> [] \<and> list_all supported_peer (ir_from ing)"

definition compiled_ingress :: "ingress_rule \<Rightarrow> compiled_allow list" where
  "compiled_ingress ing =
     map (compiled_peer (map policy_port_service (ir_ports ing))) (ir_from ing)"

lemma compile_ingress_ok:
  "list_all supported_ingress ings \<Longrightarrow>
   compile_ingress i ings out = Inr (out @ concat (map compiled_ingress ings))"
  by (induction ings arbitrary: i out)
    (auto simp: supported_ingress_def compiled_ingress_def compile_peers_ok)

lemma compile_ingress_bad:
  "\<not> list_all supported_ingress ings \<Longrightarrow> isl (compile_ingress i ings out)"
proof (induction ings arbitrary: i out)
  case Nil
  then show ?case by simp
next
  case (Cons ing ings)
  show ?case
  proof (cases "supported_ingress ing")
    case True
    with Cons show ?thesis by (auto simp: supported_ingress_def compile_peers_ok)
  next
    case False
    then show ?thesis
      using compile_peers_bad [of "ir_from ing" i 0 "map policy_port_service (ir_ports ing)" out]
      by (auto simp: supported_ingress_def isl_def)
  qed
qed

definition supported_policy :: "seg_policy_spec \<Rightarrow> bool" where
  "supported_policy spec \<longleftrightarrow>
     (\<forall>t \<in> set (sps_policy_types spec). t = policyTypeIngress) \<and>
     sel_match_expressions (sps_pod_selector spec) = [] \<and>
     list_all supported_ingress (sps_ingress spec)"

lemma unsupported_policy_type_None:
  "unsupported_policy_type ts = None \<longleftrightarrow> (\<forall>t \<in> set ts. t = policyTypeIngress)"
  by (induction ts) auto

lemma CompilePolicy_supported:
  "supported_policy spec \<Longrightarrow>
   CompilePolicy spec = Inr (concat (map compiled_ingress (sps_ingress spec)))"
  by (simp add: CompilePolicy_def supported_policy_def compile_ingress_ok
      unsupported_policy_type_None [THEN iffD2])

lemma CompilePolicy_unsupported: "\<not> supported_policy spec \<Longrightarrow> isl (CompilePolicy spec)"
  using compile_ingress_bad [of "sps_ingress spec" 0 "[]"]
  by (auto simp: CompilePolicy_def supported_policy_def unsupported_policy_type_None
      split: option.split)


subsection \<open>What the resources and the compiled allows mean for a connection\<close>

text \<open>
  A connection reaches the namespace's app from a consumer with labels \<open>L\<close>, which lies in
  the namespace or not, on a protocol number and a port. The readings are the ones the
  types' comments give: all labels of a consumer must match, no ports means all ports,
  intra-scope restricts the consumer to the namespace, an empty pod selector is every
  workload of the namespace.
\<close>

definition has_labels :: "smap \<Rightarrow> (string \<rightharpoonup> string) \<Rightarrow> bool" where
  "has_labels m L \<longleftrightarrow> (\<forall>(k, v) \<in> set m. L k = Some v)"

definition service_permits :: "ingress_service list \<Rightarrow> int \<Rightarrow> int \<Rightarrow> bool" where
  "service_permits ss proto port \<longleftrightarrow>
     ss = [] \<or> (\<exists>s \<in> set ss. is_proto s = proto \<and> is_port s = port)"

definition allow_permits :: "compiled_allow \<Rightarrow> (string \<rightharpoonup> string) \<Rightarrow> bool \<Rightarrow> int \<Rightarrow> int \<Rightarrow> bool" where
  "allow_permits a L in_ns proto port \<longleftrightarrow>
     service_permits (ca_ports a) proto port \<and>
     (ca_all_workloads a \<or> has_labels (ca_from a) L) \<and>
     (ca_intra_scope a \<longrightarrow> in_ns)"

definition peer_permits :: "network_policy_peer \<Rightarrow> (string \<rightharpoonup> string) \<Rightarrow> bool \<Rightarrow> bool" where
  "peer_permits peer L in_ns \<longleftrightarrow>
     (case (np_pod_selector peer, np_namespace_selector peer) of
        (Some s, None) \<Rightarrow> in_ns \<and> has_labels (sel_match_labels s) L
      | (None, Some s) \<Rightarrow> has_labels (sel_match_labels s) L
      | _ \<Rightarrow> False)"

definition policy_permits :: "seg_policy_spec \<Rightarrow> (string \<rightharpoonup> string) \<Rightarrow> bool \<Rightarrow> int \<Rightarrow> int \<Rightarrow> bool" where
  "policy_permits spec L in_ns proto port \<longleftrightarrow>
     (\<exists>ing \<in> set (sps_ingress spec). \<exists>peer \<in> set (ir_from ing).
        peer_permits peer L in_ns \<and>
        (ir_ports ing = [] \<or>
         (\<exists>p \<in> set (ir_ports ing). protoNumber (npp_protocol p) = proto \<and> npp_port p = port)))"

definition intent_permits :: "seg_intent_spec \<Rightarrow> (string \<rightharpoonup> string) \<Rightarrow> bool \<Rightarrow> int \<Rightarrow> int \<Rightarrow> bool" where
  "intent_permits spec L in_ns proto port \<longleftrightarrow>
     (sis_allow_intra_namespace spec \<and> in_ns) \<or>
     (\<exists>a \<in> set (sis_allow spec).
        (ia_ports a = [] \<or>
         (\<exists>p \<in> set (ia_ports a). protoNumber (ip_protocol p) = proto \<and> ip_port p = port)) \<and>
        (if ia_from a \<noteq> [] then has_labels (ia_from a) L
         else in_ns \<and> has_labels (ia_from_intra_namespace a) L))"

definition wf_peer :: "network_policy_peer \<Rightarrow> bool" where
  "wf_peer peer \<longleftrightarrow>
     (\<forall>s. np_pod_selector peer = Some s \<longrightarrow> wf_map (sel_match_labels s)) \<and>
     (\<forall>s. np_namespace_selector peer = Some s \<longrightarrow> wf_map (sel_match_labels s))"

lemma has_labels_copyLabels: "wf_map m \<Longrightarrow> has_labels (copyLabels m) L = has_labels m L"
  unfolding has_labels_def
  by (auto simp: wf_map_in [OF wf_copyLabels] wf_map_in copyLabels_lookup)

lemma has_labels_Nil [simp]: "has_labels [] L"
  by (simp add: has_labels_def)

lemma service_permits_map:
  "service_permits (map policy_port_service ps) proto port \<longleftrightarrow>
     ps = [] \<or> (\<exists>p \<in> set ps. protoNumber (npp_protocol p) = proto \<and> npp_port p = port)"
  "service_permits (map intent_port_service qs) proto port \<longleftrightarrow>
     qs = [] \<or> (\<exists>q \<in> set qs. protoNumber (ip_protocol q) = proto \<and> ip_port q = port)"
  by (auto simp: service_permits_def policy_port_service_def intent_port_service_def)

lemma compiled_peer_permits:
  assumes "supported_peer peer" "wf_peer peer"
  shows "allow_permits (compiled_peer ports peer) L in_ns proto port \<longleftrightarrow>
         peer_permits peer L in_ns \<and> service_permits ports proto port"
  using assms
  by (auto simp: supported_peer.simps compiled_peer_def allow_permits_def peer_permits_def
      wf_peer_def has_labels_copyLabels split: option.splits)

lemma compiled_intent_allow_permits:
  "allow_permits (compiled_intent_allow a) L in_ns proto port \<longleftrightarrow>
     service_permits (map intent_port_service (ia_ports a)) proto port \<and>
     (if ia_from a \<noteq> [] then has_labels (ia_from a) L
      else in_ns \<and> has_labels (ia_from_intra_namespace a) L)"
  by (auto simp: compiled_intent_allow_def allow_permits_def)


lemma compiled_policy_permits:
  assumes "CompilePolicy spec = Inr out"
    and "\<forall>ing \<in> set (sps_ingress spec). \<forall>peer \<in> set (ir_from ing). wf_peer peer"
  shows "(\<exists>a \<in> set out. allow_permits a L in_ns proto port) \<longleftrightarrow>
         policy_permits spec L in_ns proto port"
proof -
  have sup: "supported_policy spec"
    using assms(1) CompilePolicy_unsupported by force
  then have out: "out = concat (map compiled_ingress (sps_ingress spec))"
    using assms(1) CompilePolicy_supported by force
  have peer: "allow_permits (compiled_peer ports peer) L in_ns proto port \<longleftrightarrow>
      peer_permits peer L in_ns \<and> service_permits ports proto port"
    if "ing \<in> set (sps_ingress spec)" "peer \<in> set (ir_from ing)" for ing peer ports
    using sup assms(2) that
    by (intro compiled_peer_permits)
      (auto simp: supported_policy_def supported_ingress_def list_all_iff)
  show ?thesis
    by (auto simp: out compiled_ingress_def policy_permits_def peer service_permits_map)
qed

lemma compiled_intent_permits:
  assumes "CompileIntent spec = Inr out"
  shows "(\<exists>a \<in> set out. allow_permits a L in_ns proto port) \<longleftrightarrow>
         intent_permits spec L in_ns proto port"
proof -
  have "supported_intent spec"
    using assms CompileIntent_unsupported by force
  then have out: "out = (if sis_allow_intra_namespace spec then [intra_namespace_allow] else [])
          @ map compiled_intent_allow (sis_allow spec)"
    using assms CompileIntent_supported by force
  have "allow_permits intra_namespace_allow L in_ns proto port \<longleftrightarrow> in_ns"
    by (simp add: allow_permits_def intra_namespace_allow_def service_permits_def)
  then have "(\<exists>a \<in> set out. allow_permits a L in_ns proto port) \<longleftrightarrow>
    (sis_allow_intra_namespace spec \<and> in_ns) \<or>
    (\<exists>a \<in> set (sis_allow spec). allow_permits (compiled_intent_allow a) L in_ns proto port)"
    by (simp add: out bex_Un)
  then show ?thesis
    by (simp only: intent_permits_def compiled_intent_allow_permits service_permits_map)
qed


subsection \<open>Properties\<close>

text \<open>
  C23: \<open>CompilePolicy\<close> accepts exactly the supported NetworkPolicy subset: only \<open>Ingress\<close>
  policy types, no match expressions, at least one peer per ingress rule, and each peer
  with exactly one selector, a namespace selector having labels.
\<close>
theorem CompilePolicy_accepts_iff:
  "(\<exists>out. CompilePolicy spec = Inr out) \<longleftrightarrow> supported_policy spec"
  using CompilePolicy_supported CompilePolicy_unsupported by (metis sum.disc(2))

text \<open>
  C8: The compiled allows permit exactly the connections the SegmentationPolicy permits:
  peers stay separate alternatives, a pod selector is confined to the namespace, a
  namespace selector is not, the ports of a rule go with each of its peers.
\<close>
theorem CompilePolicy_permits:
  assumes "CompilePolicy spec = Inr out"
    and "\<forall>ing \<in> set (sps_ingress spec). \<forall>peer \<in> set (ir_from ing). wf_peer peer"
  shows "(\<exists>a \<in> set out. allow_permits a L in_ns proto port) \<longleftrightarrow>
         policy_permits spec L in_ns proto port"
  by (rule compiled_policy_permits [OF assms])

theorem CompilePolicy_permits_witness:
  "\<exists>a \<in> set [\<lparr>ca_from = [(''role'', ''web'')], ca_all_workloads = False, ca_intra_scope = True,
               ca_ports = [\<lparr>is_proto = 6, is_port = 80, is_href = ''''\<rparr>]\<rparr>].
     allow_permits a [''role'' \<mapsto> ''web''] True 6 80"
proof -
  let ?peer = "\<lparr>np_pod_selector = Some \<lparr>sel_match_labels = [(''role'', ''web'')], sel_match_expressions = []\<rparr>,
                np_namespace_selector = None\<rparr>"
  let ?spec = "\<lparr>sps_pod_selector = \<lparr>sel_match_labels = [], sel_match_expressions = []\<rparr>,
      sps_ingress = [\<lparr>ir_from = [?peer], ir_ports = [\<lparr>npp_port = 80, npp_protocol = ''TCP''\<rparr>]\<rparr>],
      sps_policy_types = [''Ingress''], sps_enforcement = ''''\<rparr>"
  have run: "CompilePolicy ?spec =
    Inr [\<lparr>ca_from = [(''role'', ''web'')], ca_all_workloads = False, ca_intra_scope = True,
          ca_ports = [\<lparr>is_proto = 6, is_port = 80, is_href = ''''\<rparr>]\<rparr>]"
    by (simp add: CompilePolicy_def compile_peer_def copyLabels_def policyTypeIngress_def
        policy_port_service_def protoNumber_def protoNameUDP_def)
  have wf: "\<forall>ing \<in> set (sps_ingress ?spec). \<forall>peer \<in> set (ir_from ing). wf_peer peer"
    by (simp add: wf_peer_def)
  have "policy_permits ?spec [''role'' \<mapsto> ''web''] True 6 80"
    by (simp add: policy_permits_def peer_permits_def has_labels_def protoNumber_def protoNameUDP_def)
  then show ?thesis using CompilePolicy_permits [OF run wf] by blast
qed

text \<open>
  \<open>CompileIntent\<close> accepts exactly the intents whose allow entries each name one kind of
  consumer and that ask for something.
\<close>
theorem CompileIntent_accepts_iff:
  "(\<exists>out. CompileIntent spec = Inr out) \<longleftrightarrow> supported_intent spec"
  using CompileIntent_supported CompileIntent_unsupported by (metis sum.disc(2))

text \<open>
  C17: The compiled allows permit exactly the connections the SegmentationIntent permits.
\<close>
theorem CompileIntent_permits:
  assumes "CompileIntent spec = Inr out"
  shows "(\<exists>a \<in> set out. allow_permits a L in_ns proto port) \<longleftrightarrow>
         intent_permits spec L in_ns proto port"
  by (rule compiled_intent_permits [OF assms])

theorem CompileIntent_permits_witness:
  "\<not> (\<exists>a \<in> set [intra_namespace_allow]. allow_permits a Map.empty False 6 80)"
proof -
  let ?spec = "\<lparr>sis_provider = [], sis_allow = [], sis_allow_intra_namespace = True,
      sis_enforcement = ''''\<rparr>"
  have run: "CompileIntent ?spec = Inr [intra_namespace_allow]"
    by (simp add: CompileIntent_def intra_namespace_allow_def)
  have "\<not> intent_permits ?spec Map.empty False 6 80"
    by (simp add: intent_permits_def)
  then show ?thesis using CompileIntent_permits [OF run] by blast
qed

end
