(* ===== verification/Pce_Json.thy ===== *)
theory Pce_Json
  imports Pce_Types
begin

section \<open>The JSON wire format of the PCE objects (the struct tags of internal/pce)\<close>

text \<open>
  JSON documents as a datatype, and for each struct of \<open>internal/pce\<close> what \<open>json.Marshal\<close>
  writes for it and \<open>json.Unmarshal\<close> reads into it, by the struct's tags: the field names,
  \<open>omitempty\<close>, pointers. Reading ignores unknown fields, matches field names without regard
  to ASCII case, leaves the zero value for a missing field or \<open>null\<close>, and fails (\<open>None\<close>) on a
  value of another type. The text of a document is not modelled. The round-trip lemmas are
  collected in \<open>wire\<close>.
\<close>

named_theorems wire \<open>reading back what was written\<close>

datatype json =
    JNull
  | JBool bool
  | JInt int
  | JFrac string \<comment> \<open>a number that is no integer literal\<close>
  | JStr string
  | JArr "json list"
  | JObj "(string \<times> json) list"

type_synonym 'a decoder = "json \<Rightarrow> 'a option"

definition lower_ascii :: "char \<Rightarrow> char" where
  "lower_ascii c =
     (let n = (of_char c :: nat) in if 65 \<le> n \<and> n \<le> 90 then char_of (n + 32) else c)"

definition jfield :: "string \<Rightarrow> (string \<times> json) list \<Rightarrow> json" where
  \<comment> \<open>the last non-null value under a name\<close>
  "jfield name fs =
     foldl (\<lambda>acc (k, v). if map lower_ascii k = name \<and> v \<noteq> JNull then v else acc) JNull fs"

fun dec_string :: "string decoder" where
  "dec_string JNull = Some ''''"
| "dec_string (JStr s) = Some s"
| "dec_string _ = None"

fun dec_bool :: "bool decoder" where
  "dec_bool JNull = Some False"
| "dec_bool (JBool b) = Some b"
| "dec_bool _ = None"

definition int64_ok :: "int \<Rightarrow> bool" where
  "int64_ok i \<longleftrightarrow> - (2 ^ 63) \<le> i \<and> i < 2 ^ 63"

fun dec_integer :: "int decoder" where
  "dec_integer JNull = Some 0"
| "dec_integer (JInt i) = (if int64_ok i then Some i else None)"
| "dec_integer _ = None"

fun dec_all :: "'a decoder \<Rightarrow> json list \<Rightarrow> 'a list option" where
  "dec_all d [] = Some []"
| "dec_all d (j # js) =
     (case d j of None \<Rightarrow> None | Some x \<Rightarrow>
        (case dec_all d js of None \<Rightarrow> None | Some xs \<Rightarrow> Some (x # xs)))"

fun dec_list :: "'a decoder \<Rightarrow> 'a list decoder" where
  "dec_list d JNull = Some []"
| "dec_list d (JArr js) = dec_all d js"
| "dec_list d _ = None"

definition dec_pointer :: "'a decoder \<Rightarrow> 'a option decoder" where
  "dec_pointer d j = (if j = JNull then Some None else map_option Some (d j))"

fun dec_struct :: "((string \<times> json) list \<Rightarrow> 'a option) \<Rightarrow> 'a decoder" where
  "dec_struct f JNull = f []"
| "dec_struct f (JObj fs) = f fs"
| "dec_struct f _ = None"

definition omit_string :: "string \<Rightarrow> string \<Rightarrow> (string \<times> json) list" where
  "omit_string name s = (if s = '''' then [] else [(name, JStr s)])"

definition omit_int :: "string \<Rightarrow> int \<Rightarrow> (string \<times> json) list" where
  "omit_int name i = (if i = 0 then [] else [(name, JInt i)])"

definition enc_strings :: "string list \<Rightarrow> json" where
  "enc_strings ss = JArr (map JStr ss)"


subsection \<open>Labels\<close>

definition enc_label :: "label \<Rightarrow> json" where
  "enc_label l = JObj (
     omit_string ''href'' (lbl_href l) @
     [(''key'', JStr (lbl_key l)), (''value'', JStr (lbl_value l))] @
     omit_string ''external_data_set'' (lbl_external_data_set l) @
     omit_string ''external_data_reference'' (lbl_external_data_reference l))"

definition dec_label :: "label decoder" where
  "dec_label = dec_struct (\<lambda>fs. do {
     h \<leftarrow> dec_string (jfield ''href'' fs);
     k \<leftarrow> dec_string (jfield ''key'' fs);
     v \<leftarrow> dec_string (jfield ''value'' fs);
     ds \<leftarrow> dec_string (jfield ''external_data_set'' fs);
     dr \<leftarrow> dec_string (jfield ''external_data_reference'' fs);
     Some \<lparr>lbl_href = h, lbl_key = k, lbl_value = v,
           lbl_external_data_set = ds, lbl_external_data_reference = dr\<rparr>
   })"

definition enc_label_ref :: "label_ref \<Rightarrow> json" where
  "enc_label_ref r = JObj [(''href'', JStr (lref_href r))]"

definition dec_label_ref :: "label_ref decoder" where
  "dec_label_ref = dec_struct (\<lambda>fs. do {
     h \<leftarrow> dec_string (jfield ''href'' fs);
     Some \<lparr>lref_href = h\<rparr>
   })"


subsection \<open>Rulesets and rules\<close>

definition enc_scope :: "rule_set_scope \<Rightarrow> json" where
  "enc_scope s = JObj [(''label'', enc_label_ref (rss_label s))]"

definition dec_scope :: "rule_set_scope decoder" where
  "dec_scope = dec_struct (\<lambda>fs. do {
     l \<leftarrow> dec_label_ref (jfield ''label'' fs);
     Some \<lparr>rss_label = l\<rparr>
   })"

definition enc_actor :: "actor \<Rightarrow> json" where
  "enc_actor a = JObj (
     (case ac_label a of None \<Rightarrow> [] | Some l \<Rightarrow> [(''label'', enc_label_ref l)]) @
     omit_string ''actors'' (ac_actors a))"

definition dec_actor :: "actor decoder" where
  "dec_actor = dec_struct (\<lambda>fs. do {
     l \<leftarrow> dec_pointer dec_label_ref (jfield ''label'' fs);
     a \<leftarrow> dec_string (jfield ''actors'' fs);
     Some \<lparr>ac_label = l, ac_actors = a\<rparr>
   })"

definition enc_ingress_service :: "ingress_service \<Rightarrow> json" where
  "enc_ingress_service s = JObj (
     omit_int ''proto'' (is_proto s) @ omit_int ''port'' (is_port s) @
     omit_string ''href'' (is_href s))"

definition dec_ingress_service :: "ingress_service decoder" where
  "dec_ingress_service = dec_struct (\<lambda>fs. do {
     pr \<leftarrow> dec_integer (jfield ''proto'' fs);
     po \<leftarrow> dec_integer (jfield ''port'' fs);
     h \<leftarrow> dec_string (jfield ''href'' fs);
     Some \<lparr>is_proto = pr, is_port = po, is_href = h\<rparr>
   })"

definition dec_service :: "service decoder" where
  "dec_service = dec_struct (\<lambda>fs. do {
     h \<leftarrow> dec_string (jfield ''href'' fs);
     n \<leftarrow> dec_string (jfield ''name'' fs);
     Some \<lparr>svc_href = h, svc_name = n\<rparr>
   })"

definition enc_resolve_labels_as :: "resolve_labels_as \<Rightarrow> json" where
  "enc_resolve_labels_as r = JObj [
     (''providers'', enc_strings (rla_providers r)),
     (''consumers'', enc_strings (rla_consumers r))]"

definition dec_resolve_labels_as :: "resolve_labels_as decoder" where
  "dec_resolve_labels_as = dec_struct (\<lambda>fs. do {
     p \<leftarrow> dec_list dec_string (jfield ''providers'' fs);
     c \<leftarrow> dec_list dec_string (jfield ''consumers'' fs);
     Some \<lparr>rla_providers = p, rla_consumers = c\<rparr>
   })"

definition enc_rule_set :: "rule_set \<Rightarrow> json" where
  "enc_rule_set rs = JObj (
     omit_string ''href'' (rs_href rs) @
     [(''name'', JStr (rs_name rs)), (''enabled'', JBool (rs_enabled rs)),
      (''scopes'', JArr (map (\<lambda>sc. JArr (map enc_scope sc)) (rs_scopes rs)))] @
     omit_string ''external_data_set'' (rs_external_data_set rs) @
     omit_string ''external_data_reference'' (rs_external_data_reference rs) @
     omit_string ''update_type'' (rs_update_type rs))"

definition dec_rule_set :: "rule_set decoder" where
  "dec_rule_set = dec_struct (\<lambda>fs. do {
     h \<leftarrow> dec_string (jfield ''href'' fs);
     n \<leftarrow> dec_string (jfield ''name'' fs);
     e \<leftarrow> dec_bool (jfield ''enabled'' fs);
     sc \<leftarrow> dec_list (dec_list dec_scope) (jfield ''scopes'' fs);
     ds \<leftarrow> dec_string (jfield ''external_data_set'' fs);
     dr \<leftarrow> dec_string (jfield ''external_data_reference'' fs);
     u \<leftarrow> dec_string (jfield ''update_type'' fs);
     Some \<lparr>rs_href = h, rs_name = n, rs_enabled = e, rs_scopes = sc,
           rs_external_data_set = ds, rs_external_data_reference = dr, rs_update_type = u\<rparr>
   })"

definition enc_sec_rule :: "sec_rule \<Rightarrow> json" where
  "enc_sec_rule r = JObj (
     omit_string ''href'' (sr_href r) @
     [(''enabled'', JBool (sr_enabled r)),
      (''resolve_labels_as'', enc_resolve_labels_as (sr_resolve_labels_as r)),
      (''providers'', JArr (map enc_actor (sr_providers r))),
      (''consumers'', JArr (map enc_actor (sr_consumers r))),
      (''ingress_services'', JArr (map enc_ingress_service (sr_ingress_services r))),
      (''unscoped_consumers'', JBool (sr_unscoped_consumers r))])"

definition dec_sec_rule :: "sec_rule decoder" where
  "dec_sec_rule = dec_struct (\<lambda>fs. do {
     h \<leftarrow> dec_string (jfield ''href'' fs);
     e \<leftarrow> dec_bool (jfield ''enabled'' fs);
     rla \<leftarrow> dec_resolve_labels_as (jfield ''resolve_labels_as'' fs);
     p \<leftarrow> dec_list dec_actor (jfield ''providers'' fs);
     c \<leftarrow> dec_list dec_actor (jfield ''consumers'' fs);
     s \<leftarrow> dec_list dec_ingress_service (jfield ''ingress_services'' fs);
     u \<leftarrow> dec_bool (jfield ''unscoped_consumers'' fs);
     Some \<lparr>sr_href = h, sr_enabled = e, sr_resolve_labels_as = rla, sr_providers = p,
           sr_consumers = c, sr_ingress_services = s, sr_unscoped_consumers = u\<rparr>
   })"

definition dec_provision_result :: "provision_result decoder" where
  "dec_provision_result = dec_struct (\<lambda>fs. do {
     h \<leftarrow> dec_string (jfield ''href'' fs);
     v \<leftarrow> dec_integer (jfield ''version'' fs);
     n \<leftarrow> dec_integer (jfield ''workloads_affected'' fs);
     Some \<lparr>pr_href = h, pr_version = v, pr_workloads_affected = n\<rparr>
   })"


subsection \<open>Round trips\<close>

lemma jfield_Nil [simp]: "jfield name [] = JNull"
  by (simp add: jfield_def)

lemma jfield_snoc:
  "jfield name (fs @ [(k, v)]) =
     (if map lower_ascii k = name \<and> v \<noteq> JNull then v else jfield name fs)"
  by (simp add: jfield_def)

lemma jfield_append:
  "jfield name (fs @ gs) = (if jfield name gs = JNull then jfield name fs else jfield name gs)"
proof (induction gs rule: rev_induct)
  case Nil
  then show ?case by simp
next
  case (snoc g gs)
  obtain k v where g: "g = (k, v)" by fastforce
  show ?case
    using snoc by (simp add: g jfield_snoc flip: append_assoc)
qed

lemma jfield_single:
  "jfield name [(k, v)] = (if map lower_ascii k = name then v else JNull)"
  using jfield_snoc [of name "[]" k v] by auto

lemma jfield_Cons:
  "jfield name ((k, v) # fs) =
     (if jfield name fs = JNull then (if map lower_ascii k = name then v else JNull)
      else jfield name fs)"
  using jfield_append [of name "[(k, v)]" fs] by (simp add: jfield_single)

lemma jfield_omit_string:
  "jfield name (omit_string k s) = (if map lower_ascii k = name \<and> s \<noteq> '''' then JStr s else JNull)"
  by (simp add: omit_string_def jfield_single)

lemma jfield_omit_int:
  "jfield name (omit_int k i) = (if map lower_ascii k = name \<and> i \<noteq> 0 then JInt i else JNull)"
  by (simp add: omit_int_def jfield_single)

lemmas jfield_simps = jfield_append jfield_Cons jfield_omit_string jfield_omit_int

lemma dec_all_map: "(\<And>x. x \<in> set xs \<Longrightarrow> d (e x) = Some x) \<Longrightarrow> dec_all d (map e xs) = Some xs"
  by (induction xs) auto

lemma dec_list_map [wire]:
  "(\<And>x. x \<in> set xs \<Longrightarrow> d (e x) = Some x) \<Longrightarrow> dec_list d (JArr (map e xs)) = Some xs"
  by (simp add: dec_all_map)

text \<open>
  The interface the calls of the client rely on: a type of objects whose values that satisfy
  \<open>ok\<close> can be read back. Each struct with both directions is an instance.
\<close>

locale wire_codec =
  fixes enc :: "'a \<Rightarrow> json" and dec :: "'a decoder" and ok :: "'a \<Rightarrow> bool"
  assumes round_trip: "ok x \<Longrightarrow> dec (enc x) = Some x"
begin

lemma list_round_trip: "list_all ok xs \<Longrightarrow> dec_list dec (JArr (map enc xs)) = Some xs"
  by (rule dec_list_map) (simp add: list_all_iff round_trip)

lemma injective: "ok x \<Longrightarrow> ok y \<Longrightarrow> enc x = enc y \<Longrightarrow> x = y"
  by (metis option.inject round_trip)

end

lemma dec_strings [simp]: "dec_list dec_string (enc_strings ss) = Some ss"
  by (simp add: enc_strings_def dec_all_map)

lemma dec_enc_label [wire]: "dec_label (enc_label l) = Some l"
  by (simp add: dec_label_def enc_label_def jfield_simps lower_ascii_def Let_def)

lemma dec_enc_label_ref [wire]: "dec_label_ref (enc_label_ref l) = Some l"
  by (simp add: dec_label_ref_def enc_label_ref_def jfield_simps lower_ascii_def Let_def)

lemma enc_not_null [wire]:
  "enc_label_ref l \<noteq> JNull" "enc_resolve_labels_as r \<noteq> JNull"
  by (simp_all add: enc_label_ref_def enc_resolve_labels_as_def)

lemma dec_enc_scope [wire]: "dec_scope (enc_scope s) = Some s"
  by (simp add: dec_scope_def enc_scope_def jfield_simps lower_ascii_def Let_def wire)

lemma dec_enc_actor [wire]: "dec_actor (enc_actor a) = Some a"
  by (cases "ac_label a")
    (simp_all add: dec_actor_def enc_actor_def jfield_simps lower_ascii_def Let_def dec_pointer_def wire)

lemma dec_enc_ingress_service [wire]:
  "int64_ok (is_proto s) \<Longrightarrow> int64_ok (is_port s) \<Longrightarrow>
   dec_ingress_service (enc_ingress_service s) = Some s"
  by (simp add: dec_ingress_service_def enc_ingress_service_def jfield_simps lower_ascii_def Let_def)

lemma dec_enc_resolve_labels_as [wire]: "dec_resolve_labels_as (enc_resolve_labels_as r) = Some r"
  by (simp add: dec_resolve_labels_as_def enc_resolve_labels_as_def jfield_simps lower_ascii_def
      Let_def enc_strings_def dec_all_map)

text \<open>The fields of a written object, one by one.\<close>

lemma rule_set_fields:
  assumes "enc_rule_set rs = JObj fs"
  shows "dec_string (jfield ''href'' fs) = Some (rs_href rs)"
    "jfield ''name'' fs = JStr (rs_name rs)" "jfield ''enabled'' fs = JBool (rs_enabled rs)"
    "jfield ''scopes'' fs = JArr (map (\<lambda>sc. JArr (map enc_scope sc)) (rs_scopes rs))"
    "dec_string (jfield ''external_data_set'' fs) = Some (rs_external_data_set rs)"
    "dec_string (jfield ''external_data_reference'' fs) = Some (rs_external_data_reference rs)"
    "dec_string (jfield ''update_type'' fs) = Some (rs_update_type rs)"
  using assms [symmetric] by (simp_all add: enc_rule_set_def jfield_simps lower_ascii_def)

lemma dec_enc_rule_set [wire]: "dec_rule_set (enc_rule_set rs) = Some rs"
proof -
  obtain fs where fs: "enc_rule_set rs = JObj fs" by (simp add: enc_rule_set_def)
  have "dec_list (dec_list dec_scope) (JArr (map (\<lambda>sc. JArr (map enc_scope sc)) (rs_scopes rs))) =
      Some (rs_scopes rs)"
    by (intro dec_list_map) (simp add: dec_enc_scope)
  then show ?thesis unfolding fs by (simp add: dec_rule_set_def rule_set_fields [OF fs])
qed


lemma sec_rule_fields:
  assumes "enc_sec_rule r = JObj fs"
  shows "dec_string (jfield ''href'' fs) = Some (sr_href r)"
    "jfield ''enabled'' fs = JBool (sr_enabled r)"
    "jfield ''resolve_labels_as'' fs = enc_resolve_labels_as (sr_resolve_labels_as r)"
    "jfield ''providers'' fs = JArr (map enc_actor (sr_providers r))"
    "jfield ''consumers'' fs = JArr (map enc_actor (sr_consumers r))"
    "jfield ''ingress_services'' fs = JArr (map enc_ingress_service (sr_ingress_services r))"
    "jfield ''unscoped_consumers'' fs = JBool (sr_unscoped_consumers r)"
  using assms [symmetric] by (simp_all add: enc_sec_rule_def jfield_simps lower_ascii_def wire)

definition rule_ints_ok :: "sec_rule \<Rightarrow> bool" where
  \<comment> \<open>the rule's numbers are Go \<open>int\<close>s\<close>
  "rule_ints_ok r \<longleftrightarrow>
     list_all (\<lambda>s. int64_ok (is_proto s) \<and> int64_ok (is_port s)) (sr_ingress_services r)"

lemma dec_enc_sec_rule [wire]:
  assumes "rule_ints_ok r"
  shows "dec_sec_rule (enc_sec_rule r) = Some r"
proof -
  obtain fs where fs: "enc_sec_rule r = JObj fs" by (simp add: enc_sec_rule_def)
  have actors: "dec_list dec_actor (JArr (map enc_actor as)) = Some as" for as
    by (intro dec_list_map wire)
  have services: "dec_list dec_ingress_service (JArr (map enc_ingress_service (sr_ingress_services r))) =
      Some (sr_ingress_services r)"
    using assms by (intro dec_list_map wire) (simp_all add: rule_ints_ok_def list_all_iff)
  show ?thesis unfolding fs
    by (simp add: dec_sec_rule_def sec_rule_fields [OF fs] actors services wire del: dec_list.simps)
qed


interpretation labels: wire_codec enc_label dec_label "\<lambda>_. True"
  by unfold_locales (rule dec_enc_label)

interpretation rule_sets: wire_codec enc_rule_set dec_rule_set "\<lambda>_. True"
  by unfold_locales (rule dec_enc_rule_set)

interpretation sec_rules: wire_codec enc_sec_rule dec_sec_rule rule_ints_ok
  by unfold_locales (rule dec_enc_sec_rule)


subsection \<open>Properties\<close>

text \<open>
  What the operator sends for a ruleset reads back as the same ruleset: names, scopes
  and the owner reference survive the wire format, \<open>omitempty\<close> fields included.
\<close>
theorem rule_set_roundtrip: "dec_rule_set (enc_rule_set rs) = Some rs"
  by (rule dec_enc_rule_set)



end
