(* ===== verification/Kube.thy ===== *)
theory Kube
  imports Api_Types Pce_Json
begin

section \<open>What the operator uses of the Kubernetes libraries\<close>

text \<open>
  The API server and the libraries in front of it (controller-runtime's \<open>client.Client\<close>,
  \<open>meta.SetStatusCondition\<close> and its kin, \<open>controllerutil\<close>'s finalizer helpers) are not part
  of the repository. A value of \<open>'w kube\<close> is any implementation of them; the operator's
  functions take it as an argument. \<open>condition_laws\<close> and \<open>finalizer_laws\<close> are what the
  libraries document of the pure helpers; the theorems that rely on them name them.
\<close>

type_synonym reconcile_result = "duration \<times> go_error option"
  \<comment> \<open>\<open>ctrl.Result\<close> (its \<open>RequeueAfter\<close>, zero for none) and the error of a handler\<close>

record 'w kube =
  k_get_namespace :: "string \<Rightarrow> ('w, go_error + object_meta) state"
  k_list_namespaces :: "('w, go_error + object_meta list) state"
  k_list_profiles :: "('w, go_error + cluster_profile list) state"
  k_get_profile :: "string \<Rightarrow> ('w, go_error + cluster_profile) state"
  k_get_connection :: "string \<Rightarrow> ('w, go_error + pce_connection) state"
  k_get_secret :: "string \<Rightarrow> string \<Rightarrow> ('w, go_error + smap) state" \<comment> \<open>name, namespace\<close>
  k_list_intents :: "string \<Rightarrow> ('w, go_error + seg_intent list) state"
  k_list_policies :: "string \<Rightarrow> ('w, go_error + seg_policy list) state"
  k_get_intent :: "string \<Rightarrow> string \<Rightarrow> ('w, go_error + seg_intent) state"
  k_get_policy :: "string \<Rightarrow> string \<Rightarrow> ('w, go_error + seg_policy) state"
  k_update_intent :: "seg_intent \<Rightarrow> ('w, go_error + seg_intent) state" \<comment> \<open>the stored object\<close>
  k_update_policy :: "seg_policy \<Rightarrow> ('w, go_error + seg_policy) state"
  k_status_intent :: "seg_intent \<Rightarrow> ('w, go_error option) state"
  k_status_policy :: "seg_policy \<Rightarrow> ('w, go_error option) state"
  k_status_connection :: "pce_connection \<Rightarrow> ('w, go_error option) state"
  k_status_profile :: "cluster_profile \<Rightarrow> ('w, go_error + cluster_profile) state"
  k_get_insight :: "string \<Rightarrow> string \<Rightarrow> ('w, go_error + policy_insight) state"
  k_status_insight :: "policy_insight \<Rightarrow> ('w, go_error option) state"
  k_get_rule_view :: "string \<Rightarrow> string \<Rightarrow> ('w, go_error + rule_view) state"
  k_status_rule_view :: "rule_view \<Rightarrow> ('w, go_error option) state"
  k_put_secret :: "string \<Rightarrow> string \<Rightarrow> (smap \<Rightarrow> smap) \<Rightarrow> ('w, go_error option) state"
    \<comment> \<open>\<open>controllerutil.CreateOrUpdate\<close>: name, namespace, change to the secret's data\<close>
  k_list_label_maps :: "('w, go_error + json list) state" \<comment> \<open>unstructured objects\<close>
  k_event :: "string \<Rightarrow> string \<Rightarrow> string \<Rightarrow> ('w, unit) state" \<comment> \<open>object, reason, note\<close>
  k_now :: "('w, instant) state" \<comment> \<open>the clock\<close>
  k_set_condition :: "condition list \<Rightarrow> condition \<Rightarrow> condition list"
  k_find_condition :: "condition list \<Rightarrow> string \<Rightarrow> condition option"
  k_condition_true :: "condition list \<Rightarrow> string \<Rightarrow> bool"
  k_contains_finalizer :: "object_meta \<Rightarrow> string \<Rightarrow> bool"
  k_add_finalizer :: "object_meta \<Rightarrow> string \<Rightarrow> object_meta \<times> bool"
  k_remove_finalizer :: "object_meta \<Rightarrow> string \<Rightarrow> object_meta"

text \<open>
  \<open>SetStatusCondition\<close> sets the condition of its type and leaves the other types alone;
  \<open>IsStatusConditionTrue\<close> looks at the condition \<open>FindStatusCondition\<close> finds.
\<close>

definition condition_laws :: "'w kube \<Rightarrow> bool" where
  "condition_laws k \<longleftrightarrow>
     (\<forall>cs c. k_find_condition k (k_set_condition k cs c) (c_type c) = Some c) \<and>
     (\<forall>cs c t. t \<noteq> c_type c \<longrightarrow>
        k_find_condition k (k_set_condition k cs c) t = k_find_condition k cs t) \<and>
     (\<forall>cs t. k_condition_true k cs t \<longleftrightarrow>
        (\<exists>c. k_find_condition k cs t = Some c \<and> c_status c = ConditionTrue))"

text \<open>A finalizer that was added is there, one that was removed is not; neither changes the deletion mark.\<close>

definition finalizer_laws :: "'w kube \<Rightarrow> bool" where
  "finalizer_laws k \<longleftrightarrow>
     (\<forall>m f. k_contains_finalizer k (fst (k_add_finalizer k m f)) f) \<and>
     (\<forall>m f. snd (k_add_finalizer k m f) \<longleftrightarrow> \<not> k_contains_finalizer k m f) \<and>
     (\<forall>m f. \<not> k_contains_finalizer k (k_remove_finalizer k m f) f) \<and>
     (\<forall>m f. om_deleting (fst (k_add_finalizer k m f)) = om_deleting m) \<and>
     (\<forall>m f. om_deleting (k_remove_finalizer k m f) = om_deleting m)"

text \<open>Every read of the API server keeps \<open>P\<close>; so does every write, for \<open>kube_writes_keep\<close>.\<close>

definition kube_reads_keep :: "('w \<Rightarrow> bool) \<Rightarrow> 'w kube \<Rightarrow> bool" where
  "kube_reads_keep P k \<longleftrightarrow>
     (\<forall>n. keeps P (k_get_namespace k n)) \<and> keeps P (k_list_namespaces k) \<and>
     keeps P (k_list_profiles k) \<and> (\<forall>n. keeps P (k_get_profile k n)) \<and>
     (\<forall>n. keeps P (k_get_connection k n)) \<and> (\<forall>n ns. keeps P (k_get_secret k n ns)) \<and>
     (\<forall>ns. keeps P (k_list_intents k ns)) \<and> (\<forall>ns. keeps P (k_list_policies k ns)) \<and>
     (\<forall>ns n. keeps P (k_get_intent k ns n)) \<and> (\<forall>ns n. keeps P (k_get_policy k ns n)) \<and>
     (\<forall>ns n. keeps P (k_get_insight k ns n)) \<and> (\<forall>ns n. keeps P (k_get_rule_view k ns n)) \<and>
     keeps P (k_list_label_maps k) \<and> keeps P (k_now k)"

definition kube_writes_keep :: "('w \<Rightarrow> bool) \<Rightarrow> 'w kube \<Rightarrow> bool" where
  "kube_writes_keep P k \<longleftrightarrow>
     (\<forall>i. keeps P (k_update_intent k i)) \<and> (\<forall>p. keeps P (k_update_policy k p)) \<and>
     (\<forall>i. keeps P (k_status_intent k i)) \<and> (\<forall>p. keeps P (k_status_policy k p)) \<and>
     (\<forall>c. keeps P (k_status_connection k c)) \<and> (\<forall>c. keeps P (k_status_profile k c)) \<and>
     (\<forall>i. keeps P (k_status_insight k i)) \<and> (\<forall>v. keeps P (k_status_rule_view k v)) \<and>
     (\<forall>n ns f. keeps P (k_put_secret k n ns f)) \<and> (\<forall>a b c. keeps P (k_event k a b c))"

lemma kube_reads_keepD [keeps]:
  "kube_reads_keep P k \<Longrightarrow> keeps P (k_get_namespace k n)"
  "kube_reads_keep P k \<Longrightarrow> keeps P (k_list_namespaces k)"
  "kube_reads_keep P k \<Longrightarrow> keeps P (k_list_profiles k)"
  "kube_reads_keep P k \<Longrightarrow> keeps P (k_get_profile k n)"
  "kube_reads_keep P k \<Longrightarrow> keeps P (k_get_connection k n)"
  "kube_reads_keep P k \<Longrightarrow> keeps P (k_get_secret k n ns)"
  "kube_reads_keep P k \<Longrightarrow> keeps P (k_list_intents k ns)"
  "kube_reads_keep P k \<Longrightarrow> keeps P (k_list_policies k ns)"
  "kube_reads_keep P k \<Longrightarrow> keeps P (k_get_intent k ns n)"
  "kube_reads_keep P k \<Longrightarrow> keeps P (k_get_policy k ns n)"
  "kube_reads_keep P k \<Longrightarrow> keeps P (k_get_insight k ns n)"
  "kube_reads_keep P k \<Longrightarrow> keeps P (k_get_rule_view k ns n)"
  "kube_reads_keep P k \<Longrightarrow> keeps P (k_list_label_maps k)"
  "kube_reads_keep P k \<Longrightarrow> keeps P (k_now k)"
  by (simp_all add: kube_reads_keep_def)

lemma kube_writes_keepD [keeps]:
  "kube_writes_keep P k \<Longrightarrow> keeps P (k_update_intent k i)"
  "kube_writes_keep P k \<Longrightarrow> keeps P (k_update_policy k p)"
  "kube_writes_keep P k \<Longrightarrow> keeps P (k_status_intent k i)"
  "kube_writes_keep P k \<Longrightarrow> keeps P (k_status_policy k p)"
  "kube_writes_keep P k \<Longrightarrow> keeps P (k_status_connection k c)"
  "kube_writes_keep P k \<Longrightarrow> keeps P (k_status_profile k cp)"
  "kube_writes_keep P k \<Longrightarrow> keeps P (k_status_insight k pi)"
  "kube_writes_keep P k \<Longrightarrow> keeps P (k_status_rule_view k v)"
  "kube_writes_keep P k \<Longrightarrow> keeps P (k_put_secret k n ns f)"
  "kube_writes_keep P k \<Longrightarrow> keeps P (k_event k x y z)"
  by (simp_all add: kube_writes_keep_def)

lemma condition_laws_same:
  "condition_laws k \<Longrightarrow> k_find_condition k (k_set_condition k cs c) (c_type c) = Some c"
  by (simp add: condition_laws_def)

lemma condition_laws_other:
  "condition_laws k \<Longrightarrow> t \<noteq> c_type c \<Longrightarrow>
   k_find_condition k (k_set_condition k cs c) t = k_find_condition k cs t"
  by (simp add: condition_laws_def)

lemma condition_laws_true:
  "condition_laws k \<Longrightarrow>
   k_condition_true k (k_set_condition k cs c) (c_type c) \<longleftrightarrow> c_status c = ConditionTrue"
  by (simp add: condition_laws_def)

end
