(* ===== verification/Policy_Backend.thy ===== *)
theory Policy_Backend
  imports Policy_IR Kube
begin

section \<open>The policy backend (policybackend.go, policy_client.go, enforcement.go, labelcreate.go)\<close>

text \<open>
  \<open>ReconcilePolicy\<close> and \<open>FinalizePolicy\<close>, the code both policy controllers share: find the
  cluster profile that manages the namespace, resolve the provider's scope labels and the
  consumers' labels, rebuild the owned draft ruleset, provision it when the gate allows.
  The PCE is reached through a \<open>'w policy_client\<close>, the Go interface \<open>PolicyClient\<close>.
  A \<open>verdict\<close> is a transient error, a rejection (reason and message), or a value: the
  \<open>(value, reason, msg, ok, err)\<close> results of the source.
\<close>

record 'w policy_client =
  pc_find_label :: "string \<Rightarrow> string \<Rightarrow> ('w, go_error + label) state"
  pc_ensure_label :: "string \<Rightarrow> string \<Rightarrow> owner \<Rightarrow> ('w, go_error + label) state"
  pc_find_service_by_name :: "string \<Rightarrow> ('w, go_error + service option) state"
  pc_find_rule_set_by_owner :: "owner \<Rightarrow> ('w, go_error + rule_set option) state"
  pc_create_rule_set :: "rule_set \<Rightarrow> ('w, go_error + rule_set) state"
  pc_delete_rule_set :: "string \<Rightarrow> ('w, go_error option) state"
  pc_list_rules :: "string \<Rightarrow> ('w, go_error + sec_rule list) state"
  pc_create_rule :: "string \<Rightarrow> sec_rule \<Rightarrow> ('w, go_error + sec_rule) state"
  pc_delete_rule :: "string \<Rightarrow> ('w, go_error option) state"
  pc_provision_rule_sets :: "string list \<Rightarrow> string \<Rightarrow> ('w, go_error + provision_result) state"

type_synonym 'a verdict = "go_error + (string \<times> string) + 'a"

definition siRequeueNotReady :: duration where "siRequeueNotReady = 30 * second"
definition siRequeueHealthy :: duration where "siRequeueHealthy = 10 * minute"
definition provisionModeAuto :: string where "provisionModeAuto = ''auto''"
definition provisionModeManual :: string where "provisionModeManual = ''manual''"

record backend_condition =
  bc_status :: condition_status
  bc_reason :: string
  bc_message :: string

record backend_result =
  br_ready :: "backend_condition option"
  br_provisioned :: "backend_condition option"
  br_workloads_affected :: int
  br_requeue :: duration
  br_effective_enforcement :: string
  br_enforcement_set_by :: string
  br_unknown_label_mode :: string
  br_unknown_label_mode_set_by :: string
  br_deferred_labels :: "string list"
  br_created_labels :: "string list"

definition zero_result :: backend_result where
  "zero_result =
     \<lparr>br_ready = None, br_provisioned = None, br_workloads_affected = 0, br_requeue = 0,
      br_effective_enforcement = '''', br_enforcement_set_by = '''',
      br_unknown_label_mode = '''', br_unknown_label_mode_set_by = '''',
      br_deferred_labels = [], br_created_labels = []\<rparr>"

lemma zero_result_simps [simp]:
  "br_provisioned zero_result = None" "br_unknown_label_mode zero_result = ''''"
  by (simp_all add: zero_result_def)

definition not_ready :: "string \<Rightarrow> string \<Rightarrow> backend_condition" where
  "not_ready reason msg =
     \<lparr>bc_status = ConditionFalse, bc_reason = reason, bc_message = msg\<rparr>"

definition applyBackendResult :: "'w kube \<Rightarrow> condition list \<Rightarrow> backend_result \<Rightarrow> condition list" where
  "applyBackendResult k conds res =
     (let conds = (case br_ready res of
            Some c \<Rightarrow> k_set_condition k conds
              (new_condition ConditionReady (bc_status c) (bc_reason c) (bc_message c))
          | None \<Rightarrow> conds)
      in case br_provisioned res of
           Some c \<Rightarrow> k_set_condition k conds
             (new_condition ConditionProvisioned (bc_status c) (bc_reason c) (bc_message c))
         | None \<Rightarrow> conds)"


subsection \<open>Effective enforcement (enforcement.go)\<close>

fun raise_enforcement :: "string \<Rightarrow> string \<Rightarrow> (string \<times> string) list \<Rightarrow> string \<times> string" where
  \<comment> \<open>one of the two loops, over the CRs' names and requested modes\<close>
  "raise_enforcement mode setBy [] = (mode, setBy)"
| "raise_enforcement mode setBy ((name, requested) # crs) =
     (let raised = StrictestEnforcement [mode, requested]
      in if raised \<noteq> mode then raise_enforcement raised name crs
         else raise_enforcement mode setBy crs)"

definition EffectiveEnforcement ::
  "'w kube \<Rightarrow> string \<Rightarrow> string \<Rightarrow> ('w, go_error + string \<times> string) state" where
  "EffectiveEnforcement k namespace baseline = do {
     intents \<leftarrow> k_list_intents k namespace;
     case intents of
       Inl e \<Rightarrow> ret (Inl e)
     | Inr intents \<Rightarrow>
         (case raise_enforcement baseline ''admin''
                 (map (\<lambda>i. (om_name (si_meta i), sis_enforcement (si_spec i))) intents) of
            (mode, setBy) \<Rightarrow> do {
              policies \<leftarrow> k_list_policies k namespace;
              case policies of
                Inl e \<Rightarrow> ret (Inl e)
              | Inr policies \<Rightarrow>
                  ret (Inr (raise_enforcement mode setBy
                    (map (\<lambda>p. (om_name (sp_meta p), sps_enforcement (sp_spec p))) policies)))
            })
   }"


subsection \<open>The cluster profile of a namespace\<close>

fun usable_profile ::
  "'w kube \<Rightarrow> object_meta \<Rightarrow> cluster_profile list
   \<Rightarrow> ('w, go_error + (cluster_profile \<times> config \<times> string) option) state" where
  \<comment> \<open>the loop of \<open>resolveClusterProfile\<close>: each \<open>continue\<close> goes on with the rest of the list\<close>
  "usable_profile k ns [] = ret (Inr None)"
| "usable_profile k ns (cp # cps) =
     (if \<not> k_condition_true k (cpst_conditions (cp_status cp)) ConditionOnboarded then
        usable_profile k ns cps
      else if \<not> d_managed (ComputeDesiredCWP (om_name ns) (om_labels ns) (om_annotations ns)
                  (cps_namespace_rules (cp_spec cp)) (cps_system_namespaces (cp_spec cp))) then
        usable_profile k ns cps
      else do {
        conn \<leftarrow> k_get_connection k (cps_pce_connection_ref (cp_spec cp));
        case conn of
          Inl e \<Rightarrow> if is_kube_not_found e then usable_profile k ns cps else ret (Inl e)
        | Inr conn \<Rightarrow>
            if \<not> k_condition_true k (pcst_conditions (conn_status conn)) ConditionConnected then
              usable_profile k ns cps
            else do {
              secret \<leftarrow> k_get_secret k
                (secref_name (pcs_credentials_secret_ref (conn_spec conn)))
                (secref_namespace (pcs_credentials_secret_ref (conn_spec conn)));
              case secret of
                Inl e \<Rightarrow> if is_kube_not_found e then usable_profile k ns cps else ret (Inl e)
              | Inr data \<Rightarrow>
                  let apiKey = mget data ''api_key''; apiSecret = mget data ''api_secret'' in
                  if apiKey = '''' \<or> apiSecret = '''' then usable_profile k ns cps
                  else
                    let eds = (if pcs_external_data_set (conn_spec conn) = ''''
                               then defaultExternalDataSet
                               else pcs_external_data_set (conn_spec conn))
                    in ret (Inr (Some (cp,
                         \<lparr>cfg_pce_url = pcs_pce_url (conn_spec conn),
                          cfg_org_id = pcs_org_id (conn_spec conn),
                          cfg_api_key = apiKey, cfg_api_secret = apiSecret\<rparr>, eds)))
            }
      })"

definition resolveClusterProfile ::
  "'w kube \<Rightarrow> string \<Rightarrow> ('w, go_error + (cluster_profile \<times> config \<times> string) option) state" where
  "resolveClusterProfile k nsName = do {
     ns \<leftarrow> k_get_namespace k nsName;
     case ns of
       Inl e \<Rightarrow> (case ignore_not_found e of None \<Rightarrow> ret (Inr None) | Some e \<Rightarrow> ret (Inl e))
     | Inr ns \<Rightarrow> do {
         list \<leftarrow> k_list_profiles k;
         case list of
           Inl e \<Rightarrow> ret (Inl e)
         | Inr items \<Rightarrow> usable_profile k (ns\<lparr>om_name := nsName\<rparr>) items
       }
   }"


subsection \<open>Resolving labels\<close>

definition scopeLabelSubset :: "smap \<Rightarrow> string list \<Rightarrow> smap" where
  "scopeLabelSubset labels scopeKeys =
     range_put (\<lambda>k v. if k \<in> set scopeKeys then Some (k, v) else None) labels []"

fun find_labels ::
  "'w policy_client \<Rightarrow> (string \<Rightarrow> string \<Rightarrow> string) \<Rightarrow> smap \<Rightarrow> string list
   \<Rightarrow> ('w, (string list) verdict) state" where
  \<comment> \<open>strict resolution of a label set: the loops of \<open>resolveProvider\<close> and of the provider
      narrowing in \<open>ReconcilePolicy\<close>, which differ in the rejection's message\<close>
  "find_labels pc msg [] hrefs = ret (Inr (Inr hrefs))"
| "find_labels pc msg ((key, value) # labels) hrefs = do {
     lbl \<leftarrow> pc_find_label pc key value;
     case lbl of
       Inl e \<Rightarrow> if is_label_not_found e then ret (Inr (Inl (ReasonRejected, msg key value)))
                else ret (Inl e)
     | Inr lbl \<Rightarrow> find_labels pc msg labels (hrefs @ [lbl_href lbl])
   }"

definition resolveProvider ::
  "'w kube \<Rightarrow> string \<Rightarrow> cluster_profile \<Rightarrow> 'w policy_client \<Rightarrow> ('w, (string list) verdict) state" where
  "resolveProvider k nsName cp pc = do {
     ns \<leftarrow> k_get_namespace k nsName;
     case ns of
       Inl e \<Rightarrow> (case ignore_not_found e of
                   None \<Rightarrow> ret (Inr (Inl (ReasonRejected, ''namespace not found'')))
                 | Some e \<Rightarrow> ret (Inl e))
     | Inr ns \<Rightarrow>
         let desired = ComputeDesiredCWP (om_name ns) (om_labels ns) (om_annotations ns)
               (cps_namespace_rules (cp_spec cp)) (cps_system_namespaces (cp_spec cp)) in
         if \<not> d_managed desired \<or> length (d_labels desired) = 0 then
           ret (Inr (Inl (ReasonRejected,
             ''namespace is not managed or has no Illumio labels; an admin must manage it via ClusterProfile'')))
         else
           let scopeKeys = ScopeLabelKeys (cp_spec cp);
               scopeLabels = scopeLabelSubset (d_labels desired) scopeKeys in
           if length scopeLabels = 0 then
             ret (Inr (Inl (ReasonRejected,
               ''namespace has none of the policy scope labels '' @ fmt_strings scopeKeys @
               '' assigned via ClusterProfile; assign at least one to scope its ruleset'')))
           else
             find_labels pc
               (\<lambda>key value. ''namespace label '' @ key @ ''='' @ value @ '' not yet in the PCE'')
               scopeLabels []
   }"

definition autoCreatableKey :: "string \<Rightarrow> bool" where
  "autoCreatableKey key \<longleftrightarrow>
     key = LabelKeyRole \<or> key = LabelKeyApp \<or> key = LabelKeyEnv \<or> key = LabelKeyLoc"

record from_state =
  fs_hrefs :: "string list"
  fs_deferred :: "string list"
  fs_created :: "string list"
  fs_skipped_any :: bool

fun resolve_from ::
  "'w policy_client \<Rightarrow> string \<Rightarrow> owner \<Rightarrow> smap \<Rightarrow> from_state \<Rightarrow> ('w, from_state verdict) state" where
  \<comment> \<open>the loop over \<open>a.From\<close> in \<open>resolveAllows\<close>\<close>
  "resolve_from pc mode ow [] s = ret (Inr (Inr s))"
| "resolve_from pc mode ow ((key, value) # rest) s = do {
     lbl \<leftarrow> pc_find_label pc key value;
     case lbl of
       Inr lbl \<Rightarrow> resolve_from pc mode ow rest (s\<lparr>fs_hrefs := fs_hrefs s @ [lbl_href lbl]\<rparr>)
     | Inl e \<Rightarrow>
         if \<not> is_label_not_found e then ret (Inl e)
         else
           let kv = key @ ''='' @ value in
           if mode = UnknownLabelSkip then
             resolve_from pc mode ow rest
               (s\<lparr>fs_deferred := fs_deferred s @ [kv], fs_skipped_any := True\<rparr>)
           else if mode = UnknownLabelCreate then
             if \<not> autoCreatableKey key then
               ret (Inr (Inl (ReasonRejected,
                 ''cannot auto-create label with non-standard key '' @ go_quote key @
                 '' (create mode allows role/app/env/loc only); pre-create '' @ kv @ '' in the PCE'')))
             else do {
               lbl \<leftarrow> pc_ensure_label pc key value ow;
               case lbl of
                 Inl cerr \<Rightarrow> ret (Inl cerr)
               | Inr lbl \<Rightarrow>
                   resolve_from pc mode ow rest
                     (s\<lparr>fs_hrefs := fs_hrefs s @ [lbl_href lbl], fs_created := fs_created s @ [kv]\<rparr>)
             }
           else ret (Inr (Inl (ReasonRejected, ''no Illumio label '' @ kv @ '' in the PCE'')))
   }"

record allows_state =
  as_out :: "resolved_allow list"
  as_deferred :: "string list"
  as_created :: "string list"

fun resolve_allows_from ::
  "'w policy_client \<Rightarrow> string \<Rightarrow> owner \<Rightarrow> compiled_allow list \<Rightarrow> allows_state
   \<Rightarrow> ('w, allows_state verdict) state" where
  "resolve_allows_from pc mode ow [] s = ret (Inr (Inr s))"
| "resolve_allows_from pc mode ow (a # allows) s =
     (if ca_all_workloads a then
        resolve_allows_from pc mode ow allows
          (s\<lparr>as_out := as_out s @
              [\<lparr>ra_consumer_hrefs = [], ra_all_workloads = True,
                ra_intra_scope = ca_intra_scope a, ra_ports = ca_ports a\<rparr>]\<rparr>)
      else do {
        r \<leftarrow> resolve_from pc mode ow (ca_from a)
               \<lparr>fs_hrefs = [], fs_deferred = as_deferred s, fs_created = as_created s,
                fs_skipped_any = False\<rparr>;
        case r of
          Inl e \<Rightarrow> ret (Inl e)
        | Inr (Inl rejection) \<Rightarrow> ret (Inr (Inl rejection))
        | Inr (Inr f) \<Rightarrow>
            let s = s\<lparr>as_deferred := fs_deferred f, as_created := fs_created f\<rparr> in
            if fs_skipped_any f \<and> length (fs_hrefs f) = 0 then
              resolve_allows_from pc mode ow allows s
            else
              resolve_allows_from pc mode ow allows
                (s\<lparr>as_out := as_out s @
                    [\<lparr>ra_consumer_hrefs = fs_hrefs f, ra_all_workloads = False,
                      ra_intra_scope = ca_intra_scope a, ra_ports = ca_ports a\<rparr>]\<rparr>)
      })"

definition resolveAllows ::
  "'w policy_client \<Rightarrow> compiled_allow list \<Rightarrow> string \<Rightarrow> owner \<Rightarrow> ('w, allows_state verdict) state" where
  "resolveAllows pc allows mode ow =
     resolve_allows_from pc mode ow allows \<lparr>as_out = [], as_deferred = [], as_created = []\<rparr>"


subsection \<open>PCE failures\<close>

definition pceRateLimit :: "go_error \<Rightarrow> duration option" where
  "pceRateLimit e = as_rate_limit e"

definition pceFailReason :: "go_error \<Rightarrow> string" where
  "pceFailReason e = (case pceRateLimit e of Some _ \<Rightarrow> ReasonRateLimited | None \<Rightarrow> ReasonQueryFailed)"


subsection \<open>The owned draft ruleset\<close>

fun delete_rules :: "'w policy_client \<Rightarrow> sec_rule list \<Rightarrow> ('w, go_error option) state" where
  "delete_rules pc [] = ret None"
| "delete_rules pc (r # rules) = do {
     derr \<leftarrow> pc_delete_rule pc (sr_href r);
     case derr of Some e \<Rightarrow> ret (Some e) | None \<Rightarrow> delete_rules pc rules
   }"

fun create_rules :: "'w policy_client \<Rightarrow> string \<Rightarrow> sec_rule list \<Rightarrow> ('w, go_error option) state" where
  "create_rules pc rsHref [] = ret None"
| "create_rules pc rsHref (r # rules) = do {
     res \<leftarrow> pc_create_rule pc rsHref r;
     case res of Inl e \<Rightarrow> ret (Some e) | Inr _ \<Rightarrow> create_rules pc rsHref rules
   }"

definition clear_or_create ::
  "'w policy_client \<Rightarrow> rule_set option \<Rightarrow> rule_set \<Rightarrow> ('w, go_error + string) state" where
  \<comment> \<open>create the ruleset, or empty the existing one; the href of the ruleset\<close>
  "clear_or_create pc existing rs =
     (case existing of
        None \<Rightarrow> do {
          created \<leftarrow> pc_create_rule_set pc rs;
          case created of Inl e \<Rightarrow> ret (Inl e) | Inr created \<Rightarrow> ret (Inr (rs_href created))
        }
      | Some ex \<Rightarrow> do {
          rules \<leftarrow> pc_list_rules pc (rs_href ex);
          case rules of
            Inl e \<Rightarrow> ret (Inl e)
          | Inr rules \<Rightarrow> do {
              derr \<leftarrow> delete_rules pc rules;
              case derr of Some e \<Rightarrow> ret (Inl e) | None \<Rightarrow> ret (Inr (rs_href ex))
            }
        })"

definition all_services_href ::
  "'w policy_client \<Rightarrow> resolved_allow list \<Rightarrow> ('w, go_error + string) state" where
  "all_services_href pc resolved =
     (if list_ex (\<lambda>a. length (ra_ports a) = 0) resolved then do {
        svc \<leftarrow> pc_find_service_by_name pc AllServicesName;
        case svc of
          Inl e \<Rightarrow> ret (Inl e)
        | Inr None \<Rightarrow> ret (Inl (ErrorText (''PCE service '' @ go_quote AllServicesName @
                             '' not found (required for all-ports rules)'')))
        | Inr (Some svc) \<Rightarrow> ret (Inr (svc_href svc))
      }
      else ret (Inr ''''))"

definition reconcileRuleSet ::
  "'w policy_client \<Rightarrow> string \<Rightarrow> string \<Rightarrow> owner \<Rightarrow> string list \<Rightarrow> string list
   \<Rightarrow> resolved_allow list \<Rightarrow> ('w, go_error + string) state" where
  "reconcileRuleSet pc crName namespace ow scopeHrefs narrowHrefs resolved = do {
     existing \<leftarrow> pc_find_rule_set_by_owner pc ow;
     case existing of
       Inl e \<Rightarrow> ret (Inl e)
     | Inr existing \<Rightarrow>
         if (case existing of Some ex \<Rightarrow> rs_update_type ex = RuleSetUpdateTypeDelete | None \<Rightarrow> False)
         then ret (Inl ErrRuleSetPendingDeletion)
         else do {
           rsHref \<leftarrow> clear_or_create pc existing (BuildRuleSet namespace crName scopeHrefs ow);
           case rsHref of
             Inl e \<Rightarrow> ret (Inl e)
           | Inr rsHref \<Rightarrow> do {
               svcHref \<leftarrow> all_services_href pc resolved;
               case svcHref of
                 Inl e \<Rightarrow> ret (Inl e)
               | Inr svcHref \<Rightarrow> do {
                   cerr \<leftarrow> create_rules pc rsHref (BuildRules narrowHrefs svcHref resolved);
                   case cerr of Some e \<Rightarrow> ret (Inl e) | None \<Rightarrow> ret (Inr rsHref)
                 }
             }
         }
   }"


subsection \<open>ReconcilePolicy\<close>

definition provision_allowed :: "cluster_profile \<Rightarrow> smap \<Rightarrow> bool" where
  \<comment> \<open>\<open>doProvision\<close>\<close>
  "provision_allowed cp annotations \<longleftrightarrow>
     cps_provisioning_mode (cp_spec cp) = provisionModeAuto \<or>
     (cps_provisioning_mode (cp_spec cp) = provisionModeManual \<and>
      mget annotations AnnotationProvisionApprove = ''approved'')"

definition namespace_enforcement ::
  "'w kube \<Rightarrow> string \<Rightarrow> cluster_profile \<Rightarrow> ('w, string \<times> string \<times> smap) state" where
  \<comment> \<open>effective mode, who set it, and the namespace's annotations; errors leave them empty\<close>
  "namespace_enforcement k namespace cp = do {
     ns \<leftarrow> k_get_namespace k namespace;
     case ns of
       Inl e \<Rightarrow> ret ('''', '''', [])
     | Inr ns \<Rightarrow> do {
         eff \<leftarrow> EffectiveEnforcement k namespace
           (d_enforcement_mode (ComputeDesiredCWP namespace (om_labels ns) (om_annotations ns)
              (cps_namespace_rules (cp_spec cp)) (cps_system_namespaces (cp_spec cp))));
         case eff of
           Inl e \<Rightarrow> ret ('''', '''', om_annotations ns)
         | Inr (mode, setBy) \<Rightarrow> ret (mode, setBy, om_annotations ns)
       }
   }"

definition pending_message :: "cluster_profile \<Rightarrow> string" where
  "pending_message cp =
     (if cps_provisioning_mode (cp_spec cp) = provisionModeManual
      then ''draft written; awaiting '' @ AnnotationProvisionApprove @ ''=approved annotation''
      else ''draft written; provisioning is '' @ cps_provisioning_mode (cp_spec cp))"

definition ready_condition :: backend_condition where
  "ready_condition =
     \<lparr>bc_status = ConditionTrue, bc_reason = ReasonCompiled,
      bc_message = ''compiled to Illumio ruleset''\<rparr>"

definition provision_step ::
  "'w policy_client \<Rightarrow> cluster_profile \<Rightarrow> smap \<Rightarrow> string \<Rightarrow> string \<Rightarrow> string \<Rightarrow> backend_result
   \<Rightarrow> ('w, go_error + backend_result) state" where
  \<comment> \<open>from "Determine provisioning" on; \<open>base\<close> holds the fields both results share\<close>
  "provision_step pc cp annotations namespace crName rsHref base =
     (if provision_allowed cp annotations then do {
        res \<leftarrow> pc_provision_rule_sets pc [rsHref] (namespace @ ''/'' @ crName);
        case res of
          Inl perr \<Rightarrow> ret (Inl perr)
        | Inr res \<Rightarrow> ret (Inr (base\<lparr>
            br_ready := Some ready_condition,
            br_provisioned := Some \<lparr>bc_status = ConditionTrue, bc_reason = ReasonProvisioned,
              bc_message = ''provisioned; '' @ dec_int (pr_workloads_affected res) @ '' workloads affected''\<rparr>,
            br_workloads_affected := pr_workloads_affected res,
            br_requeue := siRequeueHealthy\<rparr>))
      }
      else ret (Inr (base\<lparr>
        br_ready := Some ready_condition,
        br_provisioned := Some (not_ready ReasonProvisionPending (pending_message cp)),
        br_requeue := siRequeueHealthy\<rparr>)))"

definition ruleset_conflict_message :: string where
  "ruleset_conflict_message =
     ''the operator-owned Illumio ruleset has an unprovisioned pending deletion in the PCE; resolve it there (provision or revert the deletion) '' @
     map char_of [226::nat, 128, 148] @
     '' the operator will not override a pending change made in the PCE''"

definition ruleset_step ::
  "'w policy_client \<Rightarrow> cluster_profile \<Rightarrow> smap \<Rightarrow> string \<Rightarrow> string \<Rightarrow> owner \<Rightarrow> string list
   \<Rightarrow> string list \<Rightarrow> allows_state \<Rightarrow> backend_result \<Rightarrow> ('w, go_error + backend_result) state" where
  \<comment> \<open>reconcile the ruleset, then provision; \<open>base\<close> holds enforcement and label mode\<close>
  "ruleset_step pc cp annotations namespace crName ow scopeHrefs narrowHrefs s base = do {
     rsHref \<leftarrow> reconcileRuleSet pc crName namespace ow scopeHrefs narrowHrefs (as_out s);
     case rsHref of
       Inl e \<Rightarrow>
         if is_pending_deletion e then
           ret (Inr (base\<lparr>
             br_ready := Some (not_ready ReasonPCEStateConflict ruleset_conflict_message),
             br_requeue := siRequeueNotReady\<rparr>))
         else ret (Inl e)
     | Inr rsHref \<Rightarrow>
         provision_step pc cp annotations namespace crName rsHref
           (base\<lparr>br_deferred_labels := as_deferred s, br_created_labels := as_created s\<rparr>)
   }"

definition ReconcilePolicy ::
  "'w kube \<Rightarrow> (config \<Rightarrow> 'w policy_client) \<Rightarrow> string \<Rightarrow> string \<Rightarrow> string \<Rightarrow> smap \<Rightarrow> smap
   \<Rightarrow> compiled_allow list \<Rightarrow> ('w, go_error + backend_result) state" where
  "ReconcilePolicy k factory namespace crName uid annotations providerLabels allows = do {
     r \<leftarrow> resolveClusterProfile k namespace;
     case r of
       Inl transientErr \<Rightarrow> ret (Inl transientErr)
     | Inr None \<Rightarrow> ret (Inr (zero_result\<lparr>
         br_ready := Some (not_ready ReasonClusterProfileNotReady
           ''no Onboarded ClusterProfile / PCEConnection available''),
         br_requeue := siRequeueNotReady\<rparr>))
     | Inr (Some (cp, cfg, eds)) \<Rightarrow> do {
         enf \<leftarrow> namespace_enforcement k namespace cp;
         case enf of (effEnforcement, enfSetBy, nsAnnotations) \<Rightarrow>
         (case ResolveUnknownLabelMode (cps_unknown_label_mode (cp_spec cp)) nsAnnotations annotations of
            (mode, modeSetBy) \<Rightarrow>
         let pc = factory cfg; ow = \<lparr>ow_data_set = eds, ow_reference = uid\<rparr>;
             with_mode = zero_result\<lparr>br_unknown_label_mode := mode,
               br_unknown_label_mode_set_by := modeSetBy\<rparr>;
             with_enf = with_mode\<lparr>br_effective_enforcement := effEnforcement,
               br_enforcement_set_by := enfSetBy\<rparr>
         in do {
           provider \<leftarrow> resolveProvider k namespace cp pc;
           case provider of
             Inl e \<Rightarrow> ret (Inl e)
           | Inr (Inl (reason, msg)) \<Rightarrow> ret (Inr (zero_result\<lparr>
               br_ready := Some (not_ready reason msg), br_requeue := siRequeueHealthy\<rparr>))
           | Inr (Inr providerHrefs) \<Rightarrow> do {
               resolved \<leftarrow> resolveAllows pc allows mode ow;
               case resolved of
                 Inl e \<Rightarrow> ret (Inl e)
               | Inr (Inl (reason, msg)) \<Rightarrow> ret (Inr (with_mode\<lparr>
                   br_ready := Some (not_ready reason msg), br_requeue := siRequeueHealthy\<rparr>))
               | Inr (Inr s) \<Rightarrow> do {
                   narrow \<leftarrow> find_labels pc
                     (\<lambda>key value. ''provider label '' @ key @ ''='' @ value @ '' not in the PCE'')
                     providerLabels [];
                   case narrow of
                     Inl e \<Rightarrow> ret (Inl e)
                   | Inr (Inl (reason, msg)) \<Rightarrow> ret (Inr (with_mode\<lparr>
                       br_ready := Some (not_ready reason msg), br_requeue := siRequeueHealthy\<rparr>))
                   | Inr (Inr narrowHrefs) \<Rightarrow>
                       ruleset_step pc cp annotations namespace crName ow
                         providerHrefs narrowHrefs s with_enf
                 }
             }
         })
       }
   }"


subsection \<open>FinalizePolicy\<close>

definition finalize_ruleset ::
  "'w policy_client \<Rightarrow> rule_set \<Rightarrow> string \<Rightarrow> ('w, go_error option) state" where
  \<comment> \<open>mark the ruleset for deletion unless it is, then provision the deletion\<close>
  "finalize_ruleset pc rs desc = do {
     derr \<leftarrow> (if rs_update_type rs \<noteq> RuleSetUpdateTypeDelete
              then pc_delete_rule_set pc (rs_href rs) else ret None);
     if (case derr of Some e \<Rightarrow> \<not> is_not_found e | None \<Rightarrow> False) then ret derr
     else do {
       res \<leftarrow> pc_provision_rule_sets pc [rs_href rs] desc;
       case res of
         Inl perr \<Rightarrow> if \<not> is_not_found perr then ret (Some perr) else ret None
       | Inr _ \<Rightarrow> ret None
     }
   }"

definition FinalizePolicy ::
  "'w kube \<Rightarrow> (config \<Rightarrow> 'w policy_client) \<Rightarrow> string \<Rightarrow> string \<Rightarrow> ('w, go_error option) state" where
  "FinalizePolicy k factory namespace uid = do {
     r \<leftarrow> resolveClusterProfile k namespace;
     case r of
       Inl e \<Rightarrow> ret (Some e)
     | Inr None \<Rightarrow> ret None
     | Inr (Some (cp, cfg, eds)) \<Rightarrow>
         let pc = factory cfg; ow = \<lparr>ow_data_set = eds, ow_reference = uid\<rparr> in do {
           rs \<leftarrow> pc_find_rule_set_by_owner pc ow;
           case rs of
             Inl e \<Rightarrow> ret (Some e)
           | Inr None \<Rightarrow> ret None
           | Inr (Some rs) \<Rightarrow> finalize_ruleset pc rs (''delete '' @ namespace @ ''/'' @ uid)
         }
   }"

end
