(* ===== verification/Sim_World.thy ===== *)
theory Sim_World
  imports Policy_Backend
begin

section \<open>A small concrete world\<close>

text \<open>
  An executable PCE draft store and a one-namespace cluster. They are not part of the
  operator: they are the inputs at which the theorems about its parameters are instantiated.
  The namespace \<open>shop\<close> is managed by one onboarded profile, which assigns it \<open>app=shop\<close>.
\<close>

record sim =
  sim_labels :: "label list"
  sim_sets :: "rule_set list" \<comment> \<open>the draft rulesets\<close>
  sim_rules :: "(string \<times> sec_rule) list" \<comment> \<open>ruleset href and draft rule\<close>
  sim_provisioned :: "(string list \<times> string) list" \<comment> \<open>the provisioning requests, oldest first\<close>
  sim_next :: nat

abbreviation sim_fresh :: "string \<Rightarrow> sim \<Rightarrow> string" where
  \<comment> \<open>hrefs numbered in unary\<close>
  "sim_fresh p w \<equiv> p @ replicate (sim_next w) (CHR ''1'')"

definition sim_find_label :: "string \<Rightarrow> string \<Rightarrow> (sim, go_error + label) state" where
  "sim_find_label k v = State (\<lambda>w.
     (case List.find (\<lambda>l. lbl_key l = k \<and> lbl_value l = v) (sim_labels w) of
        Some l \<Rightarrow> Inr l | None \<Rightarrow> Inl ErrLabelNotFound, w))"

definition sim_ensure_label :: "string \<Rightarrow> string \<Rightarrow> owner \<Rightarrow> (sim, go_error + label) state" where
  "sim_ensure_label k v ow = State (\<lambda>w.
     case List.find (\<lambda>l. lbl_key l = k \<and> lbl_value l = v) (sim_labels w) of
       Some l \<Rightarrow> (Inr l, w)
     | None \<Rightarrow>
         (let l = \<lparr>lbl_href = sim_fresh ''/labels/'' w, lbl_key = k, lbl_value = v,
                   lbl_external_data_set = ow_data_set ow,
                   lbl_external_data_reference = k @ ''='' @ v\<rparr>
          in (Inr l, w\<lparr>sim_labels := sim_labels w @ [l], sim_next := Suc (sim_next w)\<rparr>)))"

definition sim_find_set :: "owner \<Rightarrow> (sim, go_error + rule_set option) state" where
  "sim_find_set ow = State (\<lambda>w.
     (Inr (List.find (\<lambda>r. rs_external_data_reference r = ow_reference ow \<and> ow_reference ow \<noteq> '''')
        (sim_sets w)), w))"

definition sim_create_set :: "rule_set \<Rightarrow> (sim, go_error + rule_set) state" where
  "sim_create_set rs = State (\<lambda>w.
     let rs = rs\<lparr>rs_href := sim_fresh ''/rule_sets/'' w\<rparr>
     in (Inr rs, w\<lparr>sim_sets := sim_sets w @ [rs], sim_next := Suc (sim_next w),
         sim_rules := filter (\<lambda>e. fst e \<noteq> rs_href rs) (sim_rules w)\<rparr>))"

definition sim_delete_set :: "string \<Rightarrow> (sim, go_error option) state" where
  "sim_delete_set h = State (\<lambda>w.
     if h \<in> set (map rs_href (sim_sets w)) then
       (None, w\<lparr>sim_sets := map (\<lambda>r. if rs_href r = h
                  then r\<lparr>rs_update_type := RuleSetUpdateTypeDelete\<rparr> else r) (sim_sets w)\<rparr>)
     else (Some (APIError 404 ''''), w))"

definition sim_list_rules :: "string \<Rightarrow> (sim, go_error + sec_rule list) state" where
  "sim_list_rules h = State (\<lambda>w. (Inr (map snd (filter (\<lambda>e. fst e = h) (sim_rules w))), w))"

definition sim_create_rule :: "string \<Rightarrow> sec_rule \<Rightarrow> (sim, go_error + sec_rule) state" where
  "sim_create_rule h r = State (\<lambda>w.
     let r = r\<lparr>sr_href := sim_fresh (h @ ''/sec_rules/'') w\<rparr>
     in (Inr r, w\<lparr>sim_rules := sim_rules w @ [(h, r)], sim_next := Suc (sim_next w)\<rparr>))"

definition sim_delete_rule :: "string \<Rightarrow> (sim, go_error option) state" where
  "sim_delete_rule h = State (\<lambda>w.
     (None, w\<lparr>sim_rules := filter (\<lambda>e. sr_href (snd e) \<noteq> h) (sim_rules w)\<rparr>))"

definition sim_provision :: "string list \<Rightarrow> string \<Rightarrow> (sim, go_error + provision_result) state" where
  "sim_provision hs desc = State (\<lambda>w.
     (Inr \<lparr>pr_href = '''', pr_version = 1, pr_workloads_affected = 3\<rparr>,
      w\<lparr>sim_provisioned := sim_provisioned w @ [(hs, desc)]\<rparr>))"

definition sim_client :: "sim policy_client" where
  "sim_client =
     \<lparr>pc_find_label = sim_find_label,
      pc_ensure_label = sim_ensure_label,
      pc_find_service_by_name = (\<lambda>n. ret (Inr (Some \<lparr>svc_href = ''/services/1'', svc_name = n\<rparr>))),
      pc_find_rule_set_by_owner = sim_find_set,
      pc_create_rule_set = sim_create_set,
      pc_delete_rule_set = sim_delete_set,
      pc_list_rules = sim_list_rules,
      pc_create_rule = sim_create_rule,
      pc_delete_rule = sim_delete_rule,
      pc_provision_rule_sets = sim_provision\<rparr>"

lemmas sim_ops =
  sim_find_label_def sim_ensure_label_def sim_find_set_def sim_create_set_def sim_delete_set_def
  sim_list_rules_def sim_create_rule_def sim_delete_rule_def sim_provision_def sim_client_def


subsection \<open>The cluster\<close>

definition sim_meta :: "string \<Rightarrow> object_meta" where
  "sim_meta n = \<lparr>om_name = n, om_namespace = '''', om_uid = ''uid-'' @ n, om_generation = 1,
     om_labels = [], om_annotations = [], om_finalizers = [], om_deleting = False\<rparr>"

definition sim_profile :: "string \<Rightarrow> cluster_profile" where
  \<comment> \<open>a profile with the given provisioning mode\<close>
  "sim_profile mode =
     \<lparr>cp_meta = sim_meta ''profile'',
      cp_spec = \<lparr>cps_pce_connection_ref = ''pce'',
        cps_onboarding = \<lparr>ob_mode = ''create'', ob_container_cluster_name = ''k8s'',
          ob_credentials_output_secret = ''out'',
          ob_node_pairing_profile = \<lparr>npp_existing_name = '''', npp_labels = [], npp_enforcement_mode = ''''\<rparr>\<rparr>,
        cps_provisioning_mode = mode, cps_policy_scope_labels = [], cps_unknown_label_mode = '''',
        cps_system_namespaces = \<lparr>sns_manage = False, sns_patterns = [], sns_labels = [],
          sns_enforcement_mode = ''''\<rparr>,
        cps_namespace_rules = [\<lparr>nr_match = \<lparr>nm_name_pattern = ''sh*'', nm_labels = []\<rparr>,
          nr_managed = True,
          nr_assign_labels = [(''app'', \<lparr>la_value = ''shop'', la_from_namespace_label = ''''\<rparr>)],
          nr_enforcement_mode = ''''\<rparr>]\<rparr>,
      cp_status = \<lparr>cpst_conditions = [new_condition ConditionOnboarded ConditionTrue '''' ''''],
        cpst_container_cluster_href = '''', cpst_container_cluster_id = '''',
        cpst_managed_namespaces = 0, cpst_observed_generation = 1\<rparr>\<rparr>"

definition sim_connection :: pce_connection where
  "sim_connection =
     \<lparr>conn_meta = sim_meta ''pce'',
      conn_spec = \<lparr>pcs_pce_url = ''pce'', pcs_org_id = 1,
        pcs_credentials_secret_ref = \<lparr>secref_name = ''creds'', secref_namespace = ''ops''\<rparr>,
        pcs_external_data_set = ''''\<rparr>,
      conn_status = \<lparr>pcst_conditions = [new_condition ConditionConnected ConditionTrue '''' ''''],
        pcst_observed_generation = 1\<rparr>\<rparr>"

fun sim_find_condition :: "condition list \<Rightarrow> string \<Rightarrow> condition option" where
  "sim_find_condition cs t = List.find (\<lambda>c. c_type c = t) cs"

definition sim_set_condition :: "condition list \<Rightarrow> condition \<Rightarrow> condition list" where
  "sim_set_condition cs c = filter (\<lambda>d. c_type d \<noteq> c_type c) cs @ [c]"

definition sim_kube :: "cluster_profile list \<Rightarrow> object_meta list \<Rightarrow> seg_intent list \<Rightarrow> seg_policy list \<Rightarrow> 'w kube" where
  \<comment> \<open>a cluster whose objects do not change\<close>
  "sim_kube profiles namespaces intents policies =
     \<lparr>k_get_namespace = (\<lambda>n. ret (case List.find (\<lambda>m. om_name m = n) namespaces of
        Some m \<Rightarrow> Inr m | None \<Rightarrow> Inl (KubeNotFound n))),
      k_list_namespaces = ret (Inr namespaces),
      k_list_profiles = ret (Inr profiles),
      k_get_profile = (\<lambda>n. ret (case List.find (\<lambda>p. om_name (cp_meta p) = n) profiles of
        Some p \<Rightarrow> Inr p | None \<Rightarrow> Inl (KubeNotFound n))),
      k_get_connection = (\<lambda>n. ret (if n = ''pce'' then Inr sim_connection else Inl (KubeNotFound n))),
      k_get_secret = (\<lambda>n ns. ret (if n = ''creds'' \<and> ns = ''ops''
        then Inr [(''api_key'', ''k''), (''api_secret'', ''s'')] else Inl (KubeNotFound n))),
      k_list_intents = (\<lambda>_. ret (Inr intents)),
      k_list_policies = (\<lambda>_. ret (Inr policies)),
      k_get_intent = (\<lambda>ns n. ret (case List.find (\<lambda>i. om_name (si_meta i) = n) intents of
        Some i \<Rightarrow> Inr i | None \<Rightarrow> Inl (KubeNotFound n))),
      k_get_policy = (\<lambda>ns n. ret (case List.find (\<lambda>p. om_name (sp_meta p) = n) policies of
        Some p \<Rightarrow> Inr p | None \<Rightarrow> Inl (KubeNotFound n))),
      k_update_intent = (\<lambda>i. ret (Inr i)), k_update_policy = (\<lambda>p. ret (Inr p)),
      k_status_intent = (\<lambda>_. ret None), k_status_policy = (\<lambda>_. ret None),
      k_status_connection = (\<lambda>_. ret None), k_status_profile = (\<lambda>p. ret (Inr p)),
      k_get_insight = (\<lambda>ns n. ret (Inl (KubeNotFound n))), k_status_insight = (\<lambda>_. ret None),
      k_get_rule_view = (\<lambda>ns n. ret (Inl (KubeNotFound n))), k_status_rule_view = (\<lambda>_. ret None),
      k_put_secret = (\<lambda>_ _ _. ret None), k_list_label_maps = ret (Inr []),
      k_event = (\<lambda>_ _ _. ret ()), k_now = ret 0,
      k_set_condition = sim_set_condition, k_find_condition = sim_find_condition,
      k_condition_true = (\<lambda>cs t. case sim_find_condition cs t of
        Some c \<Rightarrow> c_status c = ConditionTrue | None \<Rightarrow> False),
      k_contains_finalizer = (\<lambda>m f. f \<in> set (om_finalizers m)),
      k_add_finalizer = (\<lambda>m f. if f \<in> set (om_finalizers m) then (m, False)
        else (m\<lparr>om_finalizers := om_finalizers m @ [f]\<rparr>, True)),
      k_remove_finalizer = (\<lambda>m f. m\<lparr>om_finalizers := filter (\<lambda>g. g \<noteq> f) (om_finalizers m)\<rparr>)\<rparr>"

definition sim_world :: sim where
  "sim_world =
     \<lparr>sim_labels = [\<lparr>lbl_href = ''/labels/app'', lbl_key = ''app'', lbl_value = ''shop'',
        lbl_external_data_set = '''', lbl_external_data_reference = ''''\<rparr>],
      sim_sets = [], sim_rules = [], sim_provisioned = [], sim_next = 1\<rparr>"

definition sim_cluster :: "string \<Rightarrow> 'w kube" where
  "sim_cluster mode = sim_kube [sim_profile mode] [sim_meta ''shop''] [] []"

lemma sim_kube_reads_keep: "kube_reads_keep P (sim_kube cps nss is ps)"
  by (simp add: kube_reads_keep_def sim_kube_def)

lemma sim_kube_writes_keep: "kube_writes_keep P (sim_kube cps nss is ps)"
  by (simp add: kube_writes_keep_def sim_kube_def)

lemma sim_finalizer_laws: "finalizer_laws (sim_kube cps nss is ps)"
  by (auto simp: finalizer_laws_def sim_kube_def)

lemma sim_condition_laws: "condition_laws (sim_kube cps nss is ps)"
proof -
  have find: "List.find p (filter q xs) = List.find p xs" if "\<And>x. p x \<Longrightarrow> q x" for p q and xs :: "condition list"
    using that by (induction xs) auto
  have app: "List.find p (xs @ [c]) = (case List.find p xs of None \<Rightarrow> if p c then Some c else None | s \<Rightarrow> s)"
    for p c and xs :: "condition list"
    by (induction xs) auto
  show ?thesis
    by (auto simp: condition_laws_def sim_kube_def sim_set_condition_def app find
        dest!: find_SomeD split: option.split)
qed

definition run_policy :: "string \<Rightarrow> smap \<Rightarrow> compiled_allow list \<Rightarrow> (go_error + backend_result) \<times> sim" where
  \<comment> \<open>one reconcile of the resource \<open>r\<close> in \<open>shop\<close>\<close>
  "run_policy mode annotations allows =
     run_state (ReconcilePolicy (sim_cluster mode) (\<lambda>_. sim_client) ''shop'' ''r'' ''uid-r''
       annotations [] allows) sim_world"

end
