(* ===== verification/Policy_Draft.thy ===== *)
theory Policy_Draft
  imports Sim_World
begin

section \<open>The draft a reconcile leaves behind\<close>

text \<open>
  The functional behaviour of \<open>reconcileRuleSet\<close>, of the pending-deletion guard and of the
  finalizer, against a PCE whose draft rules are observed by a \<open>view\<close>: ruleset href to the
  list of its rules. \<open>draft_rules_laws\<close> is what the REST API documents of the five calls
  involved.
\<close>

definition same_rule :: "sec_rule \<Rightarrow> sec_rule \<Rightarrow> bool" where
  \<comment> \<open>equal up to the href the PCE assigns\<close>
  "same_rule r r' \<longleftrightarrow> r\<lparr>sr_href := ''''\<rparr> = r'\<lparr>sr_href := ''''\<rparr>"

definition draft_rules_laws :: "'w policy_client \<Rightarrow> ('w \<Rightarrow> string \<Rightarrow> sec_rule list) \<Rightarrow> bool" where
  "draft_rules_laws pc view \<longleftrightarrow>
     (\<forall>w h r w'. run_state (pc_list_rules pc h) w = (Inr r, w') \<longrightarrow> r = view w h \<and> view w' = view w) \<and>
     (\<forall>w h w'. run_state (pc_delete_rule pc h) w = (None, w') \<longrightarrow>
        view w' = (\<lambda>s. filter (\<lambda>r. sr_href r \<noteq> h) (view w s))) \<and>
     (\<forall>w h r r' w'. run_state (pc_create_rule pc h r) w = (Inr r', w') \<longrightarrow>
        same_rule r r' \<and> view w' = (view w)(h := view w h @ [r'])) \<and>
     (\<forall>w rs rs' w'. run_state (pc_create_rule_set pc rs) w = (Inr rs', w') \<longrightarrow>
        view w' = (view w)(rs_href rs' := [])) \<and>
     (\<forall>w n r w'. run_state (pc_find_service_by_name pc n) w = (r, w') \<longrightarrow> view w' = view w) \<and>
     (\<forall>w ow r w'. run_state (pc_find_rule_set_by_owner pc ow) w = (r, w') \<longrightarrow> view w' = view w)"

lemma draft_rules_lawsD:
  assumes "draft_rules_laws pc view"
  shows "run_state (pc_list_rules pc h) w = (Inr rs, w') \<Longrightarrow> rs = view w h \<and> view w' = view w"
    and "run_state (pc_delete_rule pc h) w = (None, w') \<Longrightarrow>
      view w' = (\<lambda>s. filter (\<lambda>r. sr_href r \<noteq> h) (view w s))"
    and "run_state (pc_create_rule pc h r) w = (Inr r', w') \<Longrightarrow>
      same_rule r r' \<and> view w' = (view w)(h := view w h @ [r'])"
    and "run_state (pc_create_rule_set pc q) w = (Inr q', w') \<Longrightarrow>
      view w' = (view w)(rs_href q' := [])"
    and "run_state (pc_find_service_by_name pc n) w = (x, w') \<Longrightarrow> view w' = view w"
    and "run_state (pc_find_rule_set_by_owner pc ow) w = (y, w') \<Longrightarrow> view w' = view w"
  using assms unfolding draft_rules_laws_def by metis+


subsection \<open>Emptying and rebuilding\<close>

lemma delete_rules_view:
  assumes "draft_rules_laws pc view"
  shows "run_state (delete_rules pc rules) w = (None, w') \<Longrightarrow>
    view w' s = filter (\<lambda>r. sr_href r \<notin> sr_href ` set rules) (view w s)"
proof (induction rules arbitrary: w)
  case Nil
  then show ?case by simp
next
  case (Cons r rules)
  obtain d w1 where run: "run_state (pc_delete_rule pc (sr_href r)) w = (d, w1)" by fastforce
  with Cons.prems have "d = None" and rest: "run_state (delete_rules pc rules) w1 = (None, w')"
    by (auto split: option.splits)
  with run have "view w1 = (\<lambda>s. filter (\<lambda>q. sr_href q \<noteq> sr_href r) (view w s))"
    by (simp add: draft_rules_lawsD(2) [OF assms])
  with Cons.IH [OF rest] show ?case by (simp add: conj_commute)
qed

lemma create_rules_view:
  assumes "draft_rules_laws pc view"
  shows "run_state (create_rules pc h rules) w = (None, w') \<Longrightarrow>
    \<exists>new. list_all2 same_rule rules new \<and> view w' = (view w)(h := view w h @ new)"
proof (induction rules arbitrary: w)
  case Nil
  then show ?case by (simp add: fun_eq_iff)
next
  case (Cons r rules)
  obtain d w1 where run: "run_state (pc_create_rule pc h r) w = (d, w1)" by fastforce
  with Cons.prems obtain r' where d: "d = Inr r'"
    and rest: "run_state (create_rules pc h rules) w1 = (None, w')"
    by (auto split: sum.splits)
  from run have "same_rule r r'" "view w1 = (view w)(h := view w h @ [r'])"
    unfolding d using draft_rules_lawsD(3) [OF assms] by blast+
  moreover obtain new where "list_all2 same_rule rules new" "view w' = (view w1)(h := view w1 h @ new)"
    using Cons.IH [OF rest] by blast
  ultimately show ?case by (intro exI [of _ "r' # new"]) simp
qed

lemma all_services_href_view:
  assumes "draft_rules_laws pc view" "run_state (all_services_href pc resolved) w = (r, w')"
  shows "view w' = view w"
proof (cases "list_ex (\<lambda>a. length (ra_ports a) = 0) resolved")
  case True
  obtain s w1 where run: "run_state (pc_find_service_by_name pc AllServicesName) w = (s, w1)" by fastforce
  with assms(2) True have "w1 = w'"
    by (auto simp: all_services_href_def split: sum.splits option.splits)
  with run show ?thesis using draft_rules_lawsD(5) [OF assms(1)] by blast
qed (use assms in \<open>simp add: all_services_href_def\<close>)

lemma clear_or_create_view:
  assumes laws: "draft_rules_laws pc view"
    and run: "run_state (clear_or_create pc existing rs) w = (Inr h, w')"
  shows "view w' h = []" and "set (view w' s) \<subseteq> set (view w s)"
    and "(\<forall>r \<in> set (view w s). sr_href r \<notin> sr_href ` set (view w h)) \<Longrightarrow> s \<noteq> h \<Longrightarrow> view w' s = view w s"
proof -
  consider (new) q :: rule_set where "view w' = (view w)(h := [])" "h = rs_href q"
    | (old) "view w' = (\<lambda>s. filter (\<lambda>r. sr_href r \<notin> sr_href ` set (view w h)) (view w s))"
  proof (cases existing)
    case None
    obtain q w1 where "run_state (pc_create_rule_set pc rs) w = (q, w1)" by fastforce
    with run None obtain rs' where "run_state (pc_create_rule_set pc rs) w = (Inr rs', w')" "h = rs_href rs'"
      by (auto simp: clear_or_create_def split: sum.splits)
    with draft_rules_lawsD(4) [OF laws] show ?thesis by (metis new)
  next
    case (Some ex)
    obtain rules w1 where list: "run_state (pc_list_rules pc (rs_href ex)) w = (rules, w1)" by fastforce
    with run Some obtain rl where rl: "rules = Inr rl" "h = rs_href ex"
      and del: "run_state (delete_rules pc rl) w1 = (None, w')"
      by (auto simp: clear_or_create_def split: sum.splits option.splits prod.splits)
    then have "rl = view w h" "view w1 = view w"
      using draft_rules_lawsD(1) [OF laws] list by blast+
    with delete_rules_view [OF laws del] show ?thesis by (intro old) auto
  qed
  note cases = this
  show "view w' h = []" by (cases rule: cases) auto
  show "set (view w' s) \<subseteq> set (view w s)" by (cases rule: cases) auto
  show "view w' s = view w s" if "\<forall>r \<in> set (view w s). sr_href r \<notin> sr_href ` set (view w h)" "s \<noteq> h"
    using that by (cases rule: cases) auto
qed

lemma reconcileRuleSet_view:
  assumes laws: "draft_rules_laws pc view"
    and run: "run_state (reconcileRuleSet pc cr ns ow scopes narrow resolved) w = (Inr h, w')"
  shows "\<exists>svc w1 w2. run_state (all_services_href pc resolved) w1 = (Inr svc, w2) \<and>
      list_all2 same_rule (BuildRules narrow svc resolved) (view w' h) \<and>
      (\<forall>s. s \<noteq> h \<and> sr_href ` set (view w s) \<inter> sr_href ` set (view w h) = {} \<longrightarrow> view w' s = view w s)"
proof -
  obtain ex w1 where find: "run_state (pc_find_rule_set_by_owner pc ow) w = (ex, w1)" by fastforce
  from run find obtain existing w2 where
    clear: "run_state (clear_or_create pc existing (BuildRuleSet ns cr scopes ow)) w1 = (Inr h, w2)"
    and rest: "run_state (do {
               svcHref \<leftarrow> all_services_href pc resolved;
               case svcHref of
                 Inl e \<Rightarrow> ret (Inl e)
               | Inr svcHref \<Rightarrow> do {
                   cerr \<leftarrow> create_rules pc h (BuildRules narrow svcHref resolved);
                   case cerr of Some e \<Rightarrow> ret (Inl e) | None \<Rightarrow> ret (Inr h)
                 } }) w2 = (Inr h, w')"
    by (auto simp: reconcileRuleSet_def split: sum.splits if_splits prod.splits option.splits)
  from rest obtain svc w3 where svc: "run_state (all_services_href pc resolved) w2 = (Inr svc, w3)"
    and create: "run_state (create_rules pc h (BuildRules narrow svc resolved)) w3 = (None, w')"
    by (auto split: sum.splits prod.splits option.splits)
  have w1: "view w1 = view w" using draft_rules_lawsD(6) [OF laws find] .
  have w3: "view w3 = view w2" using all_services_href_view [OF laws svc] .
  obtain new where new: "list_all2 same_rule (BuildRules narrow svc resolved) new"
    "view w' = (view w2)(h := view w2 h @ new)"
    using create_rules_view [OF laws create] unfolding w3 by blast
  have "view w' h = new" using new(2) clear_or_create_view(1) [OF laws clear] by simp
  moreover have "view w' s = view w s"
    if "s \<noteq> h" "sr_href ` set (view w s) \<inter> sr_href ` set (view w h) = {}" for s
    using new(2) clear_or_create_view(3) [OF laws clear, of s] that unfolding w1 by auto
  ultimately show ?thesis using new(1) svc by blast
qed

subsection \<open>Properties\<close>

text \<open>
  C7: A successful reconcile of the ruleset leaves in it exactly the rules built from the
  resolved allows, in order and whatever rules it held before, and every ruleset that
  shares no rule href with it keeps its rules. The all-ports service is one that the lookup
  of the built-in service returned.
\<close>
theorem reconcileRuleSet_rebuilds:
  assumes "draft_rules_laws pc view"
    and "run_state (reconcileRuleSet pc crName namespace ow scopes narrow resolved) w = (Inr h, w')"
  shows "\<exists>svc w1 w2. run_state (all_services_href pc resolved) w1 = (Inr svc, w2) \<and>
      list_all2 same_rule (BuildRules narrow svc resolved) (view w' h) \<and>
      (\<forall>s. s \<noteq> h \<and> sr_href ` set (view w s) \<inter> sr_href ` set (view w h) = {} \<longrightarrow> view w' s = view w s)"
  by (rule reconcileRuleSet_view [OF assms])

definition sim_view :: "sim \<Rightarrow> string \<Rightarrow> sec_rule list" where
  "sim_view w h = map snd (filter (\<lambda>e. fst e = h) (sim_rules w))"

lemma sim_draft_rules_laws: "draft_rules_laws sim_client sim_view"
  unfolding draft_rules_laws_def
  by (auto simp: sim_ops sim_view_def fun_eq_iff Let_def same_rule_def filter_map o_def
      conj_commute intro!: arg_cong [where f = "map snd"] filter_cong)

theorem reconcileRuleSet_rebuilds_witness:
  "let w = snd (run_policy ''auto'' [] []);
       (r, w') = run_state (reconcileRuleSet sim_client ''r'' ''shop'' \<lparr>ow_data_set = '''', ow_reference = ''uid-r''\<rparr>
         [] [] [\<lparr>ra_consumer_hrefs = [''/l/1''], ra_all_workloads = False, ra_intra_scope = False,
                 ra_ports = [\<lparr>is_proto = 6, is_port = 80, is_href = ''''\<rparr>]\<rparr>]) w
   in r = Inr ''/rule_sets/1'' \<and> length (sim_view w' ''/rule_sets/1'') = 1"
proof -
  define w where "w = snd (run_policy ''auto'' [] [])"
  let ?allow = "\<lparr>ra_consumer_hrefs = [''/l/1''], ra_all_workloads = False, ra_intra_scope = False,
                 ra_ports = [\<lparr>is_proto = 6, is_port = 80, is_href = ''''\<rparr>]\<rparr>"
  let ?run = "run_state (reconcileRuleSet sim_client ''r'' ''shop'' \<lparr>ow_data_set = '''', ow_reference = ''uid-r''\<rparr>
         [] [] [?allow]) w"
  obtain r w' where run: "?run = (r, w')" by fastforce
  have "fst ?run = Inr ''/rule_sets/1''" unfolding w_def by code_simp
  with run have r: "r = Inr ''/rule_sets/1''" by simp
  obtain svc where "list_all2 same_rule (BuildRules [] svc [?allow]) (sim_view w' ''/rule_sets/1'')"
    using reconcileRuleSet_rebuilds [OF sim_draft_rules_laws run [unfolded r]] by blast
  then have "length (sim_view w' ''/rule_sets/1'') = 1"
    by (auto simp: BuildRules_def Let_def dest!: list_all2_lengthD)
  then show ?thesis unfolding Let_def w_def [symmetric] run r by simp
qed

text \<open>
  An owned ruleset with an unprovisioned pending deletion is left alone: the reconcile
  makes no further PCE call, reports \<open>Ready=False\<close> with \<open>PCEStateConflict\<close>, claims nothing
  about provisioning and looks again after thirty seconds.
\<close>
theorem pending_deletion_deferred:
  assumes "run_state (pc_find_rule_set_by_owner pc ow) w = (Inr (Some rs), w')"
    and "rs_update_type rs = RuleSetUpdateTypeDelete"
  shows "run_state (ruleset_step pc cp annotations namespace crName ow scopes narrow s base) w =
    (Inr (base\<lparr>br_ready := Some (not_ready ReasonPCEStateConflict ruleset_conflict_message),
               br_requeue := 30 * second\<rparr>), w')"
  using assms by (simp add: ruleset_step_def reconcileRuleSet_def siRequeueNotReady_def)

theorem pending_deletion_deferred_witness:
  "let rs = (BuildRuleSet ''shop'' ''r'' [] \<lparr>ow_data_set = '''', ow_reference = ''u''\<rparr>)
              \<lparr>rs_href := ''/rs'', rs_update_type := ''delete''\<rparr>;
       w = sim_world\<lparr>sim_sets := [rs]\<rparr>
   in snd (run_state (ruleset_step sim_client (sim_profile ''auto'') [] ''shop'' ''r''
        \<lparr>ow_data_set = '''', ow_reference = ''u''\<rparr> [] [] \<lparr>as_out = [], as_deferred = [], as_created = []\<rparr>
        zero_result) w) = w"
proof -
  let ?rs = "(BuildRuleSet ''shop'' ''r'' [] \<lparr>ow_data_set = '''', ow_reference = ''u''\<rparr>)
              \<lparr>rs_href := ''/rs'', rs_update_type := ''delete''\<rparr>"
  let ?w = "sim_world\<lparr>sim_sets := [?rs]\<rparr>"
  have "run_state (pc_find_rule_set_by_owner sim_client \<lparr>ow_data_set = '''', ow_reference = ''u''\<rparr>) ?w =
      (Inr (Some ?rs), ?w)"
    by (simp add: sim_client_def sim_find_set_def BuildRuleSet_def)
  from pending_deletion_deferred [OF this] show ?thesis
    unfolding Let_def by (simp add: RuleSetUpdateTypeDelete_def)
qed

text \<open>
  The finalizer succeeds exactly when the ruleset is gone from the PCE or its deletion
  was provisioned: it never deletes a ruleset that is already pending deletion, and takes a
  404 of either call for success.
\<close>
theorem finalize_ruleset_result:
  "fst (run_state (finalize_ruleset pc rs desc) w) = None \<longleftrightarrow>
     (let gone = (\<lambda>e. case e of None \<Rightarrow> True | Some e \<Rightarrow> is_not_found e);
          (deleted, w1) = (if rs_update_type rs = RuleSetUpdateTypeDelete then (None, w)
                           else run_state (pc_delete_rule_set pc (rs_href rs)) w);
          (provisioned, w2) = run_state (pc_provision_rule_sets pc [rs_href rs] desc) w1
      in gone deleted \<and> gone (case provisioned of Inl e \<Rightarrow> Some e | Inr _ \<Rightarrow> None))"
  by (auto simp: finalize_ruleset_def Let_def split: prod.splits option.splits sum.splits if_splits)

end
