(* ===== verification/Policy_Frame.thy ===== *)
theory Policy_Frame
  imports Sim_World
begin

section \<open>What a policy reconcile may touch\<close>

text \<open>
  Frame properties of \<open>ReconcilePolicy\<close> and \<open>FinalizePolicy\<close>: the calls they may make, and
  with which arguments. They are stated for an arbitrary invariant \<open>P\<close> of the world: if the
  calls of the footprint keep \<open>P\<close>, the whole handler keeps it, so a call outside the
  footprint is never made. \<open>owned\<close> describes the hrefs of the rulesets that carry the
  resource's owner reference, \<open>own_rule\<close> those of their rules.
\<close>

definition client_reads_keep :: "('w \<Rightarrow> bool) \<Rightarrow> 'w policy_client \<Rightarrow> bool" where
  "client_reads_keep P pc \<longleftrightarrow>
     (\<forall>k v. keeps P (pc_find_label pc k v)) \<and>
     (\<forall>n. keeps P (pc_find_service_by_name pc n)) \<and>
     (\<forall>ow. keeps P (pc_find_rule_set_by_owner pc ow)) \<and>
     (\<forall>h. keeps P (pc_list_rules pc h))"

definition draft_footprint ::
  "('w \<Rightarrow> bool) \<Rightarrow> (string \<Rightarrow> bool) \<Rightarrow> (string \<Rightarrow> bool) \<Rightarrow> 'w policy_client \<Rightarrow> string \<Rightarrow> string \<Rightarrow> owner \<Rightarrow> bool" where
  "draft_footprint P owned own_rule pc namespace crName ow \<longleftrightarrow>
     client_reads_keep P pc \<and>
     hoare P (pc_find_rule_set_by_owner pc ow)
       (\<lambda>r w. P w \<and> (\<forall>rs. r = Inr (Some rs) \<longrightarrow> owned (rs_href rs))) \<and>
     (\<forall>hs. hoare P (pc_create_rule_set pc (BuildRuleSet namespace crName hs ow))
             (\<lambda>r w. P w \<and> (\<forall>rs. r = Inr rs \<longrightarrow> owned (rs_href rs)))) \<and>
     (\<forall>h. owned h \<longrightarrow>
        hoare P (pc_list_rules pc h)
          (\<lambda>r w. P w \<and> (\<forall>rules. r = Inr rules \<longrightarrow> list_all (own_rule \<circ> sr_href) rules))) \<and>
     (\<forall>h. own_rule h \<longrightarrow> keeps P (pc_delete_rule pc h)) \<and>
     (\<forall>h r. owned h \<longrightarrow> keeps P (pc_create_rule pc h r)) \<and>
     (\<forall>k v. autoCreatableKey k \<longrightarrow> keeps P (pc_ensure_label pc k v ow))"

lemma client_reads_keepD [keeps]:
  "client_reads_keep P pc \<Longrightarrow> keeps P (pc_find_label pc k v)"
  "client_reads_keep P pc \<Longrightarrow> keeps P (pc_find_service_by_name pc n)"
  "client_reads_keep P pc \<Longrightarrow> keeps P (pc_find_rule_set_by_owner pc ow)"
  "client_reads_keep P pc \<Longrightarrow> keeps P (pc_list_rules pc h)"
  by (simp_all add: client_reads_keep_def)

lemma draft_footprintD:
  "draft_footprint P owned own_rule pc ns cr ow \<Longrightarrow> client_reads_keep P pc"
  "draft_footprint P owned own_rule pc ns cr ow \<Longrightarrow>
     hoare P (pc_find_rule_set_by_owner pc ow)
       (\<lambda>r w. P w \<and> (\<forall>rs. r = Inr (Some rs) \<longrightarrow> owned (rs_href rs)))"
  "draft_footprint P owned own_rule pc ns cr ow \<Longrightarrow>
     hoare P (pc_create_rule_set pc (BuildRuleSet ns cr hs ow))
             (\<lambda>r w. P w \<and> (\<forall>rs. r = Inr rs \<longrightarrow> owned (rs_href rs)))"
  "draft_footprint P owned own_rule pc ns cr ow \<Longrightarrow> owned h \<Longrightarrow>
     hoare P (pc_list_rules pc h)
       (\<lambda>r w. P w \<and> (\<forall>rules. r = Inr rules \<longrightarrow> list_all (own_rule \<circ> sr_href) rules))"
  "draft_footprint P owned own_rule pc ns cr ow \<Longrightarrow> own_rule h \<Longrightarrow> keeps P (pc_delete_rule pc h)"
  "draft_footprint P owned own_rule pc ns cr ow \<Longrightarrow> owned h \<Longrightarrow> keeps P (pc_create_rule pc h r)"
  "draft_footprint P owned own_rule pc ns cr ow \<Longrightarrow> autoCreatableKey k \<Longrightarrow>
     keeps P (pc_ensure_label pc k v ow)"
  by (simp_all add: draft_footprint_def)


subsection \<open>The profile the reconcile uses\<close>

definition profile_usable :: "'w kube \<Rightarrow> object_meta \<Rightarrow> cluster_profile \<Rightarrow> bool" where
  "profile_usable k ns cp \<longleftrightarrow>
     k_condition_true k (cpst_conditions (cp_status cp)) ConditionOnboarded \<and>
     d_managed (ComputeDesiredCWP (om_name ns) (om_labels ns) (om_annotations ns)
       (cps_namespace_rules (cp_spec cp)) (cps_system_namespaces (cp_spec cp)))"

lemma usable_profile_returns:
  "returns (usable_profile k ns cps)
     (\<lambda>r. \<forall>cp cfg eds. r = Inr (Some (cp, cfg, eds)) \<longrightarrow>
        cp \<in> set cps \<and> profile_usable k ns cp \<and>
        cfg_api_key cfg \<noteq> '''' \<and> cfg_api_secret cfg \<noteq> '''' \<and> eds \<noteq> '''')"
proof (induction cps)
  case Nil
  then show ?case by (auto intro!: hoare)
next
  case (Cons cp cps)
  note rest = hoare_post [OF Cons.IH]
  show ?case
    by (auto intro!: hoare returns_bind rest simp: profile_usable_def defaultExternalDataSet_def
        split: if_splits)
qed

lemma keeps_usable_profile [keeps]:
  "kube_reads_keep P k \<Longrightarrow> keeps P (usable_profile k ns cps)"
  by (induction cps) (auto intro!: keeps)

lemma keeps_resolveClusterProfile [keeps]:
  "kube_reads_keep P k \<Longrightarrow> keeps P (resolveClusterProfile k nsName)"
  unfolding resolveClusterProfile_def by (intro keeps) simp_all

lemma resolveClusterProfile_returns:
  assumes "returns (k_list_profiles k) (\<lambda>r. \<forall>items. r = Inr items \<longrightarrow> list_all G items)"
  shows "returns (resolveClusterProfile k nsName)
     (\<lambda>r. \<forall>cp cfg eds. r = Inr (Some (cp, cfg, eds)) \<longrightarrow> G cp)"
  unfolding resolveClusterProfile_def
  by (auto intro!: hoare returns_bind returns_bind_val [OF assms]
      hoare_post [OF usable_profile_returns] split: sum.split option.split simp: list_all_iff)

subsection \<open>Reads\<close>

lemma keeps_EffectiveEnforcement [keeps]:
  "kube_reads_keep P k \<Longrightarrow> keeps P (EffectiveEnforcement k ns baseline)"
  unfolding EffectiveEnforcement_def by (intro keeps) simp_all

lemma keeps_namespace_enforcement [keeps]:
  "kube_reads_keep P k \<Longrightarrow> keeps P (namespace_enforcement k ns cp)"
  unfolding namespace_enforcement_def by (intro keeps) simp_all

lemma keeps_find_labels [keeps]:
  "client_reads_keep P pc \<Longrightarrow> keeps P (find_labels pc msg labels hrefs)"
  by (induction labels arbitrary: hrefs) (auto intro!: keeps)

lemma keeps_resolveProvider [keeps]:
  "kube_reads_keep P k \<Longrightarrow> client_reads_keep P pc \<Longrightarrow> keeps P (resolveProvider k ns cp pc)"
  unfolding resolveProvider_def Let_def by (intro keeps) simp_all

lemma keeps_all_services_href [keeps]:
  "client_reads_keep P pc \<Longrightarrow> keeps P (all_services_href pc resolved)"
  unfolding all_services_href_def by (intro keeps) simp_all


subsection \<open>Consumer labels\<close>

lemma keeps_resolve_from:
  assumes "client_reads_keep P pc"
    and "mode = UnknownLabelCreate \<Longrightarrow>
      \<forall>k v. autoCreatableKey k \<longrightarrow> keeps P (pc_ensure_label pc k v ow)"
  shows "keeps P (resolve_from pc mode ow labels s)"
  using assms
  by (induction labels arbitrary: s) (auto intro!: keeps simp: Let_def)

lemma keeps_resolve_allows:
  assumes "client_reads_keep P pc"
    and "mode = UnknownLabelCreate \<Longrightarrow>
      \<forall>k v. autoCreatableKey k \<longrightarrow> keeps P (pc_ensure_label pc k v ow)"
  shows "keeps P (resolveAllows pc allows mode ow)"
proof -
  have "keeps P (resolve_allows_from pc mode ow allows s)" for s
    using assms
    by (induction allows arbitrary: s) (auto intro!: keeps keeps_resolve_from simp: Let_def)
  then show ?thesis by (simp add: resolveAllows_def)
qed


subsection \<open>The draft ruleset\<close>

lemma keeps_delete_rules:
  "(\<And>r. r \<in> set rules \<Longrightarrow> keeps P (pc_delete_rule pc (sr_href r))) \<Longrightarrow>
   keeps P (delete_rules pc rules)"
  by (induction rules) (auto intro!: keeps)

lemma keeps_create_rules:
  "(\<And>r. r \<in> set rules \<Longrightarrow> keeps P (pc_create_rule pc h r)) \<Longrightarrow> keeps P (create_rules pc h rules)"
  by (induction rules) (auto intro!: keeps)

lemma clear_or_create_footprint:
  assumes fp: "draft_footprint P owned own_rule pc ns cr ow"
    and ex: "\<And>rs. existing = Some rs \<Longrightarrow> owned (rs_href rs)"
  shows "hoare P (clear_or_create pc existing (BuildRuleSet ns cr hs ow))
     (\<lambda>r w. P w \<and> (\<forall>h. r = Inr h \<longrightarrow> owned h))"
proof (cases existing)
  case None
  show ?thesis unfolding clear_or_create_def None
    by (auto intro!: hoare hoare_bind_pure [OF draft_footprintD(3) [OF fp]])
next
  case (Some rs)
  have own: "owned (rs_href rs)" using ex Some by simp
  note list = draft_footprintD(4) [OF fp own]
  have del: "keeps P (delete_rules pc rules)" if "list_all (own_rule \<circ> sr_href) rules" for rules
    using that draft_footprintD(5) [OF fp] by (intro keeps_delete_rules) (auto simp: list_all_iff)
  show ?thesis unfolding clear_or_create_def Some
    by (auto intro!: hoare hoare_bind_pure [OF list] hoare_bind_keeps [OF del] simp: own)
qed

lemma reconcileRuleSet_footprint:
  assumes fp: "draft_footprint P owned own_rule pc ns cr ow"
  shows "hoare P (reconcileRuleSet pc cr ns ow scopes narrow resolved)
     (\<lambda>r w. P w \<and> (\<forall>h. r = Inr h \<longrightarrow> owned h))"
proof -
  note reads = draft_footprintD(1) [OF fp]
  note find = draft_footprintD(2) [OF fp]
  have create: "keeps P (create_rules pc h rules)" if "owned h" for h rules
    using that draft_footprintD(6) [OF fp] by (intro keeps_create_rules) auto
  show ?thesis
    unfolding reconcileRuleSet_def
    by (auto intro!: hoare hoare_bind_pure [OF find] hoare_bind_pure [OF clear_or_create_footprint [OF fp]]
        hoare_bind_keeps [OF keeps_all_services_href [OF reads]] hoare_bind_keeps [OF create])
qed

subsection \<open>The whole handlers\<close>

lemma keeps_provision_step:
  assumes "provision_allowed cp annotations \<Longrightarrow> \<forall>d. keeps P (pc_provision_rule_sets pc [h] d)"
  shows "keeps P (provision_step pc cp annotations ns cr h base)"
  unfolding provision_step_def using assms by (auto intro!: keeps)

lemma keeps_ruleset_step:
  assumes fp: "draft_footprint P owned own_rule pc ns cr ow"
    and prov: "provision_allowed cp annotations \<Longrightarrow>
      \<forall>h d. owned h \<longrightarrow> keeps P (pc_provision_rule_sets pc [h] d)"
  shows "keeps P (ruleset_step pc cp annotations ns cr ow scopes narrow s base)"
  unfolding ruleset_step_def using prov
  by (auto intro!: keeps keeps_provision_step
      keeps_bind_pure [OF reconcileRuleSet_footprint [OF fp]])

definition policy_footprint ::
  "('w \<Rightarrow> bool) \<Rightarrow> (string \<Rightarrow> bool) \<Rightarrow> (string \<Rightarrow> bool) \<Rightarrow> (cluster_profile \<Rightarrow> bool)
   \<Rightarrow> 'w kube \<Rightarrow> (config \<Rightarrow> 'w policy_client) \<Rightarrow> string \<Rightarrow> string \<Rightarrow> string \<Rightarrow> bool" where
  \<comment> \<open>the world's invariant survives reads, the draft calls on owned objects, and the
      provisioning of an owned ruleset under a profile in \<open>may_provision\<close>\<close>
  "policy_footprint P owned own_rule may_provision k factory namespace crName uid \<longleftrightarrow>
     kube_reads_keep P k \<and>
     (\<forall>cfg eds. draft_footprint P owned own_rule (factory cfg) namespace crName
        \<lparr>ow_data_set = eds, ow_reference = uid\<rparr>) \<and>
     returns (k_list_profiles k) (\<lambda>r. \<forall>items. r = Inr items \<longrightarrow>
       list_all (\<lambda>cp. may_provision cp \<longrightarrow>
         (\<forall>cfg h d. owned h \<longrightarrow> keeps P (pc_provision_rule_sets (factory cfg) [h] d))) items)"

lemma keeps_ReconcilePolicy:
  assumes fp: "policy_footprint P owned own_rule (\<lambda>cp. provision_allowed cp annotations)
      k factory namespace crName uid"
  shows "keeps P (ReconcilePolicy k factory namespace crName uid annotations providerLabels allows)"
proof -
  have kube: "kube_reads_keep P k"
    and draft: "draft_footprint P owned own_rule (factory cfg) namespace crName
        \<lparr>ow_data_set = eds, ow_reference = uid\<rparr>"
    and list: "returns (k_list_profiles k) (\<lambda>r. \<forall>items. r = Inr items \<longrightarrow>
       list_all (\<lambda>cp. provision_allowed cp annotations \<longrightarrow>
         (\<forall>cfg h d. owned h \<longrightarrow> keeps P (pc_provision_rule_sets (factory cfg) [h] d))) items)"
    for cfg eds using fp unfolding policy_footprint_def by blast+
  note reads = draft_footprintD(1) [OF draft]
  have profile: "hoare P (resolveClusterProfile k namespace)
      (\<lambda>r w. P w \<and> (\<forall>cp cfg eds. r = Inr (Some (cp, cfg, eds)) \<longrightarrow>
         (provision_allowed cp annotations \<longrightarrow>
         (\<forall>cfg h d. owned h \<longrightarrow> keeps P (pc_provision_rule_sets (factory cfg) [h] d)))))"
    by (rule hoare_keepsI [OF keeps_resolveClusterProfile [OF kube] resolveClusterProfile_returns [OF list]])
  have allows: "keeps P (resolveAllows (factory cfg) allows mode \<lparr>ow_data_set = eds, ow_reference = uid\<rparr>)"
    for cfg eds mode
    by (rule keeps_resolve_allows [OF reads]) (use draft_footprintD(7) [OF draft] in blast)
  show ?thesis
    unfolding ReconcilePolicy_def Let_def
    by (rule keeps_bind_pure [OF profile])
      (intro keeps kube reads allows keeps_ruleset_step [OF draft]; blast)
qed

definition finalize_footprint ::
  "('w \<Rightarrow> bool) \<Rightarrow> (string \<Rightarrow> bool) \<Rightarrow> 'w policy_client \<Rightarrow> owner \<Rightarrow> bool" where
  "finalize_footprint P owned pc ow \<longleftrightarrow>
     client_reads_keep P pc \<and>
     hoare P (pc_find_rule_set_by_owner pc ow)
       (\<lambda>r w. P w \<and> (\<forall>rs. r = Inr (Some rs) \<longrightarrow> owned (rs_href rs))) \<and>
     (\<forall>h. owned h \<longrightarrow> keeps P (pc_delete_rule_set pc h)) \<and>
     (\<forall>h d. owned h \<longrightarrow> keeps P (pc_provision_rule_sets pc [h] d))"

lemma keeps_FinalizePolicy:
  assumes kube: "kube_reads_keep P k"
    and fp: "\<And>cfg eds. finalize_footprint P owned (factory cfg) \<lparr>ow_data_set = eds, ow_reference = uid\<rparr>"
  shows "keeps P (FinalizePolicy k factory namespace uid)"
proof -
  note fp = fp [unfolded finalize_footprint_def]
  have step: "keeps P (finalize_ruleset (factory cfg) rs d)" if "owned (rs_href rs)" for cfg rs d
    unfolding finalize_ruleset_def using that fp by (auto intro!: keeps)
  have find: "hoare P (pc_find_rule_set_by_owner (factory cfg) \<lparr>ow_data_set = eds, ow_reference = uid\<rparr>)
      (\<lambda>r w. P w \<and> (\<forall>rs. r = Inr (Some rs) \<longrightarrow> owned (rs_href rs)))" for cfg eds
    using fp by blast
  show ?thesis unfolding FinalizePolicy_def Let_def
    by (intro keeps kube keeps_bind_pure [OF find]) (auto intro!: step)
qed


subsection \<open>Properties\<close>

text \<open>
  C6: The provisioning gate. If no cluster profile allows provisioning (mode \<open>auto\<close>, or
  \<open>manual\<close> with the approval annotation), a reconcile makes no provisioning call: it keeps
  every property \<open>P\<close> of the world that reads and draft writes on its own objects keep,
  however provisioning would change it.
\<close>
theorem ReconcilePolicy_gate:
  assumes "kube_reads_keep P k"
    and "\<And>cfg eds. draft_footprint P owned own_rule (factory cfg) namespace crName
           \<lparr>ow_data_set = eds, ow_reference = uid\<rparr>"
    and "returns (k_list_profiles k) (\<lambda>r. \<forall>items. r = Inr items \<longrightarrow>
           (\<forall>cp \<in> set items. \<not> provision_allowed cp annotations))"
  shows "keeps P (ReconcilePolicy k factory namespace crName uid annotations providerLabels allows)"
proof (rule keeps_ReconcilePolicy)
  show "policy_footprint P owned own_rule (\<lambda>cp. provision_allowed cp annotations)
      k factory namespace crName uid"
    unfolding policy_footprint_def
    by (auto intro!: assms(1,2) hoare_post [OF assms(3)] simp: list_all_iff)
qed

lemma sim_draft_footprint:
  "draft_footprint (\<lambda>w. P (sim_provisioned w)) (\<lambda>_. True) (\<lambda>_. True) sim_client ns cr ow"
  unfolding draft_footprint_def client_reads_keep_def
  by (auto simp: sim_ops keeps_def hoare_def Let_def list_all_iff split: option.split)

theorem ReconcilePolicy_gate_witness:
  "sim_provisioned (snd (run_policy ''manual'' [(''microsegment.io/provision'', ''no'')]
     [\<lparr>ca_from = [], ca_all_workloads = True, ca_intra_scope = True, ca_ports = []\<rparr>])) = []"
proof -
  let ?P = "\<lambda>w. sim_provisioned w = []"
  have "keeps ?P (ReconcilePolicy (sim_cluster ''manual'') (\<lambda>_. sim_client) ''shop'' ''r'' ''uid-r''
      [(''microsegment.io/provision'', ''no'')] []
      [\<lparr>ca_from = [], ca_all_workloads = True, ca_intra_scope = True, ca_ports = []\<rparr>])"
    unfolding sim_cluster_def
  proof (rule ReconcilePolicy_gate [OF sim_kube_reads_keep sim_draft_footprint])
    show "returns (k_list_profiles (sim_kube [sim_profile ''manual''] [sim_meta ''shop''] [] []))
        (\<lambda>r. \<forall>items. r = Inr items \<longrightarrow> (\<forall>cp \<in> set items.
           \<not> provision_allowed cp [(''microsegment.io/provision'', ''no'')]))"
      by (simp add: sim_kube_def hoare_def provision_allowed_def sim_profile_def
          provisionModeAuto_def AnnotationProvisionApprove_def)
  qed
  then show ?thesis
    unfolding run_policy_def keeps_def by (simp add: sim_world_def)
qed

text \<open>
  C11: The footprint of a reconcile. Besides reads it makes only these calls: create the
  ruleset built for this resource and owner, delete rules listed under an owned ruleset,
  create rules in an owned ruleset, create labels with one of the four standard keys, and
  provision an owned ruleset alone, the latter only under a profile that allows it.
\<close>
theorem ReconcilePolicy_footprint:
  assumes "policy_footprint P owned own_rule (\<lambda>cp. provision_allowed cp annotations)
      k factory namespace crName uid"
  shows "keeps P (ReconcilePolicy k factory namespace crName uid annotations providerLabels allows)"
  by (rule keeps_ReconcilePolicy [OF assms])

text \<open>The concrete world beside a ruleset of someone else, which stays as it is.\<close>

definition other_set :: rule_set where
  "other_set = (BuildRuleSet ''shop'' ''other'' [] \<lparr>ow_data_set = '''', ow_reference = ''uid-x''\<rparr>)
     \<lparr>rs_href := ''/other''\<rparr>"

definition other_kept :: "sim \<Rightarrow> bool" where
  "other_kept w \<longleftrightarrow>
     filter (\<lambda>r. rs_href r = ''/other'') (sim_sets w) = [other_set] \<and>
     ''/other'' \<notin> set (concat (map fst (sim_provisioned w)))"

lemma sim_find_set_other:
  "hoare other_kept (sim_find_set \<lparr>ow_data_set = eds, ow_reference = ''uid-r''\<rparr>)
     (\<lambda>r w. other_kept w \<and> (\<forall>rs. r = Inr (Some rs) \<longrightarrow> rs_href rs \<noteq> ''/other''))"
proof -
  have "rs_href r \<noteq> ''/other''"
    if only: "filter (\<lambda>r. rs_href r = ''/other'') rs = [other_set]" and r: "r \<in> set rs"
      and uid: "rs_external_data_reference r = ''uid-r''" for r rs
  proof
    assume "rs_href r = ''/other''"
    then have "r \<in> set (filter (\<lambda>r. rs_href r = ''/other'') rs)" using r by simp
    then have "r = other_set" unfolding only by simp
    with uid show False by (simp add: other_set_def BuildRuleSet_def)
  qed
  note distinct = this
  show ?thesis
  proof (rule hoareI)
    fix w r w'
    assume w: "other_kept w"
      and "run_state (sim_find_set \<lparr>ow_data_set = eds, ow_reference = ''uid-r''\<rparr>) w = (r, w')"
    then have r: "r = Inr (List.find (\<lambda>r. rs_external_data_reference r = ''uid-r'') (sim_sets w))"
      and "w' = w" by (auto simp: sim_find_set_def)
    moreover have "\<forall>rs. r = Inr (Some rs) \<longrightarrow> rs_href rs \<noteq> ''/other''"
      using distinct w unfolding r other_kept_def by (blast dest: find_SomeD)
    ultimately show "other_kept w' \<and> (\<forall>rs. r = Inr (Some rs) \<longrightarrow> rs_href rs \<noteq> ''/other'')"
      using w by simp
  qed
qed

lemma sim_keeps_other:
  "keeps other_kept (sim_find_label k v)" "keeps other_kept (sim_find_set ow)"
  "keeps other_kept (sim_list_rules h)" "keeps other_kept (sim_create_rule h r)"
  "keeps other_kept (sim_delete_rule h)" "keeps other_kept (sim_ensure_label k v ow)"
  "h \<noteq> ''/other'' \<Longrightarrow> keeps other_kept (sim_provision [h] d)"
  by (auto simp: keeps_def other_kept_def sim_ops Let_def filter_map o_def split: option.split
      cong: filter_cong)

lemma sim_delete_set_other: "h \<noteq> ''/other'' \<Longrightarrow> keeps other_kept (sim_delete_set h)"
proof -
  assume h: "h \<noteq> ''/other''"
  have "filter (\<lambda>r. rs_href r = ''/other'') (map (\<lambda>r. if rs_href r = h
          then r\<lparr>rs_update_type := RuleSetUpdateTypeDelete\<rparr> else r) rs) =
        filter (\<lambda>r. rs_href r = ''/other'') rs" for rs :: "rule_set list"
    using h by (induction rs) auto
  then show ?thesis by (simp add: keeps_def other_kept_def sim_delete_set_def)
qed

lemma sim_policy_footprint:
  "policy_footprint other_kept (\<lambda>h. h \<noteq> ''/other'') (\<lambda>_. True) C
     (sim_kube cps nss is ps) (\<lambda>_. sim_client) ''shop'' ''r'' ''uid-r''"
proof -
  have "hoare other_kept (sim_create_set rs)
      (\<lambda>r w. other_kept w \<and> (\<forall>rs. r = Inr rs \<longrightarrow> rs_href rs \<noteq> ''/other''))" for rs
    by (simp add: hoare_def sim_create_set_def Let_def other_kept_def)
  moreover have "hoare other_kept (sim_list_rules h)
      (\<lambda>r w. other_kept w \<and> (\<forall>rules. r = Inr rules \<longrightarrow> list_all ((\<lambda>_. True) \<circ> sr_href) rules))" for h
    by (simp add: hoare_def sim_list_rules_def list_all_iff)
  ultimately show ?thesis
    unfolding policy_footprint_def draft_footprint_def client_reads_keep_def
    by (auto simp: sim_kube_reads_keep sim_client_def sim_find_set_other sim_keeps_other
        list_all_iff hoare_any)
qed

lemma sim_finalize_footprint:
  "finalize_footprint other_kept (\<lambda>h. h \<noteq> ''/other'') sim_client \<lparr>ow_data_set = eds, ow_reference = ''uid-r''\<rparr>"
  unfolding finalize_footprint_def client_reads_keep_def
  by (simp add: sim_client_def sim_find_set_other sim_keeps_other sim_delete_set_other)

theorem ReconcilePolicy_footprint_witness:
  "other_kept (snd (run_state
     (ReconcilePolicy (sim_cluster ''auto'') (\<lambda>_. sim_client) ''shop'' ''r'' ''uid-r'' [] []
       [\<lparr>ca_from = [], ca_all_workloads = True, ca_intra_scope = True, ca_ports = []\<rparr>])
     (sim_world\<lparr>sim_sets := [other_set]\<rparr>)))"
proof -
  have "other_kept (sim_world\<lparr>sim_sets := [other_set]\<rparr>)"
    by (simp add: other_kept_def sim_world_def other_set_def)
  then show ?thesis
    using ReconcilePolicy_footprint [OF sim_policy_footprint]
    unfolding keeps_def sim_cluster_def by blast
qed

text \<open>
  C12: The footprint of a finalizer: it marks for deletion and provisions only the ruleset
  that the PCE holds for the resource's own owner reference.
\<close>
theorem FinalizePolicy_footprint:
  assumes "kube_reads_keep P k"
    and "\<And>cfg eds. finalize_footprint P owned (factory cfg) \<lparr>ow_data_set = eds, ow_reference = uid\<rparr>"
  shows "keeps P (FinalizePolicy k factory namespace uid)"
  by (rule keeps_FinalizePolicy [OF assms])

theorem FinalizePolicy_footprint_witness:
  "other_kept (snd (run_state
     (FinalizePolicy (sim_cluster ''auto'') (\<lambda>_. sim_client) ''shop'' ''uid-r'')
     (sim_world\<lparr>sim_sets := [other_set]\<rparr>)))"
proof -
  have "other_kept (sim_world\<lparr>sim_sets := [other_set]\<rparr>)"
    by (simp add: other_kept_def sim_world_def other_set_def)
  then show ?thesis
    using FinalizePolicy_footprint [OF sim_kube_reads_keep sim_finalize_footprint]
    unfolding keeps_def sim_cluster_def by blast
qed

end
