(* ===== verification/Policy_Lookup.thy ===== *)
theory Policy_Lookup
  imports Policy_Backend
begin

section \<open>What the policy backend gets out of its lookups\<close>

text \<open>
  The contract of the three lookups of a \<open>PolicyClient\<close> as a locale: a returned label has
  exactly the requested key and value, a returned service the requested name, a returned
  ruleset the owner's non-empty reference, and each was served by the PCE. The lemmas say
  what the backend makes of it: the hrefs of a scope, of an allow's consumers and of the
  all-ports service belong to the objects that were asked for. The client of \<open>internal/pce\<close>
  is an instance for every HTTP transport (theory \<open>Pce_Client\<close>).
\<close>

definition label_for :: "(label \<Rightarrow> bool) \<Rightarrow> string \<times> string \<Rightarrow> label \<Rightarrow> bool" where
  "label_for served kv l \<longleftrightarrow> served l \<and> lbl_key l = fst kv \<and> lbl_value l = snd kv"

definition hrefs_of :: "(label \<Rightarrow> bool) \<Rightarrow> smap \<Rightarrow> string list \<Rightarrow> bool" where
  \<comment> \<open>the hrefs of served labels with the given keys and values, in order\<close>
  "hrefs_of served labels hs \<longleftrightarrow>
     (\<exists>ls. list_all2 (label_for served) labels ls \<and> hs = map lbl_href ls)"

lemma hrefs_of_Nil [simp]: "hrefs_of served [] hs \<longleftrightarrow> hs = []"
  by (auto simp: hrefs_of_def)

lemma hrefs_of_append:
  "hrefs_of served ls hs \<Longrightarrow> hrefs_of served ls' hs' \<Longrightarrow> hrefs_of served (ls @ ls') (hs @ hs')"
  unfolding hrefs_of_def by (metis list_all2_appendI map_append)

lemma hrefs_of_single: "label_for served kv l \<Longrightarrow> hrefs_of served [kv] [lbl_href l]"
  unfolding hrefs_of_def by (intro exI [of _ "[l]"]) simp

lemma hrefs_of_length: "hrefs_of served labels hs \<Longrightarrow> length hs = length labels"
  by (auto simp: hrefs_of_def dest: list_all2_lengthD)

text \<open>An allow resolved without loss: the labels of \<open>From\<close>, all of them, and nothing else.\<close>

definition exact_allow :: "(label \<Rightarrow> bool) \<Rightarrow> compiled_allow \<Rightarrow> resolved_allow \<Rightarrow> bool" where
  "exact_allow served a r \<longleftrightarrow>
     ra_all_workloads r = ca_all_workloads a \<and> ra_intra_scope r = ca_intra_scope a \<and>
     ra_ports r = ca_ports a \<and>
     hrefs_of served (if ca_all_workloads a then [] else ca_from a) (ra_consumer_hrefs r)"

lemma exact_allow_simps:
  "exact_allow served a \<lparr>ra_consumer_hrefs = hs, ra_all_workloads = True,
     ra_intra_scope = ca_intra_scope a, ra_ports = ca_ports a\<rparr> \<longleftrightarrow> ca_all_workloads a \<and> hs = []"
  "exact_allow served a \<lparr>ra_consumer_hrefs = hs, ra_all_workloads = False,
     ra_intra_scope = ca_intra_scope a, ra_ports = ca_ports a\<rparr> \<longleftrightarrow>
     \<not> ca_all_workloads a \<and> hrefs_of served (ca_from a) hs"
  by (auto simp: exact_allow_def)

lemma scopeLabelSubset_keys: "fst ` set (scopeLabelSubset labels keys) \<subseteq> set keys"
  using range_put_keys [of _ "\<lambda>k v. if k \<in> set keys then Some (k, v) else None" labels "[]"]
  by (fastforce simp: scopeLabelSubset_def split: if_splits)

locale lookup_contract =
  fixes pc :: "'w policy_client"
    and served_label :: "label \<Rightarrow> bool"
    and served_service :: "service \<Rightarrow> bool"
    and served_rule_set :: "rule_set \<Rightarrow> bool"
  assumes find_label:
    "returns (pc_find_label pc key value)
       (\<lambda>r. \<forall>l. r = Inr l \<longrightarrow> label_for served_label (key, value) l)"
    and find_service:
    "returns (pc_find_service_by_name pc name)
       (\<lambda>r. \<forall>s. r = Inr (Some s) \<longrightarrow> served_service s \<and> svc_name s = name)"
    and find_rule_set:
    "returns (pc_find_rule_set_by_owner pc ow)
       (\<lambda>r. \<forall>rs. r = Inr (Some rs) \<longrightarrow> served_rule_set rs \<and>
          rs_external_data_reference rs = ow_reference ow \<and> ow_reference ow \<noteq> '''')"
begin

lemma find_labels_hrefs:
  "hrefs_of served_label done hrefs \<Longrightarrow>
   returns (find_labels pc msg labels hrefs)
     (\<lambda>r. \<forall>hs. r = Inr (Inr hs) \<longrightarrow> hrefs_of served_label (done @ labels) hs)"
proof (induction labels arbitrary: "done" hrefs)
  case Nil
  then show ?case by (auto intro!: hoare)
next
  case (Cons kv labels)
  obtain key v where kv: "kv = (key, v)" by fastforce
  have rest: "returns (find_labels pc msg labels (hrefs @ [lbl_href l]))
      (\<lambda>r. \<forall>hs. r = Inr (Inr hs) \<longrightarrow> hrefs_of served_label (done @ kv # labels) hs)"
    if "label_for served_label (key, v) l" for l
    using Cons.IH [OF hrefs_of_append [OF Cons.prems hrefs_of_single]] that by (simp add: kv)
  show ?case unfolding kv find_labels.simps
    by (rule returns_bind_val [OF find_label])
      (auto intro!: hoare rest [unfolded kv])
qed

lemma all_services_href_named:
  "returns (all_services_href pc resolved)
     (\<lambda>r. \<forall>h. r = Inr h \<longrightarrow> list_ex (\<lambda>a. ra_ports a = []) resolved \<longrightarrow>
        (\<exists>s. served_service s \<and> svc_name s = AllServicesName \<and> svc_href s = h))"
  unfolding all_services_href_def
  by (auto intro!: hoare returns_bind_val [OF find_service] split: sum.split option.split)

lemma resolve_from_strict:
  assumes "mode \<noteq> UnknownLabelSkip" "mode \<noteq> UnknownLabelCreate"
  shows "hrefs_of served_label done (fs_hrefs s) \<Longrightarrow>
    returns (resolve_from pc mode ow labels s)
      (\<lambda>r. \<forall>f. r = Inr (Inr f) \<longrightarrow> hrefs_of served_label (done @ labels) (fs_hrefs f) \<and>
         fs_deferred f = fs_deferred s \<and> fs_created f = fs_created s \<and>
         fs_skipped_any f = fs_skipped_any s)"
proof (induction labels arbitrary: "done" s)
  case Nil
  then show ?case by (auto intro!: hoare)
next
  case (Cons kv labels)
  obtain key v where kv: "kv = (key, v)" by fastforce
  have rest: "returns (resolve_from pc mode ow labels (s\<lparr>fs_hrefs := fs_hrefs s @ [lbl_href l]\<rparr>))
      (\<lambda>r. \<forall>f. r = Inr (Inr f) \<longrightarrow> hrefs_of served_label (done @ kv # labels) (fs_hrefs f) \<and>
         fs_deferred f = fs_deferred s \<and> fs_created f = fs_created s \<and>
         fs_skipped_any f = fs_skipped_any s)"
    if "label_for served_label (key, v) l" for l
    using Cons.IH [of "done @ [kv]" "s\<lparr>fs_hrefs := fs_hrefs s @ [lbl_href l]\<rparr>"]
      hrefs_of_append [OF Cons.prems hrefs_of_single] that by (simp add: kv)
  show ?case unfolding kv resolve_from.simps Let_def
    by (rule returns_bind_val [OF find_label])
      (auto intro!: hoare rest [unfolded kv] simp: assms)
qed

lemma resolve_allows_strict:
  assumes "mode \<noteq> UnknownLabelSkip" "mode \<noteq> UnknownLabelCreate"
  shows "list_all2 (exact_allow served_label) done (as_out s) \<Longrightarrow>
    returns (resolve_allows_from pc mode ow allows s)
      (\<lambda>r. \<forall>t. r = Inr (Inr t) \<longrightarrow> list_all2 (exact_allow served_label) (done @ allows) (as_out t) \<and>
         as_deferred t = as_deferred s \<and> as_created t = as_created s)"
proof (induction allows arbitrary: "done" s)
  case Nil
  then show ?case by (auto intro!: hoare)
next
  case (Cons a allows)
  have rest: "returns (resolve_allows_from pc mode ow allows s')
      (\<lambda>r. \<forall>t. r = Inr (Inr t) \<longrightarrow> list_all2 (exact_allow served_label) (done @ a # allows) (as_out t) \<and>
         as_deferred t = as_deferred s \<and> as_created t = as_created s)"
    if "as_out s' = as_out s @ [r]" "exact_allow served_label a r"
      "as_deferred s' = as_deferred s" "as_created s' = as_created s" for s' r
    using Cons.IH [of "done @ [a]" s'] Cons.prems that by (simp add: list_all2_appendI)
  have "from": "returns (resolve_from pc mode ow (ca_from a)
        \<lparr>fs_hrefs = [], fs_deferred = as_deferred s, fs_created = as_created s, fs_skipped_any = False\<rparr>)
      (\<lambda>r. \<forall>f. r = Inr (Inr f) \<longrightarrow> hrefs_of served_label (ca_from a) (fs_hrefs f) \<and>
         fs_deferred f = as_deferred s \<and> fs_created f = as_created s \<and> \<not> fs_skipped_any f)"
    using resolve_from_strict [OF assms, of "[]"
        "\<lparr>fs_hrefs = [], fs_deferred = as_deferred s, fs_created = as_created s, fs_skipped_any = False\<rparr>"]
    by simp
  show ?case unfolding resolve_allows_from.simps Let_def
    by (auto intro!: hoare returns_bind_val [OF "from"] rest simp: exact_allow_simps)
qed

lemma resolveProvider_hrefs:
  "returns (resolveProvider k nsName cp pc)
     (\<lambda>r. \<forall>hs. r = Inr (Inr hs) \<longrightarrow>
        (\<exists>labels. labels \<noteq> [] \<and> fst ` set labels \<subseteq> set (ScopeLabelKeys (cp_spec cp)) \<and>
           hrefs_of served_label labels hs))"
proof -
  have labels: "returns (find_labels pc msg labels [])
     (\<lambda>r. \<forall>hs. r = Inr (Inr hs) \<longrightarrow>
        (\<exists>labels. labels \<noteq> [] \<and> fst ` set labels \<subseteq> set (ScopeLabelKeys (cp_spec cp)) \<and>
           hrefs_of served_label labels hs))"
    if "labels = scopeLabelSubset all (ScopeLabelKeys (cp_spec cp))" "labels \<noteq> []" for msg labels all
    by (rule hoare_post [OF find_labels_hrefs [of "[]" "[]" msg labels]])
      (use that scopeLabelSubset_keys [of all] in \<open>auto intro!: exI [of _ labels] dest!: subsetD\<close>)
  show ?thesis
    unfolding resolveProvider_def Let_def
    by (auto intro!: hoare returns_bind labels split: sum.split option.split)
qed

end

end
