(* ===== verification/Pce_Client.thy ===== *)
theory Pce_Client
  imports Pce_Json Policy_Frame Policy_Lookup
begin

section \<open>The PCE client (internal/pce/client.go, labels.go, policy.go)\<close>

text \<open>
  The REST client over an arbitrary HTTP transport. A request is its method, URL, basic
  authentication and JSON body; the transport answers with a failure to build or send it, or
  a response. \<open>client_do\<close> is \<open>Client.do\<close> up to the decoding of the body, \<open>decode_into\<close> the
  rest. The wording of the library's own errors is not modelled.
\<close>

datatype http_body =
    EmptyBody
  | JsonBody string json \<comment> \<open>the text and the document it parses to\<close>
  | OtherBody string

datatype http_result =
    BuildFailed string
  | SendFailed string
  | Response int string http_body \<comment> \<open>status, \<open>Retry-After\<close> header, body\<close>

record http_request =
  req_method :: string
  req_url :: string
  req_auth :: "string \<times> string"
  req_body :: "json option"

type_synonym 'w transport = "http_request \<Rightarrow> ('w, http_result) state"

definition MethodGet :: string where "MethodGet = ''GET''"
definition MethodPost :: string where "MethodPost = ''POST''"
definition MethodDelete :: string where "MethodDelete = ''DELETE''"
definition MethodPut :: string where "MethodPut = ''PUT''"

fun body_text :: "http_body \<Rightarrow> string" where
  "body_text EmptyBody = ''''"
| "body_text (JsonBody t _) = t"
| "body_text (OtherBody t) = t"

definition parseRetryAfter :: "string \<Rightarrow> duration" where
  "parseRetryAfter h =
     (if h = '''' then 30 * second
      else case atoi h of
             Some secs \<Rightarrow> wrap64 (secs * second)
           | None \<Rightarrow> 30 * second)"

definition orgPath :: "config \<Rightarrow> string \<Rightarrow> string" where
  "orgPath cfg sfx = ''/orgs/'' @ dec_int (cfg_org_id cfg) @ sfx"

definition pce_request :: "config \<Rightarrow> string \<Rightarrow> string \<Rightarrow> json option \<Rightarrow> http_request" where
  "pce_request cfg method path body =
     \<lparr>req_method = method, req_url = ''https://'' @ cfg_pce_url cfg @ ''/api/v2'' @ path,
      req_auth = (cfg_api_key cfg, cfg_api_secret cfg), req_body = body\<rparr>"

subsection \<open>The client value\<close>

record 'w pce_client =
  cl_base_url :: string
  cl_org_id :: int
  cl_api_key :: string
  cl_api_secret :: string
  cl_http :: "'w transport"

type_synonym 'w client_option = "'w pce_client \<Rightarrow> 'w pce_client"

definition WithBaseURL :: "string \<Rightarrow> 'w client_option" where
  "WithBaseURL u c = c\<lparr>cl_base_url := u\<rparr>"

definition WithHTTPClient :: "'w transport \<Rightarrow> 'w client_option" where
  "WithHTTPClient h c = c\<lparr>cl_http := h\<rparr>"

definition NewClient :: "'w transport \<Rightarrow> config \<Rightarrow> 'w client_option list \<Rightarrow> 'w pce_client" where
  \<comment> \<open>the first argument is the default \<open>http.Client\<close>\<close>
  "NewClient http cfg opts =
     fold (\<lambda>opt c. opt c) opts
       \<lparr>cl_base_url = ''https://'' @ cfg_pce_url cfg, cl_org_id = cfg_org_id cfg,
        cl_api_key = cfg_api_key cfg, cl_api_secret = cfg_api_secret cfg, cl_http = http\<rparr>"

definition new_request :: "'w pce_client \<Rightarrow> string \<Rightarrow> string \<Rightarrow> json option \<Rightarrow> http_request" where
  \<comment> \<open>the request that \<open>do\<close> builds\<close>
  "new_request c method path body =
     \<lparr>req_method = method, req_url = cl_base_url c @ ''/api/v2'' @ path,
      req_auth = (cl_api_key c, cl_api_secret c), req_body = body\<rparr>"

text \<open>Without options a client is its configuration and a transport, as the calls below take it.\<close>

lemma NewClient_default:
  "new_request (NewClient http cfg []) = pce_request cfg" "cl_http (NewClient http cfg []) = http"
  by (simp_all add: NewClient_def new_request_def pce_request_def fun_eq_iff)

lemma NewClient_options:
  "new_request (NewClient http cfg [WithBaseURL u, WithHTTPClient h]) method path body =
     (pce_request cfg method path body)\<lparr>req_url := u @ ''/api/v2'' @ path\<rparr>"
  "cl_http (NewClient http cfg [WithBaseURL u, WithHTTPClient h]) = h"
  by (simp_all add: NewClient_def new_request_def pce_request_def WithBaseURL_def WithHTTPClient_def)

subsection \<open>Calls\<close>

fun check_response :: "http_result \<Rightarrow> go_error + http_body" where
  "check_response (BuildFailed m) = Inl (WrapError ''build request: '' (ErrorText m))"
| "check_response (SendFailed m) = Inl (WrapError ''pce request: '' (ErrorText m))"
| "check_response (Response status retry body) =
     (if status = 429 then Inl (RateLimitError (parseRetryAfter retry))
      else if status < 200 \<or> status \<ge> 300 then Inl (APIError status (body_text body))
      else Inr body)"

definition client_do ::
  "'w transport \<Rightarrow> config \<Rightarrow> string \<Rightarrow> string \<Rightarrow> json option \<Rightarrow> ('w, go_error + http_body) state" where
  "client_do http cfg method path body = do {
     r \<leftarrow> http (pce_request cfg method path body);
     ret (check_response r)
   }"

fun decode_into :: "'a decoder \<Rightarrow> 'a \<Rightarrow> go_error + http_body \<Rightarrow> go_error + 'a" where
  \<comment> \<open>an empty body leaves \<open>out\<close> at its zero value\<close>
  "decode_into d zero (Inl e) = Inl e"
| "decode_into d zero (Inr EmptyBody) = Inr zero"
| "decode_into d zero (Inr (OtherBody _)) =
     Inl (WrapError ''decode response: '' (ErrorText ''invalid JSON''))"
| "decode_into d zero (Inr (JsonBody _ j)) =
     (case d j of
        Some x \<Rightarrow> Inr x
      | None \<Rightarrow> Inl (WrapError ''decode response: '' (ErrorText ''cannot unmarshal'')))"

definition client_get ::
  "'w transport \<Rightarrow> config \<Rightarrow> string \<Rightarrow> 'a decoder \<Rightarrow> 'a \<Rightarrow> ('w, go_error + 'a) state" where
  "client_get http cfg path d zero = do {
     r \<leftarrow> client_do http cfg MethodGet path None;
     ret (decode_into d zero r)
   }"

definition client_send ::
  "'w transport \<Rightarrow> config \<Rightarrow> string \<Rightarrow> string \<Rightarrow> json \<Rightarrow> 'a decoder \<Rightarrow> 'a \<Rightarrow> ('w, go_error + 'a) state" where
  "client_send http cfg method path body d zero = do {
     r \<leftarrow> client_do http cfg method path (Some body);
     ret (decode_into d zero r)
   }"

definition client_exec ::
  "'w transport \<Rightarrow> config \<Rightarrow> string \<Rightarrow> string \<Rightarrow> json option \<Rightarrow> ('w, go_error option) state" where
  \<comment> \<open>a call with no \<open>out\<close>: only the error counts\<close>
  "client_exec http cfg method path body = do {
     r \<leftarrow> client_do http cfg method path body;
     ret (case r of Inl e \<Rightarrow> Some e | Inr _ \<Rightarrow> None)
   }"

definition Ping :: "'w transport \<Rightarrow> config \<Rightarrow> ('w, go_error option) state" where
  "Ping http cfg = client_exec http cfg MethodGet (orgPath cfg ''/labels'') None"


subsection \<open>Labels (labels.go)\<close>

definition url_unreserved :: "char \<Rightarrow> bool" where
  "url_unreserved c \<longleftrightarrow>
     (let n = (of_char c :: nat) in
      is_digit c \<or> (65 \<le> n \<and> n \<le> 90) \<or> (97 \<le> n \<and> n \<le> 122) \<or> c \<in> set ''-_.~'')"

definition upper_hex :: "nat \<Rightarrow> char" where
  "upper_hex d = (if d < 10 then char_of (48 + d) else char_of (55 + d))"

definition escape_char :: "char \<Rightarrow> string" where
  "escape_char c =
     (if url_unreserved c then [c]
      else if c = CHR '' '' then ''+''
      else [CHR ''%'', upper_hex (of_char c div 16), upper_hex (of_char c mod 16)])"

definition query_escape :: "string \<Rightarrow> string" where
  \<comment> \<open>\<open>url.QueryEscape\<close>\<close>
  "query_escape s = concat (map escape_char s)"

definition label_query :: "string \<Rightarrow> string \<Rightarrow> string" where
  \<comment> \<open>\<open>q.Encode()\<close>, which sorts by key\<close>
  "label_query key value = ''key='' @ query_escape key @ ''&value='' @ query_escape value"

definition zero_label :: label where
  "zero_label = \<lparr>lbl_href = '''', lbl_key = '''', lbl_value = '''',
     lbl_external_data_set = '''', lbl_external_data_reference = ''''\<rparr>"

definition FindLabel :: "'w transport \<Rightarrow> config \<Rightarrow> string \<Rightarrow> string \<Rightarrow> ('w, go_error + label) state" where
  "FindLabel http cfg key value = do {
     r \<leftarrow> client_get http cfg (orgPath cfg ''/labels'' @ ''?'' @ label_query key value) (dec_list dec_label) [];
     ret (case r of
       Inl e \<Rightarrow> Inl e
     | Inr labels \<Rightarrow>
         (case List.find (\<lambda>l. lbl_key l = key \<and> lbl_value l = value) labels of
            Some l \<Rightarrow> Inr l
          | None \<Rightarrow> Inl ErrLabelNotFound))
   }"

definition CreateLabel :: "'w transport \<Rightarrow> config \<Rightarrow> label \<Rightarrow> ('w, go_error + label) state" where
  "CreateLabel http cfg l =
     client_send http cfg MethodPost (orgPath cfg ''/labels'') (enc_label l) dec_label zero_label"

definition owned_label :: "string \<Rightarrow> string \<Rightarrow> owner \<Rightarrow> label" where
  "owned_label key value ow =
     \<lparr>lbl_href = '''', lbl_key = key, lbl_value = value,
      lbl_external_data_set = ow_data_set ow,
      lbl_external_data_reference = key @ ''='' @ value\<rparr>"

definition EnsureLabel ::
  "'w transport \<Rightarrow> config \<Rightarrow> string \<Rightarrow> string \<Rightarrow> owner \<Rightarrow> ('w, go_error + label) state" where
  "EnsureLabel http cfg key value ow = do {
     existing \<leftarrow> FindLabel http cfg key value;
     case existing of
       Inr l \<Rightarrow> ret (Inr l)
     | Inl e \<Rightarrow>
         if \<not> is_label_not_found e then ret (Inl e)
         else CreateLabel http cfg (owned_label key value ow)
   }"


subsection \<open>Rulesets, rules and provisioning (policy.go)\<close>

definition secPolicyDraft :: string where "secPolicyDraft = ''/sec_policy/draft''"

definition FindServiceByName ::
  "'w transport \<Rightarrow> config \<Rightarrow> string \<Rightarrow> ('w, go_error + service option) state" where
  "FindServiceByName http cfg name = do {
     r \<leftarrow> client_get http cfg (orgPath cfg (secPolicyDraft @ ''/services'')) (dec_list dec_service) [];
     ret (map_sum id (List.find (\<lambda>s. svc_name s = name)) r)
   }"

definition FindRuleSetByOwner ::
  "'w transport \<Rightarrow> config \<Rightarrow> owner \<Rightarrow> ('w, go_error + rule_set option) state" where
  "FindRuleSetByOwner http cfg ow = do {
     r \<leftarrow> client_get http cfg (orgPath cfg (secPolicyDraft @ ''/rule_sets'')) (dec_list dec_rule_set) [];
     ret (map_sum id (List.find (\<lambda>rs. rs_external_data_reference rs = ow_reference ow \<and>
                                     ow_reference ow \<noteq> '''')) r)
   }"

definition zero_rule_set :: rule_set where
  "zero_rule_set = \<lparr>rs_href = '''', rs_name = '''', rs_enabled = False, rs_scopes = [],
     rs_external_data_set = '''', rs_external_data_reference = '''', rs_update_type = ''''\<rparr>"

definition zero_rule :: sec_rule where
  "zero_rule = \<lparr>sr_href = '''', sr_enabled = False,
     sr_resolve_labels_as = \<lparr>rla_providers = [], rla_consumers = []\<rparr>,
     sr_providers = [], sr_consumers = [], sr_ingress_services = [], sr_unscoped_consumers = False\<rparr>"

definition CreateRuleSet :: "'w transport \<Rightarrow> config \<Rightarrow> rule_set \<Rightarrow> ('w, go_error + rule_set) state" where
  "CreateRuleSet http cfg rs =
     client_send http cfg MethodPost (orgPath cfg (secPolicyDraft @ ''/rule_sets'')) (enc_rule_set rs)
       dec_rule_set zero_rule_set"

definition DeleteRuleSet :: "'w transport \<Rightarrow> config \<Rightarrow> string \<Rightarrow> ('w, go_error option) state" where
  "DeleteRuleSet http cfg href = client_exec http cfg MethodDelete href None"

definition ListRules :: "'w transport \<Rightarrow> config \<Rightarrow> string \<Rightarrow> ('w, go_error + sec_rule list) state" where
  "ListRules http cfg ruleSetHref =
     client_get http cfg (ruleSetHref @ ''/sec_rules'') (dec_list dec_sec_rule) []"

definition CreateRule ::
  "'w transport \<Rightarrow> config \<Rightarrow> string \<Rightarrow> sec_rule \<Rightarrow> ('w, go_error + sec_rule) state" where
  "CreateRule http cfg ruleSetHref rule =
     client_send http cfg MethodPost (ruleSetHref @ ''/sec_rules'') (enc_sec_rule rule)
       dec_sec_rule zero_rule"

definition DeleteRule :: "'w transport \<Rightarrow> config \<Rightarrow> string \<Rightarrow> ('w, go_error option) state" where
  "DeleteRule http cfg ruleHref = client_exec http cfg MethodDelete ruleHref None"

definition provision_body :: "string list \<Rightarrow> string \<Rightarrow> json" where
  "provision_body hrefs description = JObj [
     (''change_subset'', JObj [(''rule_sets'', JArr (map (\<lambda>h. JObj [(''href'', JStr h)]) hrefs))]),
     (''update_description'', JStr description)]"

definition ProvisionRuleSets ::
  "'w transport \<Rightarrow> config \<Rightarrow> string list \<Rightarrow> string \<Rightarrow> ('w, go_error + provision_result) state" where
  "ProvisionRuleSets http cfg hrefs description =
     client_send http cfg MethodPost (orgPath cfg ''/sec_policy'') (provision_body hrefs description)
       dec_provision_result \<lparr>pr_href = '''', pr_version = 0, pr_workloads_affected = 0\<rparr>"

definition pce_policy_client :: "'w transport \<Rightarrow> config \<Rightarrow> 'w policy_client" where
  \<comment> \<open>\<open>DefaultPolicyClientFactory\<close>\<close>
  "pce_policy_client http cfg =
     \<lparr>pc_find_label = FindLabel http cfg,
      pc_ensure_label = EnsureLabel http cfg,
      pc_find_service_by_name = FindServiceByName http cfg,
      pc_find_rule_set_by_owner = FindRuleSetByOwner http cfg,
      pc_create_rule_set = CreateRuleSet http cfg,
      pc_delete_rule_set = DeleteRuleSet http cfg,
      pc_list_rules = ListRules http cfg,
      pc_create_rule = CreateRule http cfg,
      pc_delete_rule = DeleteRule http cfg,
      pc_provision_rule_sets = ProvisionRuleSets http cfg\<rparr>"

subsection \<open>The client's lookups\<close>

definition served :: "'w transport \<Rightarrow> 'a decoder \<Rightarrow> 'a \<Rightarrow> bool" where
  \<comment> \<open>the transport can answer with a list that holds \<open>x\<close>\<close>
  "served http d x \<longleftrightarrow>
     (\<exists>req w status retry t j xs. fst (run_state (http req) w) = Response status retry (JsonBody t j) \<and>
        dec_list d j = Some xs \<and> x \<in> set xs)"

lemma client_get_served:
  "returns (client_get http cfg path (dec_list d) [])
     (\<lambda>r. \<forall>xs. r = Inr xs \<longrightarrow> (\<forall>x \<in> set xs. served http d x))"
proof (rule hoareI)
  fix w r w'
  assume run: "run_state (client_get http cfg path (dec_list d) []) w = (r, w')"
  let ?req = "pce_request cfg MethodGet path None"
  obtain res where res: "fst (run_state (http ?req) w) = res" by simp
  with run have r: "r = decode_into (dec_list d) [] (check_response res)"
    by (auto simp: client_get_def client_do_def split: prod.splits)
  show "\<forall>xs. r = Inr xs \<longrightarrow> (\<forall>x \<in> set xs. served http d x)"
  proof (intro allI impI ballI)
    fix xs x assume "r = Inr xs" "x \<in> set xs"
    then obtain st ra t j where "res = Response st ra (JsonBody t j)" "dec_list d j = Some xs"
      unfolding r
      by (cases res; cases "check_response res"; cases "projr (check_response res)")
        (auto split: if_splits option.splits)
    with res \<open>x \<in> set xs\<close> show "served http d x" unfolding served_def by blast
  qed
qed

text \<open>What a PCE lists in the wire format is what a read of it returns.\<close>

context wire_codec
begin

lemma list_response:
  assumes "run_state (http (pce_request cfg MethodGet path None)) w =
      (Response 200 retry (JsonBody t (JArr (map enc xs))), w')"
    and "list_all ok xs"
  shows "run_state (client_get http cfg path (dec_list dec) []) w = (Inr xs, w')"
  using assms by (simp add: client_get_def client_do_def list_round_trip del: dec_list.simps)

lemma created_response:
  assumes "run_state (http (pce_request cfg method path (Some body))) w =
      (Response 201 retry (JsonBody t (enc x)), w')"
    and "ok x"
  shows "run_state (client_send http cfg method path body dec z) w = (Inr x, w')"
  using assms by (simp add: client_send_def client_do_def round_trip)

end

lemma ListRules_listed:
  "run_state (http (pce_request cfg MethodGet (h @ ''/sec_rules'') None)) w =
     (Response 200 retry (JsonBody t (JArr (map enc_sec_rule rules))), w') \<Longrightarrow>
   list_all rule_ints_ok rules \<Longrightarrow> run_state (ListRules http cfg h) w = (Inr rules, w')"
  unfolding ListRules_def by (rule sec_rules.list_response)

lemma FindRuleSetByOwner_listed:
  "run_state (http (pce_request cfg MethodGet (orgPath cfg (secPolicyDraft @ ''/rule_sets'')) None)) w =
     (Response 200 retry (JsonBody t (JArr (map enc_rule_set rss))), w') \<Longrightarrow>
   ow_reference ow \<noteq> '''' \<Longrightarrow>
   run_state (FindRuleSetByOwner http cfg ow) w =
     (Inr (List.find (\<lambda>rs. rs_external_data_reference rs = ow_reference ow) rss), w')"
  unfolding FindRuleSetByOwner_def by (simp add: rule_sets.list_response map_sum_def list_all_iff)

lemma CreateRule_created:
  "run_state (http (pce_request cfg MethodPost (h @ ''/sec_rules'') (Some (enc_sec_rule r)))) w =
     (Response 201 retry (JsonBody t (enc_sec_rule (r\<lparr>sr_href := href\<rparr>))), w') \<Longrightarrow>
   rule_ints_ok r \<Longrightarrow> run_state (CreateRule http cfg h r) w = (Inr (r\<lparr>sr_href := href\<rparr>), w')"
  unfolding CreateRule_def by (rule sec_rules.created_response) (simp_all add: rule_ints_ok_def)

lemma EnsureLabel_creates:
  assumes list: "run_state (http (pce_request cfg MethodGet (orgPath cfg ''/labels'' @ ''?'' @ label_query key v) None)) w =
      (Response 200 retry (JsonBody t (JArr (map enc_label ls))), w1)"
    and new: "\<forall>l \<in> set ls. (lbl_key l, lbl_value l) \<noteq> (key, v)"
    and created: "run_state (http (pce_request cfg MethodPost (orgPath cfg ''/labels'')
        (Some (enc_label (owned_label key v ow))))) w1 =
      (Response 201 retry' (JsonBody t' (enc_label ((owned_label key v ow)\<lparr>lbl_href := href\<rparr>))), w2)"
  shows "run_state (EnsureLabel http cfg key v ow) w = (Inr ((owned_label key v ow)\<lparr>lbl_href := href\<rparr>), w2)"
proof -
  have get: "run_state (client_get http cfg (orgPath cfg ''/labels'' @ ''?'' @ label_query key v)
      (dec_list dec_label) []) w = (Inr ls, w1)"
    by (rule labels.list_response) (rule list, simp add: list_all_iff)
  have "List.find (\<lambda>l. lbl_key l = key \<and> lbl_value l = v) ls = None"
    using new by (auto simp: find_None_iff)
  then have "run_state (FindLabel http cfg key v) w = (Inl ErrLabelNotFound, w1)"
    by (simp add: FindLabel_def get [simplified])
  moreover have "run_state (CreateLabel http cfg (owned_label key v ow)) w1 =
      (Inr ((owned_label key v ow)\<lparr>lbl_href := href\<rparr>), w2)"
    unfolding CreateLabel_def by (rule labels.created_response) (rule created, simp)
  ultimately show ?thesis by (simp add: EnsureLabel_def)
qed

interpretation lookup: lookup_contract "pce_policy_client http cfg"
  "served http dec_label" "served http dec_service" "served http dec_rule_set"
proof
  fix k v
  show "returns (pc_find_label (pce_policy_client http cfg) k v)
    (\<lambda>r. \<forall>l. r = Inr l \<longrightarrow> label_for (served http dec_label) (k, v) l)"
    unfolding pce_policy_client_def FindLabel_def policy_client.simps
    by (rule returns_bind_val [OF client_get_served])
      (auto intro!: hoare simp: label_for_def dest!: find_SomeD split: sum.splits option.splits)
next
  fix name
  show "returns (pc_find_service_by_name (pce_policy_client http cfg) name)
    (\<lambda>r. \<forall>s. r = Inr (Some s) \<longrightarrow> served http dec_service s \<and> svc_name s = name)"
    unfolding pce_policy_client_def FindServiceByName_def policy_client.simps
    by (rule returns_bind_val [OF client_get_served])
      (auto intro!: hoare dest!: find_SomeD simp: map_sum_def split: sum.splits)
next
  fix ow
  show "returns (pc_find_rule_set_by_owner (pce_policy_client http cfg) ow)
    (\<lambda>r. \<forall>rs. r = Inr (Some rs) \<longrightarrow> served http dec_rule_set rs \<and>
       rs_external_data_reference rs = ow_reference ow \<and> ow_reference ow \<noteq> '''')"
    unfolding pce_policy_client_def FindRuleSetByOwner_def policy_client.simps
    by (rule returns_bind_val [OF client_get_served])
      (auto intro!: hoare dest!: find_SomeD simp: map_sum_def split: sum.splits)
qed

subsection \<open>The requests a policy reconcile sends\<close>

definition logged :: "'w transport \<Rightarrow> ('w \<times> http_request list) transport" where
  \<comment> \<open>the transport, with a log of the requests it was given\<close>
  "logged http req = State (\<lambda>(w, log). case run_state (http req) w of (r, w') \<Rightarrow> (r, (w', log @ [req])))"

definition sent :: "(http_request \<Rightarrow> bool) \<Rightarrow> 'w \<times> http_request list \<Rightarrow> bool" where
  "sent Q w \<longleftrightarrow> list_all Q (snd w)"

definition policy_request :: "bool \<Rightarrow> string \<Rightarrow> string \<Rightarrow> string \<Rightarrow> http_request \<Rightarrow> bool" where
  "policy_request may_provision namespace crName uid req \<longleftrightarrow> (\<exists>cfg eds.
     (\<exists>path. req = pce_request cfg MethodGet path None) \<or>
     (\<exists>k v. autoCreatableKey k \<and> req = pce_request cfg MethodPost (orgPath cfg ''/labels'')
        (Some (enc_label (owned_label k v \<lparr>ow_data_set = eds, ow_reference = uid\<rparr>)))) \<or>
     (\<exists>hs. req = pce_request cfg MethodPost (orgPath cfg (secPolicyDraft @ ''/rule_sets''))
        (Some (enc_rule_set (BuildRuleSet namespace crName hs \<lparr>ow_data_set = eds, ow_reference = uid\<rparr>)))) \<or>
     (\<exists>h r. req = pce_request cfg MethodPost (h @ ''/sec_rules'') (Some (enc_sec_rule r))) \<or>
     (\<exists>h. req = pce_request cfg MethodDelete h None) \<or>
     (may_provision \<and> (\<exists>h d. req = pce_request cfg MethodPost (orgPath cfg ''/sec_policy'')
        (Some (provision_body [h] d)))))"

lemma keeps_client_do: "Q (pce_request cfg m p b) \<Longrightarrow> keeps (sent Q) (client_do (logged http) cfg m p b)"
  unfolding client_do_def
  by (rule keeps_bind) (auto simp: keeps_def logged_def sent_def split: prod.split)

lemma keeps_client_calls:
  "Q (pce_request cfg MethodGet p None) \<Longrightarrow> keeps (sent Q) (client_get (logged http) cfg p d z)"
  "Q (pce_request cfg m p (Some j)) \<Longrightarrow> keeps (sent Q) (client_send (logged http) cfg m p j d z)"
  "Q (pce_request cfg m p b) \<Longrightarrow> keeps (sent Q) (client_exec (logged http) cfg m p b)"
  unfolding client_get_def client_send_def client_exec_def
  by (auto intro!: keeps keeps_client_do)

lemma policy_requests:
  "policy_request b ns cr uid (pce_request cfg MethodGet p None)"
  "autoCreatableKey k \<Longrightarrow> policy_request b ns cr uid (pce_request cfg MethodPost (orgPath cfg ''/labels'')
        (Some (enc_label (owned_label k v \<lparr>ow_data_set = eds, ow_reference = uid\<rparr>))))"
  "policy_request b ns cr uid (pce_request cfg MethodPost (orgPath cfg (secPolicyDraft @ ''/rule_sets''))
        (Some (enc_rule_set (BuildRuleSet ns cr hs \<lparr>ow_data_set = eds, ow_reference = uid\<rparr>))))"
  "policy_request b ns cr uid (pce_request cfg MethodPost (h @ ''/sec_rules'') (Some (enc_sec_rule r)))"
  "policy_request b ns cr uid (pce_request cfg MethodDelete h None)"
  "b \<Longrightarrow> policy_request b ns cr uid
     (pce_request cfg MethodPost (orgPath cfg ''/sec_policy'') (Some (provision_body [h] d)))"
  unfolding policy_request_def by blast+

lemma client_draft_footprint:
  "draft_footprint (sent (policy_request b ns cr uid)) (\<lambda>_. True) (\<lambda>_. True)
     (pce_policy_client (logged http) cfg) ns cr \<lparr>ow_data_set = eds, ow_reference = uid\<rparr>"
proof -
  have get: "keeps (sent (policy_request b ns cr uid)) (client_get (logged http) cfg p d z)" for p d z
    by (rule keeps_client_calls policy_requests)+
  have find: "keeps (sent (policy_request b ns cr uid)) (FindLabel (logged http) cfg k v)" for k v
    unfolding FindLabel_def by (rule keeps get)+
  have reads: "client_reads_keep (sent (policy_request b ns cr uid)) (pce_policy_client (logged http) cfg)"
    unfolding client_reads_keep_def pce_policy_client_def policy_client.simps
      FindServiceByName_def FindRuleSetByOwner_def ListRules_def
    by (intro conjI allI keeps get find)
  have ensure: "keeps (sent (policy_request b ns cr uid)) (EnsureLabel (logged http) cfg k v
      \<lparr>ow_data_set = eds, ow_reference = uid\<rparr>)" if "autoCreatableKey k" for k v
    unfolding EnsureLabel_def CreateLabel_def using that
    by (intro keeps find keeps_client_calls policy_requests)
  have create: "keeps (sent (policy_request b ns cr uid)) (CreateRuleSet (logged http) cfg
      (BuildRuleSet ns cr hs \<lparr>ow_data_set = eds, ow_reference = uid\<rparr>))" for hs
    unfolding CreateRuleSet_def by (rule keeps_client_calls policy_requests)+
  have rules: "keeps (sent (policy_request b ns cr uid)) (CreateRule (logged http) cfg h r)"
    "keeps (sent (policy_request b ns cr uid)) (DeleteRule (logged http) cfg h)" for h r
    unfolding CreateRule_def DeleteRule_def by (rule keeps_client_calls policy_requests)+
  show ?thesis
    unfolding draft_footprint_def
    using reads ensure create rules
    by (auto simp: client_reads_keep_def pce_policy_client_def keeps_hoare list_all_iff)
qed


subsection \<open>Properties\<close>

text \<open>
  C10: Whatever the PCE answers, every request of a reconcile is a read, the creation of a
  standard-key label, of the resource's own ruleset or of a rule, the deletion of a listed
  rule, or the provisioning of exactly one ruleset; the last only if some profile allows it.
\<close>
theorem ReconcilePolicy_requests:
  assumes "kube_reads_keep (sent (policy_request may_provision namespace crName uid)) k"
    and "returns (k_list_profiles k) (\<lambda>r. \<forall>items. r = Inr items \<longrightarrow>
           (\<forall>cp \<in> set items. provision_allowed cp annotations \<longrightarrow> may_provision))"
  shows "keeps (sent (policy_request may_provision namespace crName uid))
    (ReconcilePolicy k (pce_policy_client (logged http)) namespace crName uid annotations providerLabels allows)"
proof (rule keeps_ReconcilePolicy)
  have provision: "keeps (sent (policy_request may_provision namespace crName uid))
      (pc_provision_rule_sets (pce_policy_client (logged http) cfg) [h] d)" if may_provision for cfg h d
    unfolding pce_policy_client_def policy_client.simps ProvisionRuleSets_def
    by (rule keeps_client_calls policy_requests that)+
  show "policy_footprint (sent (policy_request may_provision namespace crName uid))
      (\<lambda>_. True) (\<lambda>_. True) (\<lambda>cp. provision_allowed cp annotations) k
      (pce_policy_client (logged http)) namespace crName uid"
    unfolding policy_footprint_def
    by (auto intro!: assms(1) client_draft_footprint provision hoare_post [OF assms(2)] simp: list_all_iff)
qed

definition sim_http :: "unit transport" where
  \<comment> \<open>a stateless PCE: it knows the label \<open>app=shop\<close> and the All Services service\<close>
  "sim_http req = ret (Response 200 '''' (JsonBody ''''
     (if req_method req \<noteq> MethodGet then JObj [(''href'', JStr ''/rule_sets/1'')]
      else if prefix ''https://pce/api/v2/orgs/1/labels'' (req_url req) then
        JArr [enc_label \<lparr>lbl_href = ''/labels/1'', lbl_key = ''app'', lbl_value = ''shop'',
          lbl_external_data_set = '''', lbl_external_data_reference = ''''\<rparr>]
      else if req_url req = ''https://pce/api/v2/orgs/1/sec_policy/draft/services'' then
        JArr [JObj [(''href'', JStr ''/services/1''), (''name'', JStr ''All Services'')]]
      else JArr [])))"

definition sim_requests :: "string \<Rightarrow> http_request list" where
  "sim_requests mode = snd (snd (run_state
     (ReconcilePolicy (sim_cluster mode) (pce_policy_client (logged sim_http)) ''shop'' ''r'' ''uid-r'' [] []
       [\<lparr>ca_from = [], ca_all_workloads = True, ca_intra_scope = True, ca_ports = []\<rparr>]) ((), [])))"

theorem ReconcilePolicy_requests_witness:
  "map req_method (sim_requests ''manual'') = [''GET'', ''GET'', ''POST'', ''GET'', ''POST''] \<and>
   list_all (policy_request False ''shop'' ''r'' ''uid-r'') (sim_requests ''manual'')"
proof
  show "map req_method (sim_requests ''manual'') = [''GET'', ''GET'', ''POST'', ''GET'', ''POST'']"
    by code_simp
  have "keeps (sent (policy_request False ''shop'' ''r'' ''uid-r''))
      (ReconcilePolicy (sim_cluster ''manual'') (pce_policy_client (logged sim_http)) ''shop'' ''r'' ''uid-r'' [] []
       [\<lparr>ca_from = [], ca_all_workloads = True, ca_intra_scope = True, ca_ports = []\<rparr>])"
    unfolding sim_cluster_def
  proof (rule ReconcilePolicy_requests [OF sim_kube_reads_keep])
    show "returns (k_list_profiles (sim_kube [sim_profile ''manual''] [sim_meta ''shop''] [] []))
        (\<lambda>r. \<forall>items. r = Inr items \<longrightarrow> (\<forall>cp \<in> set items. provision_allowed cp [] \<longrightarrow> False))"
      by (simp add: sim_kube_def hoare_def provision_allowed_def sim_profile_def provisionModeAuto_def)
  qed
  then show "list_all (policy_request False ''shop'' ''r'' ''uid-r'') (sim_requests ''manual'')"
    unfolding keeps_def sent_def sim_requests_def by simp
qed

text \<open>
  C20: Every label the client returns for a namespace's scope or narrowing was served by the
  PCE with exactly the requested key and value, one href per label and in order, and a
  scope is never empty and uses only the profile's scope keys.
\<close>
theorem resolveProvider_scope:
  "returns (resolveProvider k nsName cp (pce_policy_client http cfg))
     (\<lambda>r. case r of
        Inr (Inr hs) \<Rightarrow> (\<exists>labels. labels \<noteq> [] \<and> fst ` set labels \<subseteq> set (ScopeLabelKeys (cp_spec cp)) \<and>
           hrefs_of (served http dec_label) labels hs)
      | _ \<Rightarrow> True)"
  by (rule hoare_post [OF lookup.resolveProvider_hrefs]) (auto split: sum.split)

text \<open>
  C9: Strict mode resolves every allow without loss or rejects the whole resource: the
  resolved allows correspond one to one to the compiled ones, with the hrefs of all of
  their labels, and no label is deferred or created.
\<close>
theorem resolveAllows_strict:
  "returns (resolveAllows (pce_policy_client http cfg) allows UnknownLabelStrict ow)
     (\<lambda>r. case r of
        Inr (Inr s) \<Rightarrow> list_all2 (exact_allow (served http dec_label)) allows (as_out s) \<and>
          as_deferred s = [] \<and> as_created s = []
      | _ \<Rightarrow> True)"
proof -
  have modes: "UnknownLabelStrict \<noteq> UnknownLabelSkip" "UnknownLabelStrict \<noteq> UnknownLabelCreate"
    by (simp_all add: label_mode_names)
  have start: "list_all2 (exact_allow (served http dec_label)) []
      (as_out \<lparr>as_out = [], as_deferred = [], as_created = []\<rparr>)" by simp
  show ?thesis unfolding resolveAllows_def
    by (rule hoare_post [OF lookup.resolve_allows_strict [OF modes start]]) (auto split: sum.split)
qed

text \<open>
  A response is an error exactly when its status is not 2xx; a 429 is a rate limit and
  nothing else is; a 404 is what \<open>IsNotFound\<close> recognises.
\<close>
theorem check_response_status:
  "((\<exists>body'. check_response (Response status retry body) = Inr body') \<longleftrightarrow> 200 \<le> status \<and> status < 300) \<and>
   ((\<exists>e. check_response (Response status retry body) = Inl e \<and> pceRateLimit e \<noteq> None) \<longleftrightarrow> status = 429) \<and>
   ((\<exists>e. check_response (Response status retry body) = Inl e \<and> is_not_found e) \<longleftrightarrow> status = 404)"
  by (auto simp: pceRateLimit_def is_not_found_def)

text \<open>
  A \<open>Retry-After\<close> header of whole seconds is waited for exactly, up to the 292 years
  that fit a duration; a missing or unreadable one means thirty seconds.
\<close>
theorem parseRetryAfter_seconds:
  assumes "n \<le> 9223372036"
  shows "parseRetryAfter (dec_nat n) = int n * second \<and>
         parseRetryAfter '''' = 30 * second \<and> parseRetryAfter ''Wed'' = 30 * second"
proof -
  have "n < 2 ^ 63" using assms by simp
  moreover have "wrap64 (int n * second) = int n * second"
    using assms by (intro wrap64_id) (simp_all add: second_def)
  moreover have "dec_nat n \<noteq> []" using dec_nat_digits by blast
  moreover have "atoi ''Wed'' = None" by (simp add: atoi_def is_digit_def)
  ultimately show ?thesis by (simp add: parseRetryAfter_def atoi_dec_nat)
qed

theorem parseRetryAfter_seconds_witness: "parseRetryAfter ''60'' = minute"
proof -
  have "digit_char 6 = CHR ''6''" "digit_char 0 = CHR ''0''" by code_simp+
  then have "dec_nat 60 = ''60''" by (simp add: dec_nat.simps)
  then show ?thesis using parseRetryAfter_seconds [of 60] by (simp add: minute_def)
qed

text \<open>
  The wait a PCE asks for is unchecked: zero and negative headers give a wait of zero or
  less, and a header past the range of a duration wraps around to a negative wait.
\<close>
theorem parseRetryAfter_unchecked:
  "parseRetryAfter ''0'' = 0 \<and> parseRetryAfter ''-5'' < 0 \<and> parseRetryAfter ''9223372037'' < 0"
  by (simp add: parseRetryAfter_def atoi_def is_digit_def digits_value_def second_def wrap64_def)

end
