(* ===== verification/Policy_Semantics.thy ===== *)
theory Policy_Semantics
  imports Policy_Draft Pce_Client
begin

section \<open>What the rules in the PCE admit\<close>

text \<open>
  The meaning of draft rules for a connection, and the refinement that spans the compiler,
  the label lookups and the rebuilding of the ruleset: after a reconcile in strict mode the
  rules in the owned ruleset admit exactly what the custom resource permits.

  A workload carries label hrefs; the actors of a rule are matched as the PCE does, all
  labels together or all workloads. \<open>directory\<close> says that an href names one label.
\<close>

definition actors_match :: "actor list \<Rightarrow> string set \<Rightarrow> bool" where
  "actors_match as H \<longleftrightarrow>
     AllWorkloadsActor \<in> set as \<or>
     (as \<noteq> [] \<and> (\<forall>a \<in> set as. \<exists>l. ac_label a = Some l \<and> lref_href l \<in> H))"

definition ingress_admits :: "string \<Rightarrow> ingress_service list \<Rightarrow> int \<Rightarrow> int \<Rightarrow> bool" where
  \<comment> \<open>a service by href is the all-ports service \<open>all\<close>, one without is a protocol and a port\<close>
  "ingress_admits all ss proto port \<longleftrightarrow>
     (\<exists>s \<in> set ss. if is_href s = '''' then is_proto s = proto \<and> is_port s = port
                   else is_href s = all)"

definition rule_admits ::
  "string \<Rightarrow> sec_rule \<Rightarrow> string set \<Rightarrow> string set \<Rightarrow> bool \<Rightarrow> int \<Rightarrow> int \<Rightarrow> bool" where
  \<comment> \<open>consumer and provider labels; is the consumer in the scope of the ruleset\<close>
  "rule_admits all r consumer provider in_scope proto port \<longleftrightarrow>
     sr_enabled r \<and> actors_match (sr_consumers r) consumer \<and>
     actors_match (sr_providers r) provider \<and>
     (sr_unscoped_consumers r \<or> in_scope) \<and>
     ingress_admits all (sr_ingress_services r) proto port"

definition held :: "(label \<Rightarrow> bool) \<Rightarrow> (string \<rightharpoonup> string) \<Rightarrow> string set" where
  \<comment> \<open>the hrefs of the labels a workload with the key-value pairs \<open>L\<close> carries\<close>
  "held known L = {lbl_href l |l. known l \<and> L (lbl_key l) = Some (lbl_value l)}"

definition directory :: "(label \<Rightarrow> bool) \<Rightarrow> bool" where
  "directory known \<longleftrightarrow>
     (\<forall>l l'. known l \<longrightarrow> known l' \<longrightarrow> lbl_href l = lbl_href l' \<longrightarrow>
        lbl_key l = lbl_key l' \<and> lbl_value l = lbl_value l')"

definition plain_allow :: "compiled_allow \<Rightarrow> bool" where
  \<comment> \<open>inline ports, and a consumer: what both compilers produce\<close>
  "plain_allow a \<longleftrightarrow>
     (\<forall>s \<in> set (ca_ports a). is_href s = '''') \<and> (ca_all_workloads a \<or> ca_from a \<noteq> [])"


subsection \<open>The compilers produce plain allows\<close>

lemma copyLabels_Nil_iff: "wf_map m \<Longrightarrow> copyLabels m = [] \<longleftrightarrow> m = []"
  by (metis copyLabels_lookup map_of_eq_empty_iff)

lemma compiled_peer_plain:
  "supported_peer peer \<Longrightarrow> wf_peer peer \<Longrightarrow>
   plain_allow (compiled_peer (map policy_port_service ps) peer)"
  by (auto simp: plain_allow_def compiled_peer_def supported_peer.simps wf_peer_def
      policy_port_service_def copyLabels_Nil_iff split: option.splits)

lemma CompilePolicy_plain:
  assumes "CompilePolicy spec = Inr allows"
    and "\<forall>ing \<in> set (sps_ingress spec). \<forall>peer \<in> set (ir_from ing). wf_peer peer"
  shows "list_all plain_allow allows"
proof -
  have "supported_policy spec" using assms(1) CompilePolicy_unsupported by force
  with assms show ?thesis
    using CompilePolicy_supported [of spec] compiled_peer_plain
    by (auto simp: list_all_iff compiled_ingress_def supported_policy_def supported_ingress_def)
qed

lemma CompileIntent_plain:
  assumes "CompileIntent spec = Inr allows"
  shows "list_all plain_allow allows"
proof -
  have sup: "supported_intent spec" using assms CompileIntent_unsupported by force
  then have "plain_allow (compiled_intent_allow a)" if "a \<in> set (sis_allow spec)" for a
    using that by (auto simp: plain_allow_def compiled_intent_allow_def supported_intent_def
        list_all_iff one_consumer_kind_def intent_port_service_def)
  with CompileIntent_supported [OF sup] assms show ?thesis
    by (auto simp: list_all_iff plain_allow_def intra_namespace_allow_def)
qed


subsection \<open>One rule\<close>

lemma held_iff:
  "directory known \<Longrightarrow> known l \<Longrightarrow> lbl_href l \<in> held known L \<longleftrightarrow> L (lbl_key l) = Some (lbl_value l)"
  unfolding held_def directory_def mem_Collect_eq by metis

lemma hrefs_of_empty: "hrefs_of known labels [] \<longleftrightarrow> labels = []"
  by (auto simp: hrefs_of_def)

lemma hrefs_held:
  assumes "directory known" "hrefs_of known labels hs"
  shows "set hs \<subseteq> held known L \<longleftrightarrow> has_labels labels L"
proof -
  obtain ls where ls: "list_all2 (label_for known) labels ls" "hs = map lbl_href ls"
    using assms(2) by (auto simp: hrefs_of_def)
  have at: "lbl_href l \<in> held known L \<longleftrightarrow> L (fst kv) = Some (snd kv)"
    if "label_for known kv l" for kv l
    using that held_iff [OF assms(1), of l L] by (auto simp: label_for_def)
  from ls(1) have "set (map lbl_href ls) \<subseteq> held known L \<longleftrightarrow> has_labels labels L"
    by (induction rule: list_all2_induct) (auto simp: has_labels_def at)
  then show ?thesis by (simp add: ls(2))
qed

lemma actors_match_labels:
  "actors_match (map label_actor hs) H \<longleftrightarrow> hs \<noteq> [] \<and> set hs \<subseteq> H"
  by (auto simp: actors_match_def label_actor_def AllWorkloadsActor_def)

lemma actors_match_all [simp]: "actors_match [AllWorkloadsActor] H"
  by (simp add: actors_match_def)

lemma ingress_admits_plain:
  assumes "\<forall>s \<in> set ports. is_href s = ''''" "ports = [] \<longrightarrow> svc = all" "all \<noteq> ''''"
  shows "ingress_admits all
      (if ports = [] then [\<lparr>is_proto = 0, is_port = 0, is_href = svc\<rparr>] else ports) proto port \<longleftrightarrow>
    service_permits ports proto port"
  using assms by (auto simp: ingress_admits_def service_permits_def)

definition rule_for :: "string list \<Rightarrow> string \<Rightarrow> resolved_allow \<Rightarrow> sec_rule" where
  "rule_for narrow svc a = hd (BuildRules narrow svc [a])"

lemma BuildRules_map: "BuildRules narrow svc allows = map (rule_for narrow svc) allows"
  by (simp add: BuildRules_def rule_for_def Let_def)

lemma rule_for_admits:
  assumes dir: "directory known" and all: "all \<noteq> ''''"
    and plain: "plain_allow a" and exact: "exact_allow known a r"
    and svc: "ca_ports a = [] \<longrightarrow> svc = all"
    and narrow: "hrefs_of known labels narrow"
  shows "rule_admits all (rule_for narrow svc r) (held known L) (held known P) in_ns proto port \<longleftrightarrow>
    allow_permits a L in_ns proto port \<and> has_labels labels P"
proof -
  have consumer: "actors_match (if ra_all_workloads r then [AllWorkloadsActor]
        else map label_actor (ra_consumer_hrefs r)) (held known L) \<longleftrightarrow>
      ca_all_workloads a \<or> has_labels (ca_from a) L"
    using exact plain hrefs_held [OF dir]
    by (auto simp: exact_allow_def plain_allow_def actors_match_labels hrefs_of_empty split: if_splits)
  have provider: "actors_match (if narrow = [] then [AllWorkloadsActor]
        else map label_actor narrow) (held known P) \<longleftrightarrow> has_labels labels P"
    using hrefs_held [OF dir narrow] narrow
    by (auto simp: actors_match_labels hrefs_of_empty)
  have ports: "ra_ports r = ca_ports a" and scope: "ra_intra_scope r = ca_intra_scope a"
    using exact by (auto simp: exact_allow_def)
  have service: "ingress_admits all (if ra_ports r = []
        then [\<lparr>is_proto = 0, is_port = 0, is_href = svc\<rparr>] else ra_ports r) proto port \<longleftrightarrow>
      service_permits (ca_ports a) proto port"
    unfolding ports using plain svc all by (intro ingress_admits_plain) (auto simp: plain_allow_def)
  show ?thesis
    using consumer provider service
    by (auto simp: rule_admits_def rule_for_def BuildRules_def Let_def allow_permits_def scope)
qed

lemma same_rule_admits: "same_rule r r' \<Longrightarrow> rule_admits all r = rule_admits all r'"
  by (cases r; cases r') (auto simp: same_rule_def rule_admits_def fun_eq_iff)


subsection \<open>A whole reconcile\<close>

definition admits_exactly ::
  "string \<Rightarrow> (label \<Rightarrow> bool) \<Rightarrow> smap \<Rightarrow> compiled_allow list \<Rightarrow> sec_rule list \<Rightarrow> bool" where
  \<comment> \<open>the rules admit what the allows permit, to the providers with the given labels\<close>
  "admits_exactly all known labels allows rules \<longleftrightarrow>
     (\<forall>L P in_ns proto port.
        (\<exists>r \<in> set rules. rule_admits all r (held known L) (held known P) in_ns proto port) \<longleftrightarrow>
        (\<exists>a \<in> set allows. allow_permits a L in_ns proto port) \<and> has_labels labels P)"

lemma bex_list_all2:
  "list_all2 (\<lambda>y x. p x \<longleftrightarrow> q y \<and> c) ys xs \<Longrightarrow> (\<exists>x \<in> set xs. p x) \<longleftrightarrow> (\<exists>y \<in> set ys. q y) \<and> c"
  by (induction rule: list_all2_induct) auto

lemma rebuilt_admits:
  assumes dir: "directory known" and all: "all \<noteq> ''''"
    and plain: "list_all plain_allow allows"
    and exact: "list_all2 (exact_allow known) allows resolved"
    and svc: "list_ex (\<lambda>a. ra_ports a = []) resolved \<longrightarrow> svc = all"
    and narrow: "hrefs_of known labels narrow"
    and rules: "list_all2 same_rule (BuildRules narrow svc resolved) rules"
  shows "admits_exactly all known labels allows rules"
proof -
  have pair: "rule_admits all (rules ! i) (held known L) (held known P) in_ns proto port \<longleftrightarrow>
      allow_permits (allows ! i) L in_ns proto port \<and> has_labels labels P"
    if "i < length allows" for i L P in_ns proto port
  proof -
    have r: "exact_allow known (allows ! i) (resolved ! i)" "i < length resolved"
      using exact that by (auto simp: list_all2_conv_all_nth)
    then have same: "same_rule (rule_for narrow svc (resolved ! i)) (rules ! i)"
      using rules by (simp add: BuildRules_map list_all2_conv_all_nth)
    have ports: "ca_ports (allows ! i) = [] \<longrightarrow> svc = all"
      using r svc by (auto simp: exact_allow_def list_ex_length)
    have plain: "plain_allow (allows ! i)" using plain that by (simp add: list_all_length)
    show ?thesis
      unfolding same_rule_admits [OF same, symmetric]
      by (rule rule_for_admits [OF dir all plain r(1) ports narrow])
  qed
  have "length rules = length allows"
    using exact rules by (simp add: BuildRules_map list_all2_conv_all_nth)
  with pair have "list_all2 (\<lambda>a r. rule_admits all r (held known L) (held known P) in_ns proto port \<longleftrightarrow>
      allow_permits a L in_ns proto port \<and> has_labels labels P) allows rules" for L P in_ns proto port
    by (simp add: list_all2_conv_all_nth)
  then show ?thesis
    unfolding admits_exactly_def by (intro allI bex_list_all2)
qed

text \<open>
  What the reconcile relies on besides the lookups: the draft's rules are a store that
  provisioning does not change, and a created ruleset keeps its owner's reference.
\<close>

definition rule_store ::
  "'w policy_client \<Rightarrow> (rule_set \<Rightarrow> bool) \<Rightarrow> ('w \<Rightarrow> string \<Rightarrow> sec_rule list) \<Rightarrow> bool" where
  "rule_store pc sets view \<longleftrightarrow>
     draft_rules_laws pc view \<and>
     (\<forall>hs d w. view (snd (run_state (pc_provision_rule_sets pc hs d) w)) = view w) \<and>
     (\<forall>q. returns (pc_create_rule_set pc q)
        (\<lambda>r. \<forall>rs. r = Inr rs \<longrightarrow> sets rs \<and>
           rs_external_data_reference rs = rs_external_data_reference q))"

lemma hoare_any_bind:
  "(\<And>x. hoare (\<lambda>_. True) (f x) Q) \<Longrightarrow> hoare (\<lambda>_. True) (State_Monad.bind m f) Q"
  by (rule hoare_bind [OF hoare_any])

lemma hoare_bind_val:
  "returns m R \<Longrightarrow> (\<And>x. R x \<Longrightarrow> hoare (\<lambda>_. True) (f x) Q) \<Longrightarrow>
   hoare (\<lambda>_. True) (State_Monad.bind m f) Q"
  by (fastforce simp: hoare_def split: prod.splits)

lemma provision_step_view:
  assumes "rule_store pc sets view"
  shows "hoare (\<lambda>w. view w = v) (provision_step pc cp annotations ns cr h base)
    (\<lambda>r w. view w = v \<and>
       (\<forall>res. r = Inr res \<longrightarrow> br_unknown_label_mode res = br_unknown_label_mode base))"
proof -
  have "keeps (\<lambda>w. view w = v) (pc_provision_rule_sets pc hs d)" for hs d
    using assms by (simp add: keeps_def rule_store_def)
  then show ?thesis
    unfolding provision_step_def by (auto intro!: hoare hoare_bind_keeps)
qed

context lookup_contract
begin

lemma reconcileRuleSet_owned:
  assumes "rule_store pc served_rule_set view"
  shows "returns (reconcileRuleSet pc cr ns ow scopes narrow resolved)
    (\<lambda>r. \<forall>h. r = Inr h \<longrightarrow> (\<exists>rs. served_rule_set rs \<and> rs_href rs = h \<and>
       rs_external_data_reference rs = ow_reference ow))"
proof -
  have own: "rs_external_data_reference (BuildRuleSet ns cr scopes ow) = ow_reference ow"
    by (simp add: BuildRuleSet_def)
  have "returns (pc_create_rule_set pc q)
      (\<lambda>r. \<forall>rs. r = Inr rs \<longrightarrow> served_rule_set rs \<and>
         rs_external_data_reference rs = rs_external_data_reference q)" for q
    using assms by (simp add: rule_store_def)
  note created = this [of "BuildRuleSet ns cr scopes ow", unfolded own]
  have clear: "returns (clear_or_create pc existing (BuildRuleSet ns cr scopes ow))
      (\<lambda>r. \<forall>h. r = Inr h \<longrightarrow> (\<exists>rs. served_rule_set rs \<and> rs_href rs = h \<and>
         rs_external_data_reference rs = ow_reference ow))"
    if "\<forall>rs. existing = Some rs \<longrightarrow> served_rule_set rs \<and> rs_external_data_reference rs = ow_reference ow"
    for existing
  proof (cases existing)
    case None
    show ?thesis unfolding clear_or_create_def None option.case
      by (rule returns_bind_val [OF created]) (auto intro!: hoare)
  next
    case (Some ex)
    with that show ?thesis unfolding clear_or_create_def Some option.case
      by (intro returns_bind hoare) auto
  qed
  show ?thesis
    unfolding reconcileRuleSet_def
    by (rule returns_bind_val [OF find_rule_set])
      (auto intro!: hoare returns_bind_val [OF clear] intro: returns_bind)
qed

lemma reconcileRuleSet_admits:
  assumes store: "rule_store pc served_rule_set view"
    and dir: "directory served_label" and all: "all \<noteq> ''''"
    and svc: "\<forall>s. served_service s \<longrightarrow> svc_name s = AllServicesName \<longrightarrow> svc_href s = all"
    and plain: "list_all plain_allow allows"
    and exact: "list_all2 (exact_allow served_label) allows resolved"
    and narrow: "hrefs_of served_label labels narrow"
    and run: "run_state (reconcileRuleSet pc cr ns ow scopes narrow resolved) w = (Inr h, w')"
  shows "admits_exactly all served_label labels allows (view w' h)"
proof -
  have laws: "draft_rules_laws pc view" using store by (simp add: rule_store_def)
  obtain s w1 w2 where s: "run_state (all_services_href pc resolved) w1 = (Inr s, w2)"
    and rules: "list_all2 same_rule (BuildRules narrow s resolved) (view w' h)"
    using reconcileRuleSet_view [OF laws run] by blast
  have "list_ex (\<lambda>a. ra_ports a = []) resolved \<longrightarrow> s = all"
    using returnsD [OF all_services_href_named s] svc by blast
  from rebuilt_admits [OF dir all plain exact this narrow rules] show ?thesis .
qed

end


text \<open>The owned ruleset \<open>h\<close> of a reconcile that made its resource ready in strict mode.\<close>

definition enforced ::
  "string \<Rightarrow> (label \<Rightarrow> bool) \<Rightarrow> (rule_set \<Rightarrow> bool) \<Rightarrow> string \<Rightarrow> smap \<Rightarrow> compiled_allow list
   \<Rightarrow> (string \<Rightarrow> sec_rule list) \<Rightarrow> bool" where
  "enforced all known sets uid labels allows rules \<longleftrightarrow>
     (\<exists>rs. sets rs \<and> rs_external_data_reference rs = uid \<and>
        admits_exactly all known labels allows (rules (rs_href rs)))"

text \<open>Only the branch that goes on can make the resource ready.\<close>

lemma verdict_case:
  "(\<And>x. r = Inr (Inr x) \<Longrightarrow> hoare P (g x) Q) \<Longrightarrow> (\<And>e w. Q (Inl e) w) \<Longrightarrow> (\<And>a b w. Q (f a b) w) \<Longrightarrow>
   hoare P (case r of Inl e \<Rightarrow> ret (Inl e) | Inr (Inl (a, b)) \<Rightarrow> ret (f a b) | Inr (Inr x) \<Rightarrow> g x) Q"
  by (auto simp: hoare_def split: sum.split)

lemma found_case:
  "(\<And>e w. Q (Inl e) w) \<Longrightarrow> (\<And>w. Q y w) \<Longrightarrow>
   (\<And>cp cfg eds. r = Inr (Some (cp, cfg, eds)) \<Longrightarrow> hoare P (g cp cfg eds) Q) \<Longrightarrow>
   hoare P (case r of Inl e \<Rightarrow> ret (Inl e) | Inr None \<Rightarrow> ret y | Inr (Some (cp, cfg, eds)) \<Rightarrow> g cp cfg eds) Q"
  by (auto simp: hoare_def split: sum.split option.split)

context lookup_contract
begin

lemma ruleset_step_enforced:
  assumes store: "rule_store pc served_rule_set view"
    and dir: "directory served_label" and all: "all \<noteq> ''''"
    and svc: "\<forall>s. served_service s \<longrightarrow> svc_name s = AllServicesName \<longrightarrow> svc_href s = all"
    and plain: "list_all plain_allow allows"
    and exact: "br_unknown_label_mode base = UnknownLabelStrict \<longrightarrow>
      list_all2 (exact_allow served_label) allows (as_out s)"
    and narrow: "hrefs_of served_label labels narrow"
    and base: "br_provisioned base = None"
  shows "hoare (\<lambda>_. True) (ruleset_step pc cp annotations ns cr ow scopes narrow s base)
    (\<lambda>r w. \<forall>res. r = Inr res \<longrightarrow> br_provisioned res \<noteq> None \<longrightarrow>
       br_unknown_label_mode res = UnknownLabelStrict \<longrightarrow>
       enforced all served_label served_rule_set (ow_reference ow) labels allows (view w))"
proof (rule hoareI, intro allI impI)
  fix w r w' res
  assume run: "run_state (ruleset_step pc cp annotations ns cr ow scopes narrow s base) w = (r, w')"
    and r: "r = Inr res" and prov: "br_provisioned res \<noteq> None"
    and strict: "br_unknown_label_mode res = UnknownLabelStrict"
  obtain x w1 where rec: "run_state (reconcileRuleSet pc cr ns ow scopes narrow (as_out s)) w = (x, w1)"
    by fastforce
  from run r prov base obtain h where x: "x = Inr h"
    and step: "run_state (provision_step pc cp annotations ns cr h (base\<lparr>br_deferred_labels := as_deferred s,
        br_created_labels := as_created s\<rparr>)) w1 = (Inr res, w')"
    by (auto simp: ruleset_step_def rec split: sum.splits if_splits)
  from hoareD [OF provision_step_view [OF store] refl step]
  have "view w' = view w1" "br_unknown_label_mode base = UnknownLabelStrict"
    using strict by auto
  moreover from this exact have "list_all2 (exact_allow served_label) allows (as_out s)" by simp
  note admits = reconcileRuleSet_admits [OF store dir all svc plain this narrow rec [unfolded x]]
  moreover have "\<exists>rs. served_rule_set rs \<and> rs_href rs = h \<and> rs_external_data_reference rs = ow_reference ow"
    using returnsD [OF reconcileRuleSet_owned [OF store] rec] x by blast
  ultimately show "enforced all served_label served_rule_set (ow_reference ow) labels allows (view w')"
    unfolding enforced_def by auto
qed

lemma resolveAllows_exact:
  "returns (resolveAllows pc allows mode ow)
     (\<lambda>r. \<forall>s. r = Inr (Inr s) \<longrightarrow> mode = UnknownLabelStrict \<longrightarrow>
        list_all2 (exact_allow served_label) allows (as_out s))"
proof (cases "mode = UnknownLabelStrict")
  case True
  have modes: "UnknownLabelStrict \<noteq> UnknownLabelSkip" "UnknownLabelStrict \<noteq> UnknownLabelCreate"
    by (simp_all add: label_mode_names)
  have start: "list_all2 (exact_allow served_label) []
      (as_out \<lparr>as_out = [], as_deferred = [], as_created = []\<rparr>)" by simp
  show ?thesis unfolding True resolveAllows_def
    by (rule hoare_post [OF resolve_allows_strict [OF modes start]]) auto
qed (auto simp: hoare_def)

lemma ReconcilePolicy_enforced:
  assumes store: "rule_store pc served_rule_set view"
    and dir: "directory served_label" and all: "all \<noteq> ''''"
    and svc: "\<forall>s. served_service s \<longrightarrow> svc_name s = AllServicesName \<longrightarrow> svc_href s = all"
    and plain: "list_all plain_allow allows"
  shows "hoare (\<lambda>_. True) (ReconcilePolicy k (\<lambda>_. pc) ns cr uid annotations labels allows)
    (\<lambda>r w. \<forall>res. r = Inr res \<longrightarrow> br_provisioned res \<noteq> None \<longrightarrow>
       br_unknown_label_mode res = UnknownLabelStrict \<longrightarrow>
       enforced all served_label served_rule_set uid labels allows (view w))"
    (is "hoare _ _ ?Q")
proof -
  have narrow: "returns (find_labels pc msg labels [])
      (\<lambda>r. \<forall>hs. r = Inr (Inr hs) \<longrightarrow> hrefs_of served_label labels hs)" for msg
    using find_labels_hrefs [of "[]" "[]" msg labels] by simp
  have step: "hoare (\<lambda>_. True) (ruleset_step pc cp annotations ns cr \<lparr>ow_data_set = eds, ow_reference = uid\<rparr>
      scopes hs s (zero_result\<lparr>br_unknown_label_mode := mode, br_unknown_label_mode_set_by := by1,
        br_effective_enforcement := eff, br_enforcement_set_by := by2\<rparr>)) ?Q"
    if "\<forall>s'. Inr (Inr s) = (Inr (Inr s') :: go_error + string \<times> string + allows_state) \<longrightarrow>
          mode = UnknownLabelStrict \<longrightarrow> list_all2 (exact_allow served_label) allows (as_out s')"
      "hrefs_of served_label labels hs"
    for cp eds scopes hs s mode by1 eff by2
    using ruleset_step_enforced [OF store dir all svc plain _ that(2), of
        "zero_result\<lparr>br_unknown_label_mode := mode, br_unknown_label_mode_set_by := by1,
        br_effective_enforcement := eff, br_enforcement_set_by := by2\<rparr>" s cp annotations ns cr
        "\<lparr>ow_data_set = eds, ow_reference = uid\<rparr>" scopes] that(1)
    by simp
  have resolved: "hoare (\<lambda>_. True) (do {
      resolved \<leftarrow> resolveAllows pc allows mode \<lparr>ow_data_set = eds, ow_reference = uid\<rparr>; g resolved }) ?Q"
    if "\<And>r. \<forall>s. r = Inr (Inr s) \<longrightarrow> mode = UnknownLabelStrict \<longrightarrow>
          list_all2 (exact_allow served_label) allows (as_out s) \<Longrightarrow> hoare (\<lambda>_. True) (g r) ?Q"
    for mode eds g
    by (rule hoare_bind_val [OF resolveAllows_exact that])
  have narrowed: "hoare (\<lambda>_. True) (do { n \<leftarrow> find_labels pc msg labels []; g n }) ?Q"
    if "\<And>r. \<forall>hs. r = Inr (Inr hs) \<longrightarrow> hrefs_of served_label labels hs \<Longrightarrow> hoare (\<lambda>_. True) (g r) ?Q"
    for msg g
    by (rule hoare_bind_val [OF narrow that])
  show ?thesis
    unfolding ReconcilePolicy_def Let_def
    by (rule hoare_any_bind, rule found_case, simp, simp)
      (rule hoare hoare_any_bind verdict_case resolved narrowed step | simp)+
qed

end



subsection \<open>Properties\<close>

text \<open>
  C1: A SegmentationPolicy that a reconcile made ready in strict mode is enforced as
  written: the rules in its owned ruleset admit a consumer with labels \<open>L\<close> to a provider
  with labels \<open>P\<close> exactly when some ingress rule of the resource permits the consumer and
  the provider has the labels of its pod selector.
\<close>
theorem SegmentationPolicy_enforced:
  assumes "CompilePolicy spec = Inr allows"
    and "\<forall>ing \<in> set (sps_ingress spec). \<forall>peer \<in> set (ir_from ing). wf_peer peer"
    and "lookup_contract pc known services sets" "rule_store pc sets view"
    and "directory known" "all \<noteq> ''''"
    and "\<forall>s. services s \<longrightarrow> svc_name s = AllServicesName \<longrightarrow> svc_href s = all"
    and "run_state (ReconcilePolicy k (\<lambda>_. pc) namespace crName uid annotations
           (sel_match_labels (sps_pod_selector spec)) allows) w = (Inr res, w')"
    and "br_provisioned res \<noteq> None" "br_unknown_label_mode res = UnknownLabelStrict"
  shows "\<exists>rs. sets rs \<and> rs_external_data_reference rs = uid \<and>
    (\<forall>L P in_ns proto port.
       (\<exists>r \<in> set (view w' (rs_href rs)). rule_admits all r (held known L) (held known P) in_ns proto port) \<longleftrightarrow>
       policy_permits spec L in_ns proto port \<and> has_labels (sel_match_labels (sps_pod_selector spec)) P)"
  using hoareD [OF lookup_contract.ReconcilePolicy_enforced [OF assms(3-7) CompilePolicy_plain [OF assms(1,2)]]
      TrueI assms(8)] assms(9,10)
  by (simp add: enforced_def admits_exactly_def compiled_policy_permits [OF assms(1,2)])

text \<open>
  C2: So is a SegmentationIntent: the rules in its owned ruleset admit exactly what the
  intent permits, to the workloads with the labels of \<open>spec.provider\<close>.
\<close>
theorem SegmentationIntent_enforced:
  assumes "CompileIntent spec = Inr allows"
    and "lookup_contract pc known services sets" "rule_store pc sets view"
    and "directory known" "all \<noteq> ''''"
    and "\<forall>s. services s \<longrightarrow> svc_name s = AllServicesName \<longrightarrow> svc_href s = all"
    and "run_state (ReconcilePolicy k (\<lambda>_. pc) namespace crName uid annotations
           (sis_provider spec) allows) w = (Inr res, w')"
    and "br_provisioned res \<noteq> None" "br_unknown_label_mode res = UnknownLabelStrict"
  shows "\<exists>rs. sets rs \<and> rs_external_data_reference rs = uid \<and>
    (\<forall>L P in_ns proto port.
       (\<exists>r \<in> set (view w' (rs_href rs)). rule_admits all r (held known L) (held known P) in_ns proto port) \<longleftrightarrow>
       intent_permits spec L in_ns proto port \<and> has_labels (sis_provider spec) P)"
  using hoareD [OF lookup_contract.ReconcilePolicy_enforced [OF assms(2-6) CompileIntent_plain [OF assms(1)]]
      TrueI assms(7)] assms(8,9)
  by (simp add: enforced_def admits_exactly_def compiled_intent_permits [OF assms(1)])

text \<open>The draft store of \<open>Sim_World\<close> with the labels \<open>app=shop\<close> and \<open>role=web\<close>.\<close>

definition two_label :: "label \<Rightarrow> bool" where
  "two_label l \<longleftrightarrow> (lbl_href l, lbl_key l, lbl_value l) \<in>
     {(''/labels/app'', ''app'', ''shop''), (''/labels/role'', ''role'', ''web'')}"

definition two_label_store :: "sim policy_client" where
  "two_label_store = sim_client\<lparr>pc_find_label := (\<lambda>k v.
     ret (if (k, v) \<in> {(''app'', ''shop''), (''role'', ''web'')} then
            Inr \<lparr>lbl_href = ''/labels/'' @ k, lbl_key = k, lbl_value = v,
                 lbl_external_data_set = '''', lbl_external_data_reference = ''''\<rparr>
          else Inl ErrLabelNotFound))\<rparr>"

lemma two_label_store_contract:
  "lookup_contract two_label_store two_label (\<lambda>s. svc_href s = ''/services/1'') (\<lambda>_. True)"
  by unfold_locales
    (auto simp: hoare_def two_label_store_def two_label_def label_for_def sim_client_def sim_find_set_def
      dest!: find_SomeD split: if_splits)

lemma two_label_store_rules: "rule_store two_label_store (\<lambda>_. True) sim_view"
proof -
  have "draft_rules_laws two_label_store sim_view"
    using sim_draft_rules_laws by (simp add: draft_rules_laws_def two_label_store_def)
  then show ?thesis
    by (auto simp: rule_store_def two_label_store_def sim_client_def sim_provision_def sim_view_def
        sim_create_set_def hoare_def Let_def)
qed

lemma two_label_directory: "directory two_label"
  by (auto simp: directory_def two_label_def)

definition web_policy :: seg_policy_spec where
  \<comment> \<open>the pods with \<open>role=web\<close> may connect on TCP port 80\<close>
  "web_policy =
     \<lparr>sps_pod_selector = \<lparr>sel_match_labels = [], sel_match_expressions = []\<rparr>,
      sps_ingress = [\<lparr>ir_from = [\<lparr>np_pod_selector = Some \<lparr>sel_match_labels = [(''role'', ''web'')],
          sel_match_expressions = []\<rparr>, np_namespace_selector = None\<rparr>],
        ir_ports = [\<lparr>npp_port = 80, npp_protocol = ''TCP''\<rparr>]\<rparr>],
      sps_policy_types = [''Ingress''], sps_enforcement = ''''\<rparr>"

definition web_intent :: seg_intent_spec where
  "web_intent = \<lparr>sis_provider = [(''role'', ''web'')], sis_allow = [], sis_allow_intra_namespace = True,
      sis_enforcement = ''''\<rparr>"

definition run_two_label :: "smap \<Rightarrow> go_error + compiled_allow list \<Rightarrow> (go_error + backend_result) \<times> sim" where
  "run_two_label provider compiled =
     run_state (ReconcilePolicy (sim_cluster ''auto'') (\<lambda>_. two_label_store) ''shop'' ''r'' ''uid-r''
       [] provider (projr compiled)) sim_world"

lemma run_two_label_ready:
  "(case fst (run_two_label [] (CompilePolicy web_policy)) of
      Inr res \<Rightarrow> br_provisioned res \<noteq> None \<and> br_unknown_label_mode res = UnknownLabelStrict | _ \<Rightarrow> False)"
  "(case fst (run_two_label [(''role'', ''web'')] (CompileIntent web_intent)) of
      Inr res \<Rightarrow> br_provisioned res \<noteq> None \<and> br_unknown_label_mode res = UnknownLabelStrict | _ \<Rightarrow> False)"
  by code_simp+

theorem SegmentationPolicy_enforced_witness:
  "let w' = snd (run_two_label [] (CompilePolicy web_policy));
       web = held two_label [''role'' \<mapsto> ''web'']
   in \<exists>h. (\<exists>r \<in> set (sim_view w' h). rule_admits ''/services/1'' r web {} True 6 80) \<and>
          \<not> (\<exists>r \<in> set (sim_view w' h). rule_admits ''/services/1'' r web {} False 6 80)"
proof -
  obtain allows where allows: "CompilePolicy web_policy = Inr allows"
    using CompilePolicy_supported [of web_policy]
    by (simp add: supported_policy_def supported_ingress_def supported_peer.simps web_policy_def
        policyTypeIngress_def)
  obtain res w' where run: "run_two_label [] (CompilePolicy web_policy) = (Inr res, w')"
    and ready: "br_provisioned res \<noteq> None" "br_unknown_label_mode res = UnknownLabelStrict"
    using run_two_label_ready(1) by (cases "run_two_label [] (CompilePolicy web_policy)") (auto split: sum.splits)
  have wf: "\<forall>ing \<in> set (sps_ingress web_policy). \<forall>peer \<in> set (ir_from ing). wf_peer peer"
    by (simp add: web_policy_def wf_peer_def)
  have empty: "held two_label Map.empty = {}" by (simp add: held_def)
  have sel: "sel_match_labels (sps_pod_selector web_policy) = []" by (simp add: web_policy_def)
  have perm: "policy_permits web_policy [''role'' \<mapsto> ''web''] True 6 80"
    "\<not> policy_permits web_policy [''role'' \<mapsto> ''web''] False 6 80"
    by (simp_all add: web_policy_def policy_permits_def peer_permits_def has_labels_def protoNumber_def
        protoNameUDP_def)
  have "\<exists>rs :: rule_set. True \<and> rs_external_data_reference rs = ''uid-r'' \<and>
    (\<forall>L P in_ns proto port.
       (\<exists>r \<in> set (sim_view w' (rs_href rs)). rule_admits ''/services/1'' r (held two_label L)
          (held two_label P) in_ns proto port) \<longleftrightarrow>
       policy_permits web_policy L in_ns proto port \<and>
       has_labels (sel_match_labels (sps_pod_selector web_policy)) P)"
    using run
    by (intro SegmentationPolicy_enforced [OF allows wf two_label_store_contract two_label_store_rules
          two_label_directory _ _ _ ready, of _ "sim_cluster ''auto''" "''shop''" "''r''" "''uid-r''" "[]" sim_world])
      (simp_all add: run_two_label_def allows sel)
  then obtain rs :: rule_set where rs: "\<forall>L P in_ns proto port.
       (\<exists>r \<in> set (sim_view w' (rs_href rs)). rule_admits ''/services/1'' r (held two_label L)
          (held two_label P) in_ns proto port) \<longleftrightarrow>
       policy_permits web_policy L in_ns proto port \<and>
       has_labels (sel_match_labels (sps_pod_selector web_policy)) P" by blast
  show ?thesis
    unfolding Let_def run snd_conv
    using rs [rule_format, of "[''role'' \<mapsto> ''web'']" Map.empty True 6 80]
      rs [rule_format, of "[''role'' \<mapsto> ''web'']" Map.empty False 6 80] perm
    by (intro exI [of _ "rs_href rs"]) (simp add: empty sel)
qed

theorem SegmentationIntent_enforced_witness:
  "let w' = snd (run_two_label [(''role'', ''web'')] (CompileIntent web_intent));
       web = held two_label [''role'' \<mapsto> ''web'']
   in \<exists>h. (\<exists>r \<in> set (sim_view w' h). rule_admits ''/services/1'' r {} web True 17 53) \<and>
          \<not> (\<exists>r \<in> set (sim_view w' h). rule_admits ''/services/1'' r {} {} True 17 53)"
proof -
  obtain allows where allows: "CompileIntent web_intent = Inr allows"
    using CompileIntent_supported [of web_intent] by (simp add: supported_intent_def web_intent_def)
  let ?run = "run_two_label [(''role'', ''web'')] (CompileIntent web_intent)"
  obtain res w' where run: "?run = (Inr res, w')"
    and ready: "br_provisioned res \<noteq> None" "br_unknown_label_mode res = UnknownLabelStrict"
    using run_two_label_ready(2) by (cases ?run) (auto split: sum.splits)
  have empty: "held two_label Map.empty = {}" by (simp add: held_def)
  have sel: "sis_provider web_intent = [(''role'', ''web'')]" by (simp add: web_intent_def)
  have "\<exists>rs :: rule_set. True \<and> rs_external_data_reference rs = ''uid-r'' \<and>
    (\<forall>L P in_ns proto port.
       (\<exists>r \<in> set (sim_view w' (rs_href rs)). rule_admits ''/services/1'' r (held two_label L)
          (held two_label P) in_ns proto port) \<longleftrightarrow>
       intent_permits web_intent L in_ns proto port \<and> has_labels (sis_provider web_intent) P)"
    using run
    by (intro SegmentationIntent_enforced [OF allows two_label_store_contract two_label_store_rules
          two_label_directory _ _ _ ready, of _ "sim_cluster ''auto''" "''shop''" "''r''" "''uid-r''" "[]" sim_world])
      (simp_all add: run_two_label_def allows sel)
  then obtain rs :: rule_set where rs: "\<forall>L P in_ns proto port.
       (\<exists>r \<in> set (sim_view w' (rs_href rs)). rule_admits ''/services/1'' r (held two_label L)
          (held two_label P) in_ns proto port) \<longleftrightarrow>
       intent_permits web_intent L in_ns proto port \<and> has_labels (sis_provider web_intent) P" by blast
  have "intent_permits web_intent Map.empty True 17 53"
    by (simp add: intent_permits_def web_intent_def)
  with rs [rule_format, of Map.empty "[''role'' \<mapsto> ''web'']" True 17 53]
    rs [rule_format, of Map.empty Map.empty True 17 53] show ?thesis
    unfolding Let_def run snd_conv
    by (intro exI [of _ "rs_href rs"]) (simp add: empty sel has_labels_def)
qed

end
