(* ===== verification/Policy_Progress.thy ===== *)
theory Policy_Progress
  imports Policy_Semantics
begin

section \<open>A reconcile gets there\<close>

text \<open>
  The other half of the theorems of the form "if the reconcile reports success": with a PCE
  that answers, a usable profile and labels that exist, one reconcile makes the resource
  ready and provisions it if it may. \<open>I\<close> is an invariant of the world under which the calls
  answer; \<open>L\<close> are the labels the PCE has.
\<close>

abbreviation gives :: "('w \<Rightarrow> bool) \<Rightarrow> ('w, 'a) state \<Rightarrow> ('a \<Rightarrow> bool) \<Rightarrow> bool" where
  "gives I m Q \<equiv> hoare I m (\<lambda>r w. I w \<and> Q r)"

definition responsive ::
  "('w \<Rightarrow> bool) \<Rightarrow> 'w policy_client \<Rightarrow> (string \<times> string) set \<Rightarrow> string \<Rightarrow> string \<Rightarrow> bool" where
  \<comment> \<open>every call the reconcile of \<open>crName\<close> needs is answered, and its ruleset is not pending deletion\<close>
  "responsive I pc L namespace crName \<longleftrightarrow>
     (\<forall>(key, v) \<in> L. gives I (pc_find_label pc key v) (\<lambda>r. \<exists>l. r = Inr l)) \<and>
     gives I (pc_find_service_by_name pc AllServicesName) (\<lambda>r. \<exists>s. r = Inr (Some s)) \<and>
     (\<forall>ow. gives I (pc_find_rule_set_by_owner pc ow)
        (\<lambda>r. \<exists>x. r = Inr x \<and> (\<forall>rs. x = Some rs \<longrightarrow> rs_update_type rs \<noteq> RuleSetUpdateTypeDelete))) \<and>
     (\<forall>hs ow. gives I (pc_create_rule_set pc (BuildRuleSet namespace crName hs ow)) (\<lambda>r. \<exists>rs. r = Inr rs)) \<and>
     (\<forall>h. gives I (pc_list_rules pc h) (\<lambda>r. \<exists>rules. r = Inr rules)) \<and>
     (\<forall>h. gives I (pc_delete_rule pc h) (\<lambda>r. r = None)) \<and>
     (\<forall>h q. gives I (pc_create_rule pc h q) (\<lambda>r. \<exists>q'. r = Inr q')) \<and>
     (\<forall>hs d. gives I (pc_provision_rule_sets pc hs d) (\<lambda>r. \<exists>p. r = Inr p))"

lemma responsiveD:
  assumes "responsive I pc L ns cr"
  shows "(key, v) \<in> L \<Longrightarrow> gives I (pc_find_label pc key v) (\<lambda>r. \<exists>l. r = Inr l)"
    and "gives I (pc_find_service_by_name pc AllServicesName) (\<lambda>r. \<exists>s. r = Inr (Some s))"
    and "gives I (pc_find_rule_set_by_owner pc ow)
        (\<lambda>r. \<exists>x. r = Inr x \<and> (\<forall>rs. x = Some rs \<longrightarrow> rs_update_type rs \<noteq> RuleSetUpdateTypeDelete))"
    and "gives I (pc_create_rule_set pc (BuildRuleSet ns cr hs ow)) (\<lambda>r. \<exists>rs. r = Inr rs)"
    and "gives I (pc_list_rules pc h) (\<lambda>r. \<exists>rules. r = Inr rules)"
    and "gives I (pc_delete_rule pc h) (\<lambda>r. r = None)"
    and "gives I (pc_create_rule pc h q) (\<lambda>r. \<exists>q'. r = Inr q')"
    and "gives I (pc_provision_rule_sets pc hs d) (\<lambda>r. \<exists>p. r = Inr p)"
  using assms by (auto simp: responsive_def)

lemma givesD: "gives I m Q \<Longrightarrow> I w \<Longrightarrow> Q (fst (run_state m w))"
  by (simp add: hoare_def split_beta)

lemma gives_return [hoare]: "Q x \<Longrightarrow> gives I (ret x) Q"
  by (simp add: hoare_def)


subsection \<open>Labels\<close>

lemma gives_find_labels:
  assumes "responsive I pc L ns cr"
  shows "set labels \<subseteq> L \<Longrightarrow> gives I (find_labels pc msg labels hs) (\<lambda>r. \<exists>hs'. r = Inr (Inr hs'))"
proof (induction labels arbitrary: hs)
  case (Cons kv labels)
  obtain key v where kv: "kv = (key, v)" by fastforce
  with Cons show ?case
    by (auto intro!: hoare_bind_pure [OF responsiveD(1) [OF assms]] Cons.IH)
qed (simp add: gives_return)

lemma gives_resolve_from:
  assumes "responsive I pc L ns cr"
  shows "set labels \<subseteq> L \<Longrightarrow> gives I (resolve_from pc mode ow labels s) (\<lambda>r. \<exists>s'. r = Inr (Inr s'))"
proof (induction labels arbitrary: s)
  case (Cons kv labels)
  obtain key v where kv: "kv = (key, v)" by fastforce
  with Cons show ?case
    by (auto intro!: hoare_bind_pure [OF responsiveD(1) [OF assms]] Cons.IH)
qed (simp add: gives_return)

lemma gives_resolve_allows:
  assumes "responsive I pc L ns cr"
  shows "\<forall>a \<in> set allows. set (ca_from a) \<subseteq> L \<Longrightarrow>
    gives I (resolve_allows_from pc mode ow allows s) (\<lambda>r. \<exists>s'. r = Inr (Inr s'))"
proof (induction allows arbitrary: s)
  case (Cons a allows)
  then show ?case
    by (auto simp: Let_def intro!: hoare_bind_pure [OF gives_resolve_from [OF assms]] Cons.IH)
qed (simp add: gives_return)

lemma gives_resolveAllows:
  "responsive I pc L ns cr \<Longrightarrow> \<forall>a \<in> set allows. set (ca_from a) \<subseteq> L \<Longrightarrow>
   gives I (resolveAllows pc allows mode ow) (\<lambda>r. \<exists>s. r = Inr (Inr s))"
  unfolding resolveAllows_def by (rule gives_resolve_allows)


subsection \<open>The ruleset\<close>

lemma gives_delete_rules:
  "responsive I pc L ns cr \<Longrightarrow> gives I (delete_rules pc rules) (\<lambda>r. r = None)"
  by (induction rules) (auto intro!: gives_return hoare_bind_pure [OF responsiveD(6)])

lemma gives_create_rules:
  "responsive I pc L ns cr \<Longrightarrow> gives I (create_rules pc h rules) (\<lambda>r. r = None)"
  by (induction rules) (auto intro!: gives_return hoare_bind_pure [OF responsiveD(7)])

lemma gives_clear_or_create:
  "responsive I pc L ns cr \<Longrightarrow>
   gives I (clear_or_create pc existing (BuildRuleSet ns cr hs ow)) (\<lambda>r. \<exists>h. r = Inr h)"
  unfolding clear_or_create_def
  by (cases existing)
    (auto intro!: gives_return hoare_bind_pure [OF responsiveD(4)] hoare_bind_pure [OF responsiveD(5)]
      hoare_bind_pure [OF gives_delete_rules])

lemma gives_all_services_href:
  "responsive I pc L ns cr \<Longrightarrow> gives I (all_services_href pc resolved) (\<lambda>r. \<exists>h. r = Inr h)"
  unfolding all_services_href_def
  by (auto intro!: hoare_if gives_return hoare_bind_pure [OF responsiveD(2)])

lemma gives_reconcileRuleSet:
  assumes "responsive I pc L ns cr"
  shows "gives I (reconcileRuleSet pc cr ns ow scopes narrow resolved) (\<lambda>r. \<exists>h. r = Inr h)"
proof -
  have clear: "gives I (do {
      rsHref \<leftarrow> clear_or_create pc existing (BuildRuleSet ns cr scopes ow);
      case rsHref of
        Inl e \<Rightarrow> ret (Inl e)
      | Inr rsHref \<Rightarrow> do {
          svcHref \<leftarrow> all_services_href pc resolved;
          case svcHref of
            Inl e \<Rightarrow> ret (Inl e)
          | Inr svcHref \<Rightarrow> do {
              cerr \<leftarrow> create_rules pc rsHref (BuildRules narrow svcHref resolved);
              case cerr of Some e \<Rightarrow> ret (Inl e) | None \<Rightarrow> ret (Inr rsHref)
            } } }) (\<lambda>r. \<exists>h. r = Inr h)" for existing
    by (auto intro!: gives_return hoare_bind_pure [OF gives_clear_or_create [OF assms]]
        hoare_bind_pure [OF gives_all_services_href [OF assms]]
        hoare_bind_pure [OF gives_create_rules [OF assms]])
  show ?thesis
    unfolding reconcileRuleSet_def
    by (rule hoare_bind_pure [OF responsiveD(3) [OF assms]]) (use clear in \<open>auto split: option.split\<close>)
qed

definition made_ready :: "bool \<Rightarrow> go_error + backend_result \<Rightarrow> bool" where
  \<comment> \<open>ready, looked at again in ten minutes, and provisioned exactly when it may be\<close>
  "made_ready may_provision r \<longleftrightarrow>
     (\<exists>res c. r = Inr res \<and> br_ready res = Some ready_condition \<and> br_provisioned res = Some c \<and>
        (bc_status c = ConditionTrue \<longleftrightarrow> may_provision) \<and> br_requeue res = siRequeueHealthy)"

lemma gives_ruleset_step:
  assumes "responsive I pc L ns cr"
  shows "gives I (ruleset_step pc cp annotations ns cr ow scopes narrow s base)
    (made_ready (provision_allowed cp annotations))"
proof -
  have "gives I (provision_step pc cp annotations ns cr h base')
    (made_ready (provision_allowed cp annotations))" for h base'
    unfolding provision_step_def
    by (auto intro!: hoare_if gives_return hoare_bind_pure [OF responsiveD(8) [OF assms]]
        simp: made_ready_def not_ready_def)
  then show ?thesis
    unfolding ruleset_step_def
    by (intro hoare_bind_pure [OF gives_reconcileRuleSet [OF assms]]) auto
qed



subsection \<open>The whole reconcile\<close>

definition scope_labels :: "cluster_profile \<Rightarrow> object_meta \<Rightarrow> smap" where
  \<comment> \<open>the labels that scope the rulesets of the namespace\<close>
  "scope_labels cp m =
     scopeLabelSubset (d_labels (ComputeDesiredCWP (om_name m) (om_labels m) (om_annotations m)
       (cps_namespace_rules (cp_spec cp)) (cps_system_namespaces (cp_spec cp))))
       (ScopeLabelKeys (cp_spec cp))"

definition managed_by :: "cluster_profile \<Rightarrow> object_meta \<Rightarrow> bool" where
  "managed_by cp m \<longleftrightarrow>
     d_managed (ComputeDesiredCWP (om_name m) (om_labels m) (om_annotations m)
       (cps_namespace_rules (cp_spec cp)) (cps_system_namespaces (cp_spec cp)))"

lemma scope_labels_assigned:
  "scope_labels cp m \<noteq> [] \<Longrightarrow>
   d_labels (ComputeDesiredCWP (om_name m) (om_labels m) (om_annotations m)
     (cps_namespace_rules (cp_spec cp)) (cps_system_namespaces (cp_spec cp))) \<noteq> []"
  by (auto simp: scope_labels_def scopeLabelSubset_def)

lemma gives_resolveProvider:
  assumes "responsive I pc L ns cr" "gives I (k_get_namespace k ns) (\<lambda>r. r = Inr m)"
    and "managed_by cp m" "scope_labels cp m \<noteq> []" "set (scope_labels cp m) \<subseteq> L"
  shows "gives I (resolveProvider k ns cp pc) (\<lambda>r. \<exists>hs. r = Inr (Inr hs))"
  unfolding resolveProvider_def Let_def
  by (rule hoare_bind_pure [OF assms(2)])
    (use assms(3-5) scope_labels_assigned [OF assms(4)] in
      \<open>simp add: managed_by_def gives_find_labels [OF assms(1)] flip: scope_labels_def\<close>)

lemma gives_ReconcilePolicy:
  assumes pc: "responsive I pc L ns cr"
    and reads: "kube_reads_keep I k"
    and profile: "gives I (resolveClusterProfile k ns) (\<lambda>r. \<exists>cfg eds. r = Inr (Some (cp, cfg, eds)))"
    and ns: "gives I (k_get_namespace k ns) (\<lambda>r. r = Inr m)"
    and managed: "managed_by cp m" "scope_labels cp m \<noteq> []"
    and labels: "set (scope_labels cp m) \<subseteq> L" "set providerLabels \<subseteq> L"
      "\<forall>a \<in> set allows. set (ca_from a) \<subseteq> L"
  shows "gives I (ReconcilePolicy k (\<lambda>_. pc) ns cr uid annotations providerLabels allows)
    (made_ready (provision_allowed cp annotations))"
  unfolding ReconcilePolicy_def Let_def
  by (rule hoare_bind_pure [OF profile] hoare_case_prod gives_ruleset_step [OF pc]
        hoare_bind_keeps [OF keeps_namespace_enforcement [OF reads]]
        hoare_bind_pure [OF gives_resolveProvider [OF pc ns managed labels(1)]]
        hoare_bind_pure [OF gives_resolveAllows [OF pc labels(3)]]
        hoare_bind_pure [OF gives_find_labels [OF pc labels(2)]]
      | elim exE, simp only: sum.case option.case prod.case)+



subsection \<open>Properties\<close>


definition none_pending :: "sim \<Rightarrow> bool" where
  "none_pending w \<longleftrightarrow> list_all (\<lambda>rs. rs_update_type rs \<noteq> RuleSetUpdateTypeDelete) (sim_sets w)"

lemma two_label_store_responsive:
  "responsive none_pending two_label_store {(''app'', ''shop''), (''role'', ''web'')} namespace crName"
  by (auto simp: responsive_def hoare_def two_label_store_def sim_client_def none_pending_def Let_def
      sim_find_set_def sim_create_set_def sim_list_rules_def sim_create_rule_def sim_delete_rule_def
      sim_provision_def BuildRuleSet_def RuleSetUpdateTypeDelete_def list_all_iff dest!: find_SomeD)

lemma sim_profile_facts:
  "managed_by (sim_profile ''manual'') (sim_meta ''shop'')"
  "scope_labels (sim_profile ''manual'') (sim_meta ''shop'') = [(''app'', ''shop'')]"
  by code_simp+

lemma sim_profile_resolved:
  "\<exists>cfg eds. run_state (resolveClusterProfile (sim_cluster ''manual'') ''shop'') w =
     (Inr (Some (sim_profile ''manual'', cfg, eds)), w)"
proof -
  have "om_name (sim_meta ''shop'') = ''shop''" by (simp add: sim_meta_def)
  then have "(sim_meta ''shop'')\<lparr>om_name := ''shop''\<rparr> = sim_meta ''shop''" by (simp add: sim_meta_def)
  then show ?thesis
    using sim_profile_facts(1)
    by (simp add: resolveClusterProfile_def sim_cluster_def sim_kube_def managed_by_def)
      (simp add: sim_profile_def sim_connection_def sim_meta_def new_condition_def Let_def
        ConditionOnboarded_def ConditionConnected_def defaultExternalDataSet_def mget_def)
qed


end
