(* ===== verification/Policy_Result.thy ===== *)
theory Policy_Result
  imports Sim_World
begin

section \<open>What a reconcile reports\<close>

text \<open>
  The shape of a \<open>backend_result\<close>, the effective enforcement as the maximum of what was
  asked for, and skip-mode label resolution as a pure function of the PCE's labels.
\<close>

subsection \<open>The result's shape\<close>

definition coherent_result :: "backend_result \<Rightarrow> bool" where
  \<comment> \<open>\<open>Ready\<close> is always reported; \<open>Provisioned\<close> exactly when \<open>Ready\<close> is true; the next
      reconcile is always scheduled; the label mode is empty or valid\<close>
  "coherent_result res \<longleftrightarrow>
     (\<exists>c. br_ready res = Some c \<and> (bc_status c = ConditionTrue \<longleftrightarrow> br_provisioned res \<noteq> None)) \<and>
     br_requeue res \<in> {siRequeueNotReady, siRequeueHealthy} \<and>
     (br_unknown_label_mode res = '''' \<or> validUnknownLabelMode (br_unknown_label_mode res))"

lemma ruleset_step_coherent:
  assumes "br_provisioned base = None"
    and "br_unknown_label_mode base = '''' \<or> validUnknownLabelMode (br_unknown_label_mode base)"
  shows "returns (ruleset_step pc cp annotations ns cr ow scopes narrow s base)
     (\<lambda>r. \<forall>res. r = Inr res \<longrightarrow> coherent_result res)"
  using assms unfolding ruleset_step_def provision_step_def
  by (auto intro!: hoare returns_bind simp: coherent_result_def not_ready_def ready_condition_def)

lemma coherent_not_ready:
  "br_provisioned base = None \<Longrightarrow> q \<in> {siRequeueNotReady, siRequeueHealthy} \<Longrightarrow>
   br_unknown_label_mode base = '''' \<or> validUnknownLabelMode (br_unknown_label_mode base) \<Longrightarrow>
   coherent_result (base\<lparr>br_ready := Some (not_ready reason msg), br_requeue := q\<rparr>)"
  by (auto simp: coherent_result_def not_ready_def)

lemma ReconcilePolicy_coherent:
  "returns (ReconcilePolicy k factory ns cr uid annotations providerLabels allows)
     (\<lambda>r. \<forall>res. r = Inr res \<longrightarrow> coherent_result res)"
proof -
  have mode: "mode = '''' \<or> validUnknownLabelMode mode"
    if "ResolveUnknownLabelMode d a b = (mode, by)" for d a b mode "by"
    using ResolveUnknownLabelMode_valid [of d a b] that by simp
  show ?thesis
    unfolding ReconcilePolicy_def Let_def
    by (auto intro!: hoare returns_bind ruleset_step_coherent dest!: mode
        intro: coherent_not_ready)
qed


subsection \<open>Effective enforcement\<close>

lemma StrictestEnforcement_pair:
  "validEnforcement mode \<Longrightarrow>
   StrictestEnforcement [mode, r] = (if enforcementRank r > enforcementRank mode then r else mode)"
  using enforcementRank_nonneg [of mode]
  by (auto simp: StrictestEnforcement_def validEnforcement_def)

lemma raise_enforcement_max:
  assumes "validEnforcement mode" "\<forall>r \<in> snd ` set crs. validEnforcement r"
    and "raise_enforcement mode setBy crs = (mode', setBy')"
  shows "mode' \<in> insert mode (snd ` set crs) \<and>
    (\<forall>m \<in> insert mode (snd ` set crs). enforcementRank m \<le> enforcementRank mode') \<and>
    (if mode' = mode then setBy' = setBy else (setBy', mode') \<in> set crs)"
  using assms
proof (induction crs arbitrary: mode setBy)
  case Nil
  then show ?case by simp
next
  case (Cons cr crs)
  obtain name r where cr: "cr = (name, r)" by fastforce
  have valid: "validEnforcement r" using Cons.prems(2) cr by simp
  show ?case
  proof (cases "enforcementRank r > enforcementRank mode")
    case True
    then have "r \<noteq> mode" by auto
    then have "raise_enforcement r name crs = (mode', setBy')"
      using Cons.prems True by (simp add: cr StrictestEnforcement_pair)
    from Cons.IH [OF valid _ this] Cons.prems(2) True show ?thesis
      by (auto simp: cr split: if_splits)
  next
    case False
    then have "raise_enforcement mode setBy crs = (mode', setBy')"
      using Cons.prems by (simp add: cr StrictestEnforcement_pair)
    from Cons.IH [OF Cons.prems(1) _ this] Cons.prems(2) False show ?thesis
      by (auto simp: cr split: if_splits)
  qed
qed

lemma raise_enforcement_append:
  "raise_enforcement mode setBy (xs @ ys) =
     (case raise_enforcement mode setBy xs of (m, s) \<Rightarrow> raise_enforcement m s ys)"
  by (induction mode setBy xs rule: raise_enforcement.induct) (auto simp: Let_def)

definition enforcement_requests :: "seg_intent list \<Rightarrow> seg_policy list \<Rightarrow> (string \<times> string) list" where
  \<comment> \<open>name and requested mode of each policy resource of the namespace\<close>
  "enforcement_requests is ps =
     map (\<lambda>i. (om_name (si_meta i), sis_enforcement (si_spec i))) is @
     map (\<lambda>p. (om_name (sp_meta p), sps_enforcement (sp_spec p))) ps"

lemma EffectiveEnforcement_run:
  assumes "run_state (k_list_intents k ns) w = (Inr is, w1)"
    and "run_state (k_list_policies k ns) w1 = (Inr ps, w2)"
  shows "run_state (EffectiveEnforcement k ns baseline) w =
    (Inr (raise_enforcement baseline ''admin'' (enforcement_requests is ps)), w2)"
  using assms
  by (simp add: EffectiveEnforcement_def enforcement_requests_def raise_enforcement_append
      split: prod.split)


subsection \<open>Skip mode as a function of the PCE's labels\<close>

definition label_view :: "'w policy_client \<Rightarrow> (string \<Rightarrow> string \<Rightarrow> label option) \<Rightarrow> bool" where
  \<comment> \<open>\<open>FindLabel\<close> reads a fixed set of labels and changes nothing\<close>
  "label_view pc L \<longleftrightarrow>
     (\<forall>w k v. run_state (pc_find_label pc k v) w =
        (case L k v of Some l \<Rightarrow> Inr l | None \<Rightarrow> Inl ErrLabelNotFound, w))"

definition known_hrefs :: "(string \<Rightarrow> string \<Rightarrow> label option) \<Rightarrow> smap \<Rightarrow> string list" where
  "known_hrefs L from = List.map_filter (\<lambda>(k, v). map_option lbl_href (L k v)) from"

definition unknown_labels :: "(string \<Rightarrow> string \<Rightarrow> label option) \<Rightarrow> smap \<Rightarrow> string list" where
  "unknown_labels L from = map (\<lambda>(k, v). k @ ''='' @ v) (filter (\<lambda>(k, v). L k v = None) from)"

definition skip_allow ::
  "(string \<Rightarrow> string \<Rightarrow> label option) \<Rightarrow> compiled_allow \<Rightarrow> resolved_allow list" where
  "skip_allow L a =
     (if ca_all_workloads a then
        [\<lparr>ra_consumer_hrefs = [], ra_all_workloads = True,
          ra_intra_scope = ca_intra_scope a, ra_ports = ca_ports a\<rparr>]
      else if unknown_labels L (ca_from a) \<noteq> [] \<and> known_hrefs L (ca_from a) = [] then []
      else [\<lparr>ra_consumer_hrefs = known_hrefs L (ca_from a), ra_all_workloads = False,
             ra_intra_scope = ca_intra_scope a, ra_ports = ca_ports a\<rparr>])"

definition skip_deferred :: "(string \<Rightarrow> string \<Rightarrow> label option) \<Rightarrow> compiled_allow \<Rightarrow> string list" where
  "skip_deferred L a = (if ca_all_workloads a then [] else unknown_labels L (ca_from a))"

lemma resolve_from_skip:
  assumes "label_view pc L"
  shows "run_state (resolve_from pc UnknownLabelSkip ow labels s) w =
    (Inr (Inr (s\<lparr>fs_hrefs := fs_hrefs s @ known_hrefs L labels,
                fs_deferred := fs_deferred s @ unknown_labels L labels,
                fs_skipped_any := (fs_skipped_any s \<or> unknown_labels L labels \<noteq> [])\<rparr>)), w)"
proof (induction labels arbitrary: s)
  case Nil
  then show ?case by (simp add: known_hrefs_def unknown_labels_def List.map_filter_def)
next
  case (Cons kv labels)
  obtain k v where kv: "kv = (k, v)" by fastforce
  have find: "run_state (pc_find_label pc k v) w =
      (case L k v of Some l \<Rightarrow> Inr l | None \<Rightarrow> Inl ErrLabelNotFound, w)" for w
    using assms by (simp add: label_view_def)
  show ?case
    by (cases "L k v")
      (simp_all add: kv find Cons.IH known_hrefs_def unknown_labels_def List.map_filter_def Let_def)
qed

lemma resolve_allows_skip:
  assumes "label_view pc L"
  shows "run_state (resolve_allows_from pc UnknownLabelSkip ow allows s) w =
    (Inr (Inr (s\<lparr>as_out := as_out s @ concat (map (skip_allow L) allows),
                as_deferred := as_deferred s @ concat (map (skip_deferred L) allows)\<rparr>)), w)"
proof (induction allows arbitrary: s)
  case Nil
  then show ?case by simp
next
  case (Cons a allows)
  then show ?case
    by (simp add: resolve_from_skip [OF assms] skip_allow_def skip_deferred_def Let_def)
qed

subsection \<open>Properties\<close>

text \<open>
  A reconcile that returns reports \<open>Ready\<close>, reports \<open>Provisioned\<close> exactly when \<open>Ready\<close>
  is true, schedules the next reconcile after thirty seconds or ten minutes, and names a
  valid unknown-label mode or none.
\<close>
theorem ReconcilePolicy_result:
  "returns (ReconcilePolicy k factory namespace crName uid annotations providerLabels allows)
     (\<lambda>r. case r of Inl e \<Rightarrow> True | Inr res \<Rightarrow> coherent_result res)"
  by (rule hoare_post [OF ReconcilePolicy_coherent]) (auto split: sum.split)

text \<open>
  The effective enforcement of a namespace is the strictest of the admin's baseline and
  the modes its policy resources ask for: it is one of them, none of them is stricter, and
  the reported setter is the admin or a resource that asked for exactly that mode.
\<close>
theorem EffectiveEnforcement_strictest:
  assumes "run_state (k_list_intents k ns) w = (Inr is, w1)"
    and "run_state (k_list_policies k ns) w1 = (Inr ps, w2)"
    and "validEnforcement baseline"
    and "\<forall>m \<in> snd ` set (enforcement_requests is ps). validEnforcement m"
  shows "\<exists>mode setBy. run_state (EffectiveEnforcement k ns baseline) w = (Inr (mode, setBy), w2) \<and>
    mode \<in> insert baseline (snd ` set (enforcement_requests is ps)) \<and>
    (\<forall>m \<in> insert baseline (snd ` set (enforcement_requests is ps)).
       enforcementRank m \<le> enforcementRank mode) \<and>
    (if mode = baseline then setBy = ''admin'' else (setBy, mode) \<in> set (enforcement_requests is ps))"
proof -
  obtain mode setBy where
    raise: "raise_enforcement baseline ''admin'' (enforcement_requests is ps) = (mode, setBy)"
    by fastforce
  show ?thesis
    using EffectiveEnforcement_run [OF assms(1,2), of baseline]
      raise_enforcement_max [OF assms(3,4) raise] unfolding raise by blast
qed

definition sim_intent :: "string \<Rightarrow> string \<Rightarrow> seg_intent" where
  "sim_intent name mode =
     \<lparr>si_meta = sim_meta name,
      si_spec = \<lparr>sis_provider = [], sis_allow = [], sis_allow_intra_namespace = True,
        sis_enforcement = mode\<rparr>,
      si_status = \<lparr>ss_conditions = [], ss_workloads_affected = 0, ss_effective_enforcement = '''',
        ss_enforcement_set_by = '''', ss_unknown_label_mode = '''', ss_unknown_label_mode_set_by = '''',
        ss_deferred_labels = [], ss_created_labels = [], ss_observed_generation = 0\<rparr>\<rparr>"

theorem EffectiveEnforcement_strictest_witness:
  "\<exists>mode setBy. run_state (EffectiveEnforcement
      (sim_kube [] [] [sim_intent ''a'' ''selective'', sim_intent ''b'' ''full''] [])
      ''shop'' ''visibility_only'') sim_world = (Inr (mode, setBy), sim_world) \<and>
    enforcementRank ''full'' \<le> enforcementRank mode"
proof -
  let ?is = "[sim_intent ''a'' ''selective'', sim_intent ''b'' ''full'']"
  let ?k = "sim_kube [] [] ?is []"
  have i: "run_state (k_list_intents ?k ''shop'') sim_world = (Inr ?is, sim_world)"
    and p: "run_state (k_list_policies ?k ''shop'') sim_world = (Inr [], sim_world)"
    by (simp_all add: sim_kube_def)
  have base: "validEnforcement ''visibility_only''"
    and req: "\<forall>m \<in> snd ` set (enforcement_requests ?is []). validEnforcement m"
    and "''full'' \<in> snd ` set (enforcement_requests ?is [])"
    by (simp_all add: validEnforcement_def enforcementRank_def enforcement_names
        enforcement_requests_def sim_intent_def)
  with EffectiveEnforcement_strictest [OF i p base req] show ?thesis by blast
qed

text \<open>
  A baseline outside the four modes is lost as soon as a policy resource exists: a
  resource that asks for nothing resets it to the empty mode and is reported as its setter.
\<close>
theorem raise_enforcement_unvalidated_baseline:
  "raise_enforcement baseline ''admin'' [(name, '''')] =
     (if validEnforcement baseline then (baseline, ''admin'') else ('''', name))"
  by (auto simp: StrictestEnforcement_def validEnforcement_def Let_def)

text \<open>
  C21: Skip mode drops unknown labels one by one: an allow keeps the hrefs of its known
  labels, only an allow without any known label is dropped, every unknown \<open>key=value\<close> is
  reported in order, nothing is created and the PCE is not changed.
\<close>
theorem resolveAllows_skip:
  assumes "label_view pc L"
  shows "run_state (resolveAllows pc allows UnknownLabelSkip ow) w =
    (Inr (Inr \<lparr>as_out = concat (map (skip_allow L) allows),
               as_deferred = concat (map (skip_deferred L) allows), as_created = []\<rparr>), w)"
  by (simp add: resolveAllows_def resolve_allows_skip [OF assms])

text \<open>A PCE that knows the labels \<open>app=web\<close> and \<open>env=dev\<close>, and not \<open>env=prod\<close>.\<close>

definition two_labels :: "string \<Rightarrow> string \<Rightarrow> label option" where
  "two_labels k v =
     (if (k, v) \<in> {(''app'', ''web''), (''env'', ''dev'')} then
        Some \<lparr>lbl_href = ''/labels/'' @ v, lbl_key = k, lbl_value = v,
              lbl_external_data_set = '''', lbl_external_data_reference = ''''\<rparr>
      else None)"

definition two_label_client :: "unit policy_client" where
  "two_label_client =
     \<lparr>pc_find_label = (\<lambda>k v. ret (case two_labels k v of Some l \<Rightarrow> Inr l | None \<Rightarrow> Inl ErrLabelNotFound)),
      pc_ensure_label = (\<lambda>k v ow. ret (Inl ErrLabelNotFound)),
      pc_find_service_by_name = (\<lambda>n. ret (Inr None)),
      pc_find_rule_set_by_owner = (\<lambda>ow. ret (Inr None)),
      pc_create_rule_set = (\<lambda>rs. ret (Inr rs)), pc_delete_rule_set = (\<lambda>h. ret None),
      pc_list_rules = (\<lambda>h. ret (Inr [])), pc_create_rule = (\<lambda>h r. ret (Inr r)),
      pc_delete_rule = (\<lambda>h. ret None),
      pc_provision_rule_sets = (\<lambda>hs d. ret (Inr \<lparr>pr_href = '''', pr_version = 1, pr_workloads_affected = 0\<rparr>))\<rparr>"

lemma two_label_view: "label_view two_label_client two_labels"
  by (simp add: label_view_def two_label_client_def)

theorem resolveAllows_skip_witness:
  "\<exists>s. run_state (resolveAllows two_label_client
        [\<lparr>ca_from = [(''app'', ''web''), (''env'', ''prod'')], ca_all_workloads = False,
          ca_intra_scope = False, ca_ports = []\<rparr>] UnknownLabelSkip \<lparr>ow_data_set = '''', ow_reference = ''''\<rparr>) ()
      = (Inr (Inr s), ()) \<and> as_deferred s = [''env=prod'']"
  by (simp add: resolveAllows_skip [OF two_label_view] skip_deferred_def unknown_labels_def two_labels_def)

definition admits_consumer :: "resolved_allow \<Rightarrow> string set \<Rightarrow> bool" where
  \<comment> \<open>does a rule with these consumers admit a workload whose labels have the hrefs \<open>H\<close>?\<close>
  "admits_consumer r H \<longleftrightarrow> ra_all_workloads r \<or> set (ra_consumer_hrefs r) \<subseteq> H"

text \<open>
  Skip mode can therefore widen an allow. The labels of a rule's consumer are taken
  together, so an allow from \<open>app=web, env=prod\<close> whose \<open>env=prod\<close> is unknown becomes a rule
  that admits every \<open>app=web\<close> consumer, those of \<open>env=dev\<close> included, which the allow
  excludes.
\<close>
theorem resolveAllows_skip_widens:
  "let from = [(''app'', ''web''), (''env'', ''prod'')];
       a = \<lparr>ca_from = from, ca_all_workloads = False, ca_intra_scope = False, ca_ports = []\<rparr>;
       dev = [''app'' \<mapsto> ''web'', ''env'' \<mapsto> ''dev''];
       out = fst (run_state (resolveAllows two_label_client [a] UnknownLabelSkip
                   \<lparr>ow_data_set = '''', ow_reference = ''''\<rparr>) ())
   in (\<exists>s. out = Inr (Inr s) \<and>
         (\<exists>r \<in> set (as_out s). admits_consumer r {''/labels/web'', ''/labels/dev''})) \<and>
      \<not> allow_permits a dev False 6 80"
proof -
  have "\<not> has_labels [(''app'', ''web''), (''env'', ''prod'')] [''app'' \<mapsto> ''web'', ''env'' \<mapsto> ''dev'']"
    by (simp add: has_labels_def)
  moreover have "known_hrefs two_labels [(''app'', ''web''), (''env'', ''prod'')] = [''/labels/web'']"
    by (simp add: known_hrefs_def List.map_filter_def two_labels_def)
  ultimately show ?thesis
    unfolding Let_def
    by (simp add: resolveAllows_def resolve_allows_skip [OF two_label_view] skip_allow_def
        allow_permits_def admits_consumer_def del: resolve_allows_from.simps)
qed

end
