(* ===== verification/Policy_Controllers.thy ===== *)
theory Policy_Controllers
  imports Pce_Client Policy_Result
begin

section \<open>The two policy controllers (segmentationintent_controller.go, segmentationpolicy_controller.go)\<close>

text \<open>
  \<open>Reconcile\<close> of the SegmentationIntent and SegmentationPolicy controllers: the deletion
  branch with the finalizer, the finalizer of a live object, compilation, the shared backend,
  and the status that is written. The result is \<open>ctrl.Result\<close> (its \<open>RequeueAfter\<close>) and the
  error. \<open>Update\<close> overwrites the object with what the API server stored, so the rest of the
  handler works on the returned object.
\<close>

definition segIntentFinalizer :: string where
  "segIntentFinalizer = ''microsegment.io/segmentationintent''"

definition segPolicyFinalizer :: string where
  "segPolicyFinalizer = ''microsegment.io/segmentationpolicy''"


subsection \<open>The status both controllers write\<close>

definition failed_status ::
  "'w kube \<Rightarrow> seg_intent_status \<Rightarrow> int \<Rightarrow> string \<Rightarrow> string \<Rightarrow> seg_intent_status" where
  \<comment> \<open>\<open>Ready=False\<close> with a reason, and the observed generation\<close>
  "failed_status k st generation reason msg =
     st\<lparr>ss_conditions := k_set_condition k (ss_conditions st)
          (new_condition ConditionReady ConditionFalse reason msg),
        ss_observed_generation := generation\<rparr>"

definition backend_status ::
  "'w kube \<Rightarrow> seg_intent_status \<Rightarrow> int \<Rightarrow> backend_result \<Rightarrow> seg_intent_status" where
  "backend_status k st generation res =
     st\<lparr>ss_conditions := applyBackendResult k (ss_conditions st) res,
        ss_workloads_affected := br_workloads_affected res,
        ss_effective_enforcement := br_effective_enforcement res,
        ss_enforcement_set_by := br_enforcement_set_by res,
        ss_unknown_label_mode := br_unknown_label_mode res,
        ss_unknown_label_mode_set_by := br_unknown_label_mode_set_by res,
        ss_deferred_labels := br_deferred_labels res,
        ss_created_labels := br_created_labels res,
        ss_observed_generation := generation\<rparr>"


subsection \<open>SegmentationIntent\<close>

definition intent_step ::
  "'w kube \<Rightarrow> (config \<Rightarrow> 'w policy_client) \<Rightarrow> seg_intent \<Rightarrow> ('w, reconcile_result) state" where
  \<comment> \<open>from the call of \<open>CompileIntent\<close> on\<close>
  "intent_step k factory si =
     (let m = si_meta si; st = si_status si in
      case CompileIntent (si_spec si) of
        Inl cerr \<Rightarrow> do {
          uerr \<leftarrow> k_status_intent k (si\<lparr>si_status :=
            failed_status k st (om_generation m) ReasonRejected (error_string cerr)\<rparr>);
          ret (0, uerr)
        }
      | Inr allows \<Rightarrow> do {
          res \<leftarrow> ReconcilePolicy k factory (om_namespace m) (om_name m) (om_uid m)
                   (om_annotations m) (sis_provider (si_spec si)) allows;
          case res of
            Inl err \<Rightarrow>
              (case pceRateLimit err of
                 Some d \<Rightarrow> do {
                   uerr \<leftarrow> k_status_intent k (si\<lparr>si_status :=
                     failed_status k st (om_generation m) ReasonRateLimited (error_string err)\<rparr>);
                   ret (case uerr of Some e \<Rightarrow> (0, Some e) | None \<Rightarrow> (d, None))
                 }
               | None \<Rightarrow> ret (0, Some err))
          | Inr res \<Rightarrow> do {
              uerr \<leftarrow> k_status_intent k (si\<lparr>si_status := backend_status k st (om_generation m) res\<rparr>);
              ret (case uerr of Some e \<Rightarrow> (0, Some e) | None \<Rightarrow> (br_requeue res, None))
            }
        })"

definition IntentReconcile ::
  "'w kube \<Rightarrow> (config \<Rightarrow> 'w policy_client) \<Rightarrow> string \<Rightarrow> string \<Rightarrow> ('w, reconcile_result) state" where
  "IntentReconcile k factory namespace name = do {
     r \<leftarrow> k_get_intent k namespace name;
     case r of
       Inl e \<Rightarrow> ret (0, ignore_not_found e)
     | Inr si \<Rightarrow>
         if om_deleting (si_meta si) then
           (if k_contains_finalizer k (si_meta si) segIntentFinalizer then do {
              ferr \<leftarrow> FinalizePolicy k factory (om_namespace (si_meta si)) (om_uid (si_meta si));
              case ferr of
                Some e \<Rightarrow> ret (0, Some e)
              | None \<Rightarrow> do {
                  u \<leftarrow> k_update_intent k
                    (si\<lparr>si_meta := k_remove_finalizer k (si_meta si) segIntentFinalizer\<rparr>);
                  case u of Inl e \<Rightarrow> ret (0, Some e) | Inr _ \<Rightarrow> ret (0, None)
                }
            }
            else ret (0, None))
         else
           (case k_add_finalizer k (si_meta si) segIntentFinalizer of
              (m, added) \<Rightarrow>
                if added then do {
                  u \<leftarrow> k_update_intent k (si\<lparr>si_meta := m\<rparr>);
                  case u of Inl e \<Rightarrow> ret (0, Some e) | Inr si \<Rightarrow> intent_step k factory si
                }
                else intent_step k factory si)
   }"


subsection \<open>SegmentationPolicy\<close>

definition policy_step ::
  "'w kube \<Rightarrow> (config \<Rightarrow> 'w policy_client) \<Rightarrow> seg_policy \<Rightarrow> ('w, reconcile_result) state" where
  \<comment> \<open>from the call of \<open>CompilePolicy\<close> on\<close>
  "policy_step k factory sp =
     (let m = sp_meta sp; st = sp_status sp in
      case CompilePolicy (sp_spec sp) of
        Inl cerr \<Rightarrow> do {
          uerr \<leftarrow> k_status_policy k (sp\<lparr>sp_status :=
            failed_status k st (om_generation m) ReasonRejected (error_string cerr)\<rparr>);
          ret (0, uerr)
        }
      | Inr allows \<Rightarrow> do {
          res \<leftarrow> ReconcilePolicy k factory (om_namespace m) (om_name m) (om_uid m)
                   (om_annotations m) (sel_match_labels (sps_pod_selector (sp_spec sp))) allows;
          case res of
            Inl err \<Rightarrow>
              (case pceRateLimit err of
                 Some d \<Rightarrow> do {
                   uerr \<leftarrow> k_status_policy k (sp\<lparr>sp_status :=
                     failed_status k st (om_generation m) ReasonRateLimited (error_string err)\<rparr>);
                   ret (case uerr of Some e \<Rightarrow> (0, Some e) | None \<Rightarrow> (d, None))
                 }
               | None \<Rightarrow> ret (0, Some err))
          | Inr res \<Rightarrow> do {
              uerr \<leftarrow> k_status_policy k (sp\<lparr>sp_status := backend_status k st (om_generation m) res\<rparr>);
              ret (case uerr of Some e \<Rightarrow> (0, Some e) | None \<Rightarrow> (br_requeue res, None))
            }
        })"

definition PolicyReconcile ::
  "'w kube \<Rightarrow> (config \<Rightarrow> 'w policy_client) \<Rightarrow> string \<Rightarrow> string \<Rightarrow> ('w, reconcile_result) state" where
  "PolicyReconcile k factory namespace name = do {
     r \<leftarrow> k_get_policy k namespace name;
     case r of
       Inl e \<Rightarrow> ret (0, ignore_not_found e)
     | Inr sp \<Rightarrow>
         if om_deleting (sp_meta sp) then
           (if k_contains_finalizer k (sp_meta sp) segPolicyFinalizer then do {
              ferr \<leftarrow> FinalizePolicy k factory (om_namespace (sp_meta sp)) (om_uid (sp_meta sp));
              case ferr of
                Some e \<Rightarrow> ret (0, Some e)
              | None \<Rightarrow> do {
                  u \<leftarrow> k_update_policy k
                    (sp\<lparr>sp_meta := k_remove_finalizer k (sp_meta sp) segPolicyFinalizer\<rparr>);
                  case u of Inl e \<Rightarrow> ret (0, Some e) | Inr _ \<Rightarrow> ret (0, None)
                }
            }
            else ret (0, None))
         else
           (case k_add_finalizer k (sp_meta sp) segPolicyFinalizer of
              (m, added) \<Rightarrow>
                if added then do {
                  u \<leftarrow> k_update_policy k (sp\<lparr>sp_meta := m\<rparr>);
                  case u of Inl e \<Rightarrow> ret (0, Some e) | Inr sp \<Rightarrow> policy_step k factory sp
                }
                else policy_step k factory sp)
   }"

subsection \<open>Frame and conditions\<close>

lemma keeps_intent_step_rejected:
  "kube_writes_keep P k \<Longrightarrow> \<not> supported_intent (si_spec si) \<Longrightarrow> keeps P (intent_step k factory si)"
  using CompileIntent_unsupported [of "si_spec si"]
  by (auto simp: intent_step_def Let_def isl_def intro!: keeps)

lemma keeps_policy_step_rejected:
  "kube_writes_keep P k \<Longrightarrow> \<not> supported_policy (sp_spec sp) \<Longrightarrow> keeps P (policy_step k factory sp)"
  using CompilePolicy_unsupported [of "sp_spec sp"]
  by (auto simp: policy_step_def Let_def isl_def intro!: keeps)

lemma applyBackendResult_find:
  assumes laws: "condition_laws k" and ready: "br_ready res = Some c"
  shows "k_find_condition k (applyBackendResult k conds res) ConditionReady =
      Some (new_condition ConditionReady (bc_status c) (bc_reason c) (bc_message c))"
    and "k_find_condition k (applyBackendResult k conds res) ConditionProvisioned =
      (case br_provisioned res of
         Some p \<Rightarrow> Some (new_condition ConditionProvisioned (bc_status p) (bc_reason p) (bc_message p))
       | None \<Rightarrow> k_find_condition k conds ConditionProvisioned)"
proof -
  let ?ready = "new_condition ConditionReady (bc_status c) (bc_reason c) (bc_message c)"
  let ?prov = "\<lambda>p :: backend_condition. new_condition ConditionProvisioned (bc_status p) (bc_reason p) (bc_message p)"
  have types: "c_type ?ready = ConditionReady" "\<And>p. c_type (?prov p) = ConditionProvisioned"
    and differ: "ConditionReady \<noteq> ConditionProvisioned"
    by (simp_all add: new_condition_def condition_names)
  show "k_find_condition k (applyBackendResult k conds res) ConditionReady = Some ?ready"
    using condition_laws_same [OF laws, of _ ?ready] condition_laws_other [OF laws, of ConditionReady "?prov p" for p]
    by (auto simp: applyBackendResult_def Let_def ready types differ split: option.split)
  show "k_find_condition k (applyBackendResult k conds res) ConditionProvisioned =
      (case br_provisioned res of Some p \<Rightarrow> Some (?prov p)
       | None \<Rightarrow> k_find_condition k conds ConditionProvisioned)"
    using condition_laws_same [OF laws, of _ "?prov p" for p]
      condition_laws_other [OF laws, of ConditionProvisioned ?ready]
    by (auto simp: applyBackendResult_def Let_def ready types differ [symmetric] split: option.split)
qed

subsection \<open>Properties\<close>

text \<open>
  A resource the compiler does not support never reaches the PCE: reconciling a live
  SegmentationIntent with an unsupported spec keeps everything that Kubernetes calls keep,
  whatever the PCE client would do, and the error is final (no retry is scheduled).
\<close>
theorem IntentReconcile_rejected:
  assumes "kube_reads_keep P k" and "kube_writes_keep P k"
    and "returns (k_get_intent k namespace name) (\<lambda>r. \<forall>si. r = Inr si \<longrightarrow>
           \<not> om_deleting (si_meta si) \<and> \<not> supported_intent (si_spec si))"
    and "\<And>i. returns (k_update_intent k i) (\<lambda>r. \<forall>si. r = Inr si \<longrightarrow> si_spec si = si_spec i)"
  shows "keeps P (IntentReconcile k factory namespace name)"
proof -
  have get: "hoare P (k_get_intent k namespace name) (\<lambda>r w. P w \<and> (\<forall>si. r = Inr si \<longrightarrow>
      \<not> om_deleting (si_meta si) \<and> \<not> supported_intent (si_spec si)))"
    by (rule hoare_keepsI [OF kube_reads_keepD(9) [OF assms(1)] assms(3)])
  have update: "hoare P (k_update_intent k i)
      (\<lambda>r w. P w \<and> (\<forall>si. r = Inr si \<longrightarrow> si_spec si = si_spec i))" for i
    by (rule hoare_keepsI [OF kube_writes_keepD(1) [OF assms(2)] assms(4)])
  show ?thesis
    unfolding IntentReconcile_def
    by (auto intro!: keeps keeps_bind_pure [OF get] keeps_bind_pure [OF update]
        keeps_intent_step_rejected [OF assms(2)])
qed

theorem IntentReconcile_rejected_witness:
  "sim_provisioned (snd (run_state (IntentReconcile
      (sim_kube [sim_profile ''auto''] [sim_meta ''shop'']
        [(sim_intent ''r'' '''')\<lparr>si_spec := \<lparr>sis_provider = [], sis_allow = [],
           sis_allow_intra_namespace = False, sis_enforcement = ''''\<rparr>\<rparr>] [])
      (\<lambda>_. sim_client) ''shop'' ''r'') sim_world)) = []"
proof -
  let ?P = "\<lambda>w. sim_provisioned w = []"
  let ?si = "(sim_intent ''r'' '''')\<lparr>si_spec := \<lparr>sis_provider = [], sis_allow = [],
           sis_allow_intra_namespace = False, sis_enforcement = ''''\<rparr>\<rparr>"
  let ?k = "sim_kube [sim_profile ''auto''] [sim_meta ''shop''] [?si] [] :: sim kube"
  have "returns (k_get_intent ?k ''shop'' ''r'') (\<lambda>r. \<forall>si. r = Inr si \<longrightarrow>
      \<not> om_deleting (si_meta si) \<and> \<not> supported_intent (si_spec si))"
    by (simp add: sim_kube_def hoare_def sim_intent_def sim_meta_def supported_intent_def)
  moreover have "returns (k_update_intent ?k i) (\<lambda>r. \<forall>si. r = Inr si \<longrightarrow> si_spec si = si_spec i)" for i
    by (simp add: sim_kube_def hoare_def)
  ultimately have "keeps ?P (IntentReconcile ?k (\<lambda>_. sim_client) ''shop'' ''r'')"
    by (rule IntentReconcile_rejected [OF sim_kube_reads_keep sim_kube_writes_keep])
  then show ?thesis unfolding keeps_def by (simp add: sim_world_def)
qed

text \<open>
  No PCE object without a finalizer: while the API server does not store the finalizer
  of a SegmentationPolicy, its reconcile makes no PCE call.
\<close>
theorem PolicyReconcile_finalizer_first:
  assumes "kube_reads_keep P k" and "kube_writes_keep P k" and "finalizer_laws k"
    and "returns (k_get_policy k namespace name) (\<lambda>r. \<forall>sp. r = Inr sp \<longrightarrow>
           \<not> om_deleting (sp_meta sp) \<and> \<not> k_contains_finalizer k (sp_meta sp) segPolicyFinalizer)"
    and "\<And>p. returns (k_update_policy k p) isl"
  shows "keeps P (PolicyReconcile k factory namespace name)"
proof -
  have get: "hoare P (k_get_policy k namespace name) (\<lambda>r w. P w \<and> (\<forall>sp. r = Inr sp \<longrightarrow>
      \<not> om_deleting (sp_meta sp) \<and> \<not> k_contains_finalizer k (sp_meta sp) segPolicyFinalizer))"
    by (rule hoare_keepsI [OF kube_reads_keepD(10) [OF assms(1)] assms(4)])
  have update: "hoare P (k_update_policy k p) (\<lambda>r w. P w \<and> isl r)" for p
    by (rule hoare_keepsI [OF kube_writes_keepD(2) [OF assms(2)] assms(5)])
  have add: "added \<longleftrightarrow> \<not> k_contains_finalizer k m f" if "k_add_finalizer k m f = (m', added)" for m f m' added
    using assms(3) that unfolding finalizer_laws_def by (metis snd_conv)
  show ?thesis
    unfolding PolicyReconcile_def
    by (auto intro!: keeps keeps_bind_pure [OF get] keeps_bind_pure [OF update] dest: add)
qed

definition sim_policy :: "string \<Rightarrow> seg_policy" where
  "sim_policy name =
     \<lparr>sp_meta = sim_meta name,
      sp_spec = \<lparr>sps_pod_selector = \<lparr>sel_match_labels = [], sel_match_expressions = []\<rparr>,
        sps_ingress = [\<lparr>ir_from = [\<lparr>np_pod_selector = Some \<lparr>sel_match_labels = [], sel_match_expressions = []\<rparr>,
          np_namespace_selector = None\<rparr>], ir_ports = []\<rparr>],
        sps_policy_types = [''Ingress''], sps_enforcement = ''''\<rparr>,
      sp_status = si_status (sim_intent name '''')\<rparr>"

theorem PolicyReconcile_finalizer_first_witness:
  "let k = (sim_kube [sim_profile ''auto''] [sim_meta ''shop''] [] [sim_policy ''r''])
             \<lparr>k_update_policy := (\<lambda>_. ret (Inl (KubeError ''conflict'')))\<rparr>
   in sim_provisioned (snd (run_state (PolicyReconcile k (\<lambda>_. sim_client) ''shop'' ''r'') sim_world)) = []"
proof -
  let ?k = "(sim_kube [sim_profile ''auto''] [sim_meta ''shop''] [] [sim_policy ''r''])
             \<lparr>k_update_policy := (\<lambda>_. ret (Inl (KubeError ''conflict'')))\<rparr> :: sim kube"
  let ?P = "\<lambda>w. sim_provisioned w = []"
  have "kube_reads_keep ?P ?k" "kube_writes_keep ?P ?k" "finalizer_laws ?k"
    by (auto simp: kube_reads_keep_def kube_writes_keep_def finalizer_laws_def sim_kube_def)
  moreover have "returns (k_get_policy ?k ''shop'' ''r'') (\<lambda>r. \<forall>sp. r = Inr sp \<longrightarrow>
           \<not> om_deleting (sp_meta sp) \<and> \<not> k_contains_finalizer ?k (sp_meta sp) segPolicyFinalizer)"
    by (simp add: sim_kube_def hoare_def sim_policy_def sim_meta_def)
  moreover have "returns (k_update_policy ?k p) isl" for p
    by (simp add: hoare_def)
  ultimately have "keeps ?P (PolicyReconcile ?k (\<lambda>_. sim_client) ''shop'' ''r'')"
    by (rule PolicyReconcile_finalizer_first)
  then show ?thesis unfolding keeps_def Let_def by (simp add: sim_world_def)
qed

text \<open>
  A resource under deletion keeps its finalizer until its ruleset is gone: if the
  finalizer logic fails, the handler returns its error and updates nothing.
\<close>
theorem IntentReconcile_deletion_blocked:
  assumes "run_state (k_get_intent k namespace name) w = (Inr si, w1)"
    and "om_deleting (si_meta si)" and "k_contains_finalizer k (si_meta si) segIntentFinalizer"
    and "run_state (FinalizePolicy k factory (om_namespace (si_meta si)) (om_uid (si_meta si))) w1 = (Some e, w2)"
  shows "run_state (IntentReconcile k factory namespace name) w = ((0, Some e), w2)"
  using assms by (simp add: IntentReconcile_def)

theorem IntentReconcile_deletion_blocked_witness:
  "let si = (sim_intent ''r'' '''')\<lparr>si_meta := (sim_meta ''r'')\<lparr>om_namespace := ''shop'', om_deleting := True,
              om_finalizers := [segIntentFinalizer]\<rparr>\<rparr>;
       k = (sim_kube [] [] [si] [])\<lparr>k_get_namespace := (\<lambda>_. ret (Inl (KubeError ''timeout'')))\<rparr>
   in fst (run_state (IntentReconcile k (\<lambda>_. sim_client) ''shop'' ''r'') sim_world) = (0, Some (KubeError ''timeout''))"
proof -
  let ?si = "(sim_intent ''r'' '''')\<lparr>si_meta := (sim_meta ''r'')\<lparr>om_namespace := ''shop'', om_deleting := True,
              om_finalizers := [segIntentFinalizer]\<rparr>\<rparr>"
  let ?k = "(sim_kube [] [] [?si] [])\<lparr>k_get_namespace := (\<lambda>_. ret (Inl (KubeError ''timeout'')))\<rparr>"
  have "run_state (k_get_intent ?k ''shop'' ''r'') sim_world = (Inr ?si, sim_world)"
    by (simp add: sim_kube_def sim_meta_def)
  moreover have "om_deleting (si_meta ?si)" by simp
  moreover have "k_contains_finalizer ?k (si_meta ?si) segIntentFinalizer"
    by (simp add: sim_kube_def)
  moreover have "run_state (FinalizePolicy ?k (\<lambda>_. sim_client) (om_namespace (si_meta ?si)) (om_uid (si_meta ?si)))
      sim_world = (Some (KubeError ''timeout''), sim_world)"
    by (simp add: FinalizePolicy_def resolveClusterProfile_def ignore_not_found_def)
  ultimately have "run_state (IntentReconcile ?k (\<lambda>_. sim_client) ''shop'' ''r'') sim_world =
      ((0, Some (KubeError ''timeout'')), sim_world)"
    by (rule IntentReconcile_deletion_blocked)
  then show ?thesis by (simp add: Let_def)
qed

text \<open>
  C28: The written status reports the backend's \<open>Ready\<close> verdict with its reason and message,
  and the \<open>Provisioned\<close> verdict when there is one; without one the old \<open>Provisioned\<close>
  condition stays, so a resource that was provisioned once and is now rejected still shows
  \<open>Provisioned=True\<close>.
\<close>
theorem backend_status_conditions:
  assumes "condition_laws k" and "br_ready res = Some c"
  shows "let conds = ss_conditions (backend_status k st generation res)
    in k_find_condition k conds ConditionReady =
         Some (new_condition ConditionReady (bc_status c) (bc_reason c) (bc_message c)) \<and>
       k_find_condition k conds ConditionProvisioned =
         (case br_provisioned res of
            Some p \<Rightarrow> Some (new_condition ConditionProvisioned (bc_status p) (bc_reason p) (bc_message p))
          | None \<Rightarrow> k_find_condition k (ss_conditions st) ConditionProvisioned)"
  using applyBackendResult_find [OF assms, of "ss_conditions st"]
  by (simp add: backend_status_def Let_def)

theorem backend_status_conditions_witness:
  "let k = sim_cluster ''auto'' :: sim kube;
       st = (si_status (sim_intent ''r'' ''''))\<lparr>ss_conditions :=
         [new_condition ConditionProvisioned ConditionTrue ReasonProvisioned ''provisioned'']\<rparr>;
       res = zero_result\<lparr>br_ready := Some (not_ready ReasonRejected ''no'')\<rparr>
   in k_find_condition k (ss_conditions (backend_status k st 2 res)) ConditionProvisioned =
      Some (new_condition ConditionProvisioned ConditionTrue ReasonProvisioned ''provisioned'')"
proof -
  let ?k = "sim_cluster ''auto'' :: sim kube"
  let ?res = "zero_result\<lparr>br_ready := Some (not_ready ReasonRejected ''no'')\<rparr>"
  let ?st = "(si_status (sim_intent ''r'' ''''))\<lparr>ss_conditions :=
         [new_condition ConditionProvisioned ConditionTrue ReasonProvisioned ''provisioned'']\<rparr>"
  have "condition_laws ?k" unfolding sim_cluster_def by (rule sim_condition_laws)
  from backend_status_conditions [OF this, of ?res "not_ready ReasonRejected ''no''" ?st 2]
  have "k_find_condition ?k (ss_conditions (backend_status ?k ?st 2 ?res)) ConditionProvisioned =
      k_find_condition ?k (ss_conditions ?st) ConditionProvisioned"
    by (simp add: Let_def)
  also have "\<dots> = Some (new_condition ConditionProvisioned ConditionTrue ReasonProvisioned ''provisioned'')"
    by (simp add: sim_cluster_def sim_kube_def new_condition_def)
  finally show ?thesis by (simp add: Let_def)
qed

end
