(* ===== verification/Policy_Lifecycle.thy ===== *)
theory Policy_Lifecycle
  imports Policy_Controllers
begin

section \<open>The life of a policy resource\<close>

text \<open>
  The two policy controllers over the whole life of a resource: created, edited and deleted
  by users, reconciled any number of times in between. The invariant is that of a
  finalizer: while the PCE holds a ruleset of the resource, the API server stores the
  resource with its finalizer, so nothing is left behind when it goes.

  The world is seen through \<open>stored\<close>, the resource's metadata in the API server if it is
  there, \<open>has\<close>, whether the PCE holds a ruleset with its UID as owner reference,
  \<open>found w h\<close>, that \<open>h\<close> is the href of that ruleset if there is one, and \<open>marked w h\<close>, that
  it is also marked for deletion.
\<close>

subsection \<open>What the handlers rely on\<close>

definition client_keeps :: "('w \<Rightarrow> bool) \<Rightarrow> 'w policy_client \<Rightarrow> bool" where
  "client_keeps P pc \<longleftrightarrow>
     client_reads_keep P pc \<and>
     (\<forall>k v ow. keeps P (pc_ensure_label pc k v ow)) \<and>
     (\<forall>rs. keeps P (pc_create_rule_set pc rs)) \<and> (\<forall>h. keeps P (pc_delete_rule_set pc h)) \<and>
     (\<forall>h r. keeps P (pc_create_rule pc h r)) \<and> (\<forall>h. keeps P (pc_delete_rule pc h)) \<and>
     (\<forall>hs d. keeps P (pc_provision_rule_sets pc hs d))"

definition gone :: "go_error option \<Rightarrow> bool" where
  \<comment> \<open>no error, or a 404\<close>
  "gone e \<longleftrightarrow> (case e of None \<Rightarrow> True | Some e \<Rightarrow> is_not_found e)"

definition cleanup_laws ::
  "('w \<Rightarrow> object_meta option) \<Rightarrow> ('w \<Rightarrow> bool) \<Rightarrow> ('w \<Rightarrow> string \<Rightarrow> bool) \<Rightarrow> ('w \<Rightarrow> string \<Rightarrow> bool)
   \<Rightarrow> 'w kube \<Rightarrow> 'w policy_client \<Rightarrow> string \<Rightarrow> bool" where
  \<comment> \<open>reads change nothing, PCE calls do not touch the resource; a ruleset is found by its owner,
      marked by its deletion and gone when the deletion is provisioned\<close>
  "cleanup_laws stored has found marked k pc uid \<longleftrightarrow>
     (\<forall>P. kube_reads_keep (\<lambda>w. P (stored w) (has w)) k) \<and>
     (\<forall>P. client_keeps (\<lambda>w. P (stored w)) pc) \<and>
     client_reads_keep (\<lambda>w. \<not> has w) pc \<and>
     (\<forall>h. keeps (\<lambda>w. \<not> has w) (pc_delete_rule_set pc h)) \<and>
     (\<forall>hs d. keeps (\<lambda>w. \<not> has w) (pc_provision_rule_sets pc hs d)) \<and>
     (\<forall>eds. hoare (\<lambda>_. True) (pc_find_rule_set_by_owner pc \<lparr>ow_data_set = eds, ow_reference = uid\<rparr>)
        (\<lambda>r w. (r = Inr None \<longrightarrow> \<not> has w) \<and>
               (\<forall>rs. r = Inr (Some rs) \<longrightarrow> found w (rs_href rs) \<and>
                  (rs_update_type rs = RuleSetUpdateTypeDelete \<longrightarrow> marked w (rs_href rs))))) \<and>
     (\<forall>h. hoare (\<lambda>w. found w h) (pc_delete_rule_set pc h) (\<lambda>e w. gone e \<longrightarrow> marked w h)) \<and>
     (\<forall>h d. hoare (\<lambda>w. marked w h) (pc_provision_rule_sets pc [h] d)
        (\<lambda>r w. gone (case r of Inl e \<Rightarrow> Some e | Inr _ \<Rightarrow> None) \<longrightarrow> \<not> has w))"

definition guarded :: "'w kube \<Rightarrow> string \<Rightarrow> ('w \<Rightarrow> object_meta option) \<Rightarrow> ('w \<Rightarrow> bool) \<Rightarrow> 'w \<Rightarrow> bool" where
  \<comment> \<open>the finalizer invariant\<close>
  "guarded k fin stored has w \<longleftrightarrow>
     (has w \<longrightarrow> (\<exists>m. stored w = Some m \<and> k_contains_finalizer k m fin))"

definition usable :: "'w kube \<Rightarrow> string \<Rightarrow> bool" where
  \<comment> \<open>the namespace always has a usable profile\<close>
  "usable k namespace \<longleftrightarrow> returns (resolveClusterProfile k namespace) (\<lambda>r. r \<noteq> Inr None)"

lemma cleanup_lawsD:
  assumes "cleanup_laws stored has found marked k pc uid"
  shows "kube_reads_keep (\<lambda>w. P (stored w) (has w)) k"
    and "client_keeps (\<lambda>w. Q (stored w)) pc"
    and "finalize_footprint (\<lambda>w. \<not> has w) (\<lambda>_. True) pc ow"
    and "hoare (\<lambda>_. True) (pc_find_rule_set_by_owner pc \<lparr>ow_data_set = eds, ow_reference = uid\<rparr>)
        (\<lambda>r w. (r = Inr None \<longrightarrow> \<not> has w) \<and>
               (\<forall>rs. r = Inr (Some rs) \<longrightarrow> found w (rs_href rs) \<and>
                  (rs_update_type rs = RuleSetUpdateTypeDelete \<longrightarrow> marked w (rs_href rs))))"
    and "hoare (\<lambda>w. found w h) (pc_delete_rule_set pc h) (\<lambda>e w. gone e \<longrightarrow> marked w h)"
    and "hoare (\<lambda>w. marked w h) (pc_provision_rule_sets pc [h] d)
        (\<lambda>r w. gone (case r of Inl e \<Rightarrow> Some e | Inr _ \<Rightarrow> None) \<longrightarrow> \<not> has w)"
  using assms
  by (auto simp: cleanup_laws_def finalize_footprint_def client_reads_keep_def keeps_hoare)

lemma client_keeps_footprints:
  assumes "client_keeps P pc"
  shows "draft_footprint P (\<lambda>_. True) (\<lambda>_. True) pc ns cr ow"
    and "finalize_footprint P (\<lambda>_. True) pc ow"
  using assms
  by (auto simp: client_keeps_def draft_footprint_def finalize_footprint_def client_reads_keep_def
      keeps_hoare list_all_iff)

lemma keeps_disj: "keeps P m \<Longrightarrow> keeps Q m \<Longrightarrow> keeps (\<lambda>w. P w \<or> Q w) m"
  by (auto simp: keeps_def)

lemma guarded_disj:
  "guarded k fin stored has = (\<lambda>w. \<not> has w \<or> (\<exists>m. stored w = Some m \<and> k_contains_finalizer k m fin))"
  by (auto simp: guarded_def)


subsection \<open>Cleaning up\<close>

lemma finalize_ruleset_cleans:
  assumes laws: "cleanup_laws stored has found marked k pc uid"
  shows "hoare (\<lambda>w. found w (rs_href rs) \<and>
        (rs_update_type rs = RuleSetUpdateTypeDelete \<longrightarrow> marked w (rs_href rs)))
     (finalize_ruleset pc rs d) (\<lambda>e w. e = None \<longrightarrow> \<not> has w)"
proof -
  have derr: "hoare (\<lambda>w. found w (rs_href rs) \<and>
        (rs_update_type rs = RuleSetUpdateTypeDelete \<longrightarrow> marked w (rs_href rs)))
      (if rs_update_type rs \<noteq> RuleSetUpdateTypeDelete then pc_delete_rule_set pc (rs_href rs) else ret None)
      (\<lambda>e w. gone e \<longrightarrow> marked w (rs_href rs))"
    by (auto intro!: hoare hoare_pre [OF cleanup_lawsD(5) [OF laws]])
  have prov: "hoare (\<lambda>w. marked w (rs_href rs)) (do {
       res \<leftarrow> pc_provision_rule_sets pc [rs_href rs] d;
       case res of
         Inl perr \<Rightarrow> if \<not> is_not_found perr then ret (Some perr) else ret None
       | Inr _ \<Rightarrow> ret None }) (\<lambda>e w. e = None \<longrightarrow> \<not> has w)"
    by (rule hoare_bind [OF cleanup_lawsD(6) [OF laws]]) (auto intro!: hoare simp: gone_def)
  show ?thesis
    unfolding finalize_ruleset_def
    by (rule hoare_bind [OF derr]) (auto intro!: hoare prov simp: gone_def split: option.splits)
qed

lemma FinalizePolicy_cleans:
  assumes laws: "cleanup_laws stored has found marked k pc uid" and "usable k ns"
  shows "hoare (\<lambda>_. True) (FinalizePolicy k (\<lambda>_. pc) ns uid) (\<lambda>e w. e = None \<longrightarrow> \<not> has w)"
proof -
  have found: "hoare (\<lambda>_. True) (do {
       rs \<leftarrow> pc_find_rule_set_by_owner pc \<lparr>ow_data_set = eds, ow_reference = uid\<rparr>;
       case rs of
         Inl e \<Rightarrow> ret (Some e)
       | Inr None \<Rightarrow> ret None
       | Inr (Some rs) \<Rightarrow> finalize_ruleset pc rs d }) (\<lambda>e w. e = None \<longrightarrow> \<not> has w)" for eds d
    by (rule hoare_bind [OF cleanup_lawsD(4) [OF laws]])
      (auto intro!: hoare hoare_pre [OF finalize_ruleset_cleans [OF laws]] split: sum.split option.split)
  have "hoare (\<lambda>_. True) (resolveClusterProfile k ns) (\<lambda>r _. r \<noteq> Inr None)"
    using assms(2) by (simp add: usable_def)
  then show ?thesis
    unfolding FinalizePolicy_def Let_def
    by (rule hoare_bind) (auto simp: hoare_def [of "\<lambda>_. False"] intro!: hoare hoare_pre [OF found]
        split: sum.split option.split)
qed

lemma keeps_FinalizePolicy_world:
  assumes laws: "cleanup_laws stored has found marked k pc uid"
  shows "keeps (\<lambda>w. P (stored w)) (FinalizePolicy k (\<lambda>_. pc) ns uid)"
    and "keeps (\<lambda>w. \<not> has w) (FinalizePolicy k (\<lambda>_. pc) ns uid)"
  by (rule keeps_FinalizePolicy [OF cleanup_lawsD(1) [OF laws]],
      rule client_keeps_footprints(2) [OF cleanup_lawsD(2) [OF laws]])
    (rule keeps_FinalizePolicy [OF cleanup_lawsD(1) [OF laws]], rule cleanup_lawsD(3) [OF laws])

lemma keeps_ReconcilePolicy_world:
  assumes laws: "cleanup_laws stored has found marked k pc uid"
  shows "keeps (\<lambda>w. P (stored w)) (ReconcilePolicy k (\<lambda>_. pc) ns cr u annotations labels allows)"
proof (rule keeps_ReconcilePolicy)
  have "client_keeps (\<lambda>w. P (stored w)) pc" by (rule cleanup_lawsD(2) [OF laws])
  then show "policy_footprint (\<lambda>w. P (stored w)) (\<lambda>_. True) (\<lambda>_. True)
      (\<lambda>cp. provision_allowed cp annotations) k (\<lambda>_. pc) ns cr u"
    unfolding policy_footprint_def
    by (auto intro!: cleanup_lawsD(1) [OF laws] client_keeps_footprints simp: hoare_def list_all_iff
        client_keeps_def split: prod.split)
qed



subsection \<open>The handlers keep the invariant\<close>

text \<open>
  What the API server does with the resource: a read returns what is stored, a status write
  leaves the metadata alone, an update is stored or rejected; an object under deletion may
  disappear with its last finalizer.
\<close>

definition object_laws ::
  "('w \<Rightarrow> object_meta option) \<Rightarrow> ('w \<Rightarrow> bool) \<Rightarrow> ('o \<Rightarrow> object_meta)
   \<Rightarrow> ('w, go_error + 'o) state \<Rightarrow> ('o \<Rightarrow> ('w, go_error + 'o) state) \<Rightarrow> ('o \<Rightarrow> ('w, go_error option) state)
   \<Rightarrow> string \<Rightarrow> string \<Rightarrow> bool" where
  "object_laws stored has meta get update status namespace uid \<longleftrightarrow>
     (\<forall>P. keeps (\<lambda>w. P (stored w) (has w)) get) \<and>
     hoare (\<lambda>_. True) get (\<lambda>r w. \<forall>obj. r = Inr obj \<longrightarrow>
       stored w = Some (meta obj) \<and> om_uid (meta obj) = uid \<and> om_namespace (meta obj) = namespace) \<and>
     (\<forall>P obj. keeps (\<lambda>w. P (stored w) (has w)) (status obj)) \<and>
     (\<forall>obj s b. hoare (\<lambda>w. stored w = s \<and> has w = b) (update obj)
       (\<lambda>r w. has w = b \<and>
          (case r of Inl e \<Rightarrow> stored w = s
           | Inr new \<Rightarrow> meta new = meta obj \<and> (stored w = Some (meta obj) \<or> om_deleting (meta obj)))))"

lemma object_lawsD:
  assumes "object_laws stored has meta get update status namespace uid"
  shows "hoare (guarded k fin stored has) get (\<lambda>r w. guarded k fin stored has w \<and>
      (\<forall>obj. r = Inr obj \<longrightarrow> stored w = Some (meta obj) \<and> om_uid (meta obj) = uid \<and>
         om_namespace (meta obj) = namespace))"
    and "keeps (\<lambda>w. P (stored w) (has w)) (status obj)"
    and "hoare (\<lambda>w. \<not> has w) (update obj) (\<lambda>_ w. \<not> has w)"
    and "om_deleting (meta obj) = False \<Longrightarrow> hoare (\<lambda>w. stored w = s \<and> (has w \<longrightarrow> b)) (update obj)
      (\<lambda>r w. case r of Inl e \<Rightarrow> stored w = s \<and> (has w \<longrightarrow> b)
              | Inr new \<Rightarrow> meta new = meta obj \<and> stored w = Some (meta obj))"
proof -
  note laws = assms [unfolded object_laws_def]
  have upd: "hoare (\<lambda>w. stored w = s \<and> has w = b) (update obj)
       (\<lambda>r w. has w = b \<and>
          (case r of Inl e \<Rightarrow> stored w = s
           | Inr new \<Rightarrow> meta new = meta obj \<and> (stored w = Some (meta obj) \<or> om_deleting (meta obj))))" for s b
    using laws by blast
  have "\<forall>P. keeps (\<lambda>w. P (stored w) (has w)) get" using laws by blast
  from spec [OF this, of "\<lambda>s h. h \<longrightarrow> (\<exists>m. s = Some m \<and> k_contains_finalizer k m fin)"]
  have keep: "hoare (guarded k fin stored has) get (\<lambda>_. guarded k fin stored has)"
    by (simp add: keeps_hoare guarded_def [abs_def])
  have "hoare (\<lambda>_. True) get (\<lambda>r w. \<forall>obj. r = Inr obj \<longrightarrow>
       stored w = Some (meta obj) \<and> om_uid (meta obj) = uid \<and> om_namespace (meta obj) = namespace)"
    using laws by blast
  from hoare_conj [OF keep hoare_pre [OF this]]
  show "hoare (guarded k fin stored has) get (\<lambda>r w. guarded k fin stored has w \<and>
      (\<forall>obj. r = Inr obj \<longrightarrow> stored w = Some (meta obj) \<and> om_uid (meta obj) = uid \<and>
         om_namespace (meta obj) = namespace))"
    by simp
  show "keeps (\<lambda>w. P (stored w) (has w)) (status obj)" using laws by blast
  show "hoare (\<lambda>w. \<not> has w) (update obj) (\<lambda>_ w. \<not> has w)"
    using upd [of _ False] by (fastforce simp: hoare_def split: prod.splits)
  show "hoare (\<lambda>w. stored w = s \<and> (has w \<longrightarrow> b)) (update obj)
      (\<lambda>r w. case r of Inl e \<Rightarrow> stored w = s \<and> (has w \<longrightarrow> b)
              | Inr new \<Rightarrow> meta new = meta obj \<and> stored w = Some (meta obj))"
    if "om_deleting (meta obj) = False"
    using upd that by (fastforce simp: hoare_def split: prod.splits sum.splits)
qed

abbreviation has_finalizer :: "'w kube \<Rightarrow> string \<Rightarrow> ('w \<Rightarrow> object_meta option) \<Rightarrow> 'w \<Rightarrow> bool" where
  "has_finalizer k fin stored w \<equiv> \<exists>m. stored w = Some m \<and> k_contains_finalizer k m fin"

lemma keeps_policy_step_stored:
  assumes "cleanup_laws stored has found marked k pc u"
    and "object_laws stored has sp_meta get update (k_status_policy k) ns uid"
  shows "keeps (\<lambda>w. P (stored w)) (policy_step k (\<lambda>_. pc) sp)"
  unfolding policy_step_def Let_def
  by (intro keeps keeps_ReconcilePolicy_world [OF assms(1)] object_lawsD(2) [OF assms(2)])

lemma keeps_intent_step_stored:
  assumes "cleanup_laws stored has found marked k pc u"
    and "object_laws stored has si_meta get update (k_status_intent k) ns uid"
  shows "keeps (\<lambda>w. P (stored w)) (intent_step k (\<lambda>_. pc) si)"
  unfolding intent_step_def Let_def
  by (intro keeps keeps_ReconcilePolicy_world [OF assms(1)] object_lawsD(2) [OF assms(2)])

lemma FinalizePolicy_guarded:
  assumes laws: "cleanup_laws stored has found marked k pc uid" and "usable k ns"
  shows "hoare (guarded k fin stored has) (FinalizePolicy k (\<lambda>_. pc) ns uid)
    (\<lambda>e w. guarded k fin stored has w \<and> (e = None \<longrightarrow> \<not> has w))"
proof (rule hoare_conj)
  show "hoare (guarded k fin stored has) (FinalizePolicy k (\<lambda>_. pc) ns uid) (\<lambda>_. guarded k fin stored has)"
    unfolding guarded_disj keeps_hoare [symmetric]
    by (rule keeps_disj) (rule keeps_FinalizePolicy_world [OF laws])+
  show "hoare (guarded k fin stored has) (FinalizePolicy k (\<lambda>_. pc) ns uid) (\<lambda>e w. e = None \<longrightarrow> \<not> has w)"
    by (rule hoare_pre [OF FinalizePolicy_cleans [OF assms]]) simp
qed

text \<open>The two halves of a handler, for any kind of resource.\<close>

lemma deletion_guarded:
  assumes laws: "cleanup_laws stored has found marked k pc uid" and use: "usable k ns"
    and obj: "object_laws stored has meta get update status ns uid"
  shows "hoare (guarded k fin stored has) (do {
       ferr \<leftarrow> FinalizePolicy k (\<lambda>_. pc) ns uid;
       case ferr of
         Some e \<Rightarrow> ret (0, Some e)
       | None \<Rightarrow> do {
           u \<leftarrow> update x;
           case u of Inl e \<Rightarrow> ret (0, Some e) | Inr _ \<Rightarrow> ret (0, None)
         } }) (\<lambda>_. guarded k fin stored has)"
proof (rule hoare_bind [OF FinalizePolicy_guarded [OF laws use]])
  have "hoare (\<lambda>w. guarded k fin stored has w \<and> \<not> has w) (update x) (\<lambda>_ w. \<not> has w)"
    by (rule hoare_pre [OF object_lawsD(3) [OF obj]]) simp
  then show "hoare (\<lambda>w. guarded k fin stored has w \<and> (ferr = None \<longrightarrow> \<not> has w))
      (case ferr of
         Some e \<Rightarrow> ret (0, Some e)
       | None \<Rightarrow> do {
           u \<leftarrow> update x;
           case u of Inl e \<Rightarrow> ret (0, Some e) | Inr _ \<Rightarrow> ret (0, None)
         }) (\<lambda>_. guarded k fin stored has)" for ferr
    by (auto intro!: hoare hoare_bind simp: guarded_def split: option.split)
qed

lemma deletion_guarded_at:
  assumes "cleanup_laws stored has found marked k pc uid" and "usable k ns"
    and "object_laws stored has meta get update status ns uid"
  shows "hoare (\<lambda>w. guarded k fin stored has w \<and> u = uid \<and> n = ns) (do {
       ferr \<leftarrow> FinalizePolicy k (\<lambda>_. pc) n u;
       case ferr of
         Some e \<Rightarrow> ret (0, Some e)
       | None \<Rightarrow> do {
           u \<leftarrow> update x;
           case u of Inl e \<Rightarrow> ret (0, Some e) | Inr _ \<Rightarrow> ret (0, None)
         } }) (\<lambda>_. guarded k fin stored has)"
proof (cases "u = uid \<and> n = ns")
  case True
  then show ?thesis using deletion_guarded [OF assms, of fin x] by simp
qed (auto simp: hoare_def)

lemma live_guarded:
  assumes fin: "finalizer_laws k" and obj: "object_laws stored has meta get update status ns uid"
    and step: "\<And>y. keeps (has_finalizer k fin stored) (step y)"
    and add: "k_add_finalizer k (meta x) fin = (m, added)"
    and put: "meta (put m) = m" and live: "\<not> om_deleting (meta x)"
  shows "hoare (\<lambda>w. guarded k fin stored has w \<and> stored w = Some (meta x))
    (if added then do {
       u \<leftarrow> update (put m);
       case u of Inl e \<Rightarrow> ret (0, Some e) | Inr y \<Rightarrow> step y
     } else step x) (\<lambda>_. guarded k fin stored has)"
proof -
  have m: "k_contains_finalizer k m fin" and added: "added \<longleftrightarrow> \<not> k_contains_finalizer k (meta x) fin"
    and alive: "\<not> om_deleting m"
    using fin add live unfolding finalizer_laws_def by (metis fst_conv, metis snd_conv, metis fst_conv)
  have go: "hoare (has_finalizer k fin stored) (step y) (\<lambda>_. guarded k fin stored has)" for y
    by (rule hoare_post [OF step [of y, unfolded keeps_hoare]]) (auto simp: guarded_def)
  have "hoare (\<lambda>w. guarded k fin stored has w \<and> stored w = Some (meta x)) (update (put m))
      (\<lambda>r w. case r of Inl e \<Rightarrow> stored w = Some (meta x) \<and> (has w \<longrightarrow> k_contains_finalizer k (meta x) fin)
              | Inr new \<Rightarrow> meta new = m \<and> stored w = Some m)"
    by (rule hoare_pre [OF object_lawsD(4) [OF obj, of "put m", unfolded put]])
      (use alive in \<open>auto simp: guarded_def\<close>)
  then have "hoare (\<lambda>w. guarded k fin stored has w \<and> stored w = Some (meta x)) (do {
       u \<leftarrow> update (put m);
       case u of Inl e \<Rightarrow> ret (0, Some e) | Inr y \<Rightarrow> step y
     }) (\<lambda>_. guarded k fin stored has)"
    by (rule hoare_bind) (auto intro!: hoare hoare_pre [OF go] simp: guarded_def m)
  moreover have "hoare (\<lambda>w. guarded k fin stored has w \<and> stored w = Some (meta x)) (step x)
      (\<lambda>_. guarded k fin stored has)" if "\<not> added"
    by (rule hoare_pre [OF go]) (use added that in auto)
  ultimately show ?thesis by (intro hoare)
qed


lemma PolicyReconcile_guarded:
  assumes fin: "finalizer_laws k" and laws: "cleanup_laws stored has found marked k pc uid"
    and obj: "object_laws stored has sp_meta (k_get_policy k ns name) (k_update_policy k)
      (k_status_policy k) ns uid"
    and use: "usable k ns"
  shows "keeps (guarded k segPolicyFinalizer stored has) (PolicyReconcile k (\<lambda>_. pc) ns name)"
proof -
  have step: "keeps (has_finalizer k segPolicyFinalizer stored) (policy_step k (\<lambda>_. pc) y)" for y
    by (rule keeps_policy_step_stored [OF laws obj])
  have live: "hoare (\<lambda>w. guarded k segPolicyFinalizer stored has w \<and> stored w = Some (sp_meta sp))
      (case k_add_finalizer k (sp_meta sp) segPolicyFinalizer of
              (m, added) \<Rightarrow>
                if added then do {
                  u \<leftarrow> k_update_policy k (sp\<lparr>sp_meta := m\<rparr>);
                  case u of Inl e \<Rightarrow> ret (0, Some e) | Inr sp \<Rightarrow> policy_step k (\<lambda>_. pc) sp
                }
                else policy_step k (\<lambda>_. pc) sp) (\<lambda>_. guarded k segPolicyFinalizer stored has)"
    if "\<not> om_deleting (sp_meta sp)" for sp
    using that by (intro hoare_case_prod live_guarded [OF fin obj step]) simp_all
  show ?thesis
    unfolding PolicyReconcile_def keeps_hoare
    by (rule hoare_bind [OF object_lawsD(1) [OF obj]])
      (intro hoare_case_sum hoare_if hoare_return hoare_pre [OF live]
        hoare_pre [OF deletion_guarded_at [OF laws use obj]]; auto)
qed

lemma IntentReconcile_guarded:
  assumes fin: "finalizer_laws k" and laws: "cleanup_laws stored has found marked k pc uid"
    and obj: "object_laws stored has si_meta (k_get_intent k ns name) (k_update_intent k)
      (k_status_intent k) ns uid"
    and use: "usable k ns"
  shows "keeps (guarded k segIntentFinalizer stored has) (IntentReconcile k (\<lambda>_. pc) ns name)"
proof -
  have step: "keeps (has_finalizer k segIntentFinalizer stored) (intent_step k (\<lambda>_. pc) y)" for y
    by (rule keeps_intent_step_stored [OF laws obj])
  have live: "hoare (\<lambda>w. guarded k segIntentFinalizer stored has w \<and> stored w = Some (si_meta si))
      (case k_add_finalizer k (si_meta si) segIntentFinalizer of
              (m, added) \<Rightarrow>
                if added then do {
                  u \<leftarrow> k_update_intent k (si\<lparr>si_meta := m\<rparr>);
                  case u of Inl e \<Rightarrow> ret (0, Some e) | Inr si \<Rightarrow> intent_step k (\<lambda>_. pc) si
                }
                else intent_step k (\<lambda>_. pc) si) (\<lambda>_. guarded k segIntentFinalizer stored has)"
    if "\<not> om_deleting (si_meta si)" for si
    using that by (intro hoare_case_prod live_guarded [OF fin obj step]) simp_all
  show ?thesis
    unfolding IntentReconcile_def keeps_hoare
    by (rule hoare_bind [OF object_lawsD(1) [OF obj]])
      (intro hoare_case_sum hoare_if hoare_return hoare_pre [OF live]
        hoare_pre [OF deletion_guarded_at [OF laws use obj]]; auto)
qed


subsection \<open>Histories\<close>

text \<open>
  The life of one resource: it starts without a ruleset, is reconciled, edited (a deletion
  request on a resource with a finalizer is an edit that sets the deletion mark), removed
  when our finalizer is not on it, and the PCE's administrators may remove its ruleset.
\<close>

inductive resource_history ::
  "('w \<Rightarrow> object_meta option) \<Rightarrow> ('w \<Rightarrow> bool) \<Rightarrow> (object_meta \<Rightarrow> bool) \<Rightarrow> ('w, reconcile_result) state \<Rightarrow> 'w \<Rightarrow> bool"
  for stored has protected reconcile where
  created: "\<not> has w \<Longrightarrow> resource_history stored has protected reconcile w"
| reconciled: "resource_history stored has protected reconcile w \<Longrightarrow>
    resource_history stored has protected reconcile (snd (run_state reconcile w))"
| edited: "resource_history stored has protected reconcile w \<Longrightarrow> stored w = Some m \<Longrightarrow>
    stored w' = Some m' \<Longrightarrow> (protected m \<longrightarrow> protected m') \<Longrightarrow> has w' = has w \<Longrightarrow>
    resource_history stored has protected reconcile w'"
| removed: "resource_history stored has protected reconcile w \<Longrightarrow> stored w = Some m \<Longrightarrow>
    \<not> protected m \<Longrightarrow> stored w' = None \<Longrightarrow> has w' = has w \<Longrightarrow>
    resource_history stored has protected reconcile w'"
| cleared: "resource_history stored has protected reconcile w \<Longrightarrow> stored w' = stored w \<Longrightarrow>
    (has w' \<longrightarrow> has w) \<Longrightarrow> resource_history stored has protected reconcile w'"

lemma history_guarded:
  assumes "resource_history stored has (\<lambda>m. k_contains_finalizer k m fin) reconcile w"
    and "keeps (guarded k fin stored has) reconcile"
  shows "guarded k fin stored has w"
  using assms(1)
proof induction
  case (reconciled w)
  with assms(2) show ?case by (simp add: keeps_def)
qed (auto simp: guarded_def)


subsection \<open>Properties\<close>

text \<open>
  C5: No orphans. In every history of a SegmentationPolicy or of a SegmentationIntent whose
  namespace keeps a usable profile, the PCE holds a ruleset of the resource only while the
  API server stores the resource with its finalizer: creation is preceded by the
  finalizer, and the finalizer is released only when the ruleset is gone.
\<close>
theorem no_orphaned_ruleset:
  assumes "finalizer_laws k" "cleanup_laws stored has found marked k pc uid" "usable k namespace"
    and "object_laws stored has sp_meta (k_get_policy k namespace name) (k_update_policy k)
      (k_status_policy k) namespace uid \<and>
         resource_history stored has (\<lambda>m. k_contains_finalizer k m segPolicyFinalizer)
           (PolicyReconcile k (\<lambda>_. pc) namespace name) w \<and> fin = segPolicyFinalizer \<or>
      object_laws stored has si_meta (k_get_intent k namespace name) (k_update_intent k)
      (k_status_intent k) namespace uid \<and>
         resource_history stored has (\<lambda>m. k_contains_finalizer k m segIntentFinalizer)
           (IntentReconcile k (\<lambda>_. pc) namespace name) w \<and> fin = segIntentFinalizer"
  shows "guarded k fin stored has w"
  using assms(4)
    history_guarded [OF _ PolicyReconcile_guarded [OF assms(1,2) _ assms(3)]]
    history_guarded [OF _ IntentReconcile_guarded [OF assms(1,2) _ assms(3)]] by blast

text \<open>
  The usable profile is needed. A resource under deletion whose namespace has no usable
  profile at that moment loses its finalizer without a single PCE call, whatever client the
  factory would build, so a ruleset it has in the PCE stays behind, provisioned as it is.
\<close>
theorem deletion_without_profile:
  assumes "run_state (k_get_policy k namespace name) w = (Inr sp, w1)"
    and "om_deleting (sp_meta sp)" and "k_contains_finalizer k (sp_meta sp) segPolicyFinalizer"
    and "run_state (resolveClusterProfile k (om_namespace (sp_meta sp))) w1 = (Inr None, w2)"
  shows "run_state (PolicyReconcile k factory namespace name) w =
    (case run_state (k_update_policy k
            (sp\<lparr>sp_meta := k_remove_finalizer k (sp_meta sp) segPolicyFinalizer\<rparr>)) w2 of
       (Inl e, w3) \<Rightarrow> ((0, Some e), w3) | (Inr _, w3) \<Rightarrow> ((0, None), w3))"
  using assms by (auto simp: PolicyReconcile_def FinalizePolicy_def split: prod.split sum.split)


text \<open>A world of one policy resource in the namespace \<open>shop\<close> and at most one ruleset.\<close>

record life =
  lf_meta :: "object_meta option"
  lf_set :: "rule_set option"

definition life_kube :: "life kube" where
  "life_kube = (sim_cluster ''auto'')
     \<lparr>k_get_policy := (\<lambda>_ n. State (\<lambda>w.
        (case lf_meta w of
           Some m \<Rightarrow> if om_uid m = ''uid-r'' \<and> om_namespace m = ''shop''
                     then Inr ((sim_policy ''r'')\<lparr>sp_meta := m\<rparr>) else Inl (KubeNotFound n)
         | None \<Rightarrow> Inl (KubeNotFound n), w))),
      k_update_policy := (\<lambda>p. State (\<lambda>w. (Inr p, w\<lparr>lf_meta :=
        if om_deleting (sp_meta p) \<and> om_finalizers (sp_meta p) = [] then None else Some (sp_meta p)\<rparr>)))\<rparr>"

definition life_client :: "life policy_client" where
  "life_client =
     \<lparr>pc_find_label = (\<lambda>k v. ret (Inr \<lparr>lbl_href = ''/labels/'' @ k, lbl_key = k, lbl_value = v,
         lbl_external_data_set = '''', lbl_external_data_reference = ''''\<rparr>)),
      pc_ensure_label = (\<lambda>k v ow. ret (Inl ErrLabelNotFound)),
      pc_find_service_by_name = (\<lambda>n. ret (Inr (Some \<lparr>svc_href = ''/services/1'', svc_name = n\<rparr>))),
      pc_find_rule_set_by_owner = (\<lambda>ow. State (\<lambda>w.
        (Inr (if ow_reference ow = ''uid-r'' then lf_set w else None), w))),
      pc_create_rule_set = (\<lambda>rs. State (\<lambda>w.
        let rs = rs\<lparr>rs_href := ''/rule_sets/1''\<rparr> in (Inr rs, w\<lparr>lf_set := Some rs\<rparr>))),
      pc_delete_rule_set = (\<lambda>h. State (\<lambda>w. case lf_set w of
          Some rs \<Rightarrow> if rs_href rs = h
            then (None, w\<lparr>lf_set := Some (rs\<lparr>rs_update_type := RuleSetUpdateTypeDelete\<rparr>)\<rparr>)
            else (Some (APIError 404 ''''), w)
        | None \<Rightarrow> (Some (APIError 404 ''''), w))),
      pc_list_rules = (\<lambda>h. ret (Inr [])), pc_create_rule = (\<lambda>h r. ret (Inr r)), pc_delete_rule = (\<lambda>h. ret None),
      pc_provision_rule_sets = (\<lambda>hs d. State (\<lambda>w.
        (Inr \<lparr>pr_href = '''', pr_version = 1, pr_workloads_affected = 0\<rparr>,
         case lf_set w of
           Some rs \<Rightarrow> if rs_update_type rs = RuleSetUpdateTypeDelete \<and> rs_href rs \<in> set hs
                      then w\<lparr>lf_set := None\<rparr> else w
         | None \<Rightarrow> w)))\<rparr>"

definition life_has :: "life \<Rightarrow> bool" where "life_has w \<longleftrightarrow> lf_set w \<noteq> None"

lemma life_cleanup_laws:
  "cleanup_laws lf_meta life_has (\<lambda>w h. \<forall>rs. lf_set w = Some rs \<longrightarrow> rs_href rs = h)
     (\<lambda>w h. \<forall>rs. lf_set w = Some rs \<longrightarrow> rs_href rs = h \<and> rs_update_type rs = RuleSetUpdateTypeDelete)
     life_kube life_client ''uid-r''"
proof -
  have "kube_reads_keep P life_kube" for P
    using sim_kube_reads_keep [of P "[sim_profile ''auto'']" "[sim_meta ''shop'']" "[]" "[]"]
    by (auto simp: kube_reads_keep_def life_kube_def sim_cluster_def keeps_def)
  then show ?thesis
    by (auto simp: cleanup_laws_def client_keeps_def client_reads_keep_def keeps_def hoare_def
        life_client_def life_has_def gone_def is_not_found_def Let_def split: option.split)
qed

lemma life_object_laws:
  "object_laws lf_meta life_has sp_meta (k_get_policy life_kube ''shop'' ''r'') (k_update_policy life_kube)
     (k_status_policy life_kube) ''shop'' ''uid-r''"
  by (auto simp: object_laws_def hoare_def keeps_def life_kube_def life_has_def sim_cluster_def sim_kube_def
      split: option.splits if_splits)

lemma life_usable: "usable life_kube ''shop''"
proof -
  have "d_managed (ComputeDesiredCWP ''shop'' [] [] (cps_namespace_rules (cp_spec (sim_profile ''auto'')))
      (cps_system_namespaces (cp_spec (sim_profile ''auto''))))" by code_simp
  then show ?thesis
    by (simp add: usable_def hoare_def resolveClusterProfile_def life_kube_def sim_cluster_def sim_kube_def
        sim_connection_def sim_meta_def new_condition_def Let_def mget_def)
      (simp add: sim_profile_def new_condition_def sim_connection_def sim_meta_def
        ConditionOnboarded_def ConditionConnected_def)
qed

lemma life_finalizer_laws: "finalizer_laws life_kube"
  by (auto simp: finalizer_laws_def life_kube_def sim_cluster_def sim_kube_def)

definition life_start :: life where
  "life_start = \<lparr>lf_meta = Some ((sim_meta ''r'')\<lparr>om_namespace := ''shop''\<rparr>), lf_set = None\<rparr>"

definition life_next :: "life \<Rightarrow> life" where
  "life_next w = snd (run_state (PolicyReconcile life_kube (\<lambda>_. life_client) ''shop'' ''r'') w)"

definition life_delete :: "life \<Rightarrow> life" where
  \<comment> \<open>a user asks for the deletion\<close>
  "life_delete w = w\<lparr>lf_meta := map_option (\<lambda>m. m\<lparr>om_deleting := True\<rparr>) (lf_meta w)\<rparr>"

text \<open>
  Reconciled once, the resource has a ruleset and therefore its finalizer; deleted and
  reconciled again, both are gone.
\<close>
theorem no_orphaned_ruleset_witness:
  "life_has (life_next life_start) \<and>
   guarded life_kube segPolicyFinalizer lf_meta life_has (life_next life_start) \<and>
   life_next (life_delete (life_next life_start)) = \<lparr>lf_meta = None, lf_set = None\<rparr>"
proof (intro conjI)
  have "resource_history lf_meta life_has (\<lambda>m. k_contains_finalizer life_kube m segPolicyFinalizer)
      (PolicyReconcile life_kube (\<lambda>_. life_client) ''shop'' ''r'') (life_next life_start)"
    unfolding life_next_def
    by (intro resource_history.reconciled resource_history.created) (simp add: life_has_def life_start_def)
  with life_object_laws
  show "guarded life_kube segPolicyFinalizer lf_meta life_has (life_next life_start)"
    by (intro no_orphaned_ruleset [OF life_finalizer_laws life_cleanup_laws life_usable] disjI1) simp
  show "life_has (life_next life_start)" by code_simp
  show "life_next (life_delete (life_next life_start)) = \<lparr>lf_meta = None, lf_set = None\<rparr>" by code_simp
qed

theorem deletion_without_profile_witness:
  "let p = (sim_policy ''r'')\<lparr>sp_meta := (sim_meta ''r'')\<lparr>om_namespace := ''shop'', om_deleting := True,
              om_finalizers := [segPolicyFinalizer]\<rparr>\<rparr>;
       w = sim_world\<lparr>sim_sets := [(BuildRuleSet ''shop'' ''r'' [] \<lparr>ow_data_set = '''', ow_reference = ''uid-r''\<rparr>)]\<rparr>
   in run_state (PolicyReconcile (sim_kube [] [sim_meta ''shop''] [] [p]) (\<lambda>_. sim_client) ''shop'' ''r'') w =
      ((0, None), w)"
proof -
  let ?p = "(sim_policy ''r'')\<lparr>sp_meta := (sim_meta ''r'')\<lparr>om_namespace := ''shop'', om_deleting := True,
              om_finalizers := [segPolicyFinalizer]\<rparr>\<rparr>"
  let ?w = "sim_world\<lparr>sim_sets := [(BuildRuleSet ''shop'' ''r'' [] \<lparr>ow_data_set = '''', ow_reference = ''uid-r''\<rparr>)]\<rparr>"
  let ?k = "sim_kube [] [sim_meta ''shop''] [] [?p] :: sim kube"
  have "run_state (k_get_policy ?k ''shop'' ''r'') ?w = (Inr ?p, ?w)"
    by (simp add: sim_kube_def sim_meta_def)
  moreover have "om_deleting (sp_meta ?p)" "k_contains_finalizer ?k (sp_meta ?p) segPolicyFinalizer"
    by (simp_all add: sim_kube_def)
  moreover have "run_state (resolveClusterProfile ?k (om_namespace (sp_meta ?p))) ?w = (Inr None, ?w)"
    by (simp add: resolveClusterProfile_def sim_kube_def sim_meta_def)
  ultimately have "run_state (PolicyReconcile ?k (\<lambda>_. sim_client) ''shop'' ''r'') ?w =
      (case run_state (k_update_policy ?k (?p\<lparr>sp_meta := k_remove_finalizer ?k (sp_meta ?p) segPolicyFinalizer\<rparr>)) ?w of
         (Inl e, w3) \<Rightarrow> ((0, Some e), w3) | (Inr _, w3) \<Rightarrow> ((0, None), w3))"
    by (rule deletion_without_profile)
  then show ?thesis by (simp add: Let_def sim_kube_def)
qed

end
