(* ===== verification/Connection_Controller.thy ===== *)
theory Connection_Controller
  imports Pce_Client
begin

section \<open>The PCEConnection controller (pceconnection_controller.go, clientfactory.go)\<close>

text \<open>
  \<open>loadConfig\<close> reads the credentials, \<open>Ping\<close> checks them against the PCE, and the
  \<open>Connected\<close> condition records the verdict. The property relates the condition and the
  next visit directly to the HTTP response of the ping.
\<close>

definition requeueSecretMissing :: duration where "requeueSecretMissing = minute"
definition requeueUnreachable :: duration where "requeueUnreachable = 30 * second"
definition requeueHealthy :: duration where "requeueHealthy = 5 * minute"

definition loadConfig :: "'w kube \<Rightarrow> pce_connection \<Rightarrow> ('w, config verdict) state" where
  "loadConfig k conn = do {
     secret \<leftarrow> k_get_secret k (secref_name (pcs_credentials_secret_ref (conn_spec conn)))
                (secref_namespace (pcs_credentials_secret_ref (conn_spec conn)));
     case secret of
       Inl e \<Rightarrow>
         if is_kube_not_found e then
           ret (Inr (Inl (ReasonSecretMissing, ''credentials secret not found'')))
         else ret (Inl e)
     | Inr data \<Rightarrow>
         let apiKey = mget data ''api_key''; apiSecret = mget data ''api_secret'' in
         if apiKey = '''' \<or> apiSecret = '''' then
           ret (Inr (Inl (ReasonSecretMissing, ''secret missing api_key or api_secret'')))
         else ret (Inr (Inr \<lparr>cfg_pce_url = pcs_pce_url (conn_spec conn),
                            cfg_org_id = pcs_org_id (conn_spec conn),
                            cfg_api_key = apiKey, cfg_api_secret = apiSecret\<rparr>))
   }"

definition connected_condition ::
  "pce_connection \<Rightarrow> condition_status \<Rightarrow> string \<Rightarrow> string \<Rightarrow> condition" where
  "connected_condition conn status reason msg =
     \<lparr>c_type = ConditionConnected, c_status = status, c_reason = reason, c_message = msg,
      c_generation = om_generation (conn_meta conn)\<rparr>"

definition with_connected ::
  "'w kube \<Rightarrow> pce_connection \<Rightarrow> condition_status \<Rightarrow> string \<Rightarrow> string \<Rightarrow> pce_connection" where
  "with_connected k conn status reason msg =
     conn\<lparr>conn_status := (conn_status conn)
       \<lparr>pcst_conditions := k_set_condition k (pcst_conditions (conn_status conn))
          (connected_condition conn status reason msg),
        pcst_observed_generation := om_generation (conn_meta conn)\<rparr>\<rparr>"

definition connection_fail ::
  "'w kube \<Rightarrow> pce_connection \<Rightarrow> string \<Rightarrow> string \<Rightarrow> duration \<Rightarrow> ('w, reconcile_result) state" where
  \<comment> \<open>\<open>fail\<close>\<close>
  "connection_fail k conn reason msg requeue = do {
     uerr \<leftarrow> k_status_connection k (with_connected k conn ConditionFalse reason msg);
     ret (requeue, uerr)
   }"

fun classifyPingError :: "go_error \<Rightarrow> duration \<times> string \<times> string" where
  \<comment> \<open>a type switch on the error itself: a wrapped error is of the default case\<close>
  "classifyPingError (RateLimitError d) =
     (d, ReasonRateLimited, error_string (RateLimitError d))"
| "classifyPingError (APIError s b) =
     (if s = 401 \<or> s = 403 then (0, ReasonAuthFailed, error_string (APIError s b))
      else (requeueUnreachable, ReasonPCEUnreachable, error_string (APIError s b)))"
| "classifyPingError e = (requeueUnreachable, ReasonPCEUnreachable, error_string e)"

definition ConnectionReconcile ::
  "'w kube \<Rightarrow> (config \<Rightarrow> ('w, go_error option) state) \<Rightarrow> string \<Rightarrow> ('w, reconcile_result) state" where
  "ConnectionReconcile k pinger name = do {
     r \<leftarrow> k_get_connection k name;
     case r of
       Inl e \<Rightarrow> ret (0, ignore_not_found e)
     | Inr conn \<Rightarrow> do {
         loaded \<leftarrow> loadConfig k conn;
         case loaded of
           Inl transientErr \<Rightarrow> ret (0, Some transientErr)
         | Inr (Inl (reason, msg)) \<Rightarrow> connection_fail k conn reason msg requeueSecretMissing
         | Inr (Inr cfg) \<Rightarrow> do {
             perr \<leftarrow> pinger cfg;
             case perr of
               Some e \<Rightarrow>
                 (case classifyPingError e of
                    (requeue, reason, msg) \<Rightarrow> connection_fail k conn reason msg requeue)
             | None \<Rightarrow> do {
                 uerr \<leftarrow> k_status_connection k (with_connected k conn ConditionTrue
                   ReasonConnected ''PCE reachable and credentials accepted'');
                 ret (requeueHealthy, uerr)
               }
           }
       }
   }"


subsection \<open>From the HTTP response to the verdict\<close>

definition ping_verdict :: "http_result \<Rightarrow> duration \<times> condition_status \<times> string" where
  \<comment> \<open>next visit, status and reason, read off the response to \<open>GET /orgs/<id>/labels\<close>\<close>
  "ping_verdict res =
     (case res of
        Response status retry _ \<Rightarrow>
          if 200 \<le> status \<and> status < 300 then (5 * minute, ConditionTrue, ReasonConnected)
          else if status = 429 then (parseRetryAfter retry, ConditionFalse, ReasonRateLimited)
          else if status \<in> {401, 403} then (0, ConditionFalse, ReasonAuthFailed)
          else (30 * second, ConditionFalse, ReasonPCEUnreachable)
      | _ \<Rightarrow> (30 * second, ConditionFalse, ReasonPCEUnreachable))"

definition usable_config :: "pce_connection \<Rightarrow> smap \<Rightarrow> config" where
  "usable_config conn data =
     \<lparr>cfg_pce_url = pcs_pce_url (conn_spec conn), cfg_org_id = pcs_org_id (conn_spec conn),
      cfg_api_key = mget data ''api_key'', cfg_api_secret = mget data ''api_secret''\<rparr>"

lemma Ping_run:
  "run_state (http (pce_request cfg MethodGet (orgPath cfg ''/labels'') None)) w = (res, w') \<Longrightarrow>
   run_state (Ping http cfg) w =
     (case check_response res of Inl e \<Rightarrow> Some e | Inr _ \<Rightarrow> None, w')"
  by (simp add: Ping_def client_exec_def client_do_def)

lemma loadConfig_run:
  assumes "run_state (k_get_secret k (secref_name (pcs_credentials_secret_ref (conn_spec conn)))
      (secref_namespace (pcs_credentials_secret_ref (conn_spec conn)))) w = (Inr data, w')"
    and "mget data ''api_key'' \<noteq> ''''" "mget data ''api_secret'' \<noteq> ''''"
  shows "run_state (loadConfig k conn) w = (Inr (Inr (usable_config conn data)), w')"
  using assms by (simp add: loadConfig_def usable_config_def Let_def)

text \<open>
  C27: The \<open>Connected\<close> condition is the verdict on the ping's response: true exactly for a 2xx
  answer, rate limited for 429 with the wait the PCE asked for, authentication failed for 401
  and 403 without another visit, unreachable for anything else. The handler writes that
  status and returns that wait.
\<close>
theorem ConnectionReconcile_verdict:
  assumes "run_state (k_get_connection k name) w = (Inr conn, w1)"
    and "run_state (k_get_secret k (secref_name (pcs_credentials_secret_ref (conn_spec conn)))
           (secref_namespace (pcs_credentials_secret_ref (conn_spec conn)))) w1 = (Inr data, w2)"
    and "mget data ''api_key'' \<noteq> ''''" and "mget data ''api_secret'' \<noteq> ''''"
    and "cfg = usable_config conn data"
    and "run_state (http (pce_request cfg MethodGet (orgPath cfg ''/labels'') None)) w2 = (res, w3)"
  shows "\<exists>msg uerr w4. case ping_verdict res of (requeue, status, reason) \<Rightarrow>
      run_state (k_status_connection k (with_connected k conn status reason msg)) w3 = (uerr, w4) \<and>
      run_state (ConnectionReconcile k (Ping http) name) w = ((requeue, uerr), w4)"
proof -
  have load: "run_state (loadConfig k conn) w1 = (Inr (Inr cfg), w2)"
    using loadConfig_run [OF assms(2-4)] assms(5) by simp
  note run = assms(1) load Ping_run [of http, OF assms(6)]
  show ?thesis
  proof (cases "check_response res")
    case (Inr body)
    then have verdict: "ping_verdict res = (requeueHealthy, ConditionTrue, ReasonConnected)"
      by (cases res) (auto simp: ping_verdict_def requeueHealthy_def split: if_splits)
    show ?thesis unfolding verdict
      by (auto simp: ConnectionReconcile_def run Inr split: prod.splits
          intro!: exI [of _ "''PCE reachable and credentials accepted''"])
  next
    case (Inl e)
    then have verdict: "ping_verdict res = (fst (classifyPingError e), ConditionFalse, fst (snd (classifyPingError e)))"
      by (cases res) (auto simp: ping_verdict_def requeueUnreachable_def split: if_splits)
    show ?thesis unfolding verdict
      by (auto simp: ConnectionReconcile_def connection_fail_def run Inl split: prod.splits
          intro!: exI [of _ "snd (snd (classifyPingError e))"])
  qed
qed

theorem ConnectionReconcile_verdict_witness:
  "fst (run_state (ConnectionReconcile (sim_cluster ''auto'')
     (Ping (\<lambda>_. ret (Response 401 '''' EmptyBody))) ''pce'') sim_world) = (0, None)"
proof -
  let ?k = "sim_cluster ''auto'' :: sim kube"
  let ?data = "[(''api_key'', ''k''), (''api_secret'', ''s'')]"
  let ?http = "(\<lambda>_. ret (Response 401 '''' EmptyBody)) :: sim transport"
  have conn: "run_state (k_get_connection ?k ''pce'') sim_world = (Inr sim_connection, sim_world)"
    by (simp add: sim_cluster_def sim_kube_def)
  have secret: "run_state (k_get_secret ?k (secref_name (pcs_credentials_secret_ref (conn_spec sim_connection)))
      (secref_namespace (pcs_credentials_secret_ref (conn_spec sim_connection)))) sim_world = (Inr ?data, sim_world)"
    by (simp add: sim_cluster_def sim_kube_def sim_connection_def)
  have "run_state (?http (pce_request (usable_config sim_connection ?data) MethodGet
      (orgPath (usable_config sim_connection ?data) ''/labels'') None)) sim_world =
      (Response 401 '''' EmptyBody, sim_world)" by simp
  from ConnectionReconcile_verdict [OF conn secret _ _ refl this]
  obtain msg uerr w4 where "run_state (k_status_connection ?k
        (with_connected ?k sim_connection ConditionFalse ReasonAuthFailed msg)) sim_world = (uerr, w4)"
    "run_state (ConnectionReconcile ?k (Ping ?http) ''pce'') sim_world = ((0, uerr), w4)"
    by (auto simp: ping_verdict_def)
  then show ?thesis by (simp add: sim_cluster_def sim_kube_def)
qed

end
