(* ===== verification/Pce_Onboarding.thy ===== *)
theory Pce_Onboarding
  imports Pce_Client
begin

section \<open>Onboarding calls of the PCE client (containercluster.go, pairingprofile.go, cwp.go)\<close>

text \<open>
  Container clusters, pairing profiles and container workload profiles: the structs, their
  wire format, the calls, and \<open>OnboardingClient\<close>, the interface the ClusterProfile
  controller uses (onboarding_client.go).
\<close>

record container_cluster =
  cc_href :: string
  cc_name :: string
  cc_description :: string
  cc_token :: string \<comment> \<open>\<open>ContainerClusterToken\<close>, returned only at creation\<close>

record pairing_profile =
  pp_href :: string
  pp_name :: string
  pp_description :: string
  pp_enabled :: bool
  pp_enforcement_mode :: string
  pp_visibility_level :: string
  pp_allowed_uses_per_key :: string
  pp_key_lifespan :: string
  pp_labels :: "label_ref list"
  pp_external_data_set :: string
  pp_external_data_reference :: string

record cwp_label =
  cl_key :: string
  cl_assignment :: "label_ref option"
  cl_restriction :: "label_ref list"

record container_workload_profile =
  cwp_href :: string
  cwp_name :: string
  cwp_namespace :: string
  cwp_managed :: bool
  cwp_enforcement_mode :: string
  cwp_visibility_level :: string
  cwp_labels :: "cwp_label list"

record cwp_update =
  cu_managed :: "bool option"
  cu_enforcement_mode :: string
  cu_labels :: "cwp_label list"


subsection \<open>Wire format\<close>

definition enc_container_cluster :: "container_cluster \<Rightarrow> json" where
  "enc_container_cluster c = JObj (
     omit_string ''href'' (cc_href c) @ [(''name'', JStr (cc_name c))] @
     omit_string ''description'' (cc_description c) @
     omit_string ''container_cluster_token'' (cc_token c))"

definition dec_container_cluster :: "container_cluster decoder" where
  "dec_container_cluster = dec_struct (\<lambda>fs. do {
     h \<leftarrow> dec_string (jfield ''href'' fs);
     n \<leftarrow> dec_string (jfield ''name'' fs);
     d \<leftarrow> dec_string (jfield ''description'' fs);
     t \<leftarrow> dec_string (jfield ''container_cluster_token'' fs);
     Some \<lparr>cc_href = h, cc_name = n, cc_description = d, cc_token = t\<rparr>
   })"

definition omit_list :: "string \<Rightarrow> ('a \<Rightarrow> json) \<Rightarrow> 'a list \<Rightarrow> (string \<times> json) list" where
  "omit_list name e xs = (if xs = [] then [] else [(name, JArr (map e xs))])"

definition enc_pairing_profile :: "pairing_profile \<Rightarrow> json" where
  "enc_pairing_profile p = JObj (
     omit_string ''href'' (pp_href p) @ omit_string ''name'' (pp_name p) @
     omit_string ''description'' (pp_description p) @
     [(''enabled'', JBool (pp_enabled p))] @
     omit_string ''enforcement_mode'' (pp_enforcement_mode p) @
     omit_string ''visibility_level'' (pp_visibility_level p) @
     omit_string ''allowed_uses_per_key'' (pp_allowed_uses_per_key p) @
     omit_string ''key_lifespan'' (pp_key_lifespan p) @
     omit_list ''labels'' enc_label_ref (pp_labels p) @
     omit_string ''external_data_set'' (pp_external_data_set p) @
     omit_string ''external_data_reference'' (pp_external_data_reference p))"

definition dec_pairing_profile :: "pairing_profile decoder" where
  "dec_pairing_profile = dec_struct (\<lambda>fs. do {
     h \<leftarrow> dec_string (jfield ''href'' fs);
     n \<leftarrow> dec_string (jfield ''name'' fs);
     d \<leftarrow> dec_string (jfield ''description'' fs);
     en \<leftarrow> dec_bool (jfield ''enabled'' fs);
     em \<leftarrow> dec_string (jfield ''enforcement_mode'' fs);
     vl \<leftarrow> dec_string (jfield ''visibility_level'' fs);
     au \<leftarrow> dec_string (jfield ''allowed_uses_per_key'' fs);
     kl \<leftarrow> dec_string (jfield ''key_lifespan'' fs);
     ls \<leftarrow> dec_list dec_label_ref (jfield ''labels'' fs);
     ds \<leftarrow> dec_string (jfield ''external_data_set'' fs);
     dr \<leftarrow> dec_string (jfield ''external_data_reference'' fs);
     Some \<lparr>pp_href = h, pp_name = n, pp_description = d, pp_enabled = en,
           pp_enforcement_mode = em, pp_visibility_level = vl, pp_allowed_uses_per_key = au,
           pp_key_lifespan = kl, pp_labels = ls, pp_external_data_set = ds,
           pp_external_data_reference = dr\<rparr>
   })"

definition enc_cwp_label :: "cwp_label \<Rightarrow> json" where
  "enc_cwp_label l = JObj (
     [(''key'', JStr (cl_key l))] @
     (case cl_assignment l of None \<Rightarrow> [] | Some r \<Rightarrow> [(''assignment'', enc_label_ref r)]) @
     omit_list ''restriction'' enc_label_ref (cl_restriction l))"

definition dec_cwp_label :: "cwp_label decoder" where
  "dec_cwp_label = dec_struct (\<lambda>fs. do {
     k \<leftarrow> dec_string (jfield ''key'' fs);
     a \<leftarrow> dec_pointer dec_label_ref (jfield ''assignment'' fs);
     r \<leftarrow> dec_list dec_label_ref (jfield ''restriction'' fs);
     Some \<lparr>cl_key = k, cl_assignment = a, cl_restriction = r\<rparr>
   })"

definition dec_cwp :: "container_workload_profile decoder" where
  "dec_cwp = dec_struct (\<lambda>fs. do {
     h \<leftarrow> dec_string (jfield ''href'' fs);
     n \<leftarrow> dec_string (jfield ''name'' fs);
     ns \<leftarrow> dec_string (jfield ''namespace'' fs);
     m \<leftarrow> dec_bool (jfield ''managed'' fs);
     em \<leftarrow> dec_string (jfield ''enforcement_mode'' fs);
     vl \<leftarrow> dec_string (jfield ''visibility_level'' fs);
     ls \<leftarrow> dec_list dec_cwp_label (jfield ''labels'' fs);
     Some \<lparr>cwp_href = h, cwp_name = n, cwp_namespace = ns, cwp_managed = m,
           cwp_enforcement_mode = em, cwp_visibility_level = vl, cwp_labels = ls\<rparr>
   })"

definition enc_cwp_update :: "cwp_update \<Rightarrow> json" where
  \<comment> \<open>\<open>labels\<close> without \<open>omitempty\<close>: an empty list is sent and clears the assignments\<close>
  "enc_cwp_update u = JObj (
     (case cu_managed u of None \<Rightarrow> [] | Some b \<Rightarrow> [(''managed'', JBool b)]) @
     omit_string ''enforcement_mode'' (cu_enforcement_mode u) @
     [(''labels'', JArr (map enc_cwp_label (cu_labels u)))])"

definition dec_pairing_key :: "string decoder" where
  "dec_pairing_key = dec_struct (\<lambda>fs. dec_string (jfield ''activation_code'' fs))"


subsection \<open>The calls\<close>

definition ContainerClusterUUID :: "string \<Rightarrow> string" where
  "ContainerClusterUUID href = after_last_index href"

definition ListContainerClusters ::
  "'w transport \<Rightarrow> config \<Rightarrow> ('w, go_error + container_cluster list) state" where
  "ListContainerClusters http cfg =
     client_get http cfg (orgPath cfg ''/container_clusters'') (dec_list dec_container_cluster) []"

definition FindContainerClusterByName ::
  "'w transport \<Rightarrow> config \<Rightarrow> string \<Rightarrow> ('w, go_error + container_cluster option) state" where
  "FindContainerClusterByName http cfg name = do {
     r \<leftarrow> ListContainerClusters http cfg;
     ret (map_sum id (List.find (\<lambda>c. cc_name c = name)) r)
   }"

definition CreateContainerCluster ::
  "'w transport \<Rightarrow> config \<Rightarrow> string \<Rightarrow> string \<Rightarrow> ('w, go_error + container_cluster) state" where
  "CreateContainerCluster http cfg name description =
     client_send http cfg MethodPost (orgPath cfg ''/container_clusters'')
       (enc_container_cluster \<lparr>cc_href = '''', cc_name = name, cc_description = description, cc_token = ''''\<rparr>)
       dec_container_cluster \<lparr>cc_href = '''', cc_name = '''', cc_description = '''', cc_token = ''''\<rparr>"

definition FindPairingProfileByName ::
  "'w transport \<Rightarrow> config \<Rightarrow> string \<Rightarrow> ('w, go_error + pairing_profile option) state" where
  "FindPairingProfileByName http cfg name = do {
     r \<leftarrow> client_get http cfg (orgPath cfg ''/pairing_profiles'') (dec_list dec_pairing_profile) [];
     ret (map_sum id (List.find (\<lambda>p. pp_name p = name)) r)
   }"

definition zero_pairing_profile :: pairing_profile where
  "zero_pairing_profile =
     \<lparr>pp_href = '''', pp_name = '''', pp_description = '''', pp_enabled = False,
      pp_enforcement_mode = '''', pp_visibility_level = '''', pp_allowed_uses_per_key = '''',
      pp_key_lifespan = '''', pp_labels = [], pp_external_data_set = '''',
      pp_external_data_reference = ''''\<rparr>"

definition CreatePairingProfile ::
  "'w transport \<Rightarrow> config \<Rightarrow> pairing_profile \<Rightarrow> ('w, go_error + pairing_profile) state" where
  "CreatePairingProfile http cfg pp =
     client_send http cfg MethodPost (orgPath cfg ''/pairing_profiles'') (enc_pairing_profile pp)
       dec_pairing_profile zero_pairing_profile"

definition GeneratePairingKey ::
  "'w transport \<Rightarrow> config \<Rightarrow> string \<Rightarrow> ('w, go_error + string) state" where
  "GeneratePairingKey http cfg profileHref =
     client_send http cfg MethodPost (profileHref @ ''/pairing_key'') (JObj []) dec_pairing_key ''''"

definition ListContainerWorkloadProfiles ::
  "'w transport \<Rightarrow> config \<Rightarrow> string \<Rightarrow> ('w, go_error + container_workload_profile list) state" where
  "ListContainerWorkloadProfiles http cfg clusterID =
     client_get http cfg
       (orgPath cfg (''/container_clusters/'' @ clusterID @ ''/container_workload_profiles''))
       (dec_list dec_cwp) []"

definition UpdateContainerWorkloadProfile ::
  "'w transport \<Rightarrow> config \<Rightarrow> string \<Rightarrow> cwp_update \<Rightarrow> ('w, go_error option) state" where
  "UpdateContainerWorkloadProfile http cfg profileHref upd =
     client_exec http cfg MethodPut profileHref (Some (enc_cwp_update upd))"

record 'w onboarding_client =
  oc_find_cluster :: "string \<Rightarrow> ('w, go_error + container_cluster option) state"
  oc_create_cluster :: "string \<Rightarrow> string \<Rightarrow> ('w, go_error + container_cluster) state"
  oc_find_pairing_profile :: "string \<Rightarrow> ('w, go_error + pairing_profile option) state"
  oc_create_pairing_profile :: "pairing_profile \<Rightarrow> ('w, go_error + pairing_profile) state"
  oc_generate_pairing_key :: "string \<Rightarrow> ('w, go_error + string) state"
  oc_ensure_label :: "string \<Rightarrow> string \<Rightarrow> owner \<Rightarrow> ('w, go_error + label) state"
  oc_list_cwps :: "string \<Rightarrow> ('w, go_error + container_workload_profile list) state"
  oc_update_cwp :: "string \<Rightarrow> cwp_update \<Rightarrow> ('w, go_error option) state"

definition pce_onboarding_client :: "'w transport \<Rightarrow> config \<Rightarrow> 'w onboarding_client" where
  \<comment> \<open>\<open>DefaultOnboardingClientFactory\<close>\<close>
  "pce_onboarding_client http cfg =
     \<lparr>oc_find_cluster = FindContainerClusterByName http cfg,
      oc_create_cluster = CreateContainerCluster http cfg,
      oc_find_pairing_profile = FindPairingProfileByName http cfg,
      oc_create_pairing_profile = CreatePairingProfile http cfg,
      oc_generate_pairing_key = GeneratePairingKey http cfg,
      oc_ensure_label = EnsureLabel http cfg,
      oc_list_cwps = ListContainerWorkloadProfiles http cfg,
      oc_update_cwp = UpdateContainerWorkloadProfile http cfg\<rparr>"

subsection \<open>Reading back\<close>

lemma jfield_omit_list:
  "jfield name (omit_list k e xs) = (if map lower_ascii k = name \<and> xs \<noteq> [] then JArr (map e xs) else JNull)"
  by (simp add: omit_list_def jfield_single)

lemma dec_omitted_list:
  "wire_codec e d (\<lambda>_. True) \<Longrightarrow> dec_list d (if xs = [] then JNull else JArr (map e xs)) = Some xs"
  using wire_codec.list_round_trip [of e d "\<lambda>_. True" xs] by (simp add: list_all_iff)

interpretation clusters: wire_codec enc_container_cluster dec_container_cluster "\<lambda>_. True"
  by unfold_locales
    (simp add: enc_container_cluster_def dec_container_cluster_def jfield_simps lower_ascii_def)

interpretation label_refs: wire_codec enc_label_ref dec_label_ref "\<lambda>_. True"
  by unfold_locales (rule dec_enc_label_ref)

lemma dec_cwp_label_enc: "dec_cwp_label (enc_cwp_label l) = Some l"
proof -
  obtain fs where fs: "enc_cwp_label l = JObj fs" by (simp add: enc_cwp_label_def)
  have "jfield ''key'' fs = JStr (cl_key l)"
    "jfield ''assignment'' fs = (case cl_assignment l of None \<Rightarrow> JNull | Some r \<Rightarrow> enc_label_ref r)"
    "jfield ''restriction'' fs =
       (if cl_restriction l = [] then JNull else JArr (map enc_label_ref (cl_restriction l)))"
    using fs [symmetric]
    by (simp_all add: enc_cwp_label_def jfield_append jfield_Cons jfield_omit_list lower_ascii_def
        split: option.split)
  then show ?thesis unfolding fs
    using dec_omitted_list [OF label_refs.wire_codec_axioms, of "cl_restriction l"]
    by (cases "cl_assignment l") (simp_all add: dec_cwp_label_def dec_pointer_def wire del: dec_list.simps)
qed

interpretation cwp_labels: wire_codec enc_cwp_label dec_cwp_label "\<lambda>_. True"
  by unfold_locales (rule dec_cwp_label_enc)

lemma lower_names:
  "map lower_ascii ''href'' = ''href''"
  "map lower_ascii ''name'' = ''name''"
  "map lower_ascii ''description'' = ''description''"
  "map lower_ascii ''enabled'' = ''enabled''"
  "map lower_ascii ''enforcement_mode'' = ''enforcement_mode''"
  "map lower_ascii ''visibility_level'' = ''visibility_level''"
  "map lower_ascii ''allowed_uses_per_key'' = ''allowed_uses_per_key''"
  "map lower_ascii ''key_lifespan'' = ''key_lifespan''"
  "map lower_ascii ''labels'' = ''labels''"
  "map lower_ascii ''external_data_set'' = ''external_data_set''"
  "map lower_ascii ''external_data_reference'' = ''external_data_reference''"
  by code_simp+

lemma pairing_profile_fields:
  assumes "enc_pairing_profile p = JObj fs"
  shows "dec_string (jfield ''href'' fs) = Some (pp_href p)"
    "dec_string (jfield ''name'' fs) = Some (pp_name p)"
    "dec_string (jfield ''description'' fs) = Some (pp_description p)"
    "dec_bool (jfield ''enabled'' fs) = Some (pp_enabled p)"
    "dec_string (jfield ''enforcement_mode'' fs) = Some (pp_enforcement_mode p)"
    "dec_string (jfield ''visibility_level'' fs) = Some (pp_visibility_level p)"
    "dec_string (jfield ''allowed_uses_per_key'' fs) = Some (pp_allowed_uses_per_key p)"
    "dec_string (jfield ''key_lifespan'' fs) = Some (pp_key_lifespan p)"
    "jfield ''labels'' fs = (if pp_labels p = [] then JNull else JArr (map enc_label_ref (pp_labels p)))"
    "dec_string (jfield ''external_data_set'' fs) = Some (pp_external_data_set p)"
    "dec_string (jfield ''external_data_reference'' fs) = Some (pp_external_data_reference p)"
  using assms [symmetric]
  by (simp_all add: enc_pairing_profile_def jfield_simps jfield_omit_list lower_names del: list.map)

interpretation pairing_profiles: wire_codec enc_pairing_profile dec_pairing_profile "\<lambda>_. True"
proof unfold_locales
  fix p
  obtain fs where fs: "enc_pairing_profile p = JObj fs" by (simp add: enc_pairing_profile_def)
  show "dec_pairing_profile (enc_pairing_profile p) = Some p" unfolding fs
    using dec_omitted_list [OF label_refs.wire_codec_axioms, of "pp_labels p"]
    by (simp add: dec_pairing_profile_def pairing_profile_fields [OF fs] del: dec_list.simps)
qed

text \<open>The token of a new cluster is the one the PCE sent with its creation.\<close>

lemma CreateContainerCluster_token:
  assumes "run_state (http (pce_request cfg MethodPost (orgPath cfg ''/container_clusters'')
      (Some (enc_container_cluster \<lparr>cc_href = '''', cc_name = name, cc_description = description, cc_token = ''''\<rparr>)))) w =
      (Response 201 retry (JsonBody t (enc_container_cluster c)), w')"
  shows "run_state (CreateContainerCluster http cfg name description) w = (Inr c, w')"
  unfolding CreateContainerCluster_def by (rule clusters.created_response) (rule assms, simp)

end
