(* ===== verification/Namespace_Sync.thy ===== *)
theory Namespace_Sync
  imports Pce_Onboarding Policy_Result
begin

section \<open>Namespaces and their workload profiles (clusterprofile_controller.go)\<close>

text \<open>
  \<open>reconcileNamespaceCWPs\<close> visits every namespace, computes its desired configuration,
  raises its enforcement to what the policy resources ask for and updates the container
  workload profile that Kubelink made for it when the two differ. \<open>labelHref\<close> is the cache
  of label hrefs that all namespaces of one pass share.
\<close>

definition sameLabelSet :: "smap \<Rightarrow> smap \<Rightarrow> bool" where
  "sameLabelSet a b \<longleftrightarrow> length a = length b \<and> list_all (\<lambda>(k, v). mget b k = v) a"

fun resolve_cwp_labels ::
  "'w onboarding_client \<Rightarrow> owner \<Rightarrow> smap \<Rightarrow> smap \<Rightarrow> smap \<Rightarrow> cwp_label list
   \<Rightarrow> ('w, (go_error + smap \<times> cwp_label list) \<times> smap) state" where
  \<comment> \<open>the loop over \<open>desired.Labels\<close>: hrefs by key, the labels of the update, the cache\<close>
  "resolve_cwp_labels oc ow [] cache byKey out = ret (Inr (byKey, out), cache)"
| "resolve_cwp_labels oc ow ((key, value) # labels) cache byKey out =
     (case map_of cache (key @ ''|'' @ value) of
        Some href \<Rightarrow>
          resolve_cwp_labels oc ow labels cache (mset_key key href byKey)
            (out @ [\<lparr>cl_key = key, cl_assignment = Some \<lparr>lref_href = href\<rparr>, cl_restriction = []\<rparr>])
      | None \<Rightarrow> do {
          lbl \<leftarrow> oc_ensure_label oc key value ow;
          case lbl of
            Inl e \<Rightarrow> ret (Inl e, cache)
          | Inr lbl \<Rightarrow>
              let href = lbl_href lbl in
              resolve_cwp_labels oc ow labels (mset_key (key @ ''|'' @ value) href cache)
                (mset_key key href byKey)
                (out @ [\<lparr>cl_key = key, cl_assignment = Some \<lparr>lref_href = href\<rparr>, cl_restriction = []\<rparr>])
        })"

definition current_assignments :: "cwp_label list \<Rightarrow> smap" where
  \<comment> \<open>\<open>currentHrefByKey\<close>\<close>
  "current_assignments ls =
     foldl (\<lambda>m l. case cl_assignment l of Some r \<Rightarrow> mset_key (cl_key l) (lref_href r) m | None \<Rightarrow> m) [] ls"

definition cwp_changed :: "container_workload_profile \<Rightarrow> desired_cwp \<Rightarrow> smap \<Rightarrow> bool" where
  "cwp_changed current desired desiredHrefByKey \<longleftrightarrow>
     cwp_managed current \<noteq> d_managed desired \<or>
     (d_managed desired \<and> cwp_enforcement_mode current \<noteq> d_enforcement_mode desired \<and>
      d_enforcement_mode desired \<noteq> '''') \<or>
     \<not> sameLabelSet (current_assignments (cwp_labels current)) desiredHrefByKey"

definition buildCWPUpdate ::
  "'w onboarding_client \<Rightarrow> owner \<Rightarrow> container_workload_profile \<Rightarrow> desired_cwp \<Rightarrow> smap
   \<Rightarrow> ('w, (go_error + cwp_update \<times> bool) \<times> smap) state" where
  "buildCWPUpdate oc ow current desired labelHref = do {
     r \<leftarrow> resolve_cwp_labels oc ow (d_labels desired) labelHref [] [];
     case r of
       (Inl e, cache) \<Rightarrow> ret (Inl e, cache)
     | (Inr (byKey, labels), cache) \<Rightarrow>
         ret (Inr (\<lparr>cu_managed = Some (d_managed desired),
                    cu_enforcement_mode =
                      (if d_managed desired \<and> d_enforcement_mode desired \<noteq> ''''
                       then d_enforcement_mode desired else ''''),
                    cu_labels = labels\<rparr>,
                   cwp_changed current desired byKey), cache)
   }"

record cwp_pass =
  cw_managed :: int
  cw_pending :: int
  cw_cache :: smap
  cw_errs :: "go_error list"

definition fmt_bool :: "bool \<Rightarrow> string" where
  "fmt_bool b = (if b then ''true'' else ''false'')"

definition raise_desired ::
  "'w kube \<Rightarrow> object_meta \<Rightarrow> desired_cwp \<Rightarrow> go_error list
   \<Rightarrow> ('w, desired_cwp \<times> go_error list) state" where
  \<comment> \<open>raise the enforcement of a managed namespace; a failure is recorded, the mode stays\<close>
  "raise_desired k ns desired errs =
     (if d_managed desired then do {
        eff \<leftarrow> EffectiveEnforcement k (om_name ns) (d_enforcement_mode desired);
        ret (case eff of
          Inr (raised, _) \<Rightarrow> (desired\<lparr>d_enforcement_mode := raised\<rparr>, errs)
        | Inl e \<Rightarrow> (desired,
            errs @ [WrapError (''namespace '' @ om_name ns @ '': effective enforcement: '') e]))
      }
      else ret (desired, errs))"

definition apply_cwp ::
  "'w kube \<Rightarrow> 'w onboarding_client \<Rightarrow> owner \<Rightarrow> object_meta \<Rightarrow> container_workload_profile \<Rightarrow> desired_cwp
   \<Rightarrow> cwp_pass \<Rightarrow> ('w, cwp_pass) state" where
  \<comment> \<open>one namespace whose profile exists\<close>
  "apply_cwp k oc ow ns cwp desired s = do {
     built \<leftarrow> buildCWPUpdate oc ow cwp desired (cw_cache s);
     case built of
       (Inl lerr, cache) \<Rightarrow>
         ret (s\<lparr>cw_cache := cache,
                cw_errs := cw_errs s @ [WrapError (''namespace '' @ om_name ns @ '': '') lerr]\<rparr>)
     | (Inr (upd, changed), cache) \<Rightarrow>
         let s = s\<lparr>cw_cache := cache\<rparr>;
             counted = (if d_managed desired then s\<lparr>cw_managed := cw_managed s + 1\<rparr> else s) in
         if changed then do {
           uerr \<leftarrow> oc_update_cwp oc (cwp_href cwp) upd;
           case uerr of
             Some e \<Rightarrow>
               ret (s\<lparr>cw_errs := cw_errs s @ [WrapError (''namespace '' @ om_name ns @ '': '') e]\<rparr>)
           | None \<Rightarrow> do {
               k_event k (om_name ns) ''CWPConfigured''
                 (''managed='' @ fmt_bool (d_managed desired) @ '' enforcement='' @ d_enforcement_mode desired);
               ret counted
             }
         }
         else ret counted
   }"

definition namespace_step ::
  "'w kube \<Rightarrow> 'w onboarding_client \<Rightarrow> cluster_profile \<Rightarrow> owner
   \<Rightarrow> (string \<rightharpoonup> container_workload_profile) \<Rightarrow> object_meta \<Rightarrow> cwp_pass \<Rightarrow> ('w, cwp_pass) state" where
  \<comment> \<open>the loop body for one namespace\<close>
  "namespace_step k oc cp ow byNS ns s = do {
     r \<leftarrow> raise_desired k ns
       (ComputeDesiredCWP (om_name ns) (om_labels ns) (om_annotations ns)
          (cps_namespace_rules (cp_spec cp)) (cps_system_namespaces (cp_spec cp))) (cw_errs s);
     case r of (desired, errs) \<Rightarrow>
       let s = s\<lparr>cw_errs := errs\<rparr> in
       case byNS (om_name ns) of
         None \<Rightarrow> ret (if d_managed desired then s\<lparr>cw_pending := cw_pending s + 1\<rparr> else s)
       | Some cwp \<Rightarrow> apply_cwp k oc ow ns cwp desired s
   }"

fun namespace_pass ::
  "'w kube \<Rightarrow> 'w onboarding_client \<Rightarrow> cluster_profile \<Rightarrow> owner
   \<Rightarrow> (string \<rightharpoonup> container_workload_profile) \<Rightarrow> object_meta list \<Rightarrow> cwp_pass \<Rightarrow> ('w, cwp_pass) state" where
  "namespace_pass k oc cp ow byNS [] s = ret s"
| "namespace_pass k oc cp ow byNS (ns # nss) s = do {
     s \<leftarrow> namespace_step k oc cp ow byNS ns s;
     namespace_pass k oc cp ow byNS nss s
   }"

definition cwps_by_namespace :: "container_workload_profile list \<Rightarrow> (string \<rightharpoonup> container_workload_profile)" where
  \<comment> \<open>\<open>byNS\<close>: the last profile of a namespace wins\<close>
  "cwps_by_namespace cwps =
     foldl (\<lambda>m c. if cwp_namespace c \<noteq> '''' then m(cwp_namespace c \<mapsto> c) else m) Map.empty cwps"

definition reconcileNamespaceCWPs ::
  "'w kube \<Rightarrow> 'w onboarding_client \<Rightarrow> cluster_profile \<Rightarrow> owner
   \<Rightarrow> ('w, int \<times> int \<times> go_error option) state" where
  "reconcileNamespaceCWPs k oc cp ow =
     (if cpst_container_cluster_id (cp_status cp) = '''' then ret (0, 0, None)
      else do {
        nsList \<leftarrow> k_list_namespaces k;
        case nsList of
          Inl e \<Rightarrow> ret (0, 0, Some e)
        | Inr nss \<Rightarrow> do {
            cwps \<leftarrow> oc_list_cwps oc (cpst_container_cluster_id (cp_status cp));
            case cwps of
              Inl e \<Rightarrow> ret (0, 0, Some e)
            | Inr cwps \<Rightarrow> do {
                s \<leftarrow> namespace_pass k oc cp ow (cwps_by_namespace cwps) nss
                       \<lparr>cw_managed = 0, cw_pending = 0, cw_cache = [], cw_errs = []\<rparr>;
                ret (cw_managed s, cw_pending s, errors_join (cw_errs s))
              }
          }
      })"

subsection \<open>The update and the diff agree\<close>

lemma current_assignments_snoc:
  "current_assignments (ls @ [\<lparr>cl_key = k, cl_assignment = Some \<lparr>lref_href = h\<rparr>, cl_restriction = r\<rparr>]) =
     mset_key k h (current_assignments ls)"
  by (simp add: current_assignments_def)

lemma wf_current_assignments: "wf_map (current_assignments ls)"
proof -
  have "wf_map (foldl (\<lambda>m l. case cl_assignment l of Some r \<Rightarrow> mset_key (cl_key l) (lref_href r) m | None \<Rightarrow> m) m ls)"
    if "wf_map m" for m
    using that by (induction ls arbitrary: m) (auto intro!: wf_map_set split: option.split)
  then show ?thesis by (simp add: current_assignments_def)
qed

lemma sameLabelSet_refl: "wf_map m \<Longrightarrow> sameLabelSet m m"
  by (auto simp: sameLabelSet_def list_all_iff wf_map_in mget_Some)

text \<open>The hrefs the diff compares are the assignments of the update.\<close>

lemma resolve_cwp_labels_assignments:
  "byKey = current_assignments out \<Longrightarrow>
   returns (resolve_cwp_labels oc ow labels cache byKey out)
     (\<lambda>r. \<forall>byKey' out'. fst r = Inr (byKey', out') \<longrightarrow> byKey' = current_assignments out')"
proof (induction labels arbitrary: cache byKey out)
  case Nil
  then show ?case by (auto intro!: hoare)
next
  case (Cons kv labels)
  obtain k v where "kv = (k, v)" by fastforce
  then show ?case
    using Cons.prems
    by (auto intro!: hoare returns_bind Cons.IH simp: Let_def current_assignments_snoc)
qed

definition cwp_after :: "cwp_update \<Rightarrow> container_workload_profile \<Rightarrow> container_workload_profile" where
  \<comment> \<open>what a PUT does to a profile: only the fields that are set\<close>
  "cwp_after upd cwp =
     cwp\<lparr>cwp_managed := (case cu_managed upd of Some b \<Rightarrow> b | None \<Rightarrow> cwp_managed cwp),
         cwp_enforcement_mode := (if cu_enforcement_mode upd = '''' then cwp_enforcement_mode cwp
                                  else cu_enforcement_mode upd),
         cwp_labels := cu_labels upd\<rparr>"

lemma buildCWPUpdate_result:
  assumes "run_state (buildCWPUpdate oc ow cwp desired cache) w = ((Inr (upd, changed), cache'), w')"
  shows "changed = cwp_changed cwp desired (current_assignments (cu_labels upd)) \<and>
    cu_managed upd = Some (d_managed desired) \<and>
    cu_enforcement_mode upd = (if d_managed desired then d_enforcement_mode desired else '''')"
proof -
  obtain r c where run: "run_state (resolve_cwp_labels oc ow (d_labels desired) cache [] []) w = ((r, c), w')"
    using assms by (auto simp: buildCWPUpdate_def split: prod.splits sum.splits)
  have "\<forall>byKey out. r = Inr (byKey, out) \<longrightarrow> byKey = current_assignments out"
    using returnsD [OF resolve_cwp_labels_assignments run] by (simp add: current_assignments_def)
  with assms run show ?thesis
    by (auto simp: buildCWPUpdate_def split: sum.splits)
qed


subsection \<open>No namespace is lost\<close>

definition is_managed :: "cluster_profile \<Rightarrow> object_meta \<Rightarrow> bool" where
  "is_managed cp ns \<longleftrightarrow>
     d_managed (ComputeDesiredCWP (om_name ns) (om_labels ns) (om_annotations ns)
       (cps_namespace_rules (cp_spec cp)) (cps_system_namespaces (cp_spec cp)))"

definition accounted :: "int \<Rightarrow> cwp_pass \<Rightarrow> bool" where
  \<comment> \<open>of \<open>n\<close> managed namespaces, each is managed, pending or has an error\<close>
  "accounted n s \<longleftrightarrow>
     cw_managed s + cw_pending s \<le> n \<and> n \<le> cw_managed s + cw_pending s + int (length (cw_errs s))"

lemma raise_desired_managed:
  "returns (raise_desired k ns desired errs)
     (\<lambda>(d, errs'). d_managed d = d_managed desired \<and> length errs \<le> length errs')"
  unfolding raise_desired_def by (auto intro!: hoare returns_bind split: sum.splits prod.splits)

lemma apply_cwp_accounted:
  assumes "accounted n s"
  shows "returns (apply_cwp k oc ow ns cwp desired s) (accounted (if d_managed desired then n + 1 else n))"
  using assms unfolding apply_cwp_def Let_def
  by (auto intro!: hoare returns_bind simp: accounted_def)

lemma visit_accounted:
  "accounted n s \<Longrightarrow>
   returns (case found of
        None \<Rightarrow> ret (if d_managed d then s\<lparr>cw_pending := cw_pending s + 1\<rparr> else s)
      | Some cwp \<Rightarrow> apply_cwp k oc ow ns cwp d s) (accounted (if d_managed d then n + 1 else n))"
  using apply_cwp_accounted [of n s k oc ow ns _ d]
  by (auto intro!: hoare simp: accounted_def)

lemma namespace_step_accounted:
  assumes "accounted n s"
  shows "returns (namespace_step k oc cp ow byNS ns s) (accounted (if is_managed cp ns then n + 1 else n))"
  unfolding namespace_step_def
proof (rule returns_bind_val [OF raise_desired_managed])
  fix x
  assume "case x of (d :: desired_cwp, errs :: go_error list) \<Rightarrow>
    d_managed d = d_managed (ComputeDesiredCWP (om_name ns) (om_labels ns) (om_annotations ns)
       (cps_namespace_rules (cp_spec cp)) (cps_system_namespaces (cp_spec cp))) \<and>
    length (cw_errs s) \<le> length errs"
  then obtain d errs where x: "x = (d, errs)" and d: "d_managed d = is_managed cp ns"
    and "length (cw_errs s) \<le> length errs" by (auto simp: is_managed_def)
  with assms have "accounted n (s\<lparr>cw_errs := errs\<rparr>)" by (auto simp: accounted_def)
  from visit_accounted [OF this, where found = "byNS (om_name ns)" and d = d and k = k
      and oc = oc and ow = ow and ns = ns]
  show "returns (case x of (desired, errs) \<Rightarrow> let s = s\<lparr>cw_errs := errs\<rparr> in
       case byNS (om_name ns) of
         None \<Rightarrow> ret (if d_managed desired then s\<lparr>cw_pending := cw_pending s + 1\<rparr> else s)
       | Some cwp \<Rightarrow> apply_cwp k oc ow ns cwp desired s)
     (accounted (if is_managed cp ns then n + 1 else n))"
    unfolding x prod.case Let_def d .
qed

lemma namespace_pass_accounted:
  "accounted n s \<Longrightarrow>
   returns (namespace_pass k oc cp ow byNS nss s) (accounted (n + int (length (filter (is_managed cp) nss))))"
proof (induction nss arbitrary: n s)
  case Nil
  then show ?case by (auto intro!: hoare)
next
  case (Cons ns nss)
  show ?case
    unfolding namespace_pass.simps
    by (rule returns_bind_val [OF namespace_step_accounted [OF Cons.prems]])
      (auto dest!: Cons.IH simp: ac_simps)
qed

subsection \<open>Properties\<close>

text \<open>A concrete PCE for the instances: it logs the updates; the href of a label is its name.\<close>

type_synonym cwp_log = "(string \<times> cwp_update) list"

definition sim_cwp :: container_workload_profile where
  "sim_cwp = \<lparr>cwp_href = ''/cwp/shop'', cwp_name = '''', cwp_namespace = ''shop'', cwp_managed = True,
     cwp_enforcement_mode = ''full'', cwp_visibility_level = '''',
     cwp_labels = [\<lparr>cl_key = ''app'', cl_assignment = Some \<lparr>lref_href = ''/l/app/shop''\<rparr>, cl_restriction = []\<rparr>]\<rparr>"

definition sim_onboarding :: "cwp_log onboarding_client" where
  "sim_onboarding =
     \<lparr>oc_find_cluster = (\<lambda>n. ret (Inr (Some \<lparr>cc_href = ''/orgs/1/container_clusters/c1'', cc_name = n,
        cc_description = '''', cc_token = ''''\<rparr>))),
      oc_create_cluster = (\<lambda>n d. ret (Inr \<lparr>cc_href = ''/orgs/1/container_clusters/c2'', cc_name = n,
        cc_description = d, cc_token = ''secret''\<rparr>)),
      oc_find_pairing_profile = (\<lambda>n. ret (Inr None)),
      oc_create_pairing_profile = (\<lambda>p. ret (Inr p)),
      oc_generate_pairing_key = (\<lambda>h. ret (Inr ''code'')),
      oc_ensure_label = (\<lambda>k v ow. ret (Inr \<lparr>lbl_href = ''/l/'' @ k @ ''/'' @ v, lbl_key = k, lbl_value = v,
        lbl_external_data_set = '''', lbl_external_data_reference = ''''\<rparr>)),
      oc_list_cwps = (\<lambda>c. ret (Inr [sim_cwp])),
      oc_update_cwp = (\<lambda>h u. State (\<lambda>w. (None, w @ [(h, u)])))\<rparr>"



text \<open>
  C26: A failing namespace does not hide the others: after a pass every managed namespace is
  counted as managed or as pending, or left at least one error, and none is counted twice.
\<close>
theorem namespace_pass_complete:
  "returns (namespace_pass k oc cp ow byNS nss \<lparr>cw_managed = 0, cw_pending = 0, cw_cache = [], cw_errs = []\<rparr>)
     (\<lambda>s. let n = int (length (filter (is_managed cp) nss)) in
       cw_managed s + cw_pending s \<le> n \<and> n \<le> cw_managed s + cw_pending s + int (length (cw_errs s)))"
  by (rule hoare_post [OF namespace_pass_accounted [of 0]]) (simp_all add: accounted_def Let_def)

text \<open>
  A namespace whose policy resources cannot be listed is still written: the pass records
  the error and sends the admin's baseline to the PCE, so a profile that a policy resource
  had raised to full enforcement is set back to visibility only.
\<close>
theorem failed_listing_lowers_enforcement:
  "let k = (sim_kube [] [sim_meta ''shop''] [] [])\<lparr>k_list_intents := (\<lambda>_. ret (Inl (KubeError ''timeout'')))\<rparr>;
       cp = (sim_profile ''auto'')\<lparr>cp_status := (cp_status (sim_profile ''auto''))\<lparr>cpst_container_cluster_id := ''c1''\<rparr>\<rparr>;
       ((managed, pending, err), updates) =
         run_state (reconcileNamespaceCWPs k sim_onboarding cp \<lparr>ow_data_set = '''', ow_reference = ''''\<rparr>) []
   in cwp_enforcement_mode sim_cwp = ''full'' \<and> err \<noteq> None \<and>
      map (\<lambda>(h, u). (h, cu_enforcement_mode u)) updates = [(''/cwp/shop'', ''visibility_only'')]"
  by code_simp

end
