(* ===== verification/Cluster_Profile.thy ===== *)
theory Cluster_Profile
  imports Namespace_Sync Policy_Frame
begin

section \<open>The ClusterProfile controller (clusterprofile_controller.go, labelmap.go)\<close>

text \<open>
  Onboarding: \<open>ensure_cluster\<close> adopts or creates the container cluster and stores its
  one-time token, \<open>ensurePairing\<close> publishes a pairing key, \<open>finish_profile\<close> configures the
  namespaces and writes the status. The two first steps return \<open>Inl\<close> the handler's result
  when the handler is done (the source's early returns) and \<open>Inr\<close> to go on.
\<close>

definition onboardRequeueNotReady :: duration where "onboardRequeueNotReady = 30 * second"
definition onboardRequeueHealthy :: duration where "onboardRequeueHealthy = 10 * minute"
definition onboardRequeueTerminal :: duration where "onboardRequeueTerminal = hour"
definition onboardModeCreate :: string where "onboardModeCreate = ''create''"
definition onboardModeAdopt :: string where "onboardModeAdopt = ''adopt''"

definition onboardMode :: "cluster_profile \<Rightarrow> string" where
  "onboardMode cp =
     (if ob_mode (cps_onboarding (cp_spec cp)) = onboardModeAdopt then onboardModeAdopt
      else onboardModeCreate)"


subsection \<open>Label map overlap\<close>

text \<open>
  A \<open>map[string]bool\<close> whose values are all true is a list of keys without duplicates;
  \<open>add_key\<close> is \<open>keys[k] = true\<close>.
\<close>

abbreviation add_key :: "string \<Rightarrow> string list \<Rightarrow> string list" where
  "add_key k ks \<equiv> (if k \<in> set ks then ks else ks @ [k])"

definition operatorAssignedKeys :: "cluster_profile \<Rightarrow> string list" where
  "operatorAssignedKeys cp =
     fold add_key (map fst (sns_labels (cps_system_namespaces (cp_spec cp))))
       (fold (\<lambda>r. fold add_key (map fst (nr_assign_labels r))) (cps_namespace_rules (cp_spec cp)) [])"

definition raw_field :: "string \<Rightarrow> (string \<times> json) list \<Rightarrow> json option" where
  \<comment> \<open>\<open>m[name]\<close> of an unstructured object: the last entry of that name\<close>
  "raw_field name fs = map_of (rev fs) name"

fun to_key :: "json \<Rightarrow> string option" where
  \<comment> \<open>the non-empty string \<open>toKey\<close> of an entry that is an object\<close>
  "to_key (JObj fs) =
     (case raw_field ''toKey'' fs of
        Some (JStr tk) \<Rightarrow> if tk \<noteq> '''' then Some tk else None
      | _ \<Rightarrow> None)"
| "to_key _ = None"

fun label_map_keys :: "json \<Rightarrow> string list" where
  \<comment> \<open>the keys one LabelMap object writes; nothing without a \<open>workloadLabelMap\<close> list\<close>
  "label_map_keys (JObj fs) =
     (case raw_field ''workloadLabelMap'' fs of
        Some (JArr entries) \<Rightarrow> List.map_filter to_key entries
      | _ \<Rightarrow> [])"
| "label_map_keys _ = []"

definition labelMapWorkloadKeys :: "json list \<Rightarrow> string list" where
  "labelMapWorkloadKeys items = fold (\<lambda>j. fold add_key (label_map_keys j)) items []"

definition overlapKeys :: "string list \<Rightarrow> string list \<Rightarrow> string list" where
  \<comment> \<open>\<open>slices.Sort\<close> orders strings by their bytes\<close>
  "overlapKeys a b = sort (filter (\<lambda>k. k \<in> set b) a)"

definition with_profile_condition ::
  "'w kube \<Rightarrow> string \<Rightarrow> condition_status \<Rightarrow> string \<Rightarrow> string \<Rightarrow> cluster_profile \<Rightarrow> cluster_profile" where
  "with_profile_condition k t status reason msg cp =
     cp\<lparr>cp_status := (cp_status cp)\<lparr>cpst_conditions :=
       k_set_condition k (cpst_conditions (cp_status cp)) (new_condition t status reason msg)\<rparr>\<rparr>"

definition overlap_message :: "string list \<Rightarrow> string" where
  "overlap_message keys =
     ''Illumio LabelMap writes label key(s) '' @ fmt_strings keys @
     '' that this operator also assigns via the ClusterProfile; two systems labeling the same dimension conflict '' @
     map char_of [226::nat, 128, 148] @
     '' map those keys in only one place (LabelMap workloadLabelMap or ClusterProfile assignLabels), not both''"

definition checkLabelMapOverlap :: "'w kube \<Rightarrow> cluster_profile \<Rightarrow> ('w, cluster_profile) state" where
  "checkLabelMapOverlap k cp = do {
     r \<leftarrow> k_list_label_maps k;
     case r of
       Inl _ \<Rightarrow> ret (with_profile_condition k ConditionLabelMapOverlap ConditionFalse
                      ''NoLabelMap'' ''no Illumio LabelMap detected'' cp)
     | Inr items \<Rightarrow>
         let overlapping = overlapKeys (operatorAssignedKeys cp) (labelMapWorkloadKeys items) in
         if overlapping = [] then
           ret (with_profile_condition k ConditionLabelMapOverlap ConditionFalse
                  ''NoOverlap'' ''LabelMap and this operator label distinct dimensions'' cp)
         else do {
           k_event k (om_name (cp_meta cp)) ''LabelMapOverlap'' (overlap_message overlapping);
           ret (with_profile_condition k ConditionLabelMapOverlap ConditionTrue
                  ''Overlap'' (overlap_message overlapping) cp)
         }
   }"

subsection \<open>Failures\<close>

definition onboardFail ::
  "'w kube \<Rightarrow> cluster_profile \<Rightarrow> string \<Rightarrow> string \<Rightarrow> duration \<Rightarrow> ('w, reconcile_result) state" where
  "onboardFail k cp reason msg requeue = do {
     let cp = with_profile_condition k ConditionOnboarded ConditionFalse reason msg cp;
     r \<leftarrow> k_status_profile k (cp\<lparr>cp_status := (cp_status cp)
            \<lparr>cpst_observed_generation := om_generation (cp_meta cp)\<rparr>\<rparr>);
     case r of Inl e \<Rightarrow> ret (0, Some e) | Inr _ \<Rightarrow> ret (requeue, None)
   }"

definition onboardError ::
  "'w kube \<Rightarrow> cluster_profile \<Rightarrow> string \<Rightarrow> go_error \<Rightarrow> ('w, reconcile_result) state" where
  "onboardError k cp msg cause = do {
     let cp = with_profile_condition k ConditionOnboarded ConditionFalse ReasonOnboardFailed msg cp;
     r \<leftarrow> k_status_profile k (cp\<lparr>cp_status := (cp_status cp)
            \<lparr>cpst_observed_generation := om_generation (cp_meta cp)\<rparr>\<rparr>);
     case r of Inl e \<Rightarrow> ret (0, Some e) | Inr _ \<Rightarrow> ret (0, Some cause)
   }"


subsection \<open>The connection and the credentials Secret\<close>

definition resolveConnection ::
  "'w kube \<Rightarrow> cluster_profile \<Rightarrow> ('w, go_error + (config \<times> string) option) state" where
  \<comment> \<open>\<open>Inr None\<close> is not ready; a failing read other than NotFound is the transient error\<close>
  "resolveConnection k cp = do {
     r \<leftarrow> k_get_connection k (cps_pce_connection_ref (cp_spec cp));
     case r of
       Inl e \<Rightarrow> ret (if is_kube_not_found e then Inr None else Inl e)
     | Inr conn \<Rightarrow>
         if \<not> k_condition_true k (pcst_conditions (conn_status conn)) ConditionConnected
         then ret (Inr None)
         else do {
           s \<leftarrow> k_get_secret k (secref_name (pcs_credentials_secret_ref (conn_spec conn)))
                  (secref_namespace (pcs_credentials_secret_ref (conn_spec conn)));
           case s of
             Inl e \<Rightarrow> ret (if is_kube_not_found e then Inr None else Inl e)
           | Inr data \<Rightarrow>
               let apiKey = mget data ''api_key''; apiSecret = mget data ''api_secret'';
                   eds = pcs_external_data_set (conn_spec conn) in
               if apiKey = '''' \<or> apiSecret = '''' then ret (Inr None)
               else ret (Inr (Some
                 (\<lparr>cfg_pce_url = pcs_pce_url (conn_spec conn), cfg_org_id = pcs_org_id (conn_spec conn),
                   cfg_api_key = apiKey, cfg_api_secret = apiSecret\<rparr>,
                  if eds = '''' then defaultExternalDataSet else eds)))
         }
   }"

definition credentials_data :: "string \<Rightarrow> string \<Rightarrow> string \<Rightarrow> string \<Rightarrow> smap \<Rightarrow> smap" where
  \<comment> \<open>the change \<open>writeCredentialsSecret\<close> makes to the Secret's data\<close>
  "credentials_data pceURL clusterID token code data =
     (let data = mset_key ''cluster_id'' clusterID (mset_key ''pce_url'' pceURL data);
          data = (if token \<noteq> '''' then mset_key ''cluster_token'' token data else data)
      in if code \<noteq> '''' then mset_key ''cluster_code'' code data else data)"

definition writeCredentialsSecret ::
  "'w kube \<Rightarrow> string \<Rightarrow> cluster_profile \<Rightarrow> string \<Rightarrow> string \<Rightarrow> string \<Rightarrow> ('w, go_error option) state" where
  "writeCredentialsSecret k operatorNamespace cp pceURL token code =
     k_put_secret k (ob_credentials_output_secret (cps_onboarding (cp_spec cp))) operatorNamespace
       (credentials_data pceURL (cpst_container_cluster_id (cp_status cp)) token code)"


subsection \<open>The container cluster\<close>

definition with_cluster :: "container_cluster \<Rightarrow> cluster_profile \<Rightarrow> cluster_profile" where
  "with_cluster c cp =
     cp\<lparr>cp_status := (cp_status cp)\<lparr>cpst_container_cluster_href := cc_href c,
        cpst_container_cluster_id := ContainerClusterUUID (cc_href c)\<rparr>\<rparr>"

definition create_cluster ::
  "'w kube \<Rightarrow> 'w onboarding_client \<Rightarrow> string \<Rightarrow> config \<Rightarrow> cluster_profile
   \<Rightarrow> ('w, reconcile_result + cluster_profile) state" where
  \<comment> \<open>from the call of \<open>CreateContainerCluster\<close> on\<close>
  "create_cluster k oc operatorNamespace cfg cp =
     (let name = ob_container_cluster_name (cps_onboarding (cp_spec cp)) in do {
        created \<leftarrow> oc_create_cluster oc name ''Managed by illumio-k8s-utility-operator'';
        case created of
          Inl err \<Rightarrow> do {
            r \<leftarrow> onboardError k cp (''failed to create PCE container cluster '' @ go_quote name @
                   '': '' @ error_string err) err;
            ret (Inl r)
          }
        | Inr created \<Rightarrow> do {
            let cp = with_cluster created cp;
            werr \<leftarrow> writeCredentialsSecret k operatorNamespace cp (cfg_pce_url cfg) (cc_token created) '''';
            case werr of
              Some e \<Rightarrow> ret (Inl (0, Some e))
            | None \<Rightarrow> do {
                u \<leftarrow> k_status_profile k cp;
                ret (map_sum (\<lambda>e. (0, Some e)) id u)
              }
          }
      })"

definition ensure_cluster ::
  "'w kube \<Rightarrow> 'w onboarding_client \<Rightarrow> string \<Rightarrow> config \<Rightarrow> cluster_profile
   \<Rightarrow> ('w, reconcile_result + cluster_profile) state" where
  "ensure_cluster k oc operatorNamespace cfg cp =
     (if cpst_container_cluster_href (cp_status cp) \<noteq> '''' then ret (Inr cp)
      else let ob = cps_onboarding (cp_spec cp); name = ob_container_cluster_name ob in do {
        r \<leftarrow> oc_find_cluster oc name;
        case r of
          Inl err \<Rightarrow> ret (Inl (0, Some err))
        | Inr existing \<Rightarrow>
            if onboardMode cp = onboardModeAdopt then
              (case existing of
                 None \<Rightarrow> do {
                   r \<leftarrow> onboardFail k cp ReasonOnboardFailed
                     (''onboarding.mode is adopt but container cluster '' @ go_quote name @
                      '' was not found in the PCE; create it first or use mode create'')
                     onboardRequeueHealthy;
                   ret (Inl r)
                 }
               | Some c \<Rightarrow> do {
                   u \<leftarrow> k_status_profile k (with_cluster c cp);
                   ret (map_sum (\<lambda>e. (0, Some e)) id u)
                 })
            else if ob_credentials_output_secret ob = '''' then do {
              r \<leftarrow> onboardFail k cp ReasonOnboardFailed
                ''onboarding.credentialsOutputSecret is required in create mode'' onboardRequeueTerminal;
              ret (Inl r)
            }
            else if existing \<noteq> None then do {
              r \<leftarrow> onboardFail k cp ReasonOnboardFailed
                (''container cluster '' @ go_quote name @
                 '' already exists in the PCE; its one-time token cannot be recovered. Set onboarding.mode: adopt to manage it in place, or delete it.'')
                onboardRequeueTerminal;
              ret (Inl r)
            }
            else create_cluster k oc operatorNamespace cfg cp
      })"

subsection \<open>The node pairing profile\<close>

fun node_labels ::
  "'w onboarding_client \<Rightarrow> owner \<Rightarrow> smap \<Rightarrow> label_ref list \<Rightarrow> ('w, go_error + label_ref list) state" where
  "node_labels oc ow [] labels = ret (Inr labels)"
| "node_labels oc ow ((key, value) # rest) labels = do {
     lbl \<leftarrow> oc_ensure_label oc key value ow;
     case lbl of
       Inl e \<Rightarrow> ret (Inl e)
     | Inr l \<Rightarrow> node_labels oc ow rest (labels @ [\<lparr>lref_href = lbl_href l\<rparr>])
   }"

definition node_profile :: "string \<Rightarrow> string \<Rightarrow> label_ref list \<Rightarrow> owner \<Rightarrow> pairing_profile" where
  \<comment> \<open>the argument of \<open>CreatePairingProfile\<close>; the fields it leaves out are zero\<close>
  "node_profile name enforcement labels ow =
     zero_pairing_profile\<lparr>pp_name := name, pp_enabled := True,
       pp_enforcement_mode := (if enforcement = '''' then enforcementIdle else enforcement),
       pp_allowed_uses_per_key := ''unlimited'', pp_key_lifespan := ''unlimited'',
       pp_labels := labels, pp_external_data_set := ow_data_set ow,
       pp_external_data_reference := ow_reference ow\<rparr>"

definition ensure_own_profile ::
  "'w onboarding_client \<Rightarrow> owner \<Rightarrow> onboarding_spec \<Rightarrow> ('w, go_error + pairing_profile) state" where
  \<comment> \<open>the operator's own profile: found by its name, or created\<close>
  "ensure_own_profile oc ow ob =
     (let npp = ob_node_pairing_profile ob; ppName = ob_container_cluster_name ob @ ''-nodes'' in do {
        r \<leftarrow> oc_find_pairing_profile oc ppName;
        case r of
          Inl e \<Rightarrow> ret (Inl e)
        | Inr (Some pp) \<Rightarrow> ret (Inr pp)
        | Inr None \<Rightarrow> do {
            ls \<leftarrow> node_labels oc ow (npp_labels npp) [];
            case ls of
              Inl e \<Rightarrow> ret (Inl e)
            | Inr labels \<Rightarrow>
                oc_create_pairing_profile oc (node_profile ppName (npp_enforcement_mode npp) labels ow)
          }
      })"

definition publish_key ::
  "'w kube \<Rightarrow> 'w onboarding_client \<Rightarrow> string \<Rightarrow> config \<Rightarrow> cluster_profile \<Rightarrow> pairing_profile
   \<Rightarrow> ('w, reconcile_result option) state" where
  "publish_key k oc operatorNamespace cfg cp pp = do {
     code \<leftarrow> oc_generate_pairing_key oc (pp_href pp);
     case code of
       Inl e \<Rightarrow> ret (Some (0, Some e))
     | Inr code \<Rightarrow> do {
         werr \<leftarrow> writeCredentialsSecret k operatorNamespace cp (cfg_pce_url cfg) '''' code;
         ret (map_option (\<lambda>e. (0, Some e)) werr)
       }
   }"

definition ensurePairing ::
  "'w kube \<Rightarrow> 'w onboarding_client \<Rightarrow> string \<Rightarrow> config \<Rightarrow> owner \<Rightarrow> cluster_profile
   \<Rightarrow> ('w, reconcile_result option) state" where
  \<comment> \<open>\<open>Some\<close>: done, with the handler's result\<close>
  "ensurePairing k oc operatorNamespace cfg ow cp =
     (let ob = cps_onboarding (cp_spec cp); npp = ob_node_pairing_profile ob in
      if npp_existing_name npp \<noteq> '''' then do {
        r \<leftarrow> oc_find_pairing_profile oc (npp_existing_name npp);
        case r of
          Inl e \<Rightarrow> ret (Some (0, Some e))
        | Inr None \<Rightarrow> do {
            res \<leftarrow> onboardFail k cp ReasonOnboardFailed
              (''pairing profile '' @ go_quote (npp_existing_name npp) @ '' not found in the PCE'')
              onboardRequeueHealthy;
            ret (Some res)
          }
        | Inr (Some pp) \<Rightarrow> publish_key k oc operatorNamespace cfg cp pp
      }
      else do {
        r \<leftarrow> ensure_own_profile oc ow ob;
        case r of
          Inl e \<Rightarrow> ret (Some (0, Some e))
        | Inr pp \<Rightarrow> publish_key k oc operatorNamespace cfg cp pp
      })"


subsection \<open>Reconcile\<close>

definition namespaces_message :: "int \<Rightarrow> int \<Rightarrow> string" where
  "namespaces_message managed pending =
     dec_int managed @ '' namespace(s) managed'' @
     (if pending > 0 then ''; '' @ dec_int pending @ '' awaiting CWP creation by Kubelink'' else '''')"

definition onboarded_profile :: "'w kube \<Rightarrow> string \<Rightarrow> int \<Rightarrow> cluster_profile \<Rightarrow> cluster_profile" where
  \<comment> \<open>the managed namespaces and \<open>Onboarded=True\<close>\<close>
  "onboarded_profile k mode managed cp =
     with_profile_condition k ConditionOnboarded ConditionTrue ReasonOnboarded
       (if mode = onboardModeAdopt then ''existing container cluster adopted''
        else ''cluster onboarded; credentials published'')
       (cp\<lparr>cp_status := (cp_status cp)\<lparr>cpst_managed_namespaces := managed\<rparr>\<rparr>)"

definition finish_profile ::
  "'w kube \<Rightarrow> 'w onboarding_client \<Rightarrow> owner \<Rightarrow> string \<Rightarrow> cluster_profile \<Rightarrow> ('w, reconcile_result) state" where
  \<comment> \<open>from the call of \<open>reconcileNamespaceCWPs\<close> on\<close>
  "finish_profile k oc ow mode cp = do {
     r \<leftarrow> reconcileNamespaceCWPs k oc cp ow;
     case r of
       (managed, pending, cwpErr) \<Rightarrow>
         let cp = onboarded_profile k mode managed cp in
         (case cwpErr of
            Some e \<Rightarrow> do {
              u \<leftarrow> k_status_profile k (with_profile_condition k ConditionNamespacesReconciled
                     ConditionFalse ReasonNamespaceErrors (error_string e) cp);
              ret (0, Some (case u of Inl uerr \<Rightarrow> uerr | Inr _ \<Rightarrow> e))
            }
          | None \<Rightarrow> do {
              cp \<leftarrow> checkLabelMapOverlap k (with_profile_condition k ConditionNamespacesReconciled
                      ConditionTrue ReasonReconciled (namespaces_message managed pending) cp);
              u \<leftarrow> k_status_profile k (cp\<lparr>cp_status := (cp_status cp)
                     \<lparr>cpst_observed_generation := om_generation (cp_meta cp)\<rparr>\<rparr>);
              case u of
                Inl uerr \<Rightarrow> ret (0, Some uerr)
              | Inr _ \<Rightarrow>
                  ret (if pending > 0 then onboardRequeueNotReady else onboardRequeueHealthy, None)
            })
   }"

definition profile_step ::
  "'w kube \<Rightarrow> (config \<Rightarrow> 'w onboarding_client) \<Rightarrow> string \<Rightarrow> cluster_profile \<Rightarrow> ('w, reconcile_result) state" where
  \<comment> \<open>from the call of \<open>resolveConnection\<close> on\<close>
  "profile_step k factory operatorNamespace cp = do {
     conn \<leftarrow> resolveConnection k cp;
     case conn of
       Inl transientErr \<Rightarrow> ret (0, Some transientErr)
     | Inr None \<Rightarrow> onboardFail k cp ReasonPCEConnectionNotReady
         ''referenced PCEConnection is missing, not Connected, or its credentials Secret is unavailable''
         onboardRequeueNotReady
     | Inr (Some (cfg, externalDataSet)) \<Rightarrow>
         let oc = factory cfg; mode = onboardMode cp;
             ow = \<lparr>ow_data_set = externalDataSet, ow_reference = om_uid (cp_meta cp)\<rparr> in do {
           c \<leftarrow> ensure_cluster k oc operatorNamespace cfg cp;
           case c of
             Inl result \<Rightarrow> ret result
           | Inr cp \<Rightarrow>
               if mode = onboardModeCreate then do {
                 p \<leftarrow> ensurePairing k oc operatorNamespace cfg ow cp;
                 case p of
                   Some result \<Rightarrow> ret result
                 | None \<Rightarrow> finish_profile k oc ow mode cp
               }
               else finish_profile k oc ow mode cp
         }
   }"

definition ClusterProfileReconcile ::
  "'w kube \<Rightarrow> (config \<Rightarrow> 'w onboarding_client) \<Rightarrow> string \<Rightarrow> string \<Rightarrow> ('w, reconcile_result) state" where
  "ClusterProfileReconcile k factory operatorNamespace name = do {
     r \<leftarrow> k_get_profile k name;
     case r of
       Inl e \<Rightarrow> ret (0, ignore_not_found e)
     | Inr cp \<Rightarrow> profile_step k factory operatorNamespace cp
   }"

definition clusterProfilesForNamespace :: "'w kube \<Rightarrow> ('w, string list) state" where
  \<comment> \<open>the names of the requests; an empty list when the profiles cannot be listed\<close>
  "clusterProfilesForNamespace k = do {
     r \<leftarrow> k_list_profiles k;
     ret (case r of Inl _ \<Rightarrow> [] | Inr cps \<Rightarrow> map (\<lambda>cp. om_name (cp_meta cp)) cps)
   }"

subsection \<open>Frame lemmas\<close>

text \<open>
  What an onboarded or adopting profile uses: lookups, labels and profile updates of the PCE,
  reads and events of the cluster (\<open>pass_calls_keep\<close>), and the profile's own status.
  \<open>onboarding_calls_keep\<close> leaves out the calls that create a cluster, a pairing profile or a
  key, and the Secret. Most handlers write the status of the same cluster (\<open>same_cluster\<close>).
\<close>

definition pass_calls_keep :: "('w \<Rightarrow> bool) \<Rightarrow> 'w kube \<Rightarrow> 'w onboarding_client \<Rightarrow> bool" where
  "pass_calls_keep P k oc \<longleftrightarrow>
     kube_reads_keep P k \<and> (\<forall>a b c. keeps P (k_event k a b c)) \<and>
     (\<forall>n. keeps P (oc_find_cluster oc n)) \<and> (\<forall>n. keeps P (oc_find_pairing_profile oc n)) \<and>
     (\<forall>k' v ow. keeps P (oc_ensure_label oc k' v ow)) \<and> (\<forall>c. keeps P (oc_list_cwps oc c)) \<and>
     (\<forall>h u. keeps P (oc_update_cwp oc h u))"

definition onboarding_calls_keep :: "('w \<Rightarrow> bool) \<Rightarrow> 'w kube \<Rightarrow> 'w onboarding_client \<Rightarrow> bool" where
  "onboarding_calls_keep P k oc \<longleftrightarrow> pass_calls_keep P k oc \<and> (\<forall>cp. keeps P (k_status_profile k cp))"

definition pairing_calls_keep :: "('w \<Rightarrow> bool) \<Rightarrow> 'w kube \<Rightarrow> 'w onboarding_client \<Rightarrow> bool" where
  \<comment> \<open>the calls of the create mode that do not touch the one-time token\<close>
  "pairing_calls_keep P k oc \<longleftrightarrow>
     (\<forall>p. keeps P (oc_create_pairing_profile oc p)) \<and> (\<forall>h. keeps P (oc_generate_pairing_key oc h)) \<and>
     (\<forall>n ns f. (\<forall>d. mget (f d) ''cluster_token'' = mget d ''cluster_token'') \<longrightarrow>
        keeps P (k_put_secret k n ns f))"

definition same_cluster :: "cluster_profile \<Rightarrow> cluster_profile \<Rightarrow> bool" where
  "same_cluster cp cp' \<longleftrightarrow> cp_spec cp' = cp_spec cp \<and>
     cpst_container_cluster_href (cp_status cp') = cpst_container_cluster_href (cp_status cp)"

lemma same_cluster_simps [simp]:
  "same_cluster cp cp"
  "same_cluster cp (with_profile_condition k t status reason msg cp') \<longleftrightarrow> same_cluster cp cp'"
  "same_cluster cp (onboarded_profile k mode managed cp') \<longleftrightarrow> same_cluster cp cp'"
  "same_cluster cp (cp'\<lparr>cp_status := (cp_status cp')\<lparr>cpst_observed_generation := g\<rparr>\<rparr>) \<longleftrightarrow> same_cluster cp cp'"
  by (auto simp: same_cluster_def with_profile_condition_def onboarded_profile_def)

lemma pass_calls_keepD [keeps]:
  assumes "pass_calls_keep P k oc"
  shows "kube_reads_keep P k" "keeps P (k_event k a b c)"
    "keeps P (oc_find_cluster oc n)" "keeps P (oc_find_pairing_profile oc n)"
    "keeps P (oc_ensure_label oc key v ow)" "keeps P (oc_list_cwps oc c)"
    "keeps P (oc_update_cwp oc h u)"
  using assms by (simp_all add: pass_calls_keep_def)

lemma onboarding_calls_keepD:
  assumes "onboarding_calls_keep P k oc"
  shows "pass_calls_keep P k oc" "keeps P (k_status_profile k cp)"
  using assms by (simp_all add: onboarding_calls_keep_def)

lemma pairing_calls_keepD [keeps]:
  assumes "pairing_calls_keep P k oc"
  shows "keeps P (oc_create_pairing_profile oc p)" "keeps P (oc_generate_pairing_key oc h)"
    "(\<And>d. mget (f d) ''cluster_token'' = mget d ''cluster_token'') \<Longrightarrow> keeps P (k_put_secret k n ns f)"
  using assms by (simp_all add: pairing_calls_keep_def)

lemma keeps_onboardFail:
  assumes status: "\<And>cp'. same_cluster cp cp' \<Longrightarrow> keeps P (k_status_profile k cp')"
  shows "keeps P (onboardFail k cp reason msg d)"
  unfolding onboardFail_def Let_def by (auto intro!: keeps status)

lemma keeps_onboardError:
  assumes status: "\<And>cp'. same_cluster cp cp' \<Longrightarrow> keeps P (k_status_profile k cp')"
  shows "keeps P (onboardError k cp msg e)"
  unfolding onboardError_def Let_def by (auto intro!: keeps status)

lemma keeps_resolveConnection:
  "kube_reads_keep P k \<Longrightarrow> keeps P (resolveConnection k cp)"
  unfolding resolveConnection_def by (auto intro!: keeps)

lemma keeps_resolve_cwp_labels:
  "pass_calls_keep P k oc \<Longrightarrow> keeps P (resolve_cwp_labels oc ow labels cache byKey out)"
proof (induction labels arbitrary: cache byKey out)
  case (Cons kv labels)
  then show ?case by (cases kv) (auto intro!: keeps)
qed simp

lemma keeps_apply_cwp:
  assumes "pass_calls_keep P k oc"
  shows "keeps P (apply_cwp k oc ow ns cwp desired s)"
  unfolding apply_cwp_def buildCWPUpdate_def using assms
  by (auto intro!: keeps keeps_resolve_cwp_labels)

lemma keeps_namespace_pass:
  assumes "pass_calls_keep P k oc"
  shows "keeps P (namespace_pass k oc cp ow byNS nss s)"
proof (induction nss arbitrary: s)
  case (Cons ns nss)
  show ?case
    unfolding namespace_pass.simps namespace_step_def raise_desired_def using assms
    by (auto intro!: keeps keeps_apply_cwp Cons.IH)
qed simp

lemma checkLabelMapOverlap_result:
  "returns (checkLabelMapOverlap k cp)
     (\<lambda>cp'. \<exists>status reason msg. cp' = with_profile_condition k ConditionLabelMapOverlap status reason msg cp)"
  unfolding checkLabelMapOverlap_def Let_def by (intro hoare returns_bind) blast+

lemma keeps_finish_profile:
  assumes calls: "pass_calls_keep P k oc"
    and status: "\<And>cp'. same_cluster cp cp' \<Longrightarrow> keeps P (k_status_profile k cp')"
  shows "keeps P (finish_profile k oc ow mode cp)"
proof -
  have overlap: "hoare P (checkLabelMapOverlap k cp') (\<lambda>r w. P w \<and>
      (\<exists>status reason msg. r = with_profile_condition k ConditionLabelMapOverlap status reason msg cp'))" for cp'
    by (rule hoare_keepsI [OF _ checkLabelMapOverlap_result])
      (use calls in \<open>auto simp: checkLabelMapOverlap_def intro!: keeps\<close>)
  have "keeps P (reconcileNamespaceCWPs k oc cp ow)"
    unfolding reconcileNamespaceCWPs_def using calls by (auto intro!: keeps keeps_namespace_pass)
  then show ?thesis
    unfolding finish_profile_def Let_def
    by (auto intro!: keeps status keeps_bind_pure [OF overlap])
qed

lemma keeps_ensurePairing:
  assumes calls: "pass_calls_keep P k oc" "pairing_calls_keep P k oc"
    and status: "\<And>cp'. same_cluster cp cp' \<Longrightarrow> keeps P (k_status_profile k cp')"
  shows "keeps P (ensurePairing k oc opns cfg ow cp)"
proof -
  have labels: "keeps P (node_labels oc ow ls acc)" for ls acc
    by (induction ls arbitrary: acc) (auto intro!: keeps calls(1))
  have token: "mget (credentials_data u i '''' code d) ''cluster_token'' = mget d ''cluster_token''" for u i code d
    by (simp add: credentials_data_def mget_def Let_def)
  have secret: "keeps P (writeCredentialsSecret k opns cp u '''' code)" for u code
    unfolding writeCredentialsSecret_def by (rule pairing_calls_keepD(3) [OF calls(2) token])
  show ?thesis
    unfolding ensurePairing_def ensure_own_profile_def publish_key_def
    using calls by (auto intro!: keeps keeps_onboardFail status labels secret)
qed

lemma keeps_ensure_cluster_adopt:
  assumes "onboarding_calls_keep P k oc" "onboardMode cp = onboardModeAdopt"
  shows "keeps P (ensure_cluster k oc opns cfg cp)"
  unfolding ensure_cluster_def Let_def using assms(2)
  by (auto intro!: keeps keeps_onboardFail onboarding_calls_keepD [OF assms(1)])

text \<open>What the profile under reconciliation is known to be, whatever the cluster holds.\<close>

definition reads_profile :: "('w \<Rightarrow> bool) \<Rightarrow> (cluster_profile \<Rightarrow> bool) \<Rightarrow> 'w kube \<Rightarrow> string \<Rightarrow> bool" where
  "reads_profile P G k name \<longleftrightarrow>
     hoare P (k_get_profile k name) (\<lambda>r w. P w \<and> (case r of Inr cp \<Rightarrow> G cp | Inl _ \<Rightarrow> True))"

lemma keeps_ClusterProfileReconcile:
  assumes read: "reads_profile P G k name" and calls: "\<And>cfg. onboarding_calls_keep P k (factory cfg)"
    and cluster: "\<And>cp cfg. G cp \<Longrightarrow> keeps P (ensure_cluster k (factory cfg) opns cfg cp)"
    and pairing: "\<And>cp cp' cfg ow. G cp \<Longrightarrow> onboardMode cp = onboardModeCreate \<Longrightarrow>
      keeps P (ensurePairing k (factory cfg) opns cfg ow cp')"
  shows "keeps P (ClusterProfileReconcile k factory opns name)"
proof -
  have pass: "pass_calls_keep P k (factory cfg)" and kube: "kube_reads_keep P k"
    and status: "keeps P (k_status_profile k cp)" for cfg cp
    using onboarding_calls_keepD [OF calls] by (blast intro: keeps)+
  note fail = keeps_onboardFail [OF status] and finish = keeps_finish_profile [OF pass status]
  have "keeps P (profile_step k factory opns cp)" if "G cp" for cp
    unfolding profile_step_def Let_def using that kube
    by (auto intro!: keeps keeps_resolveConnection fail finish cluster pairing)
  then show ?thesis
    unfolding ClusterProfileReconcile_def
    by (auto intro!: keeps_bind_pure [OF read [unfolded reads_profile_def]] split: sum.split)
qed


subsection \<open>The conditions of the profile\<close>

lemma profile_condition_true:
  "condition_laws k \<Longrightarrow>
   k_condition_true k (cpst_conditions (cp_status (with_profile_condition k t status reason msg cp))) t' \<longleftrightarrow>
     (if t' = t then status = ConditionTrue
      else k_condition_true k (cpst_conditions (cp_status cp)) t')"
  using condition_laws_true [of k _ "new_condition t status reason msg"]
    condition_laws_other [of k t' "new_condition t status reason msg"]
  by (simp add: with_profile_condition_def new_condition_def) (simp add: condition_laws_def)

lemma with_profile_condition_frame:
  "cp_meta (with_profile_condition k t status reason msg cp) = cp_meta cp"
  "cp_spec (with_profile_condition k t status reason msg cp) = cp_spec cp"
  "cpst_managed_namespaces (cp_status (with_profile_condition k t status reason msg cp)) =
     cpst_managed_namespaces (cp_status cp)"
  "cpst_observed_generation (cp_status (with_profile_condition k t status reason msg cp)) =
     cpst_observed_generation (cp_status cp)"
  by (simp_all add: with_profile_condition_def)

lemma onboarded_profile_facts:
  "cp_meta (onboarded_profile k mode managed cp) = cp_meta cp"
  "cp_spec (onboarded_profile k mode managed cp) = cp_spec cp"
  "cpst_managed_namespaces (cp_status (onboarded_profile k mode managed cp)) = managed"
  "cpst_observed_generation (cp_status (onboarded_profile k mode managed cp)) =
     cpst_observed_generation (cp_status cp)"
  "condition_laws k \<Longrightarrow> k_condition_true k
     (cpst_conditions (cp_status (onboarded_profile k mode managed cp))) ConditionOnboarded"
  by (simp_all add: onboarded_profile_def with_profile_condition_frame profile_condition_true)

lemma profile_conditions_distinct:
  "ConditionOnboarded \<noteq> ConditionNamespacesReconciled" "ConditionOnboarded \<noteq> ConditionLabelMapOverlap"
  "ConditionNamespacesReconciled \<noteq> ConditionLabelMapOverlap"
  by (simp_all add: condition_names)

lemmas profile_facts = profile_conditions_distinct profile_condition_true with_profile_condition_frame onboarded_profile_facts


subsection \<open>Properties\<close>

text \<open>
  C24: Adopt mode only observes and configures: a reconcile of an adopting profile keeps every
  property of the world that reads, events, the profile's status, labels and workload profile
  updates keep. It creates no container cluster, no pairing profile and no pairing key, and
  writes no Secret, none of which is assumed to keep anything.
\<close>
theorem adopt_mode_frame:
  assumes "reads_profile P (\<lambda>cp. onboardMode cp = onboardModeAdopt) k name"
    and "\<And>cfg. onboarding_calls_keep P k (factory cfg)"
  shows "keeps P (ClusterProfileReconcile k factory operatorNamespace name)"
  by (rule keeps_ClusterProfileReconcile [OF assms])
    (auto intro: keeps_ensure_cluster_adopt assms(2) simp: onboardModeAdopt_def onboardModeCreate_def)

text \<open>
  The one-time cluster token survives: for a profile whose cluster is recorded in its
  status, a reconcile keeps every property that the calls of both modes keep, given that
  changes of a Secret which leave \<open>cluster_token\<close> alone keep it. Nothing is assumed of
  creating a cluster or of other changes to a Secret.
\<close>
theorem onboarded_keeps_token:
  assumes "reads_profile P (\<lambda>cp. cpst_container_cluster_href (cp_status cp) \<noteq> '''') k name"
    and "\<And>cfg. onboarding_calls_keep P k (factory cfg)"
    and "\<And>cfg. pairing_calls_keep P k (factory cfg)"
  shows "keeps P (ClusterProfileReconcile k factory operatorNamespace name)"
  by (rule keeps_ClusterProfileReconcile [OF assms(1,2)])
    (simp_all add: ensure_cluster_def keeps_ensurePairing [OF _ assms(3)] onboarding_calls_keepD [OF assms(2)])

text \<open>
  An overlap with a LabelMap is reported exactly: the reported keys are the ones that both
  the profile assigns, in a namespace rule or to system namespaces, and some LabelMap object
  writes; they are listed once each, in byte order.
\<close>
theorem overlapKeys_exact:
  "let ks = overlapKeys (operatorAssignedKeys cp) (labelMapWorkloadKeys items) in
   sorted ks \<and> distinct ks \<and>
   set ks = (fst ` set (sns_labels (cps_system_namespaces (cp_spec cp))) \<union>
             (\<Union>r\<in>set (cps_namespace_rules (cp_spec cp)). fst ` set (nr_assign_labels r))) \<inter>
            (\<Union>j\<in>set items. set (label_map_keys j))"
proof -
  have keys: "set (fold add_key ks acc) = set ks \<union> set acc \<and> (distinct (fold add_key ks acc) \<longleftrightarrow> distinct acc)"
    for ks acc by (induction ks arbitrary: acc) (auto simp: insert_absorb)
  have folds: "set (fold (\<lambda>x. fold add_key (f x)) xs acc) = (\<Union>x\<in>set xs. set (f x)) \<union> set acc \<and>
      (distinct (fold (\<lambda>x. fold add_key (f x)) xs acc) \<longleftrightarrow> distinct acc)" for f :: "'x \<Rightarrow> string list" and xs acc
    by (induction xs arbitrary: acc) (auto simp: keys)
  show ?thesis
    by (auto simp: Let_def overlapKeys_def operatorAssignedKeys_def labelMapWorkloadKeys_def keys folds)
qed

text \<open>
  What a pass over the namespaces leaves in the profile's status: the managed namespaces
  and \<open>Onboarded=True\<close> in any case; \<open>NamespacesReconciled\<close> is true, the observed generation
  advances and the handler returns no error only when no namespace failed. With a failure the
  old observed generation stays, so the spec is retried.
\<close>
theorem finish_profile_status:
  assumes laws: "condition_laws k"
    and pass: "run_state (reconcileNamespaceCWPs k oc cp ow) w = ((managed, pending, cwpErr), w1)"
  shows "\<exists>cp' u w2 w3. run_state (k_status_profile k cp') w2 = (u, w3) \<and>
    run_state (finish_profile k oc ow mode cp) w =
      ((if cwpErr = None \<and> isl u = False
        then (if pending > 0 then 30 * second else 10 * minute, None)
        else (0, Some (if isl u then projl u else the cwpErr))), w3) \<and>
    cp_spec cp' = cp_spec cp \<and> cpst_managed_namespaces (cp_status cp') = managed \<and>
    k_condition_true k (cpst_conditions (cp_status cp')) ConditionOnboarded \<and>
    (k_condition_true k (cpst_conditions (cp_status cp')) ConditionNamespacesReconciled \<longleftrightarrow> cwpErr = None) \<and>
    cpst_observed_generation (cp_status cp') =
      (if cwpErr = None then om_generation (cp_meta cp) else cpst_observed_generation (cp_status cp))"
proof (cases cwpErr)
  case (Some e)
  let ?cp = "with_profile_condition k ConditionNamespacesReconciled ConditionFalse ReasonNamespaceErrors
     (error_string e) (onboarded_profile k mode managed cp)"
  obtain u w3 where u: "run_state (k_status_profile k ?cp) w1 = (u, w3)" by fastforce
  show ?thesis
    by (rule exI [of _ ?cp], rule exI [of _ u], rule exI [of _ w1], rule exI [of _ w3])
      (use laws in \<open>cases u; simp add: u Some finish_profile_def pass Let_def profile_facts\<close>)
next
  case None
  let ?cp1 = "with_profile_condition k ConditionNamespacesReconciled ConditionTrue ReasonReconciled
     (namespaces_message managed pending) (onboarded_profile k mode managed cp)"
  obtain cp2 w2 where run: "run_state (checkLabelMapOverlap k ?cp1) w1 = (cp2, w2)" by fastforce
  then obtain status reason msg where
    overlap: "run_state (checkLabelMapOverlap k ?cp1) w1 =
      (with_profile_condition k ConditionLabelMapOverlap status reason msg ?cp1, w2)"
    using returnsD [OF checkLabelMapOverlap_result run] by auto
  let ?cp2 = "with_profile_condition k ConditionLabelMapOverlap status reason msg ?cp1"
  let ?cp = "?cp2\<lparr>cp_status := (cp_status ?cp2)\<lparr>cpst_observed_generation := om_generation (cp_meta ?cp2)\<rparr>\<rparr>"
  obtain u w3 where u: "run_state (k_status_profile k ?cp) w2 = (u, w3)" by fastforce
  show ?thesis
    by (rule exI [of _ ?cp], rule exI [of _ u], rule exI [of _ w2], rule exI [of _ w3])
      (use laws u in \<open>cases u; simp add: None finish_profile_def pass Let_def overlap profile_facts
        onboardRequeueNotReady_def onboardRequeueHealthy_def\<close>)
qed

text \<open>
  Concrete onboarding for the instances: the calls that create something are noted in the
  world by \<open>jot\<close>; \<open>found\<close> is the cluster the PCE knows.
\<close>

definition sim_onboarder ::
  "(string \<Rightarrow> ('w, unit) state) \<Rightarrow> container_cluster option \<Rightarrow> 'w onboarding_client" where
  "sim_onboarder jot found =
     \<lparr>oc_find_cluster = (\<lambda>_. ret (Inr found)),
      oc_create_cluster = (\<lambda>n d. do { jot ''cluster''; ret (Inr \<lparr>cc_href = ''/clusters/c2'',
        cc_name = n, cc_description = d, cc_token = ''tok''\<rparr>) }),
      oc_find_pairing_profile = (\<lambda>_. ret (Inr None)),
      oc_create_pairing_profile = (\<lambda>p. do { jot ''profile''; ret (Inr p) }),
      oc_generate_pairing_key = (\<lambda>_. do { jot ''key''; ret (Inr ''code'') }),
      oc_ensure_label = (\<lambda>k v _. ret (Inr \<lparr>lbl_href = ''/l/'' @ v, lbl_key = k, lbl_value = v,
        lbl_external_data_set = '''', lbl_external_data_reference = ''''\<rparr>)),
      oc_list_cwps = (\<lambda>_. ret (Inr [])),
      oc_update_cwp = (\<lambda>_ _. ret None)\<rparr>"

definition sim_onboarding_profile :: "string \<Rightarrow> string \<Rightarrow> cluster_profile" where
  \<comment> \<open>a profile with the given onboarding mode and recorded cluster\<close>
  "sim_onboarding_profile mode href =
     (let cp = sim_profile ''auto'' in
      cp\<lparr>cp_spec := (cp_spec cp)\<lparr>cps_onboarding := (cps_onboarding (cp_spec cp))\<lparr>ob_mode := mode\<rparr>\<rparr>,
         cp_status := (cp_status cp)\<lparr>cpst_container_cluster_href := href\<rparr>\<rparr>)"

definition sim_onboarding_kube :: "((smap \<Rightarrow> smap) \<Rightarrow> ('w, unit) state) \<Rightarrow> cluster_profile \<Rightarrow> 'w kube" where
  \<comment> \<open>a cluster with this one profile, whose Secret is changed by \<open>put\<close>\<close>
  "sim_onboarding_kube put cp =
     (sim_kube [cp] [sim_meta ''shop''] [] [])
       \<lparr>k_put_secret := (\<lambda>_ _ f. do { put f; ret None })\<rparr>"

lemma sim_onboarding_calls:
  "onboarding_calls_keep P (sim_onboarding_kube put cp) (sim_onboarder jot found)"
  by (simp add: onboarding_calls_keep_def pass_calls_keep_def kube_reads_keep_def sim_onboarding_kube_def sim_kube_def
      sim_onboarder_def)

lemma sim_onboarding_reads:
  "G cp \<Longrightarrow> reads_profile P G (sim_onboarding_kube put cp) name"
  by (auto simp: reads_profile_def sim_onboarding_kube_def sim_kube_def intro!: hoare split: sum.split)

definition sim_note :: "string \<Rightarrow> (string list, unit) state" where
  "sim_note s = State (\<lambda>w. ((), w @ [s]))"

text \<open>The same profile in adopt mode and in create mode, with a log of what is created.\<close>

theorem adopt_mode_frame_witness:
  "let run = (\<lambda>mode. snd (run_state (ClusterProfileReconcile
       (sim_onboarding_kube (\<lambda>_. sim_note ''secret'') (sim_onboarding_profile mode ''''))
       (\<lambda>_. sim_onboarder sim_note (if mode = ''adopt'' then Some \<lparr>cc_href = ''/clusters/c1'', cc_name = ''k8s'',
          cc_description = '''', cc_token = ''''\<rparr> else None)) ''ops'' ''profile'') []))
   in run ''adopt'' = [] \<and> run ''create'' = [''cluster'', ''secret'', ''profile'', ''key'', ''secret'']"
proof -
  let ?found = "Some \<lparr>cc_href = ''/clusters/c1'', cc_name = ''k8s'', cc_description = '''', cc_token = ''''\<rparr>"
  let ?k = "sim_onboarding_kube (\<lambda>_. sim_note ''secret'') (sim_onboarding_profile ''adopt'' '''')"
  have "keeps (\<lambda>w. w = []) (ClusterProfileReconcile ?k (\<lambda>_. sim_onboarder sim_note ?found) ''ops'' ''profile'')"
    by (rule adopt_mode_frame [OF sim_onboarding_reads sim_onboarding_calls])
      (simp add: onboardMode_def sim_onboarding_profile_def Let_def onboardModeAdopt_def)
  then have "snd (run_state (ClusterProfileReconcile ?k (\<lambda>_. sim_onboarder sim_note ?found) ''ops'' ''profile'') []) = []"
    by (simp add: keeps_def)
  moreover have "snd (run_state (ClusterProfileReconcile
      (sim_onboarding_kube (\<lambda>_. sim_note ''secret'') (sim_onboarding_profile ''create'' ''''))
      (\<lambda>_. sim_onboarder sim_note None) ''ops'' ''profile'') []) =
      [''cluster'', ''secret'', ''profile'', ''key'', ''secret'']"
    by code_simp
  ultimately show ?thesis by (simp add: Let_def)
qed

text \<open>Here the world is the Secret's data, which \<open>CreateOrUpdate\<close> changes.\<close>

theorem onboarded_keeps_token_witness:
  "let data = snd (run_state (ClusterProfileReconcile
       (sim_onboarding_kube (\<lambda>f. State (\<lambda>d. ((), f d))) (sim_onboarding_profile ''create'' ''/clusters/c1''))
       (\<lambda>_. sim_onboarder (\<lambda>_. ret ()) None) ''ops'' ''profile'') [(''cluster_token'', ''tok'')])
   in mget data ''cluster_token'' = ''tok'' \<and> mget data ''cluster_code'' = ''code''"
proof -
  let ?k = "sim_onboarding_kube (\<lambda>f. State (\<lambda>d. ((), f d))) (sim_onboarding_profile ''create'' ''/clusters/c1'')"
  let ?oc = "sim_onboarder (\<lambda>_. ret ()) None :: smap onboarding_client"
  let ?run = "ClusterProfileReconcile ?k (\<lambda>_. ?oc) ''ops'' ''profile''"
  have "keeps (\<lambda>d. mget d ''cluster_token'' = ''tok'') ?run"
    by (rule onboarded_keeps_token [OF sim_onboarding_reads sim_onboarding_calls])
      (auto simp: sim_onboarding_profile_def Let_def pairing_calls_keep_def sim_onboarder_def
        sim_onboarding_kube_def keeps_def)
  then have "mget (snd (run_state ?run [(''cluster_token'', ''tok'')])) ''cluster_token'' = ''tok''"
    by (simp add: keeps_def)
  moreover have "mget (snd (run_state ?run [(''cluster_token'', ''tok'')])) ''cluster_code'' = ''code''"
    by code_simp
  ultimately show ?thesis by (simp add: Let_def)
qed

theorem finish_profile_status_witness:
  "\<exists>cp' :: cluster_profile. cpst_observed_generation (cp_status cp') = 1 \<and>
     k_condition_true (sim_cluster ''auto'' :: unit kube) (cpst_conditions (cp_status cp')) ConditionOnboarded \<and>
     fst (run_state (finish_profile (sim_cluster ''auto'') (sim_onboarder (\<lambda>_. ret ()) None)
       \<lparr>ow_data_set = '''', ow_reference = ''''\<rparr> ''adopt'' (sim_profile ''auto'')) ()) = (10 * minute, None)"
proof -
  let ?k = "sim_cluster ''auto'' :: unit kube"
  let ?oc = "sim_onboarder (\<lambda>_. ret ()) None :: unit onboarding_client"
  let ?ow = "\<lparr>ow_data_set = '''', ow_reference = ''''\<rparr>"
  have laws: "condition_laws ?k" by (simp add: sim_cluster_def sim_condition_laws)
  have pass: "run_state (reconcileNamespaceCWPs ?k ?oc (sim_profile ''auto'') ?ow) () = ((0, 0, None), ())"
    by (simp add: reconcileNamespaceCWPs_def sim_profile_def)
  have stored: "k_status_profile ?k cp = ret (Inr cp)" for cp
    by (simp add: sim_cluster_def sim_kube_def)
  have "om_generation (cp_meta (sim_profile ''auto'')) = 1" by (simp add: sim_profile_def sim_meta_def)
  with finish_profile_status [OF laws pass, of "''adopt''"] show ?thesis
    by (clarsimp simp: stored) blast
qed

end
