(* ===== verification/Onboarding_Lifecycle.thy ===== *)
theory Onboarding_Lifecycle
  imports Cluster_Profile
begin

section \<open>The one-time token over the life of a profile\<close>

text \<open>
  The PCE shows the token of a container cluster once, in the answer to its creation. The
  handler stores it in the output Secret before it records the cluster in the status. The
  invariant \<open>token_safe\<close> says that a recorded cluster always has its token in the Secret; it
  holds in every history of a profile, whichever call fails.

  \<open>stored\<close> is the profile in the API server, \<open>secrets\<close> the data of the operator's Secrets by
  name, \<open>token_of\<close> the token of the cluster with an href.
\<close>

abbreviation cluster_href :: "cluster_profile \<Rightarrow> string" where
  "cluster_href cp \<equiv> cpst_container_cluster_href (cp_status cp)"

abbreviation output_secret :: "cluster_profile \<Rightarrow> string" where
  "output_secret cp \<equiv> ob_credentials_output_secret (cps_onboarding (cp_spec cp))"

definition token_kept :: "(string \<Rightarrow> string) \<Rightarrow> (string \<Rightarrow> smap) \<Rightarrow> cluster_profile \<Rightarrow> bool" where
  "token_kept token_of sec cp \<longleftrightarrow>
     (onboardMode cp = onboardModeCreate \<and> cluster_href cp \<noteq> '''' \<longrightarrow>
      mget (sec (output_secret cp)) ''cluster_token'' = token_of (cluster_href cp))"

definition token_safe ::
  "(string \<Rightarrow> string) \<Rightarrow> ('w \<Rightarrow> cluster_profile option) \<Rightarrow> ('w \<Rightarrow> string \<Rightarrow> smap) \<Rightarrow> 'w \<Rightarrow> bool" where
  "token_safe token_of stored secrets w \<longleftrightarrow>
     (\<forall>cp. stored w = Some cp \<longrightarrow> token_kept token_of (secrets w) cp)"

definition profile_at ::
  "(string \<Rightarrow> string) \<Rightarrow> ('w \<Rightarrow> cluster_profile option) \<Rightarrow> ('w \<Rightarrow> string \<Rightarrow> smap) \<Rightarrow> cluster_profile \<Rightarrow> 'w \<Rightarrow> bool" where
  \<comment> \<open>the profile the handler works on is the stored one up to conditions and counters\<close>
  "profile_at token_of stored secrets cp w \<longleftrightarrow>
     (\<exists>s. stored w = Some s \<and> same_cluster cp s) \<and> token_kept token_of (secrets w) cp"

definition onboarding_laws ::
  "(string \<Rightarrow> string) \<Rightarrow> ('w \<Rightarrow> cluster_profile option) \<Rightarrow> ('w \<Rightarrow> string \<Rightarrow> smap) \<Rightarrow>
   'w kube \<Rightarrow> 'w onboarding_client \<Rightarrow> string \<Rightarrow> bool" where
  \<comment> \<open>only the status update and the Secret write change what is observed; a call that reports
      an error may have had its effect or not\<close>
  "onboarding_laws token_of stored secrets k oc opns \<longleftrightarrow>
     (\<forall>P. pass_calls_keep (\<lambda>w. P (stored w) (secrets w)) k oc) \<and>
     (\<forall>P p. keeps (\<lambda>w. P (stored w) (secrets w)) (oc_create_pairing_profile oc p)) \<and>
     (\<forall>P h. keeps (\<lambda>w. P (stored w) (secrets w)) (oc_generate_pairing_key oc h)) \<and>
     (\<forall>P n d. keeps (\<lambda>w. P (stored w) (secrets w)) (oc_create_cluster oc n d)) \<and>
     (\<forall>n d. returns (oc_create_cluster oc n d)
        (\<lambda>r. \<forall>c. r = Inr c \<longrightarrow> token_of (cc_href c) = cc_token c \<and> cc_token c \<noteq> '''')) \<and>
     (\<forall>cp s d. hoare (\<lambda>w. stored w = Some s \<and> secrets w = d) (k_status_profile k cp)
        (\<lambda>r w. secrets w = d \<and>
           (case r of Inl _ \<Rightarrow> stored w \<in> {Some s, Some (s\<lparr>cp_status := cp_status cp\<rparr>)}
            | Inr new \<Rightarrow> stored w = Some new \<and> cp_spec new = cp_spec s \<and> cp_status new = cp_status cp))) \<and>
     (\<forall>n ns f s d. hoare (\<lambda>w. stored w = s \<and> secrets w = d) (k_put_secret k n ns f)
        (\<lambda>r w. stored w = s \<and>
           (if ns \<noteq> opns then secrets w = d
            else if r = None then secrets w = d(n := f (d n))
            else secrets w \<in> {d, d(n := f (d n))})))"

definition reads_stored :: "('w \<Rightarrow> cluster_profile option) \<Rightarrow> 'w kube \<Rightarrow> string \<Rightarrow> bool" where
  "reads_stored stored k name \<longleftrightarrow>
     hoare (\<lambda>_. True) (k_get_profile k name) (\<lambda>r w. \<forall>cp. r = Inr cp \<longrightarrow> stored w = Some cp)"

lemma onboarding_lawsD:
  assumes "onboarding_laws token_of stored secrets k oc opns"
  shows "pass_calls_keep (\<lambda>w. P (stored w) (secrets w)) k oc"
    "keeps (\<lambda>w. P (stored w) (secrets w)) (oc_create_pairing_profile oc p)"
    "keeps (\<lambda>w. P (stored w) (secrets w)) (oc_generate_pairing_key oc h)"
    "keeps (\<lambda>w. P (stored w) (secrets w)) (oc_create_cluster oc n dd)"
    "returns (oc_create_cluster oc n dd)
       (\<lambda>r. \<forall>c. r = Inr c \<longrightarrow> token_of (cc_href c) = cc_token c \<and> cc_token c \<noteq> '''')"
    "hoare (\<lambda>w. stored w = Some s \<and> secrets w = d) (k_status_profile k cp)
       (\<lambda>r w. secrets w = d \<and>
          (case r of Inl _ \<Rightarrow> stored w \<in> {Some s, Some (s\<lparr>cp_status := cp_status cp\<rparr>)}
           | Inr new \<Rightarrow> stored w = Some new \<and> cp_spec new = cp_spec s \<and> cp_status new = cp_status cp))"
    "hoare (\<lambda>w. stored w = so \<and> secrets w = d) (k_put_secret k n ns f)
       (\<lambda>r w. stored w = so \<and>
          (if ns \<noteq> opns then secrets w = d
           else if r = None then secrets w = d(n := f (d n))
           else secrets w \<in> {d, d(n := f (d n))}))"
  using assms unfolding onboarding_laws_def by blast+

lemma token_kept_same: "same_cluster cp s \<Longrightarrow> token_kept t sec s \<longleftrightarrow> token_kept t sec cp"
  by (simp add: token_kept_def same_cluster_def onboardMode_def)

lemma profile_at_safe: "profile_at t stored secrets cp w \<Longrightarrow> token_safe t stored secrets w"
  using token_kept_same by (auto simp: profile_at_def token_safe_def)

lemma same_cluster_trans: "same_cluster a b \<Longrightarrow> same_cluster b c \<Longrightarrow> same_cluster a c"
  by (simp add: same_cluster_def)

lemma status_keeps_profile:
  assumes "onboarding_laws t stored secrets k oc opns" "same_cluster cp cp'"
  shows "keeps (profile_at t stored secrets cp) (k_status_profile k cp')"
proof (rule keepsI)
  fix w r w'
  assume at: "profile_at t stored secrets cp w" and run: "run_state (k_status_profile k cp') w = (r, w')"
  then obtain s where s: "stored w = Some s" "same_cluster cp s" by (auto simp: profile_at_def)
  from hoareD [OF onboarding_lawsD(6) [OF assms(1)] _ run, of s "secrets w"] s(1)
  have "secrets w' = secrets w" "case r of Inl _ \<Rightarrow> stored w' \<in> {Some s, Some (s\<lparr>cp_status := cp_status cp'\<rparr>)}
     | Inr new \<Rightarrow> stored w' = Some new \<and> cp_spec new = cp_spec s \<and> cp_status new = cp_status cp'"
    by simp_all
  with at s assms(2) show "profile_at t stored secrets cp w'"
    by (cases r) (auto simp: profile_at_def same_cluster_def)
qed

lemma put_keeps_profile:
  assumes "onboarding_laws t stored secrets k oc opns"
    and "\<And>d. mget (f d) ''cluster_token'' = mget d ''cluster_token''"
  shows "keeps (profile_at t stored secrets cp) (k_put_secret k n ns f)"
proof (rule keepsI)
  fix w r w'
  assume at: "profile_at t stored secrets cp w" and run: "run_state (k_put_secret k n ns f) w = (r, w')"
  from hoareD [OF onboarding_lawsD(7) [OF assms(1)] _ run, of "stored w" "secrets w"]
  have "stored w' = stored w" "secrets w' \<in> {secrets w, (secrets w)(n := f (secrets w n))}"
    by (auto split: if_splits)
  with at assms(2) show "profile_at t stored secrets cp w'"
    by (auto simp: profile_at_def token_kept_def)
qed

lemma laws_keep_profile:
  assumes "onboarding_laws t stored secrets k oc opns"
  shows "pass_calls_keep (profile_at t stored secrets cp) k oc"
    "pairing_calls_keep (profile_at t stored secrets cp) k oc"
    "keeps (profile_at t stored secrets cp) (oc_create_cluster oc n d)"
  using put_keeps_profile [OF assms]
    onboarding_lawsD(1-4) [OF assms, of "\<lambda>s sec. (\<exists>x. s = Some x \<and> same_cluster cp x) \<and> token_kept t sec cp"]
  by (simp_all add: pairing_calls_keep_def profile_at_def [abs_def])

subsection \<open>The steps of a reconcile\<close>

abbreviation recorded ::
  "(string \<Rightarrow> string) \<Rightarrow> ('w \<Rightarrow> cluster_profile option) \<Rightarrow> ('w \<Rightarrow> string \<Rightarrow> smap) \<Rightarrow> cluster_profile \<Rightarrow>
   reconcile_result + cluster_profile \<Rightarrow> 'w \<Rightarrow> bool" where
  \<comment> \<open>a step that ends the reconcile leaves the token safe, one that goes on the profile at hand\<close>
  "recorded t stored secrets cp r w \<equiv>
     (case r of Inl _ \<Rightarrow> token_safe t stored secrets w
      | Inr cp' \<Rightarrow> profile_at t stored secrets cp' w \<and> cp_spec cp' = cp_spec cp)"

lemma status_records_cluster:
  assumes "onboarding_laws t stored secrets k oc opns" "cluster_href cp = ''''"
  shows "hoare (\<lambda>w. (\<exists>s. stored w = Some s \<and> same_cluster cp s) \<and> token_kept t (secrets w) (with_cluster c cp))
     (k_status_profile k (with_cluster c cp))
     (\<lambda>u w. recorded t stored secrets cp (map_sum (\<lambda>e. (0, Some e)) id u) w)"
proof (rule hoareI)
  fix w r w'
  assume pre: "(\<exists>s. stored w = Some s \<and> same_cluster cp s) \<and> token_kept t (secrets w) (with_cluster c cp)"
    and run: "run_state (k_status_profile k (with_cluster c cp)) w = (r, w')"
  then obtain s where s: "stored w = Some s" "same_cluster cp s" by auto
  from hoareD [OF onboarding_lawsD(6) [OF assms(1)] _ run, of s "secrets w"] s(1)
  have "secrets w' = secrets w" "case r of Inl _ \<Rightarrow> stored w' \<in> {Some s, Some (s\<lparr>cp_status := cp_status (with_cluster c cp)\<rparr>)}
     | Inr new \<Rightarrow> stored w' = Some new \<and> cp_spec new = cp_spec s \<and> cp_status new = cp_status (with_cluster c cp)"
    by simp_all
  with pre s assms(2) show "recorded t stored secrets cp (map_sum (\<lambda>e. (0, Some e)) id r) w'"
    by (cases r) (auto simp: profile_at_def token_safe_def token_kept_def same_cluster_def with_cluster_def onboardMode_def)
qed

lemma put_saves_token:
  assumes "onboarding_laws t stored secrets k oc opns"
    and "t (cc_href c) = cc_token c" "cc_token c \<noteq> ''''"
  shows "hoare (profile_at t stored secrets cp)
     (writeCredentialsSecret k opns (with_cluster c cp) url (cc_token c) '''')
     (\<lambda>e w. (\<exists>s. stored w = Some s \<and> same_cluster cp s) \<and>
        (e = None \<longrightarrow> token_kept t (secrets w) (with_cluster c cp)))"
proof (rule hoareI)
  fix w e w'
  assume at: "profile_at t stored secrets cp w"
    and run: "run_state (writeCredentialsSecret k opns (with_cluster c cp) url (cc_token c) '''') w = (e, w')"
  let ?n = "output_secret cp"
  have out: "output_secret (with_cluster c cp) = ?n" by (simp add: with_cluster_def)
  from hoareD [OF onboarding_lawsD(7) [OF assms(1)] _ run [unfolded writeCredentialsSecret_def out],
      of "stored w" "secrets w"]
  have "stored w' = stored w" and "e = None \<Longrightarrow> \<exists>f. secrets w' = (secrets w)(?n := credentials_data url
      (cpst_container_cluster_id (cp_status (with_cluster c cp))) (cc_token c) '''' f)"
    by auto
  with at assms(2,3) show "(\<exists>s. stored w' = Some s \<and> same_cluster cp s) \<and>
      (e = None \<longrightarrow> token_kept t (secrets w') (with_cluster c cp))"
    by (auto simp: profile_at_def token_kept_def credentials_data_def with_cluster_def mget_def Let_def)
qed

lemma stored_without_cluster_safe:
  "stored w = Some s \<Longrightarrow> same_cluster cp s \<Longrightarrow> cluster_href cp = '''' \<Longrightarrow> token_safe t stored secrets w"
  by (simp add: token_safe_def token_kept_def same_cluster_def)

lemma create_cluster_records:
  assumes laws: "onboarding_laws t stored secrets k oc opns" and href: "cluster_href cp = ''''"
  shows "hoare (profile_at t stored secrets cp) (create_cluster k oc opns cfg cp) (recorded t stored secrets cp)"
proof -
  note fail = keeps_onboardError [OF status_keeps_profile [OF laws], unfolded keeps_hoare]
  have created: "hoare (profile_at t stored secrets cp)
      (do { werr \<leftarrow> writeCredentialsSecret k opns (with_cluster c cp) (cfg_pce_url cfg) (cc_token c) '''';
            case werr of
              Some e \<Rightarrow> ret (Inl (0, Some e))
            | None \<Rightarrow> do { u \<leftarrow> k_status_profile k (with_cluster c cp); ret (map_sum (\<lambda>e. (0, Some e)) id u) } })
      (recorded t stored secrets cp)"
    if "t (cc_href c) = cc_token c" "cc_token c \<noteq> ''''" for c
    by (rule hoare_bind [OF put_saves_token [OF laws that]])
      (auto intro!: hoare_case_option hoare_return hoare_bind [OF hoare_pre [OF status_records_cluster [OF laws href]]]
        stored_without_cluster_safe href)
  show ?thesis
    unfolding create_cluster_def Let_def
    by (rule hoare_bind_pure [OF hoare_keepsI [OF laws_keep_profile(3) [OF laws] onboarding_lawsD(5) [OF laws]]])
      (auto intro!: hoare_case_sum created hoare_bind [OF fail] hoare_return profile_at_safe)
qed

lemma adopt_records:
  assumes laws: "onboarding_laws t stored secrets k oc opns" and href: "cluster_href cp = ''''"
    and adopt: "onboardMode cp = onboardModeAdopt"
  shows "hoare (profile_at t stored secrets cp) (do { u \<leftarrow> k_status_profile k (with_cluster c cp);
      ret (map_sum (\<lambda>e. (0, Some e)) id u) }) (recorded t stored secrets cp)"
proof (rule hoare_bind [OF hoare_pre [OF status_records_cluster [OF laws href, of c]]])
  have "onboardMode (with_cluster c cp) \<noteq> onboardModeCreate"
    using adopt by (simp add: with_cluster_def onboardMode_def onboardModeAdopt_def onboardModeCreate_def split: if_splits)
  then show "(\<exists>s. stored w = Some s \<and> same_cluster cp s) \<and> token_kept t (secrets w) (with_cluster c cp)"
    if "profile_at t stored secrets cp w" for w
    using that by (simp add: profile_at_def token_kept_def)
qed (rule hoare_return)

lemma ensure_cluster_records:
  assumes laws: "onboarding_laws t stored secrets k oc opns"
  shows "hoare (profile_at t stored secrets cp) (ensure_cluster k oc opns cfg cp) (recorded t stored secrets cp)"
proof (cases "cluster_href cp = ''''")
  case False
  then show ?thesis by (simp add: ensure_cluster_def hoare_return)
next
  case href: True
  note fail = keeps_onboardFail [OF status_keeps_profile [OF laws], unfolded keeps_hoare]
  note find = pass_calls_keepD(3) [OF laws_keep_profile(1) [OF laws]]
  have stop: "hoare (profile_at t stored secrets cp) (do { r \<leftarrow> onboardFail k cp reason msg d; ret (Inl r) })
      (recorded t stored secrets cp)" for reason msg d
    by (rule hoare_bind [OF fail], assumption) (rule hoare_return, simp add: profile_at_safe)
  show ?thesis
    unfolding ensure_cluster_def Let_def if_not_P [OF iffD2 [OF not_not href]]
    by (intro hoare_bind_keeps [OF find] hoare_case_sum hoare_if hoare_case_option stop
        adopt_records [OF laws href] create_cluster_records [OF laws href] hoare_return)
      (simp_all add: profile_at_safe)
qed

lemma profile_step_safe:
  assumes laws: "\<And>cfg. onboarding_laws t stored secrets k (factory cfg) opns"
  shows "hoare (profile_at t stored secrets cp) (profile_step k factory opns cp)
    (\<lambda>_. token_safe t stored secrets)"
proof -
  let ?at = "profile_at t stored secrets"
  have status: "same_cluster cp cp' \<Longrightarrow> keeps (?at cp) (k_status_profile k cp')" for cp cp'
    by (rule status_keeps_profile [OF laws])
  note calls = laws_keep_profile [OF laws]
  have safe: "keeps (?at cp) m \<Longrightarrow> hoare (?at cp) m (\<lambda>_. token_safe t stored secrets)" for m :: "('a, 'x) state" and cp
    by (auto simp: keeps_hoare elim!: hoare_post intro: profile_at_safe)
  note fail = safe [OF keeps_onboardFail [OF status]]
  have finish: "keeps (?at cp) (finish_profile k (factory cfg) ow mode cp)" for cfg ow mode cp
    by (rule keeps_finish_profile [OF calls(1) status])
  have pair: "keeps (?at cp) (ensurePairing k (factory cfg) opns cfg ow cp)" for cfg ow cp
    by (rule keeps_ensurePairing [OF calls(1,2) status])
  have reads: "keeps (?at cp) (resolveConnection k cp)"
    using calls(1) by (intro keeps_resolveConnection pass_calls_keepD)
  have rest: "hoare (recorded t stored secrets cp c) (case c of Inl result \<Rightarrow> ret result
       | Inr cp \<Rightarrow> if onboardMode cp0 = onboardModeCreate then do {
             p \<leftarrow> ensurePairing k (factory cfg) opns cfg ow cp;
             case p of Some result \<Rightarrow> ret result | None \<Rightarrow> finish_profile k (factory cfg) ow mode cp }
           else finish_profile k (factory cfg) ow mode cp) (\<lambda>_. token_safe t stored secrets)" for c cfg ow mode cp0
  proof (cases c)
    case (Inr cp1)
    have "keeps (?at cp1) (if onboardMode cp0 = onboardModeCreate then do {
             p \<leftarrow> ensurePairing k (factory cfg) opns cfg ow cp1;
             case p of Some result \<Rightarrow> ret result | None \<Rightarrow> finish_profile k (factory cfg) ow mode cp1 }
           else finish_profile k (factory cfg) ow mode cp1)"
      by (auto intro!: keeps finish pair)
    then show ?thesis unfolding Inr sum.case by (rule hoare_pre [OF safe]) simp
  qed (auto intro!: hoare_return)
  show ?thesis
    unfolding profile_step_def Let_def
    by (auto intro!: hoare_bind_keeps [OF reads] hoare_case_sum hoare_case_option hoare_case_prod hoare_return
        profile_at_safe fail hoare_bind [OF ensure_cluster_records [OF laws]] rest)
qed

lemma ClusterProfileReconcile_token_safe:
  assumes laws: "\<And>cfg. onboarding_laws t stored secrets k (factory cfg) opns"
    and read: "reads_stored stored k name"
  shows "keeps (token_safe t stored secrets) (ClusterProfileReconcile k factory opns name)"
proof -
  have keep: "keeps (token_safe t stored secrets) (k_get_profile k name)"
    using pass_calls_keepD(1) [OF onboarding_lawsD(1) [OF laws, of "\<lambda>s sec. \<forall>cp. s = Some cp \<longrightarrow> token_kept t sec cp"]]
    unfolding token_safe_def [abs_def] by (rule kube_reads_keepD)
  have get: "hoare (token_safe t stored secrets) (k_get_profile k name)
     (\<lambda>r w. case r of Inl _ \<Rightarrow> token_safe t stored secrets w | Inr cp \<Rightarrow> profile_at t stored secrets cp w)"
  proof (rule hoareI)
    fix w r w'
    assume "token_safe t stored secrets w" and run: "run_state (k_get_profile k name) w = (r, w')"
    then have "token_safe t stored secrets w'" by (rule keepsD [OF keep])
    moreover have "\<forall>cp. r = Inr cp \<longrightarrow> stored w' = Some cp"
      using hoareD [OF read [unfolded reads_stored_def] _ run] by simp
    ultimately show "case r of Inl _ \<Rightarrow> token_safe t stored secrets w' | Inr cp \<Rightarrow> profile_at t stored secrets cp w'"
      by (auto simp: token_safe_def profile_at_def split: sum.split)
  qed
  show ?thesis
    unfolding ClusterProfileReconcile_def keeps_hoare
    by (rule hoare_bind [OF get])
      (auto intro!: hoare_return hoare_pre [OF profile_step_safe [OF laws]] split: sum.split)
qed


subsection \<open>Histories\<close>

text \<open>
  A profile starts without a recorded cluster; it is reconciled, edited by users (who leave
  its onboarding section and its status alone), deleted and created again, and other
  Secrets and other data come and go.
\<close>

inductive profile_history ::
  "('w \<Rightarrow> cluster_profile option) \<Rightarrow> ('w \<Rightarrow> string \<Rightarrow> smap) \<Rightarrow> ('w, reconcile_result) state \<Rightarrow> 'w \<Rightarrow> bool"
  for stored secrets reconcile where
  fresh: "(\<And>cp. stored w = Some cp \<Longrightarrow> cluster_href cp = '''') \<Longrightarrow> profile_history stored secrets reconcile w"
| reconciled: "profile_history stored secrets reconcile w \<Longrightarrow>
    profile_history stored secrets reconcile (snd (run_state reconcile w))"
| edited: "profile_history stored secrets reconcile w \<Longrightarrow> stored w = Some cp \<Longrightarrow> stored w' = Some cp' \<Longrightarrow>
    cps_onboarding (cp_spec cp') = cps_onboarding (cp_spec cp) \<Longrightarrow> cp_status cp' = cp_status cp \<Longrightarrow>
    mget (secrets w' (output_secret cp)) ''cluster_token'' = mget (secrets w (output_secret cp)) ''cluster_token'' \<Longrightarrow>
    profile_history stored secrets reconcile w'"

lemma history_token_safe:
  assumes "profile_history stored secrets reconcile w"
    and "keeps (token_safe t stored secrets) reconcile"
  shows "token_safe t stored secrets w"
  using assms(1)
proof induction
  case (fresh w)
  then show ?case by (auto simp: token_safe_def token_kept_def)
next
  case (reconciled w)
  with assms(2) show ?case by (simp add: keeps_def)
next
  case (edited w cp w' cp')
  then show ?case by (auto simp: token_safe_def token_kept_def onboardMode_def)
qed

subsection \<open>Properties\<close>


text \<open>A world of one profile and the operator's Secrets, whose status update can fail once.\<close>

record onboarding_world =
  ob_profile :: "cluster_profile option"
  ob_secrets :: "string \<Rightarrow> smap"
  ob_broken :: bool \<comment> \<open>the status of the profile cannot be written\<close>

definition ob_kube :: "onboarding_world kube" where
  "ob_kube = (sim_kube [] [sim_meta ''shop''] [] [])
     \<lparr>k_get_profile := (\<lambda>n. State (\<lambda>w. (case ob_profile w of
        Some cp \<Rightarrow> Inr cp | None \<Rightarrow> Inl (KubeNotFound n), w))),
      k_status_profile := (\<lambda>cp. State (\<lambda>w.
        case ob_profile w of
          None \<Rightarrow> (Inl (KubeNotFound ''''), w)
        | Some s \<Rightarrow>
            if ob_broken w then (Inl (KubeError ''conflict''), w\<lparr>ob_broken := False\<rparr>)
            else (let new = s\<lparr>cp_status := cp_status cp\<rparr> in (Inr new, w\<lparr>ob_profile := Some new\<rparr>)))),
      k_put_secret := (\<lambda>n ns f. State (\<lambda>w. (None,
        if ns = ''ops'' then w\<lparr>ob_secrets := (ob_secrets w)(n := f (ob_secrets w n))\<rparr> else w)))\<rparr>"

abbreviation ob_client :: "onboarding_world onboarding_client" where
  "ob_client \<equiv> sim_onboarder (\<lambda>_. ret ()) None"

lemma ob_laws: "onboarding_laws (\<lambda>_. ''tok'') ob_profile ob_secrets ob_kube ob_client ''ops''"
  unfolding onboarding_laws_def
proof (intro conjI allI)
  show "pass_calls_keep (\<lambda>w. P (ob_profile w) (ob_secrets w)) ob_kube ob_client" for P
    by (simp add: pass_calls_keep_def kube_reads_keep_def ob_kube_def sim_kube_def sim_onboarder_def)
      (simp add: keeps_def)
qed (auto simp: ob_kube_def sim_onboarder_def keeps_def hoare_def Let_def split: option.splits)

lemma ob_reads: "reads_stored ob_profile ob_kube name"
  by (auto simp: reads_stored_def hoare_def ob_kube_def split: option.splits)

definition ob_start :: "onboarding_world" where
  "ob_start = \<lparr>ob_profile = Some (sim_onboarding_profile ''create'' ''''), ob_secrets = (\<lambda>_. []), ob_broken = False\<rparr>"

definition ob_next :: "onboarding_world \<Rightarrow> onboarding_world" where
  "ob_next w = snd (run_state (ClusterProfileReconcile ob_kube (\<lambda>_. ob_client) ''ops'' ''profile'') w)"


text \<open>
  A recorded cluster without its token is still reported as onboarded with its credentials
  published: here the cluster was adopted and the mode then changed to create.
\<close>
theorem onboarded_without_token:
  "let w = ob_next \<lparr>ob_profile = Some (sim_onboarding_profile ''create'' ''/clusters/c1''),
                    ob_secrets = (\<lambda>_. []), ob_broken = False\<rparr>
   in mget (ob_secrets w ''out'') ''cluster_token'' = '''' \<and>
      mget (ob_secrets w ''out'') ''cluster_code'' = ''code'' \<and>
      (case ob_profile w of
         Some cp \<Rightarrow> map_option (\<lambda>c. (c_status c = ConditionTrue, c_message c))
             (sim_find_condition (cpst_conditions (cp_status cp)) ConditionOnboarded) =
           Some (True, ''cluster onboarded; credentials published'')
       | None \<Rightarrow> False)"
  by code_simp

end
