(* ===== verification/Onboarding_Progress.thy ===== *)
theory Onboarding_Progress
  imports Onboarding_Lifecycle Policy_Progress
begin

section \<open>An onboarding gets there\<close>

text \<open>
  What one reconcile of a ClusterProfile achieves when every call it needs is answered:
  \<open>I\<close> is an invariant of the world under which the calls answer, \<open>stored\<close> the profile in the
  API server, \<open>secret\<close> the data of its output Secret, \<open>nss\<close> the namespaces of the cluster and
  \<open>cwps\<close> the workload profiles Kubelink has made.
\<close>

definition same_spec :: "cluster_profile \<Rightarrow> cluster_profile \<Rightarrow> bool" where
  "same_spec cp cp' \<longleftrightarrow> cp_spec cp' = cp_spec cp \<and> om_generation (cp_meta cp') = om_generation (cp_meta cp)"

definition cluster_answers ::
  "('w \<Rightarrow> bool) \<Rightarrow> ('w \<Rightarrow> cluster_profile) \<Rightarrow> ('w \<Rightarrow> smap) \<Rightarrow> 'w kube \<Rightarrow> string \<Rightarrow> cluster_profile \<Rightarrow>
   object_meta list \<Rightarrow> bool" where
  \<comment> \<open>the API server: reads succeed, the Secret and the status of the profile are written\<close>
  "cluster_answers I stored secret k opns cp nss \<longleftrightarrow>
     gives I (k_list_namespaces k) (\<lambda>r. r = Inr nss) \<and>
     (\<forall>n. gives I (k_list_intents k n) (\<lambda>r. \<exists>x. r = Inr x)) \<and>
     (\<forall>n. gives I (k_list_policies k n) (\<lambda>r. \<exists>x. r = Inr x)) \<and>
     keeps I (k_list_label_maps k) \<and> (\<forall>a b c. keeps I (k_event k a b c)) \<and>
     (\<forall>f d. hoare (\<lambda>w. I w \<and> secret w = d) (k_put_secret k (output_secret cp) opns f)
        (\<lambda>r w. I w \<and> r = None \<and> secret w = f d)) \<and>
     (\<forall>cp'. same_spec cp cp' \<longrightarrow> hoare I (k_status_profile k cp')
        (\<lambda>r w. I w \<and> (\<exists>new. r = Inr new \<and> stored w = new \<and> same_spec cp new \<and> cp_status new = cp_status cp')))"

definition pce_answers ::
  "('w \<Rightarrow> bool) \<Rightarrow> 'w onboarding_client \<Rightarrow> cluster_profile \<Rightarrow> container_workload_profile list \<Rightarrow> bool" where
  \<comment> \<open>the PCE: labels, pairing profiles, keys and workload profiles\<close>
  "pce_answers I oc cp cwps \<longleftrightarrow>
     (\<forall>key v ow. gives I (oc_ensure_label oc key v ow) (\<lambda>r. \<exists>l. r = Inr l)) \<and>
     (\<forall>n. gives I (oc_find_pairing_profile oc n) (\<lambda>r. \<exists>x. r = Inr x \<and>
        (n \<noteq> '''' \<and> n = npp_existing_name (ob_node_pairing_profile (cps_onboarding (cp_spec cp))) \<longrightarrow> x \<noteq> None))) \<and>
     (\<forall>p. gives I (oc_create_pairing_profile oc p) (\<lambda>r. \<exists>pp. r = Inr pp)) \<and>
     (\<forall>h. gives I (oc_generate_pairing_key oc h) (\<lambda>r. \<exists>c. r = Inr c \<and> c \<noteq> '''')) \<and>
     (\<forall>c. gives I (oc_list_cwps oc c) (\<lambda>r. r = Inr cwps)) \<and>
     (\<forall>h u. gives I (oc_update_cwp oc h u) (\<lambda>r. r = None))"

definition cluster_available :: "('w \<Rightarrow> bool) \<Rightarrow> 'w onboarding_client \<Rightarrow> cluster_profile \<Rightarrow> bool" where
  \<comment> \<open>the container cluster is recorded, or there to adopt, or its name is free to create it\<close>
  "cluster_available I oc cp \<longleftrightarrow>
     (if cluster_href cp \<noteq> '''' then cpst_container_cluster_id (cp_status cp) \<noteq> ''''
      else if onboardMode cp = onboardModeAdopt
      then \<forall>n. gives I (oc_find_cluster oc n) (\<lambda>r. \<exists>c. r = Inr (Some c) \<and> ContainerClusterUUID (cc_href c) \<noteq> '''')
      else output_secret cp \<noteq> '''' \<and> (\<forall>n. gives I (oc_find_cluster oc n) (\<lambda>r. r = Inr None)) \<and>
        (\<forall>n d. gives I (oc_create_cluster oc n d) (\<lambda>r. \<exists>c. r = Inr c \<and> ContainerClusterUUID (cc_href c) \<noteq> '''')))"

lemma cluster_answersD:
  assumes "cluster_answers I stored secret k opns cp nss"
  shows "gives I (k_list_namespaces k) (\<lambda>r. r = Inr nss)"
    "gives I (k_list_intents k n) (\<lambda>r. \<exists>x. r = Inr x)"
    "gives I (k_list_policies k n) (\<lambda>r. \<exists>x. r = Inr x)"
    "keeps I (k_list_label_maps k)" "keeps I (k_event k a b c)"
    "hoare (\<lambda>w. I w \<and> secret w = d) (k_put_secret k (output_secret cp) opns f)
       (\<lambda>r w. I w \<and> r = None \<and> secret w = f d)"
    "same_spec cp cp' \<Longrightarrow> hoare I (k_status_profile k cp')
       (\<lambda>r w. I w \<and> (\<exists>new. r = Inr new \<and> stored w = new \<and> same_spec cp new \<and> cp_status new = cp_status cp'))"
  using assms unfolding cluster_answers_def by blast+

lemma pce_answersD:
  assumes "pce_answers I oc cp cwps"
  shows "gives I (oc_ensure_label oc key v ow) (\<lambda>r. \<exists>l. r = Inr l)"
    "gives I (oc_find_pairing_profile oc n) (\<lambda>r. \<exists>x. r = Inr x \<and>
       (n \<noteq> '''' \<and> n = npp_existing_name (ob_node_pairing_profile (cps_onboarding (cp_spec cp))) \<longrightarrow> x \<noteq> None))"
    "gives I (oc_create_pairing_profile oc p) (\<lambda>r. \<exists>pp. r = Inr pp)"
    "gives I (oc_generate_pairing_key oc h) (\<lambda>r. \<exists>c. r = Inr c \<and> c \<noteq> '''')"
    "gives I (oc_list_cwps oc c) (\<lambda>r. r = Inr cwps)"
    "gives I (oc_update_cwp oc h u) (\<lambda>r. r = None)"
  using assms unfolding pce_answers_def by blast+


lemma hoare_bind_value:
  "hoare P m (\<lambda>r w. P' w \<and> r = x) \<Longrightarrow> hoare P' (f x) R \<Longrightarrow> hoare P (State_Monad.bind m f) R"
  by (fastforce simp: hoare_def split: prod.splits)


subsection \<open>The namespaces\<close>

definition counted :: "cluster_profile \<Rightarrow> (string \<rightharpoonup> container_workload_profile) \<Rightarrow> object_meta list \<Rightarrow> int" where
  \<comment> \<open>managed namespaces that Kubelink knows\<close>
  "counted cp byNS nss = int (length (filter (\<lambda>ns. is_managed cp ns \<and> byNS (om_name ns) \<noteq> None) nss))"

definition awaited :: "cluster_profile \<Rightarrow> (string \<rightharpoonup> container_workload_profile) \<Rightarrow> object_meta list \<Rightarrow> int" where
  \<comment> \<open>managed namespaces it does not know yet\<close>
  "awaited cp byNS nss = int (length (filter (\<lambda>ns. is_managed cp ns \<and> byNS (om_name ns) = None) nss))"

definition counts :: "int \<Rightarrow> int \<Rightarrow> cwp_pass \<Rightarrow> bool" where
  "counts m p s \<longleftrightarrow> cw_managed s = m \<and> cw_pending s = p \<and> cw_errs s = []"

lemma gives_raise_desired:
  assumes "cluster_answers I stored secret k opns cp nss"
  shows "gives I (raise_desired k ns desired errs) (\<lambda>(d, e). d_managed d = d_managed desired \<and> e = errs)"
proof -
  have eff: "gives I (EffectiveEnforcement k n baseline) (\<lambda>r. \<exists>x. r = Inr x)" for n baseline
    unfolding EffectiveEnforcement_def
    by (auto intro!: gives_return hoare_case_prod hoare_bind_pure [OF cluster_answersD(2) [OF assms]]
        hoare_bind_pure [OF cluster_answersD(3) [OF assms]])
  show ?thesis
    unfolding raise_desired_def
    by (auto intro!: hoare_if gives_return hoare_bind_pure [OF eff])
qed

lemma gives_resolve_cwp_labels:
  assumes "pce_answers I oc cp cwps"
  shows "gives I (resolve_cwp_labels oc ow labels cache byKey out) (\<lambda>r. \<exists>x c. r = (Inr x, c))"
proof (induction labels arbitrary: cache byKey out)
  case (Cons kv labels)
  then show ?case
    by (cases kv) (auto simp: Let_def intro!: hoare_case_option hoare_bind_pure [OF pce_answersD(1) [OF assms]])
qed (simp add: gives_return)

lemma gives_apply_cwp:
  assumes "cluster_answers I stored secret k opns cp nss" "pce_answers I oc cp cwps" "counts m p s"
  shows "gives I (apply_cwp k oc ow ns cwp desired s) (counts (if d_managed desired then m + 1 else m) p)"
proof -
  have built: "gives I (buildCWPUpdate oc ow cwp desired cache) (\<lambda>r. \<exists>x c. r = (Inr x, c))" for cache
    unfolding buildCWPUpdate_def
    by (rule hoare_bind_pure [OF gives_resolve_cwp_labels [OF assms(2)]]) (auto intro!: gives_return)
  show ?thesis
    unfolding apply_cwp_def Let_def using assms(3)
    by (auto intro!: hoare_bind_pure [OF built] hoare_if gives_return hoare_bind_pure [OF pce_answersD(6) [OF assms(2)]]
        hoare_bind_keeps [OF cluster_answersD(5) [OF assms(1)]] simp: counts_def)
qed

lemma gives_namespace_step:
  assumes "cluster_answers I stored secret k opns cp' nss" "pce_answers I oc cp' cwps" "counts m p s"
  shows "gives I (namespace_step k oc cp ow byNS ns s)
    (counts (m + counted cp byNS [ns]) (p + awaited cp byNS [ns]))"
  unfolding namespace_step_def
  apply (rule hoare_bind_pure [OF gives_raise_desired [OF assms(1)]])
  using assms(3) by (auto intro!: hoare_case_option gives_return hoare_post [OF gives_apply_cwp [OF assms(1,2), of m p]]
      simp: counts_def counted_def awaited_def is_managed_def Let_def split: prod.splits)

lemma gives_namespace_pass:
  assumes "cluster_answers I stored secret k opns cp' nss" "pce_answers I oc cp' cwps"
  shows "counts m p s \<Longrightarrow> gives I (namespace_pass k oc cp ow byNS xs s)
    (counts (m + counted cp byNS xs) (p + awaited cp byNS xs))"
proof (induction xs arbitrary: m p s)
  case Nil
  then show ?case by (simp add: gives_return counted_def awaited_def)
next
  case (Cons ns xs)
  have "counted cp byNS (ns # xs) = counted cp byNS [ns] + counted cp byNS xs"
    "awaited cp byNS (ns # xs) = awaited cp byNS [ns] + awaited cp byNS xs"
    by (simp_all add: counted_def awaited_def)
  then show ?case
    by (auto intro!: hoare_bind_pure [OF gives_namespace_step [OF assms Cons.prems]] dest!: Cons.IH simp: ac_simps)
qed

lemma gives_reconcileNamespaceCWPs:
  assumes "cluster_answers I stored secret k opns cp' nss" "pce_answers I oc cp' cwps"
    and "cpst_container_cluster_id (cp_status cp) \<noteq> ''''"
  shows "gives I (reconcileNamespaceCWPs k oc cp ow)
    (\<lambda>r. r = (counted cp (cwps_by_namespace cwps) nss, awaited cp (cwps_by_namespace cwps) nss, None))"
  unfolding reconcileNamespaceCWPs_def using assms(3)
  apply (auto intro!: hoare_bind_pure [OF cluster_answersD(1) [OF assms(1)]]
      hoare_bind_pure [OF pce_answersD(5) [OF assms(2)]])
  apply (rule hoare_bind_pure [OF gives_namespace_pass [OF assms(1,2), of 0 0]])
  by (auto intro!: gives_return simp: counts_def errors_join_def)
subsection \<open>The cluster and the credentials\<close>

definition onboarding :: "cluster_profile \<Rightarrow> cluster_profile \<Rightarrow> bool" where
  \<comment> \<open>the profile after its cluster is known\<close>
  "onboarding cp cp' \<longleftrightarrow> same_spec cp cp' \<and> cluster_href cp' \<noteq> '''' \<and> cpst_container_cluster_id (cp_status cp') \<noteq> ''''"

lemma put_credentials:
  assumes "cluster_answers I stored secret k opns cp nss" "cp_spec cp' = cp_spec cp"
    and "run_state (writeCredentialsSecret k opns cp' url token code) w = (r, w')" "I w"
  shows "I w' \<and> r = None \<and>
    secret w' = credentials_data url (cpst_container_cluster_id (cp_status cp')) token code (secret w)"
proof -
  from assms(2,3) have "run_state (k_put_secret k (output_secret cp) opns
      (credentials_data url (cpst_container_cluster_id (cp_status cp')) token code)) w = (r, w')"
    by (simp add: writeCredentialsSecret_def)
  from hoareD [OF cluster_answersD(6) [OF assms(1), where d = "secret w"] _ this] assms(4)
  show ?thesis by simp
qed

lemma gives_put:
  "cluster_answers I stored secret k opns cp nss \<Longrightarrow> cp_spec cp' = cp_spec cp \<Longrightarrow>
   gives I (writeCredentialsSecret k opns cp' url token code) (\<lambda>r. r = None)"
  by (rule hoareI) (simp add: put_credentials)

lemma gives_record:
  assumes "cluster_answers I stored secret k opns cp nss" "ContainerClusterUUID (cc_href c) \<noteq> ''''"
  shows "gives I (do { u \<leftarrow> k_status_profile k (with_cluster c cp); ret (map_sum (\<lambda>e. (0, Some e)) id u) })
    (\<lambda>r. \<exists>cp'. r = Inr cp' \<and> onboarding cp cp')"
proof -
  have "cc_href c \<noteq> ''''" using assms(2) by (auto simp: ContainerClusterUUID_def after_last_index_def split: option.splits)
  with assms(2) show ?thesis
    by (intro hoare_bind [OF cluster_answersD(7) [OF assms(1)]])
      (auto intro!: hoare_return simp: onboarding_def with_cluster_def same_spec_def)
qed

lemma gives_ensure_cluster:
  assumes answers: "cluster_answers I stored secret k opns cp nss" and available: "cluster_available I oc cp"
  shows "gives I (ensure_cluster k oc opns cfg cp) (\<lambda>r. \<exists>cp'. r = Inr cp' \<and> onboarding cp cp')"
proof (cases "cluster_href cp = ''''")
  case False
  with available show ?thesis
    by (auto simp: ensure_cluster_def cluster_available_def onboarding_def same_spec_def intro!: gives_return)
next
  case fresh: True
  note known = gives_record [OF answers]
  show ?thesis
  proof (cases "onboardMode cp = onboardModeAdopt")
    case True
    with available fresh have find:
      "gives I (oc_find_cluster oc n) (\<lambda>r. \<exists>c. r = Inr (Some c) \<and> ContainerClusterUUID (cc_href c) \<noteq> '''')" for n
      by (simp add: cluster_available_def)
    from True fresh show ?thesis
      by (auto simp: ensure_cluster_def Let_def intro!: hoare_bind_pure [OF find] known)
  next
    case False
    with available fresh have out: "output_secret cp \<noteq> ''''"
      and find: "gives I (oc_find_cluster oc n) (\<lambda>r. r = Inr None)"
      and create: "gives I (oc_create_cluster oc n d) (\<lambda>r. \<exists>c. r = Inr c \<and> ContainerClusterUUID (cc_href c) \<noteq> '''')"
      for n d
      by (simp_all add: cluster_available_def)
    have "gives I (create_cluster k oc opns cfg cp) (\<lambda>r. \<exists>cp'. r = Inr cp' \<and> onboarding cp cp')"
      unfolding create_cluster_def Let_def
      apply (rule hoare_bind_pure [OF create], clarsimp)
      by (rule hoare_bind_pure [OF gives_put [OF answers]]) (auto simp: with_cluster_def intro!: known [unfolded with_cluster_def])
    with False fresh out show ?thesis
      by (auto simp: ensure_cluster_def Let_def intro!: hoare_bind_pure [OF find])
  qed
qed

lemma publish_key_code:
  assumes answers: "cluster_answers I stored secret k opns cp nss" "pce_answers I oc cp cwps"
    and spec: "cp_spec cp' = cp_spec cp"
  shows "hoare I (publish_key k oc opns cfg cp' pp)
    (\<lambda>r w. I w \<and> r = None \<and> mget (secret w) ''cluster_code'' \<noteq> '''')"
proof -
  have put: "hoare I (writeCredentialsSecret k opns cp' url '''' code)
      (\<lambda>r w. I w \<and> r = None \<and> mget (secret w) ''cluster_code'' = code)" if "code \<noteq> ''''" for url code
  proof (rule hoareI)
    fix w r w'
    assume "I w" and run: "run_state (writeCredentialsSecret k opns cp' url '''' code) w = (r, w')"
    note put_credentials [OF answers(1) spec run \<open>I w\<close>]
    with that show "I w' \<and> r = None \<and> mget (secret w') ''cluster_code'' = code"
      by (simp add: credentials_data_def mget_def Let_def)
  qed
  show ?thesis
    unfolding publish_key_def
    apply (rule hoare_bind_pure [OF pce_answersD(4) [OF answers(2)]], clarsimp)
    by (rule hoare_bind [OF put]) (auto intro!: hoare_return)
qed

lemma ensurePairing_code:
  assumes answers: "cluster_answers I stored secret k opns cp nss" "pce_answers I oc cp cwps"
    and spec: "cp_spec cp' = cp_spec cp"
  shows "hoare I (ensurePairing k oc opns cfg ow cp')
    (\<lambda>r w. I w \<and> r = None \<and> mget (secret w) ''cluster_code'' \<noteq> '''')"
proof -
  note publish = publish_key_code [OF assms] and find = pce_answersD(2) [OF answers(2)]
  have labels: "gives I (node_labels oc ow ls acc) (\<lambda>r. \<exists>x. r = Inr x)" for ls acc
  proof (induction ls arbitrary: acc)
    case (Cons kv ls)
    then show ?case by (cases kv) (auto intro!: hoare_bind_pure [OF pce_answersD(1) [OF answers(2)]])
  qed (simp add: gives_return)
  have own: "gives I (ensure_own_profile oc ow ob) (\<lambda>r. \<exists>pp. r = Inr pp)" for ob
    unfolding ensure_own_profile_def Let_def
    by (auto intro!: hoare_bind_pure [OF find] hoare_bind_pure [OF labels] gives_return
        pce_answersD(3) [OF answers(2)] hoare_case_option)
  show ?thesis
    unfolding ensurePairing_def Let_def
    apply (rule hoare_if)
     apply (rule hoare_bind_pure [OF find])
     apply (use spec in \<open>auto intro!: publish hoare_case_option\<close>) []
    by (rule hoare_bind_pure [OF own]) (auto intro!: publish)
qed

subsection \<open>The status\<close>

definition onboarded ::
  "'w kube \<Rightarrow> cluster_profile \<Rightarrow> object_meta list \<Rightarrow> container_workload_profile list \<Rightarrow> reconcile_result \<Rightarrow>
   cluster_profile \<Rightarrow> bool" where
  \<comment> \<open>the profile is onboarded and its spec observed; it is visited again after half a minute
      when namespaces wait for Kubelink, else after ten minutes\<close>
  "onboarded k cp nss cwps r new \<longleftrightarrow>
     (let byNS = cwps_by_namespace cwps in
      r = (if awaited cp byNS nss > 0 then 30 * second else 10 * minute, None) \<and>
      cp_spec new = cp_spec cp \<and> cluster_href new \<noteq> '''' \<and>
      cpst_managed_namespaces (cp_status new) = counted cp byNS nss \<and>
      cpst_observed_generation (cp_status new) = om_generation (cp_meta cp) \<and>
      k_condition_true k (cpst_conditions (cp_status new)) ConditionOnboarded \<and>
      k_condition_true k (cpst_conditions (cp_status new)) ConditionNamespacesReconciled)"

lemma written_href:
  "cluster_href (with_profile_condition k t status reason msg cp) = cluster_href cp"
  "cluster_href (onboarded_profile k mode managed cp) = cluster_href cp"
  by (simp_all add: with_profile_condition_def onboarded_profile_def)

lemma finish_profile_onboards:
  assumes answers: "cluster_answers I stored secret k opns cp nss" "pce_answers I oc cp cwps"
    and laws: "condition_laws k" and ready: "onboarding cp cp'"
  shows "hoare I (finish_profile k oc ow mode cp') (\<lambda>r w. I w \<and> onboarded k cp nss cwps r (stored w))"
proof -
  note spec = ready [unfolded onboarding_def same_spec_def]
  have same: "counted cp' = counted cp" "awaited cp' = awaited cp"
    using spec by (simp_all add: counted_def awaited_def is_managed_def fun_eq_iff)
  have overlap: "hoare I (checkLabelMapOverlap k cp1) (\<lambda>r w. I w \<and>
      (\<exists>status reason msg. r = with_profile_condition k ConditionLabelMapOverlap status reason msg cp1))" for cp1
    by (rule hoare_keepsI [OF _ checkLabelMapOverlap_result])
      (auto simp: checkLabelMapOverlap_def intro!: keeps cluster_answersD(4,5) [OF answers(1)])
  show ?thesis
    unfolding finish_profile_def Let_def
    apply (rule hoare_bind_pure [OF gives_reconcileNamespaceCWPs [OF answers]], use spec in simp)
    apply (erule ssubst, simp only: prod.case option.case)
    apply (rule hoare_bind_pure [OF overlap], elim exE, erule ssubst)
    apply (rule hoare_bind [OF cluster_answersD(7) [OF answers(1)]])
    using spec laws
    by (auto intro!: hoare_case_sum hoare_return simp: onboarded_def same_spec_def profile_facts written_href same Let_def onboardRequeueNotReady_def onboardRequeueHealthy_def)
qed


lemma profile_step_onboards:
  assumes answers: "cluster_answers I stored secret k opns cp nss" "pce_answers I oc cp cwps"
    and laws: "condition_laws k" and available: "cluster_available I oc cp"
    and conn: "gives I (resolveConnection k cp) (\<lambda>r. \<exists>cfg eds. r = Inr (Some (cfg, eds)))"
    and frame: "\<And>P. onboarding_calls_keep (\<lambda>w. P (secret w)) k oc"
  shows "hoare I (profile_step k (\<lambda>_. oc) opns cp) (\<lambda>r w. I w \<and> onboarded k cp nss cwps r (stored w) \<and>
    (onboardMode cp = onboardModeCreate \<longrightarrow> mget (secret w) ''cluster_code'' \<noteq> ''''))"
proof -
  note calls = onboarding_calls_keepD [OF frame [of "\<lambda>d. mget d ''cluster_code'' \<noteq> ''''"]]
  note finish = finish_profile_onboards [OF answers laws]
  have finish_code: "hoare (\<lambda>w. I w \<and> mget (secret w) ''cluster_code'' \<noteq> '''') (finish_profile k oc ow mode cp')
      (\<lambda>r w. I w \<and> onboarded k cp nss cwps r (stored w) \<and>
        (onboardMode cp = onboardModeCreate \<longrightarrow> mget (secret w) ''cluster_code'' \<noteq> ''''))"
    if "onboarding cp cp'" for ow mode cp'
    using hoare_conj [OF hoare_pre [OF finish [OF that]]
        hoare_pre [OF keeps_finish_profile [OF calls, unfolded keeps_hoare]],
        of "\<lambda>w. I w \<and> mget (secret w) ''cluster_code'' \<noteq> ''''"]
    by (rule hoare_post) auto
  have create: "hoare I (do {
        p \<leftarrow> ensurePairing k oc opns cfg ow cp';
        case p of Some result \<Rightarrow> ret result | None \<Rightarrow> finish_profile k oc ow mode cp' })
      (\<lambda>r w. I w \<and> onboarded k cp nss cwps r (stored w) \<and>
        (onboardMode cp = onboardModeCreate \<longrightarrow> mget (secret w) ''cluster_code'' \<noteq> ''''))"
    if "onboarding cp cp'" for cfg ow mode cp'
    by (rule hoare_bind [OF ensurePairing_code [OF answers]])
      (use that in \<open>auto intro!: hoare_case_option hoare_return hoare_pre [OF finish_code] simp: onboarding_def same_spec_def\<close>)
  show ?thesis
    unfolding profile_step_def Let_def
    apply (rule hoare_bind_pure [OF conn], elim exE, erule ssubst, simp only: sum.case option.case prod.case)
    apply (rule hoare_bind_pure [OF gives_ensure_cluster [OF answers(1) available]], elim exE conjE, erule ssubst,
        simp only: sum.case)
    apply (rule hoare_if, rule create, assumption)
    by (rule hoare_post [OF finish]) auto
qed


subsection \<open>Properties\<close>

text \<open>
  C14: When the connection is ready, the cluster and the PCE answer and the container cluster
  is recorded, there to adopt or free to create, one reconcile onboards the profile: its
  cluster is recorded, every managed namespace that Kubelink knows is configured and counted,
  both conditions are true, the generation is observed, and in create mode a pairing key is
  in the output Secret. The next visit is in ten minutes, or in half a minute exactly when
  managed namespaces still wait for Kubelink.
\<close>
theorem ClusterProfile_onboards:
  assumes "hoare (\<lambda>w. I w \<and> stored w = cp) (k_get_profile k name) (\<lambda>r w. I w \<and> r = Inr cp)"
    and "gives I (resolveConnection k cp) (\<lambda>r. \<exists>cfg eds. r = Inr (Some (cfg, eds)))"
    and "cluster_answers I stored secret k opns cp nss" and "pce_answers I oc cp cwps"
    and "cluster_available I oc cp" and "condition_laws k"
    and "\<And>P. onboarding_calls_keep (\<lambda>w. P (secret w)) k oc"
  shows "hoare (\<lambda>w. I w \<and> stored w = cp) (ClusterProfileReconcile k (\<lambda>_. oc) opns name)
    (\<lambda>r w. I w \<and> onboarded k cp nss cwps r (stored w) \<and>
       (onboardMode cp = onboardModeCreate \<longrightarrow> mget (secret w) ''cluster_code'' \<noteq> ''''))"
  unfolding ClusterProfileReconcile_def
  by (rule hoare_bind_value [OF assms(1)])
    (simp only: sum.case profile_step_onboards [OF assms(3,4,6,5,2,7)])


text \<open>
  In the world of \<open>ob_kube\<close>, whose PCE has a workload profile for the namespace \<open>shop\<close>, the
  status is written as long as \<open>ob_broken\<close> is not set.
\<close>

definition ob_ready :: "cluster_profile \<Rightarrow> onboarding_world \<Rightarrow> bool" where
  "ob_ready cp w \<longleftrightarrow> \<not> ob_broken w \<and> (\<exists>s. ob_profile w = Some s \<and> same_spec cp s)"

abbreviation ob_pce :: "onboarding_world onboarding_client" where
  "ob_pce \<equiv> ob_client\<lparr>oc_list_cwps := \<lambda>_. ret (Inr [sim_cwp])\<rparr>"

lemma ob_cluster_answers:
  "output_secret cp = ''out'' \<Longrightarrow> cluster_answers (ob_ready cp) (\<lambda>w. the (ob_profile w))
     (\<lambda>w. ob_secrets w ''out'') ob_kube ''ops'' cp [sim_meta ''shop'']"
  by (auto simp: cluster_answers_def ob_kube_def sim_kube_def ob_ready_def hoare_def keeps_def Let_def same_spec_def)

lemma ob_pce_answers:
  "npp_existing_name (ob_node_pairing_profile (cps_onboarding (cp_spec cp))) = '''' \<Longrightarrow>
   pce_answers (ob_ready cp) ob_pce cp [sim_cwp]"
  by (auto simp: pce_answers_def sim_onboarder_def hoare_def)

lemma ob_frame: "onboarding_calls_keep (\<lambda>w. P (ob_secrets w ''out'')) ob_kube ob_pce"
  by (simp add: onboarding_calls_keep_def pass_calls_keep_def kube_reads_keep_def ob_kube_def sim_kube_def sim_onboarder_def)
    (auto simp: keeps_def Let_def split: option.splits)

theorem ClusterProfile_onboards_witness:
  "let (r, w) = run_state (ClusterProfileReconcile ob_kube (\<lambda>_. ob_pce) ''ops'' ''profile'') ob_start in
   r = (10 * minute, None) \<and> mget (ob_secrets w ''out'') ''cluster_code'' \<noteq> '''' \<and>
   cpst_managed_namespaces (cp_status (the (ob_profile w))) = 1"
proof -
  let ?cp = "sim_onboarding_profile ''create'' ''''"
  have out: "output_secret ?cp = ''out''"
    and npp: "npp_existing_name (ob_node_pairing_profile (cps_onboarding (cp_spec ?cp))) = ''''"
    and mode: "onboardMode ?cp = onboardModeCreate" and href: "cluster_href ?cp = ''''"
    and conn: "cps_pce_connection_ref (cp_spec ?cp) = ''pce''"
    by (simp_all add: sim_onboarding_profile_def sim_profile_def onboardMode_def onboardModeCreate_def
        onboardModeAdopt_def Let_def)
  have read: "hoare (\<lambda>w. ob_ready ?cp w \<and> the (ob_profile w) = ?cp) (k_get_profile ob_kube ''profile'')
      (\<lambda>r w. ob_ready ?cp w \<and> r = Inr ?cp)"
    by (auto simp: hoare_def ob_kube_def ob_ready_def)
  have resolved: "gives (ob_ready ?cp) (resolveConnection ob_kube ?cp) (\<lambda>r. \<exists>cfg eds. r = Inr (Some (cfg, eds)))"
    by (simp add: resolveConnection_def conn ob_kube_def sim_kube_def sim_connection_def new_condition_def
        hoare_def ConditionConnected_def mget_def)
  have uuid: "ContainerClusterUUID ''/clusters/c2'' \<noteq> ''''" by code_simp
  have available: "cluster_available (ob_ready ?cp) ob_pce ?cp"
    using mode href out uuid by (simp add: cluster_available_def sim_onboarder_def hoare_def onboardModeCreate_def
        onboardModeAdopt_def)
  have laws: "condition_laws ob_kube"
    using sim_condition_laws [of "[]" "[sim_meta ''shop'']" "[]" "[]"] by (simp add: condition_laws_def ob_kube_def)
  have start: "ob_ready ?cp ob_start \<and> the (ob_profile ob_start) = ?cp"
    by (simp add: ob_ready_def ob_start_def same_spec_def)
  have counts: "counted ?cp (cwps_by_namespace [sim_cwp]) [sim_meta ''shop''] = 1"
    "awaited ?cp (cwps_by_namespace [sim_cwp]) [sim_meta ''shop''] = 0"
    by code_simp+
  obtain r w where run: "run_state (ClusterProfileReconcile ob_kube (\<lambda>_. ob_pce) ''ops'' ''profile'') ob_start = (r, w)"
    by fastforce
  from hoareD [OF ClusterProfile_onboards [OF read resolved ob_cluster_answers [OF out] ob_pce_answers [OF npp]
      available laws ob_frame] start run]
  show ?thesis
    using mode by (simp add: run onboarded_def Let_def counts)
qed

end
