(* ===== verification/Cluster_To_Policy.thy ===== *)
theory Cluster_To_Policy
  imports Onboarding_Progress
begin

section \<open>From a new cluster to an enforced policy\<close>

text \<open>
  The two main controllers in sequence: what the ClusterProfile controller leaves in the API
  server is what the policy controllers start from. \<open>resolveConnection\<close> of the first and the
  loop of \<open>resolveClusterProfile\<close> of the second read the same connection and Secret.
\<close>

definition connection_ready :: "('w \<Rightarrow> bool) \<Rightarrow> 'w kube \<Rightarrow> cluster_profile \<Rightarrow> bool" where
  \<comment> \<open>the referenced PCEConnection is connected and its credentials are there\<close>
  "connection_ready I k cp \<longleftrightarrow>
     (\<exists>conn data. gives I (k_get_connection k (cps_pce_connection_ref (cp_spec cp))) (\<lambda>r. r = Inr conn) \<and>
        k_condition_true k (pcst_conditions (conn_status conn)) ConditionConnected \<and>
        gives I (k_get_secret k (secref_name (pcs_credentials_secret_ref (conn_spec conn)))
          (secref_namespace (pcs_credentials_secret_ref (conn_spec conn)))) (\<lambda>r. r = Inr data) \<and>
        mget data ''api_key'' \<noteq> '''' \<and> mget data ''api_secret'' \<noteq> '''')"

definition lists_profile :: "('w \<Rightarrow> bool) \<Rightarrow> ('w \<Rightarrow> cluster_profile) \<Rightarrow> 'w kube \<Rightarrow> bool" where
  \<comment> \<open>the stored profile is the only one of the cluster\<close>
  "lists_profile I stored k \<longleftrightarrow>
     (\<forall>s. hoare (\<lambda>w. I w \<and> stored w = s) (k_list_profiles k) (\<lambda>r w. (I w \<and> stored w = s) \<and> r = Inr [s]))"

lemma gives_strengthen:
  "gives I m Q \<Longrightarrow> keeps J m \<Longrightarrow> (\<And>w. J w \<Longrightarrow> I w) \<Longrightarrow> gives J m Q"
  by (fastforce simp: hoare_def keeps_def split: prod.splits)

lemma connection_readyE:
  assumes "connection_ready I k cp"
  obtains conn data where
    "gives I (k_get_connection k (cps_pce_connection_ref (cp_spec cp))) (\<lambda>r. r = Inr conn)"
    "k_condition_true k (pcst_conditions (conn_status conn)) ConditionConnected"
    "gives I (k_get_secret k (secref_name (pcs_credentials_secret_ref (conn_spec conn)))
        (secref_namespace (pcs_credentials_secret_ref (conn_spec conn)))) (\<lambda>r. r = Inr data)"
    "mget data ''api_key'' \<noteq> ''''" "mget data ''api_secret'' \<noteq> ''''"
  using assms by (auto simp: connection_ready_def)

lemma resolveConnection_ready:
  assumes "connection_ready I k cp"
  shows "gives I (resolveConnection k cp) (\<lambda>r. \<exists>cfg eds. r = Inr (Some (cfg, eds)))"
  using assms
proof (rule connection_readyE)
  fix conn data
  assume ready: "gives I (k_get_connection k (cps_pce_connection_ref (cp_spec cp))) (\<lambda>r. r = Inr conn)"
    "k_condition_true k (pcst_conditions (conn_status conn)) ConditionConnected"
    "gives I (k_get_secret k (secref_name (pcs_credentials_secret_ref (conn_spec conn)))
        (secref_namespace (pcs_credentials_secret_ref (conn_spec conn)))) (\<lambda>r. r = Inr data)"
    "mget data ''api_key'' \<noteq> ''''" "mget data ''api_secret'' \<noteq> ''''"
  show ?thesis
    unfolding resolveConnection_def
    by (rule hoare_bind_pure [OF ready(1)], simp add: ready(2), rule hoare_bind_pure [OF ready(3)])
      (simp add: ready(4,5) Let_def gives_return)
qed

lemma usable_profile_ready:
  assumes "connection_ready I k cp" "cp_spec new = cp_spec cp" "managed_by cp m"
    and "k_condition_true k (cpst_conditions (cp_status new)) ConditionOnboarded"
  shows "gives I (usable_profile k m [new]) (\<lambda>r. \<exists>cfg eds. r = Inr (Some (new, cfg, eds)))"
  using assms(1)
proof (rule connection_readyE)
  fix conn data
  assume ready: "gives I (k_get_connection k (cps_pce_connection_ref (cp_spec cp))) (\<lambda>r. r = Inr conn)"
    "k_condition_true k (pcst_conditions (conn_status conn)) ConditionConnected"
    "gives I (k_get_secret k (secref_name (pcs_credentials_secret_ref (conn_spec conn)))
        (secref_namespace (pcs_credentials_secret_ref (conn_spec conn)))) (\<lambda>r. r = Inr data)"
    "mget data ''api_key'' \<noteq> ''''" "mget data ''api_secret'' \<noteq> ''''"
  have "\<not> \<not> d_managed (ComputeDesiredCWP (om_name m) (om_labels m) (om_annotations m)
      (cps_namespace_rules (cp_spec cp)) (cps_system_namespaces (cp_spec cp)))"
    using assms(3) by (simp add: managed_by_def)
  then show ?thesis
    unfolding usable_profile.simps assms(2)
    by (simp only: assms(4) if_False simp_thms, intro hoare_bind_pure [OF ready(1)])
      (simp only: sum.case ready(2) if_False simp_thms, rule hoare_bind_pure [OF ready(3)],
        simp add: ready(4,5) Let_def gives_return)
qed

definition cluster_serves ::
  "('w \<Rightarrow> bool) \<Rightarrow> ('w \<Rightarrow> cluster_profile) \<Rightarrow> 'w kube \<Rightarrow> cluster_profile \<Rightarrow> object_meta \<Rightarrow> bool" where
  \<comment> \<open>what a policy controller reads: the one profile, its connection and the namespace \<open>m\<close>\<close>
  "cluster_serves I stored k cp m \<longleftrightarrow>
     connection_ready I k cp \<and> lists_profile I stored k \<and>
     gives I (k_get_namespace k (om_name m)) (\<lambda>r. r = Inr m) \<and>
     (\<forall>s. kube_reads_keep (\<lambda>w. I w \<and> stored w = s) k)"

lemma connection_ready_strengthen:
  assumes "connection_ready I k cp" "kube_reads_keep J k" "\<And>w. J w \<Longrightarrow> I w"
  shows "connection_ready J k cp"
  using assms(1) unfolding connection_ready_def
  by (elim exE conjE, intro exI conjI)
    (assumption | rule gives_strengthen [where I = I, OF _ kube_reads_keepD(5) [OF assms(2)] assms(3)]
      gives_strengthen [where I = I, OF _ kube_reads_keepD(6) [OF assms(2)] assms(3)])+

lemma resolveClusterProfile_ready:
  assumes serves: "cluster_serves I stored k cp m" and spec: "cp_spec new = cp_spec cp" "managed_by cp m"
    and onboarded: "k_condition_true k (cpst_conditions (cp_status new)) ConditionOnboarded"
  shows "gives (\<lambda>w. I w \<and> stored w = new) (resolveClusterProfile k (om_name m))
    (\<lambda>r. \<exists>cfg eds. r = Inr (Some (new, cfg, eds)))" (is "gives ?J _ _")
proof -
  have reads: "kube_reads_keep ?J k" using serves by (simp add: cluster_serves_def)
  have ns: "gives ?J (k_get_namespace k (om_name m)) (\<lambda>r. r = Inr m)"
    using serves by (intro gives_strengthen [where I = I, OF _ kube_reads_keepD(1) [OF reads]]) (auto simp: cluster_serves_def)
  have list: "gives ?J (k_list_profiles k) (\<lambda>r. r = Inr [new])"
    using serves by (simp add: cluster_serves_def lists_profile_def)
  have "connection_ready ?J k cp"
    using serves by (intro connection_ready_strengthen [where I = I, OF _ reads]) (auto simp: cluster_serves_def)
  note usable = usable_profile_ready [OF this spec onboarded]
  have "m\<lparr>om_name := om_name m\<rparr> = m" by simp
  with usable show ?thesis
    unfolding resolveClusterProfile_def
    by (intro hoare_bind_pure [OF ns]) (simp, intro hoare_bind_pure [OF list], simp)
qed

lemma gives_resolved_spec:
  assumes "cp_spec new = cp_spec cp"
  shows "managed_by new m = managed_by cp m" "scope_labels new m = scope_labels cp m"
    "provision_allowed new annotations = provision_allowed cp annotations"
  using assms by (simp_all add: managed_by_def scope_labels_def provision_allowed_def)

text \<open>The policy controllers' reconcile in the world the onboarding leaves.\<close>

lemma policy_after_onboarding:
  assumes serves: "cluster_serves I stored k cp m" and onboarded: "onboarded k cp nss cwps r new"
    and pc: "responsive (\<lambda>w. I w \<and> stored w = new) pc L (om_name m) crName"
    and managed: "managed_by cp m" "scope_labels cp m \<noteq> []"
    and labels: "set (scope_labels cp m) \<union> set providerLabels \<union> (\<Union>a \<in> set allows. set (ca_from a)) \<subseteq> L"
  shows "gives (\<lambda>w. I w \<and> stored w = new)
    (ReconcilePolicy k (\<lambda>_. pc) (om_name m) crName uid annotations providerLabels allows)
    (made_ready (provision_allowed cp annotations))"
proof -
  from onboarded have spec: "cp_spec new = cp_spec cp"
    and cond: "k_condition_true k (cpst_conditions (cp_status new)) ConditionOnboarded"
    by (simp_all add: onboarded_def Let_def)
  note same = gives_resolved_spec [OF spec]
  have reads: "kube_reads_keep (\<lambda>w. I w \<and> stored w = new) k" using serves by (simp add: cluster_serves_def)
  have ns: "gives (\<lambda>w. I w \<and> stored w = new) (k_get_namespace k (om_name m)) (\<lambda>r. r = Inr m)"
    using serves by (intro gives_strengthen [where I = I, OF _ kube_reads_keepD(1) [OF reads]]) (auto simp: cluster_serves_def)
  show ?thesis
    using gives_ReconcilePolicy [OF pc reads resolveClusterProfile_ready [OF serves spec managed(1) cond] ns,
        unfolded same, OF managed, of providerLabels allows uid annotations] labels by auto
qed

subsection \<open>Properties\<close>


text \<open>
  The world of the instance pairs the API server of \<open>ob_kube\<close> with the PCE draft of
  \<open>Sim_World\<close>; each call works on its half.
\<close>

definition on_fst :: "('a, 'r) state \<Rightarrow> ('a \<times> 'b, 'r) state" where
  "on_fst m = State (\<lambda>(a, b). case run_state m a of (r, a') \<Rightarrow> (r, (a', b)))"

definition on_snd :: "('b, 'r) state \<Rightarrow> ('a \<times> 'b, 'r) state" where
  "on_snd m = State (\<lambda>(a, b). case run_state m b of (r, b') \<Rightarrow> (r, (a, b')))"

definition both_kube :: "(onboarding_world \<times> sim) kube" where
  "both_kube = (sim_kube [] [sim_meta ''shop''] [] [])
     \<lparr>k_get_profile := (\<lambda>n. on_fst (k_get_profile ob_kube n)),
      k_list_profiles := State (\<lambda>w. (Inr [the (ob_profile (fst w))], w)),
      k_status_profile := (\<lambda>cp. on_fst (k_status_profile ob_kube cp)),
      k_put_secret := (\<lambda>n ns f. on_fst (k_put_secret ob_kube n ns f))\<rparr>"

definition both_draft :: "(onboarding_world \<times> sim) policy_client" where
  "both_draft =
     \<lparr>pc_find_label = (\<lambda>k v. on_snd (pc_find_label two_label_store k v)),
      pc_ensure_label = (\<lambda>k v ow. on_snd (pc_ensure_label two_label_store k v ow)),
      pc_find_service_by_name = (\<lambda>n. on_snd (pc_find_service_by_name two_label_store n)),
      pc_find_rule_set_by_owner = (\<lambda>ow. on_snd (pc_find_rule_set_by_owner two_label_store ow)),
      pc_create_rule_set = (\<lambda>rs. on_snd (pc_create_rule_set two_label_store rs)),
      pc_delete_rule_set = (\<lambda>h. on_snd (pc_delete_rule_set two_label_store h)),
      pc_list_rules = (\<lambda>h. on_snd (pc_list_rules two_label_store h)),
      pc_create_rule = (\<lambda>h r. on_snd (pc_create_rule two_label_store h r)),
      pc_delete_rule = (\<lambda>h. on_snd (pc_delete_rule two_label_store h)),
      pc_provision_rule_sets = (\<lambda>hs d. on_snd (pc_provision_rule_sets two_label_store hs d))\<rparr>"

abbreviation both_pce :: "(onboarding_world \<times> sim) onboarding_client" where
  "both_pce \<equiv> (sim_onboarder (\<lambda>_. ret ()) None)\<lparr>oc_list_cwps := \<lambda>_. ret (Inr [sim_cwp])\<rparr>"

definition both_ready :: "cluster_profile \<Rightarrow> onboarding_world \<times> sim \<Rightarrow> bool" where
  "both_ready cp w \<longleftrightarrow> ob_ready cp (fst w) \<and> none_pending (snd w)"

abbreviation both_stored :: "onboarding_world \<times> sim \<Rightarrow> cluster_profile" where
  "both_stored w \<equiv> the (ob_profile (fst w))"

lemma run_on_fst [simp]:
  "run_state (on_fst m) w = (fst (run_state m (fst w)), (snd (run_state m (fst w)), snd w))"
  by (simp add: on_fst_def split_beta)

lemma run_on_snd [simp]:
  "run_state (on_snd m) w = (fst (run_state m (snd w)), (fst w, snd (run_state m (snd w))))"
  by (simp add: on_snd_def split_beta)

lemma hoare_on_fst: "hoare P m Q \<Longrightarrow> hoare (\<lambda>w. P (fst w) \<and> B (snd w)) (on_fst m) (\<lambda>r w. Q r (fst w) \<and> B (snd w))"
  by (simp add: hoare_def split_beta)

lemma hoare_on_snd: "hoare P m Q \<Longrightarrow> hoare (\<lambda>w. A (fst w) \<and> P (snd w)) (on_snd m) (\<lambda>r w. A (fst w) \<and> Q r (snd w))"
  by (simp add: hoare_def split_beta)

lemma gives_on_snd:
  assumes "gives none_pending m Q"
  shows "gives (\<lambda>w. both_ready cp w \<and> both_stored w = s) (on_snd m) Q"
  by (rule hoare_post [OF hoare_pre [OF hoare_on_snd [OF assms, where A = "\<lambda>a. ob_ready cp a \<and> the (ob_profile a) = s"]]])
    (auto simp: both_ready_def)

lemma both_responsive:
  "responsive (\<lambda>w. both_ready cp w \<and> both_stored w = s) both_draft {(''app'', ''shop''), (''role'', ''web'')} ns cr"
  unfolding responsive_def both_draft_def policy_client.simps
  by (intro conjI allI gives_on_snd responsiveD(2-8) [OF two_label_store_responsive], clarify, rule gives_on_snd)
    (rule responsiveD(1) [OF two_label_store_responsive])

lemma both_contract:
  "lookup_contract both_draft two_label (\<lambda>s. svc_href s = ''/services/1'') (\<lambda>_. True)"
  using two_label_store_contract unfolding lookup_contract_def both_draft_def policy_client.simps
  by (simp add: hoare_def split_beta)

lemma both_rules: "rule_store both_draft (\<lambda>_. True) (\<lambda>w. sim_view (snd w))"
proof -
  have "draft_rules_laws both_draft (\<lambda>w. sim_view (snd w))"
    unfolding draft_rules_laws_def
    by (auto simp: both_draft_def two_label_store_def sim_ops sim_view_def fun_eq_iff Let_def same_rule_def
        filter_map o_def conj_commute intro!: arg_cong [where f = "map snd"] filter_cong)
  then show ?thesis
    using two_label_store_rules by (auto simp: rule_store_def both_draft_def hoare_def split_beta)
qed

lemma both_cluster_answers:
  assumes "output_secret cp = ''out''"
  shows "cluster_answers (both_ready cp) both_stored (\<lambda>w. ob_secrets (fst w) ''out'') both_kube ''ops'' cp [sim_meta ''shop'']"
  using ob_cluster_answers [OF assms]
  by (auto simp: cluster_answers_def both_kube_def sim_kube_def both_ready_def hoare_def keeps_def split_beta)

lemma both_serves:
  "cluster_serves (both_ready (sim_onboarding_profile ''create'' '''')) both_stored both_kube
     (sim_onboarding_profile ''create'' '''') (sim_meta ''shop'')"
proof -
  let ?cp = "sim_onboarding_profile ''create'' ''''"
  have ref: "cps_pce_connection_ref (cp_spec ?cp) = ''pce''"
    by (simp add: sim_onboarding_profile_def sim_profile_def Let_def)
  have "connection_ready (both_ready ?cp) both_kube ?cp"
    unfolding connection_ready_def ref
    by (intro exI [of _ sim_connection] exI [of _ "[(''api_key'', ''k''), (''api_secret'', ''s'')]"])
      (simp add: both_kube_def sim_kube_def sim_connection_def new_condition_def hoare_def ConditionConnected_def mget_def)
  moreover have "lists_profile (both_ready ?cp) both_stored both_kube"
    by (simp add: lists_profile_def hoare_def both_kube_def)
  moreover have "kube_reads_keep (\<lambda>w. both_ready ?cp w \<and> both_stored w = s) both_kube" for s
    by (simp add: kube_reads_keep_def both_kube_def sim_kube_def ob_kube_def keeps_def split_beta)
  moreover have "gives (both_ready ?cp) (k_get_namespace both_kube (om_name (sim_meta ''shop'')))
      (\<lambda>r. r = Inr (sim_meta ''shop''))"
    by (simp add: hoare_def both_kube_def sim_kube_def sim_meta_def)
  ultimately show ?thesis by (simp add: cluster_serves_def)
qed

lemma both_onboarding_facts:
  defines "cp \<equiv> sim_onboarding_profile ''create'' ''''"
  shows "hoare (\<lambda>w. both_ready cp w \<and> both_stored w = cp) (k_get_profile both_kube ''profile'')
      (\<lambda>r w. both_ready cp w \<and> r = Inr cp)"
    "pce_answers (both_ready cp) both_pce cp [sim_cwp]" "cluster_available (both_ready cp) both_pce cp"
    "condition_laws both_kube" "onboarding_calls_keep (\<lambda>w. P (ob_secrets (fst w) ''out'')) both_kube both_pce"
    "output_secret cp = ''out''" "managed_by cp (sim_meta ''shop'')"
    "scope_labels cp (sim_meta ''shop'') = [(''app'', ''shop'')]" "provision_allowed cp []"
proof -
  have spec: "output_secret cp = ''out''" "onboardMode cp = onboardModeCreate" "cluster_href cp = ''''"
    "npp_existing_name (ob_node_pairing_profile (cps_onboarding (cp_spec cp))) = ''''"
    by (simp_all add: cp_def sim_onboarding_profile_def sim_profile_def onboardMode_def onboardModeCreate_def
        onboardModeAdopt_def Let_def)
  show "hoare (\<lambda>w. both_ready cp w \<and> both_stored w = cp) (k_get_profile both_kube ''profile'')
      (\<lambda>r w. both_ready cp w \<and> r = Inr cp)"
    by (auto simp: hoare_def both_kube_def ob_kube_def both_ready_def ob_ready_def)
  show "pce_answers (both_ready cp) both_pce cp [sim_cwp]"
    using spec(4) by (auto simp: pce_answers_def sim_onboarder_def hoare_def)
  have "ContainerClusterUUID ''/clusters/c2'' \<noteq> ''''" by code_simp
  then show "cluster_available (both_ready cp) both_pce cp"
    using spec by (simp add: cluster_available_def sim_onboarder_def hoare_def onboardModeCreate_def onboardModeAdopt_def)
  show "condition_laws both_kube"
    using sim_condition_laws [of "[]" "[sim_meta ''shop'']" "[]" "[]"] by (simp add: condition_laws_def both_kube_def)
  show "onboarding_calls_keep (\<lambda>w. P (ob_secrets (fst w) ''out'')) both_kube both_pce"
    by (simp add: onboarding_calls_keep_def pass_calls_keep_def kube_reads_keep_def both_kube_def ob_kube_def sim_kube_def
        sim_onboarder_def) (auto simp: keeps_def Let_def split: option.splits)
  show "managed_by cp (sim_meta ''shop'')" "scope_labels cp (sim_meta ''shop'') = [(''app'', ''shop'')]"
    "provision_allowed cp []"
    unfolding cp_def by code_simp+
qed (simp add: sim_onboarding_profile_def sim_profile_def Let_def cp_def)

definition both_run :: "(onboarding_world \<times> sim, go_error + backend_result) state" where
  "both_run = do {
     _ \<leftarrow> ClusterProfileReconcile both_kube (\<lambda>_. both_pce) ''ops'' ''profile'';
     ReconcilePolicy both_kube (\<lambda>_. both_draft) ''shop'' ''r'' ''uid-r'' []
       (sel_match_labels (sps_pod_selector web_policy)) (projr (CompilePolicy web_policy))
   }"


end
