(* ===== verification/Namespace_Updates.thy ===== *)
theory Namespace_Updates
  imports Namespace_Sync Policy_Frame
begin

section \<open>What the namespace pass may write\<close>

text \<open>
  The pass over the namespaces issues one kind of write, the update of a workload profile.
  \<open>allowed_update\<close> says what a well-formed update is; the pass issues no other, whatever the
  PCE and the API server answer. All namespaces of a pass share the cache of label hrefs;
  \<open>cache_ok\<close> is its invariant.
\<close>

subsection \<open>The cache of label hrefs\<close>

text \<open>\<open>known key value href\<close>: the PCE served a label with this key and value at this href.\<close>

definition serves_labels :: "(string \<Rightarrow> string \<Rightarrow> string \<Rightarrow> bool) \<Rightarrow> 'w onboarding_client \<Rightarrow> bool" where
  "serves_labels known oc \<longleftrightarrow>
     (\<forall>k v ow. returns (oc_ensure_label oc k v ow) (\<lambda>r. \<forall>l. r = Inr l \<longrightarrow> known k v (lbl_href l)))"

definition plain_key :: "string \<Rightarrow> bool" where
  \<comment> \<open>a key that does not contain the separator of the cache's keys\<close>
  "plain_key k \<longleftrightarrow> CHR ''|'' \<notin> set k"

definition cache_ok :: "(string \<Rightarrow> string \<Rightarrow> string \<Rightarrow> bool) \<Rightarrow> smap \<Rightarrow> bool" where
  "cache_ok known cache \<longleftrightarrow>
     (\<forall>k v h. plain_key k \<longrightarrow> map_of cache (k @ ''|'' @ v) = Some h \<longrightarrow> known k v h)"

definition assigns :: "(string \<Rightarrow> string \<Rightarrow> string \<Rightarrow> bool) \<Rightarrow> string \<times> string \<Rightarrow> cwp_label \<Rightarrow> bool" where
  "assigns known kv l \<longleftrightarrow>
     (\<exists>h. l = \<lparr>cl_key = fst kv, cl_assignment = Some \<lparr>lref_href = h\<rparr>, cl_restriction = []\<rparr> \<and>
          known (fst kv) (snd kv) h)"

lemma cache_key_inj:
  assumes "plain_key k" "plain_key k'" "k @ ''|'' @ v = k' @ ''|'' @ v'"
  shows "k = k' \<and> v = v'"
  using assms
proof (induction k arbitrary: k')
  case Nil
  then show ?case by (cases k') (auto simp: plain_key_def)
next
  case (Cons c k)
  then show ?case by (cases k') (auto simp: plain_key_def)
qed

lemma cache_ok_Nil [simp, intro]: "cache_ok known []"
  by (simp add: cache_ok_def)

lemma cache_ok_set:
  "cache_ok known cache \<Longrightarrow> plain_key k \<Longrightarrow> known k v h \<Longrightarrow>
   cache_ok known (mset_key (k @ ''|'' @ v) h cache)"
  by (auto simp: cache_ok_def dest: cache_key_inj)

lemma cache_okD:
  "cache_ok known cache \<Longrightarrow> plain_key k \<Longrightarrow> map_of cache (k @ ''|'' @ v) = Some h \<Longrightarrow>
   assigns known (k, v) \<lparr>cl_key = k, cl_assignment = Some \<lparr>lref_href = h\<rparr>, cl_restriction = []\<rparr>"
  by (simp add: cache_ok_def assigns_def)

lemma resolve_cwp_labels_assigns:
  assumes "serves_labels known oc"
  shows "\<forall>(k, v) \<in> set labels. plain_key k \<Longrightarrow> cache_ok known cache \<Longrightarrow>
    list_all2 (assigns known) seen out \<Longrightarrow>
    returns (resolve_cwp_labels oc ow labels cache byKey out)
      (\<lambda>(r, cache'). cache_ok known cache' \<and>
         (\<forall>byKey' out'. r = Inr (byKey', out') \<longrightarrow> list_all2 (assigns known) (seen @ labels) out'))"
proof (induction labels arbitrary: cache byKey out seen)
  case Nil
  then show ?case by (auto intro!: hoare)
next
  case (Cons kv labels)
  obtain k v where kv: "kv = (k, v)" by fastforce
  with Cons.prems have plain: "plain_key k" and rest: "\<forall>(k, v) \<in> set labels. plain_key k" by auto
  let ?l = "\<lambda>h. \<lparr>cl_key = k, cl_assignment = Some \<lparr>lref_href = h\<rparr>, cl_restriction = []\<rparr>"
  have go: "returns (resolve_cwp_labels oc ow labels cache' byKey' (out @ [?l h]))
      (\<lambda>(r, cache'). cache_ok known cache' \<and>
         (\<forall>byKey' out'. r = Inr (byKey', out') \<longrightarrow> list_all2 (assigns known) (seen @ kv # labels) out'))"
    if "cache_ok known cache'" "known k v h" for cache' byKey' h
  proof -
    have "list_all2 (assigns known) (seen @ [kv]) (out @ [?l h])"
      using that(2) by (intro list_all2_appendI [OF Cons.prems(3)]) (simp add: kv assigns_def)
    from Cons.IH [OF rest that(1) this] show ?thesis by simp
  qed
  show ?case
  proof (cases "map_of cache (k @ ''|'' @ v)")
    case None
    have "returns (oc_ensure_label oc k v ow) (\<lambda>r. \<forall>l. r = Inr l \<longrightarrow> known k v (lbl_href l))"
      using assms by (simp add: serves_labels_def)
    then show ?thesis
      using None Cons.prems(2) go cache_ok_set [OF Cons.prems(2) plain]
      by (auto simp: kv Let_def intro!: returns_bind_val hoare_return split: sum.split)
  next
    case (Some h)
    with go Cons.prems(2) plain show ?thesis by (simp add: kv cache_ok_def)
  qed
qed


subsection \<open>What the API server admits\<close>

definition admitted_profile :: "cluster_profile \<Rightarrow> bool" where
  \<comment> \<open>the modes are in the enumeration of the CRD, the label keys are plain\<close>
  "admitted_profile cp \<longleftrightarrow>
     (let sys = cps_system_namespaces (cp_spec cp) in
      validEnforcement (sns_enforcement_mode sys) \<and> list_all (\<lambda>(k, _). plain_key k) (sns_labels sys) \<and>
      list_all (\<lambda>r. validEnforcement (nr_enforcement_mode r) \<and>
        list_all (\<lambda>(k, _). plain_key k) (nr_assign_labels r)) (cps_namespace_rules (cp_spec cp)))"

definition admitted_namespace :: "object_meta \<Rightarrow> bool" where
  "admitted_namespace ns \<longleftrightarrow>
     validEnforcement (mget (om_annotations ns) AnnotationEnforcement) \<and>
     list_all (\<lambda>(k, _). plain_key k) (om_annotations ns)"

definition admitted_requests :: "'w kube \<Rightarrow> bool" where
  \<comment> \<open>the enforcement a policy resource asks for is in the enumeration of the CRDs\<close>
  "admitted_requests k \<longleftrightarrow>
     (\<forall>n. returns (k_list_intents k n) (\<lambda>r. \<forall>is. r = Inr is \<longrightarrow>
            list_all (\<lambda>i. validEnforcement (sis_enforcement (si_spec i))) is) \<and>
          returns (k_list_policies k n) (\<lambda>r. \<forall>ps. r = Inr ps \<longrightarrow>
            list_all (\<lambda>p. validEnforcement (sps_enforcement (sp_spec p))) ps))"

abbreviation desired_of :: "cluster_profile \<Rightarrow> object_meta \<Rightarrow> desired_cwp" where
  "desired_of cp ns \<equiv> ComputeDesiredCWP (om_name ns) (om_labels ns) (om_annotations ns)
     (cps_namespace_rules (cp_spec cp)) (cps_system_namespaces (cp_spec cp))"

definition wire_modes :: "string set" where
  \<comment> \<open>the modes the PCE accepts for a managed profile\<close>
  "wire_modes = {enforcementVisibilityOnly, enforcementSelective, enforcementFull}"

lemma wire_modes_iff: "m \<in> wire_modes \<longleftrightarrow> validEnforcement m \<and> m \<notin> {'''', enforcementIdle}"
  by (auto simp: wire_modes_def validEnforcement_def enforcementRank_def enforcement_names split: if_splits)

lemma wire_modes_rank: "validEnforcement m \<Longrightarrow> m \<in> wire_modes \<longleftrightarrow> 2 \<le> enforcementRank m"
  by (auto simp: wire_modes_def validEnforcement_def enforcementRank_def enforcement_names split: if_splits)

lemma base_label_keys:
  assumes "admitted_profile cp"
    and "k \<in> fst ` set (d_labels (base_config name ns (cps_namespace_rules (cp_spec cp))
      (cps_system_namespaces (cp_spec cp))))"
  shows "plain_key k"
proof -
  have assign: "plain_key k" if "r \<in> set (cps_namespace_rules (cp_spec cp))"
    "k \<in> fst ` set (resolveAssignLabels (nr_assign_labels r) ns)" for r
    using range_put_keys [OF that(2) [unfolded resolveAssignLabels_def]] that(1) assms(1)
    by (fastforce simp: admitted_profile_def Let_def list_all_iff simp del: assigned_value.simps)
  have sys: "plain_key k"
    if "k \<in> fst ` set (copyLabels (sns_labels (cps_system_namespaces (cp_spec cp))))"
    using range_put_keys [OF that [unfolded copyLabels_def]] assms(1)
    by (fastforce simp: admitted_profile_def Let_def list_all_iff)
  show ?thesis
    using assms(2) assign sys
    by (auto simp: base_config_def Let_def first_rule_find dest: find_SomeD split: if_splits option.splits)
qed

lemma desired_label_keys:
  assumes "admitted_profile cp" "admitted_namespace ns"
  shows "\<forall>(k, v) \<in> set (d_labels (desired_of cp ns)). plain_key k"
proof (intro ballI, clarify)
  fix k v assume "(k, v) \<in> set (d_labels (desired_of cp ns))"
  then have k: "k \<in> fst ` set (range_put label_annotation (om_annotations ns) (d_labels (base_config (om_name ns)
      (om_labels ns) (cps_namespace_rules (cp_spec cp)) (cps_system_namespaces (cp_spec cp)))))"
    by (force simp: ComputeDesiredCWP_base Let_def applyAnnotationOverrides_fields split: if_splits)
  show "plain_key k"
  proof (cases "k \<in> fst ` set (d_labels (base_config (om_name ns)
      (om_labels ns) (cps_namespace_rules (cp_spec cp)) (cps_system_namespaces (cp_spec cp))))")
    case True
    then show ?thesis by (rule base_label_keys [OF assms(1)])
  next
    case False
    from range_put_keys [OF k this] obtain k0 u where "(k0, u) \<in> set (om_annotations ns)"
      "k0 = AnnotationLabelPrefix @ k" by (auto simp: label_annotation_src)
    with assms(2) show ?thesis by (auto simp: admitted_namespace_def list_all_iff plain_key_def)
  qed
qed

lemma desired_mode:
  assumes "admitted_profile cp" "admitted_namespace ns" "d_managed (desired_of cp ns)"
  shows "d_enforcement_mode (desired_of cp ns) \<in> wire_modes"
proof -
  have "validEnforcement (d_enforcement_mode (base_config (om_name ns)
      (om_labels ns) (cps_namespace_rules (cp_spec cp)) (cps_system_namespaces (cp_spec cp))))"
    using assms(1)
    by (auto simp: base_config_def Let_def first_rule_find admitted_profile_def list_all_iff validEnforcement_def
        dest!: find_SomeD split: option.splits)
  then show ?thesis
    using assms(2,3)
    by (auto simp: ComputeDesiredCWP_base Let_def applyAnnotationOverrides_fields admitted_namespace_def
        wire_modes_iff validEnforcement_def enforcement_names enforcementRank_def split: if_splits)
qed

subsection \<open>The updates of the pass\<close>

definition raised :: "desired_cwp \<Rightarrow> string \<Rightarrow> bool" where
  \<comment> \<open>the mode sent for a desired configuration: none if unmanaged, else at least the desired one\<close>
  "raised d mode \<longleftrightarrow>
     (if d_managed d then mode \<in> wire_modes \<and> enforcementRank (d_enforcement_mode d) \<le> enforcementRank mode
      else mode = '''')"

definition well_formed_update ::
  "(string \<Rightarrow> string \<Rightarrow> string \<Rightarrow> bool) \<Rightarrow> desired_cwp \<Rightarrow> cwp_update \<Rightarrow> bool" where
  "well_formed_update known d upd \<longleftrightarrow>
     cu_managed upd = Some (d_managed d) \<and> raised d (cu_enforcement_mode upd) \<and>
     list_all2 (assigns known) (d_labels d) (cu_labels upd)"

definition allowed_update ::
  "(string \<Rightarrow> string \<Rightarrow> string \<Rightarrow> bool) \<Rightarrow> cluster_profile \<Rightarrow> object_meta set \<Rightarrow>
   container_workload_profile set \<Rightarrow> string \<Rightarrow> cwp_update \<Rightarrow> bool" where
  \<comment> \<open>an update of the profile of a listed namespace to what the namespace should be\<close>
  "allowed_update known cp N C h upd \<longleftrightarrow>
     (\<exists>ns \<in> N. \<exists>cwp \<in> C. cwp_namespace cwp = om_name ns \<and> h = cwp_href cwp \<and>
        well_formed_update known (desired_of cp ns) upd)"

definition pass_footprint ::
  "('w \<Rightarrow> bool) \<Rightarrow> (string \<Rightarrow> string \<Rightarrow> string \<Rightarrow> bool) \<Rightarrow> cluster_profile \<Rightarrow> object_meta set \<Rightarrow>
   container_workload_profile set \<Rightarrow> 'w kube \<Rightarrow> 'w onboarding_client \<Rightarrow> bool" where
  \<comment> \<open>\<open>P\<close> survives reads, events, label creation and allowed updates; what the lists return\<close>
  "pass_footprint P known cp N C k oc \<longleftrightarrow>
     kube_reads_keep P k \<and> (\<forall>a b c. keeps P (k_event k a b c)) \<and>
     (\<forall>key v ow. keeps P (oc_ensure_label oc key v ow)) \<and> (\<forall>c. keeps P (oc_list_cwps oc c)) \<and>
     (\<forall>h upd. allowed_update known cp N C h upd \<longrightarrow> keeps P (oc_update_cwp oc h upd)) \<and>
     returns (k_list_namespaces k) (\<lambda>r. \<forall>nss. r = Inr nss \<longrightarrow> set nss \<subseteq> N) \<and>
     (\<forall>c. returns (oc_list_cwps oc c) (\<lambda>r. \<forall>cwps. r = Inr cwps \<longrightarrow> set cwps \<subseteq> C))"

lemma pass_footprintD [keeps]:
  assumes "pass_footprint P known cp N C k oc"
  shows "kube_reads_keep P k" "keeps P (k_event k a b c)" "keeps P (oc_ensure_label oc key v ow)"
    "keeps P (oc_list_cwps oc cc)"
    "allowed_update known cp N C h upd \<Longrightarrow> keeps P (oc_update_cwp oc h upd)"
  using assms by (simp_all add: pass_footprint_def)

lemma keeps_resolve_labels:
  "pass_footprint P known cp N C k oc \<Longrightarrow> keeps P (resolve_cwp_labels oc ow labels cache byKey out)"
proof (induction labels arbitrary: cache byKey out)
  case (Cons kv labels)
  then show ?case by (cases kv) (auto intro!: keeps)
qed simp

lemma EffectiveEnforcement_wire:
  assumes "admitted_requests k" "baseline \<in> wire_modes"
  shows "returns (EffectiveEnforcement k n baseline)
    (\<lambda>r. \<forall>m b. r = Inr (m, b) \<longrightarrow> m \<in> wire_modes \<and> enforcementRank baseline \<le> enforcementRank m)"
proof -
  have "m \<in> wire_modes \<and> enforcementRank baseline \<le> enforcementRank m"
    if "list_all (\<lambda>i. validEnforcement (sis_enforcement (si_spec i))) is"
      "list_all (\<lambda>p. validEnforcement (sps_enforcement (sp_spec p))) ps"
      "raise_enforcement baseline ''admin'' (enforcement_requests is ps) = (m, b)" for "is" ps m b
  proof -
    have base: "validEnforcement baseline" "2 \<le> enforcementRank baseline"
      using assms(2) wire_modes_iff wire_modes_rank by auto
    have reqs: "\<forall>r \<in> snd ` set (enforcement_requests is ps). validEnforcement r"
      using that(1,2) by (auto simp: enforcement_requests_def list_all_iff)
    from raise_enforcement_max [OF base(1) this that(3)] base reqs show ?thesis
      by (metis insertE insertI1 order_trans wire_modes_rank)
  qed
  then show ?thesis
    using assms(1) unfolding EffectiveEnforcement_def admitted_requests_def
    by (auto intro!: returns_bind_val hoare_return hoare_case_sum
        simp: enforcement_requests_def raise_enforcement_append split: prod.split)
qed
lemma raise_desired_raised:
  assumes "admitted_requests k" "d_managed d \<longrightarrow> d_enforcement_mode d \<in> wire_modes"
  shows "returns (raise_desired k ns d errs)
    (\<lambda>(d', _). d_managed d' = d_managed d \<and> d_labels d' = d_labels d \<and>
       (d_managed d \<longrightarrow> raised d (d_enforcement_mode d')))"
proof (cases "d_managed d")
  case True
  with assms have "d_enforcement_mode d \<in> wire_modes" by simp
  note eff = EffectiveEnforcement_wire [OF assms(1) this]
  from True \<open>d_enforcement_mode d \<in> wire_modes\<close> show ?thesis
    unfolding raise_desired_def
    by (simp, intro returns_bind_val [OF eff]) (auto simp: raised_def intro!: hoare_return split: sum.split)
qed (auto simp: raise_desired_def intro!: hoare_return)

lemma buildCWPUpdate_well_formed:
  assumes "serves_labels known oc" "cache_ok known cache" "\<forall>(k, v) \<in> set (d_labels d). plain_key k"
  shows "returns (buildCWPUpdate oc ow cwp d cache)
    (\<lambda>(r, cache'). cache_ok known cache' \<and>
       (\<forall>upd ch. r = Inr (upd, ch) \<longrightarrow> cu_managed upd = Some (d_managed d) \<and>
          cu_enforcement_mode upd = (if d_managed d then d_enforcement_mode d else '''') \<and>
          list_all2 (assigns known) (d_labels d) (cu_labels upd)))"
  unfolding buildCWPUpdate_def
  by (rule returns_bind_val [OF resolve_cwp_labels_assigns [OF assms(1,3,2), of "[]" "[]"]])
    (auto intro!: hoare_return split: sum.split prod.split)

lemma apply_cwp_allowed:
  assumes fp: "pass_footprint P known cp N C k oc" and serve: "serves_labels known oc"
    and cache: "cache_ok known (cw_cache s)" and plain: "\<forall>(k, v) \<in> set (d_labels d). plain_key k"
    and allowed: "\<And>upd. cu_managed upd = Some (d_managed d) \<Longrightarrow>
      cu_enforcement_mode upd = (if d_managed d then d_enforcement_mode d else '''') \<Longrightarrow>
      list_all2 (assigns known) (d_labels d) (cu_labels upd) \<Longrightarrow>
      allowed_update known cp N C (cwp_href cwp) upd"
  shows "hoare P (apply_cwp k oc ow ns cwp d s) (\<lambda>s' w. P w \<and> cache_ok known (cw_cache s'))"
proof -
  have build: "hoare P (buildCWPUpdate oc ow cwp d (cw_cache s)) (\<lambda>r w. P w \<and> (case r of (r, cache') \<Rightarrow>
      cache_ok known cache' \<and>
       (\<forall>upd ch. r = Inr (upd, ch) \<longrightarrow> cu_managed upd = Some (d_managed d) \<and>
          cu_enforcement_mode upd = (if d_managed d then d_enforcement_mode d else '''') \<and>
          list_all2 (assigns known) (d_labels d) (cu_labels upd))))"
  proof (rule hoare_keepsI [OF _ buildCWPUpdate_well_formed [OF serve cache plain]])
    show "keeps P (buildCWPUpdate oc ow cwp d (cw_cache s))"
      unfolding buildCWPUpdate_def by (auto intro!: keeps keeps_resolve_labels [OF fp])
  qed
  show ?thesis
    unfolding apply_cwp_def
    by (rule hoare_bind_pure [OF build])
      (auto simp: Let_def intro!: hoare_bind_keeps hoare_return hoare_if hoare_case_option allowed
         keeps pass_footprintD [OF fp] split: sum.split prod.split)
qed

lemma namespace_pass_allowed:
  assumes fp: "pass_footprint P known cp N C k oc" and serve: "serves_labels known oc"
    and admitted: "admitted_profile cp" "admitted_requests k" "\<forall>ns \<in> N. admitted_namespace ns"
    and byNS: "\<And>n cwp. byNS n = Some cwp \<Longrightarrow> cwp \<in> C \<and> cwp_namespace cwp = n"
  shows "set nss \<subseteq> N \<Longrightarrow> cache_ok known (cw_cache s) \<Longrightarrow> keeps P (namespace_pass k oc cp ow byNS nss s)"
proof (induction nss arbitrary: s)
  case (Cons ns nss)
  let ?d = "desired_of cp ns"
  from Cons.prems(1) have ns: "ns \<in> N" by simp
  with admitted have adm: "admitted_namespace ns" by blast
  have "keeps P (raise_desired k ns ?d (cw_errs s))"
    unfolding raise_desired_def by (auto intro!: keeps pass_footprintD [OF fp])
  note raise = hoare_keepsI [OF this raise_desired_raised [OF admitted(2)]]
  have visit: "hoare P (case byNS (om_name ns) of
         None \<Rightarrow> ret (if d_managed d then s'\<lparr>cw_pending := cw_pending s' + 1\<rparr> else s')
       | Some cwp \<Rightarrow> apply_cwp k oc ow ns cwp d s') (\<lambda>s w. P w \<and> cache_ok known (cw_cache s))"
    if "d_managed d = d_managed ?d" "d_labels d = d_labels ?d"
      "d_managed ?d \<Longrightarrow> raised ?d (d_enforcement_mode d)" "cache_ok known (cw_cache s')" for d s'
  proof (cases "byNS (om_name ns)")
    case None
    with that(4) show ?thesis by (auto intro!: hoare_return)
  next
    case (Some cwp)
    have "hoare P (apply_cwp k oc ow ns cwp d s') (\<lambda>s w. P w \<and> cache_ok known (cw_cache s))"
      using byNS [OF Some] ns that desired_label_keys [OF admitted(1) adm]
      by (intro apply_cwp_allowed [OF fp serve])
        (auto simp: allowed_update_def well_formed_update_def raised_def split: if_splits
           intro!: bexI [of _ ns] bexI [of _ cwp])
    with Some show ?thesis by simp
  qed
  have "hoare P (namespace_step k oc cp ow byNS ns s) (\<lambda>s w. P w \<and> cache_ok known (cw_cache s))"
    unfolding namespace_step_def
    using Cons.prems(2) desired_mode [OF admitted(1) adm]
    by (intro hoare_bind_pure [OF raise]) (auto simp: Let_def intro!: visit)
  from keeps_bind_pure [OF this] Cons.prems(1) show ?case by (auto intro!: Cons.IH)
qed simp

lemma cwps_by_namespace_Some:
  "cwps_by_namespace cwps n = Some c \<Longrightarrow> c \<in> set cwps \<and> cwp_namespace c = n"
proof (induction cwps rule: rev_induct)
  case (snoc x xs)
  then show ?case by (auto simp: cwps_by_namespace_def split: if_splits)
qed (simp add: cwps_by_namespace_def)

subsection \<open>Properties\<close>


definition sim_known :: "string \<Rightarrow> string \<Rightarrow> string \<Rightarrow> bool" where
  "sim_known key v h \<longleftrightarrow> h = ''/l/'' @ key @ ''/'' @ v"

definition sim_pass_profile :: cluster_profile where
  "sim_pass_profile =
     (sim_profile ''auto'')\<lparr>cp_status := (cp_status (sim_profile ''auto''))\<lparr>cpst_container_cluster_id := ''c1''\<rparr>\<rparr>"


text \<open>
  The separator of the cache is needed: two different labels whose keys and values are cut
  differently share one entry, so the second gets the href of the first.
\<close>
theorem label_cache_ambiguous:
  "fst (run_state (resolve_cwp_labels sim_onboarding \<lparr>ow_data_set = '''', ow_reference = ''''\<rparr>
       [(''a|b'', ''c''), (''a'', ''b|c'')] [] [] []) []) =
   (Inr ([(''a|b'', ''/l/a|b/c''), (''a'', ''/l/a|b/c'')],
         [\<lparr>cl_key = ''a|b'', cl_assignment = Some \<lparr>lref_href = ''/l/a|b/c''\<rparr>, cl_restriction = []\<rparr>,
          \<lparr>cl_key = ''a'', cl_assignment = Some \<lparr>lref_href = ''/l/a|b/c''\<rparr>, cl_restriction = []\<rparr>]),
    [(''a|b|c'', ''/l/a|b/c'')])"
  by code_simp

end
