(* ===== verification/Watches.thy ===== *)
theory Watches
  imports Cluster_Profile Namespace_Updates
begin

section \<open>Watches and events (SetupWithManager)\<close>

text \<open>
  Each controller subscribes to events of the API server. The controller's own resource
  enqueues itself; the ClusterProfile controller also watches namespaces and the policy
  resources, filters these events by predicates and enqueues every profile. The predicates
  and the handler \<open>EnqueueRequestForObject\<close> belong to controller-runtime; \<open>watch_laws\<close> is
  what it documents of them.
\<close>

datatype 'o event = Created 'o | Updated 'o 'o | Deleted 'o | Generic 'o

type_synonym meta_predicate = "object_meta event \<Rightarrow> bool"

type_synonym request = "string \<times> string" \<comment> \<open>namespace and name\<close>

record watch_lib =
  label_changed :: meta_predicate
  annotation_changed :: meta_predicate
  generation_changed :: meta_predicate
  or_predicate :: "meta_predicate list \<Rightarrow> meta_predicate"
  request_for_object :: "object_meta event \<Rightarrow> request list"

datatype kind = KNamespace | KPCEConnection | KClusterProfile | KSegmentationIntent
  | KSegmentationPolicy | KPolicyInsight | KRuleView

datatype event_handler = EnqueueObject | EnqueueProfiles

record watch =
  wt_kind :: kind
  wt_handler :: event_handler
  wt_predicates :: "meta_predicate list"

abbreviation For :: "kind \<Rightarrow> watch" where
  "For kd \<equiv> \<lparr>wt_kind = kd, wt_handler = EnqueueObject, wt_predicates = []\<rparr>"

definition ClusterProfile_watches :: "watch_lib \<Rightarrow> watch list" where
  "ClusterProfile_watches lib =
     [For KClusterProfile,
      \<lparr>wt_kind = KNamespace, wt_handler = EnqueueProfiles,
       wt_predicates = [or_predicate lib [label_changed lib, annotation_changed lib]]\<rparr>,
      \<lparr>wt_kind = KSegmentationIntent, wt_handler = EnqueueProfiles,
       wt_predicates = [generation_changed lib]\<rparr>,
      \<lparr>wt_kind = KSegmentationPolicy, wt_handler = EnqueueProfiles,
       wt_predicates = [generation_changed lib]\<rparr>]"

definition PCEConnection_watches :: "watch list" where
  "PCEConnection_watches = [For KPCEConnection]"
definition SegmentationIntent_watches :: "watch list" where
  "SegmentationIntent_watches = [For KSegmentationIntent]"
definition SegmentationPolicy_watches :: "watch list" where
  "SegmentationPolicy_watches = [For KSegmentationPolicy]"
definition PolicyInsight_watches :: "watch list" where
  "PolicyInsight_watches = [For KPolicyInsight]"
definition RuleView_watches :: "watch list" where
  "RuleView_watches = [For KRuleView]"

fun enqueued ::
  "watch_lib \<Rightarrow> 'w kube \<Rightarrow> watch list \<Rightarrow> kind \<Rightarrow> object_meta event \<Rightarrow> ('w, request list) state" where
  \<comment> \<open>the requests an event puts on the queue of a controller with these watches\<close>
  "enqueued lib k [] kd ev = ret []"
| "enqueued lib k (w # ws) kd ev =
     (if wt_kind w = kd \<and> list_all (\<lambda>p. p ev) (wt_predicates w) then do {
        rs \<leftarrow> (case wt_handler w of
                EnqueueObject \<Rightarrow> ret (request_for_object lib ev)
              | EnqueueProfiles \<Rightarrow> do {
                  names \<leftarrow> clusterProfilesForNamespace k;
                  ret (map (Pair '''') names)
                });
        more \<leftarrow> enqueued lib k ws kd ev;
        ret (rs @ more)
      }
      else enqueued lib k ws kd ev)"

fun event_object :: "'o event \<Rightarrow> 'o" where
  "event_object (Created x) = x"
| "event_object (Updated _ x) = x"
| "event_object (Deleted x) = x"
| "event_object (Generic x) = x"

definition watch_laws :: "watch_lib \<Rightarrow> bool" where
  \<comment> \<open>a predicate stops only updates that leave its field alone; \<open>Or\<close> is the disjunction; an
      object is enqueued under its own name\<close>
  "watch_laws lib \<longleftrightarrow>
     (\<forall>ev. label_changed lib ev \<or> (\<exists>x y. ev = Updated x y \<and> map_of (om_labels x) = map_of (om_labels y))) \<and>
     (\<forall>ev. annotation_changed lib ev \<or>
        (\<exists>x y. ev = Updated x y \<and> map_of (om_annotations x) = map_of (om_annotations y))) \<and>
     (\<forall>ev. generation_changed lib ev \<or> (\<exists>x y. ev = Updated x y \<and> om_generation x = om_generation y)) \<and>
     (\<forall>ps ev. or_predicate lib ps ev \<longleftrightarrow> (\<exists>p \<in> set ps. p ev)) \<and>
     (\<forall>ev. let m = event_object ev in set (request_for_object lib ev) = {(om_namespace m, om_name m)})"


subsection \<open>What the namespaces should be\<close>

text \<open>
  The objects the namespace pass reads, and what it brings each namespace to: the desired
  configuration with the enforcement that the policy resources of the namespace raise.
\<close>

record cluster_view =
  cv_namespaces :: "object_meta list"
  cv_intents :: "seg_intent list"
  cv_policies :: "seg_policy list"

abbreviation intents_in :: "cluster_view \<Rightarrow> string \<Rightarrow> seg_intent list" where
  "intents_in v n \<equiv> filter (\<lambda>i. om_namespace (si_meta i) = n) (cv_intents v)"

abbreviation policies_in :: "cluster_view \<Rightarrow> string \<Rightarrow> seg_policy list" where
  "policies_in v n \<equiv> filter (\<lambda>p. om_namespace (sp_meta p) = n) (cv_policies v)"

definition aim :: "cluster_profile \<Rightarrow> cluster_view \<Rightarrow> object_meta \<Rightarrow> bool \<times> (string \<rightharpoonup> string) \<times> string" where
  "aim cp v ns =
     (let d = desired_of cp ns in
      (d_managed d, map_of (d_labels d),
       if d_managed d then
         fst (raise_enforcement (d_enforcement_mode d) ''admin''
           (enforcement_requests (intents_in v (om_name ns)) (policies_in v (om_name ns))))
       else d_enforcement_mode d))"

definition target ::
  "cluster_profile \<Rightarrow> cluster_view \<Rightarrow> string \<Rightarrow> (bool \<times> (string \<rightharpoonup> string) \<times> string) option" where
  "target cp v n = map_option (aim cp v) (List.find (\<lambda>ns. om_name ns = n) (cv_namespaces v))"

text \<open>The pass computes the target, from the lists the API server returns.\<close>

lemma raise_desired_target:
  assumes "run_state (k_list_intents k (om_name ns)) w = (Inr (intents_in v (om_name ns)), w1)"
    and "run_state (k_list_policies k (om_name ns)) w1 = (Inr (policies_in v (om_name ns)), w2)"
  shows "\<exists>d w'. run_state (raise_desired k ns (desired_of cp ns) errs) w = ((d, errs), w') \<and>
    (d_managed d, map_of (d_labels d), d_enforcement_mode d) = aim cp v ns"
  using EffectiveEnforcement_run [OF assms]
  by (auto simp: raise_desired_def aim_def Let_def split: prod.split)

datatype cluster_event = NamespaceEvent "object_meta event" | IntentEvent "seg_intent event"
  | PolicyEvent "seg_policy event"

fun event_kind :: "cluster_event \<Rightarrow> kind" where
  "event_kind (NamespaceEvent _) = KNamespace"
| "event_kind (IntentEvent _) = KSegmentationIntent"
| "event_kind (PolicyEvent _) = KSegmentationPolicy"

fun event_meta :: "cluster_event \<Rightarrow> object_meta event" where
  "event_meta (NamespaceEvent ev) = ev"
| "event_meta (IntentEvent ev) = map_event si_meta ev"
| "event_meta (PolicyEvent ev) = map_event sp_meta ev"

fun changed_list :: "('o \<Rightarrow> 'k) \<Rightarrow> 'o event \<Rightarrow> 'o list \<Rightarrow> 'o list" where
  \<comment> \<open>the stored objects after an event, by the key that names an object\<close>
  "changed_list key (Created x) xs = xs @ [x]"
| "changed_list key (Updated _ y) xs = map (\<lambda>x. if key x = key y then y else x) xs"
| "changed_list key (Deleted x) xs = filter (\<lambda>y. key y \<noteq> key x) xs"
| "changed_list key (Generic _) xs = xs"

abbreviation full_name :: "object_meta \<Rightarrow> string \<times> string" where
  "full_name m \<equiv> (om_namespace m, om_name m)"

fun view_after :: "cluster_event \<Rightarrow> cluster_view \<Rightarrow> cluster_view" where
  "view_after (NamespaceEvent ev) v = v\<lparr>cv_namespaces := changed_list om_name ev (cv_namespaces v)\<rparr>"
| "view_after (IntentEvent ev) v =
     v\<lparr>cv_intents := changed_list (full_name \<circ> si_meta) ev (cv_intents v)\<rparr>"
| "view_after (PolicyEvent ev) v =
     v\<lparr>cv_policies := changed_list (full_name \<circ> sp_meta) ev (cv_policies v)\<rparr>"

fun replaces :: "('o \<Rightarrow> 'k) \<Rightarrow> 'o event \<Rightarrow> 'o list \<Rightarrow> bool" where
  \<comment> \<open>the old object of an update is the stored one of the new object's name\<close>
  "replaces key (Updated x y) xs \<longleftrightarrow> (\<forall>z \<in> set xs. key z = key y \<longrightarrow> z = x)"
| "replaces key _ xs \<longleftrightarrow> True"

fun server_event :: "cluster_view \<Rightarrow> cluster_event \<Rightarrow> bool" where
  \<comment> \<open>events as the API server emits them: an equal generation means an equal spec\<close>
  "server_event v (NamespaceEvent ev) \<longleftrightarrow>
     replaces om_name ev (cv_namespaces v) \<and>
     (\<forall>x y. ev = Updated x y \<longrightarrow> wf_map (om_annotations x) \<and> wf_map (om_annotations y))"
| "server_event v (IntentEvent ev) \<longleftrightarrow>
     replaces (full_name \<circ> si_meta) ev (cv_intents v) \<and>
     (\<forall>x y. ev = Updated x y \<longrightarrow> om_generation (si_meta x) = om_generation (si_meta y) \<longrightarrow> si_spec x = si_spec y)"
| "server_event v (PolicyEvent ev) \<longleftrightarrow>
     replaces (full_name \<circ> sp_meta) ev (cv_policies v) \<and>
     (\<forall>x y. ev = Updated x y \<longrightarrow> om_generation (sp_meta x) = om_generation (sp_meta y) \<longrightarrow> sp_spec x = sp_spec y)"

subsection \<open>Events that are filtered out\<close>

lemma find_map_key:
  "(\<And>x. key (f x) = key x) \<Longrightarrow>
   List.find (\<lambda>x. key x = n) (map f xs) = map_option f (List.find (\<lambda>x. key x = n) xs)"
  by (induction xs) auto

lemma map_filter_map_key:
  "(\<And>x. x \<in> set xs \<Longrightarrow> Q (f x) = Q x \<and> g (f x) = g x) \<Longrightarrow>
   map g (filter Q (map f xs)) = map g (filter Q xs)"
  by (induction xs) auto

lemma aim_cong:
  assumes "\<And>n. enforcement_requests (intents_in v n) (policies_in v n) =
    enforcement_requests (intents_in v' n) (policies_in v' n)"
  shows "aim cp v = aim cp v'"
  by (rule ext) (simp only: aim_def assms)

lemma desired_of_cong:
  assumes "wf_profile_maps (cps_namespace_rules (cp_spec cp)) (cps_system_namespaces (cp_spec cp))"
    and "wf_map (om_annotations x)" "wf_map (om_annotations y)" "om_name x = om_name y"
    and "map_of (om_labels x) = map_of (om_labels y)" "map_of (om_annotations x) = map_of (om_annotations y)"
  shows "d_managed (desired_of cp x) = d_managed (desired_of cp y)"
    "map_of (d_labels (desired_of cp x)) = map_of (d_labels (desired_of cp y))"
    "d_enforcement_mode (desired_of cp x) = d_enforcement_mode (desired_of cp y)"
  using ComputeDesiredCWP_cong [OF assms(1-3,6,5), of "om_name x"] by (simp_all add: Let_def assms(4))

lemma namespace_update_same:
  assumes "wf_profile_maps (cps_namespace_rules (cp_spec cp)) (cps_system_namespaces (cp_spec cp))"
    and "wf_map (om_annotations x)" "wf_map (om_annotations y)"
    and "map_of (om_labels x) = map_of (om_labels y)" "map_of (om_annotations x) = map_of (om_annotations y)"
    and "replaces om_name (Updated x y) (cv_namespaces v)"
  shows "target cp (view_after (NamespaceEvent (Updated x y)) v) n = target cp v n"
proof -
  let ?f = "\<lambda>z. if om_name z = om_name y then y else z"
  have "aim cp v (?f z) = aim cp v z" if "z \<in> set (cv_namespaces v)" for z
    using assms(6) that desired_of_cong [OF assms(1,2,3) _ assms(4,5)]
    by (auto simp: aim_def Let_def)
  moreover have "z \<in> set (cv_namespaces v)"
    if "List.find (\<lambda>ns. om_name ns = n) (cv_namespaces v) = Some z" for z
    using find_SomeD [OF that] by simp
  ultimately have "map_option (aim cp v) (map_option ?f (List.find (\<lambda>ns. om_name ns = n) (cv_namespaces v))) =
      map_option (aim cp v) (List.find (\<lambda>ns. om_name ns = n) (cv_namespaces v))"
    by (cases "List.find (\<lambda>ns. om_name ns = n) (cv_namespaces v)") simp_all
  moreover have "aim cp (v\<lparr>cv_namespaces := nss\<rparr>) = aim cp v" for nss by (rule aim_cong) simp
  ultimately show ?thesis by (simp add: target_def find_map_key)
qed

lemma intent_update_same:
  assumes "replaces (full_name \<circ> si_meta) (Updated x y) (cv_intents v)" "si_spec x = si_spec y"
  shows "target cp (view_after (IntentEvent (Updated x y)) v) = target cp v"
proof -
  have "map (\<lambda>i. (om_name (si_meta i), sis_enforcement (si_spec i))) (filter (\<lambda>i. om_namespace (si_meta i) = n)
       (map (\<lambda>z. if (full_name \<circ> si_meta) z = (full_name \<circ> si_meta) y then y else z) (cv_intents v))) =
     map (\<lambda>i. (om_name (si_meta i), sis_enforcement (si_spec i))) (intents_in v n)" for n
    using assms by (intro map_filter_map_key) auto
  then have "aim cp (view_after (IntentEvent (Updated x y)) v) = aim cp v"
    by (intro aim_cong) (simp add: enforcement_requests_def)
  then show ?thesis by (intro ext) (simp add: target_def)
qed

lemma policy_update_same:
  assumes "replaces (full_name \<circ> sp_meta) (Updated x y) (cv_policies v)" "sp_spec x = sp_spec y"
  shows "target cp (view_after (PolicyEvent (Updated x y)) v) = target cp v"
proof -
  have "map (\<lambda>i. (om_name (sp_meta i), sps_enforcement (sp_spec i))) (filter (\<lambda>i. om_namespace (sp_meta i) = n)
       (map (\<lambda>z. if (full_name \<circ> sp_meta) z = (full_name \<circ> sp_meta) y then y else z) (cv_policies v))) =
     map (\<lambda>i. (om_name (sp_meta i), sps_enforcement (sp_spec i))) (policies_in v n)" for n
    using assms by (intro map_filter_map_key) auto
  then have "aim cp (view_after (PolicyEvent (Updated x y)) v) = aim cp v"
    by (intro aim_cong) (simp add: enforcement_requests_def)
  then show ?thesis by (intro ext) (simp add: target_def)
qed

definition filtered_out :: "watch_lib \<Rightarrow> cluster_event \<Rightarrow> bool" where
  "filtered_out lib ev \<longleftrightarrow>
     (case ev of NamespaceEvent e \<Rightarrow> \<not> label_changed lib e \<and> \<not> annotation_changed lib e
      | _ \<Rightarrow> \<not> generation_changed lib (event_meta ev))"

lemma enqueued_profiles:
  assumes "watch_laws lib" "run_state (k_list_profiles k) w = (Inr cps, w')" "\<not> filtered_out lib ev"
  shows "fst (run_state (enqueued lib k (ClusterProfile_watches lib) (event_kind ev) (event_meta ev)) w) =
    map (\<lambda>cp. ('''', om_name (cp_meta cp))) cps"
  using assms
  by (cases ev) (auto simp: ClusterProfile_watches_def clusterProfilesForNamespace_def filtered_out_def
      watch_laws_def)

lemma watch_lawsD:
  assumes "watch_laws lib"
  shows "\<not> label_changed lib ev \<Longrightarrow>
      \<exists>x y. ev = Updated x y \<and> map_of (om_labels x) = map_of (om_labels y)"
    "\<not> annotation_changed lib ev \<Longrightarrow>
      \<exists>x y. ev = Updated x y \<and> map_of (om_annotations x) = map_of (om_annotations y)"
    "\<not> generation_changed lib ev \<Longrightarrow> \<exists>x y. ev = Updated x y \<and> om_generation x = om_generation y"
  using assms unfolding watch_laws_def by blast+

lemma map_event_Updated:
  "map_event f e = Updated m m' \<longleftrightarrow> (\<exists>x y. e = Updated x y \<and> m = f x \<and> m' = f y)"
  by (cases e) auto

lemma filtered_out_same:
  assumes "watch_laws lib" "server_event v ev" "filtered_out lib ev"
    and wf: "wf_profile_maps (cps_namespace_rules (cp_spec cp)) (cps_system_namespaces (cp_spec cp))"
  shows "target cp (view_after ev v) = target cp v"
proof (cases ev)
  case (NamespaceEvent e)
  with assms(3) have "\<not> label_changed lib e" "\<not> annotation_changed lib e"
    by (simp_all add: filtered_out_def)
  from watch_lawsD(1) [OF assms(1) this(1)] watch_lawsD(2) [OF assms(1) this(2)]
  obtain x y where e: "e = Updated x y"
    and same: "map_of (om_labels x) = map_of (om_labels y)" "map_of (om_annotations x) = map_of (om_annotations y)"
    by auto
  from assms(2) have "wf_map (om_annotations x)" "wf_map (om_annotations y)"
    "replaces om_name (Updated x y) (cv_namespaces v)"
    by (simp_all add: NamespaceEvent e)
  from namespace_update_same [OF wf this(1,2) same this(3)] show ?thesis
    unfolding NamespaceEvent e by (rule ext)
next
  case (IntentEvent e)
  with assms(3) have "\<not> generation_changed lib (map_event si_meta e)"
    by (simp add: filtered_out_def)
  from watch_lawsD(3) [OF assms(1) this] assms(2) show ?thesis
    unfolding IntentEvent by (auto simp del: view_after.simps simp: map_event_Updated intro!: intent_update_same)
next
  case (PolicyEvent e)
  with assms(3) have "\<not> generation_changed lib (map_event sp_meta e)"
    by (simp add: filtered_out_def)
  from watch_lawsD(3) [OF assms(1) this] assms(2) show ?thesis
    unfolding PolicyEvent by (auto simp del: view_after.simps simp: map_event_Updated intro!: policy_update_same)
qed


subsection \<open>Properties\<close>

text \<open>
  C16: No missed change. An event of a namespace or of a policy resource that the
  ClusterProfile controller watches either enqueues every profile, or it is filtered out,
  and then what each profile brings each namespace to is the same before and after it:
  the filters on labels, annotations and generations drop nothing that matters.
\<close>
theorem no_missed_change:
  assumes "watch_laws lib" and "server_event v ev" and "run_state (k_list_profiles k) w = (Inr cps, w')"
    and "wf_profile_maps (cps_namespace_rules (cp_spec cp)) (cps_system_namespaces (cp_spec cp))"
  shows "fst (run_state (enqueued lib k (ClusterProfile_watches lib) (event_kind ev) (event_meta ev)) w) =
      map (\<lambda>cp. ('''', om_name (cp_meta cp))) cps
    \<or> target cp (view_after ev v) = target cp v"
  using enqueued_profiles [OF assms(1,3)] filtered_out_same [OF assms(1,2) _ assms(4)] by blast

definition sim_watch_lib :: watch_lib where
  "sim_watch_lib =
     \<lparr>label_changed = (\<lambda>ev. case ev of Updated x y \<Rightarrow> om_labels x \<noteq> om_labels y | _ \<Rightarrow> True),
      annotation_changed = (\<lambda>ev. case ev of Updated x y \<Rightarrow> om_annotations x \<noteq> om_annotations y | _ \<Rightarrow> True),
      generation_changed = (\<lambda>ev. case ev of Updated x y \<Rightarrow> om_generation x \<noteq> om_generation y | _ \<Rightarrow> True),
      or_predicate = (\<lambda>ps ev. list_ex (\<lambda>p. p ev) ps),
      request_for_object = (\<lambda>ev. [full_name (event_object ev)])\<rparr>"

lemma sim_watch_laws: "watch_laws sim_watch_lib"
  by (auto simp: watch_laws_def sim_watch_lib_def list_ex_iff Let_def split: event.splits)

text \<open>An update of the status alone enqueues nothing and changes no target.\<close>

theorem no_missed_change_witness:
  "let old = sim_intent ''i'' ''full'';
       new = old\<lparr>si_status := (si_status old)\<lparr>ss_workloads_affected := 7\<rparr>\<rparr>;
       ev = IntentEvent (Updated old new); cp = sim_profile ''auto'';
       v = \<lparr>cv_namespaces = [sim_meta ''shop''], cv_intents = [old], cv_policies = []\<rparr>
   in fst (run_state (enqueued sim_watch_lib (sim_kube [cp] [] [] []) (ClusterProfile_watches sim_watch_lib)
             (event_kind ev) (event_meta ev)) ()) = [] \<and>
      target cp (view_after ev v) = target cp v"
proof -
  let ?old = "sim_intent ''i'' ''full''"
  let ?new = "?old\<lparr>si_status := (si_status ?old)\<lparr>ss_workloads_affected := 7\<rparr>\<rparr>"
  let ?ev = "IntentEvent (Updated ?old ?new)" and ?cp = "sim_profile ''auto''"
  let ?v = "\<lparr>cv_namespaces = [sim_meta ''shop''], cv_intents = [?old], cv_policies = []\<rparr>"
  let ?k = "sim_kube [?cp] [] [] [] :: unit kube"
  let ?run = "fst (run_state (enqueued sim_watch_lib ?k (ClusterProfile_watches sim_watch_lib)
             (event_kind ?ev) (event_meta ?ev)) ())"
  have ev: "server_event ?v ?ev" by simp
  have list: "run_state (k_list_profiles ?k) () = (Inr [?cp], ())" by (simp add: sim_kube_def)
  have wf: "wf_profile_maps (cps_namespace_rules (cp_spec ?cp)) (cps_system_namespaces (cp_spec ?cp))"
    by (simp add: wf_profile_maps_def sim_profile_def)
  have none: "?run = []"
    by (simp add: ClusterProfile_watches_def sim_watch_lib_def)
  from no_missed_change [OF sim_watch_laws ev list wf] none
  have "target ?cp (view_after ?ev ?v) = target ?cp ?v" by simp
  with none show ?thesis by (simp only: Let_def simp_thms)
qed

end
