(* ===== verification/Manager_Setup.thy ===== *)
theory Manager_Setup
  imports Watches
begin

section \<open>The process entry point (cmd/main.go)\<close>

text \<open>
  \<open>main\<close> parses the command line, derives the options of the metrics and webhook servers,
  builds the manager, registers the six controllers and two probes and starts the manager.
  Every step that fails ends the process with exit code 1. The flags that other packages
  register on the same flag set (zap's and \<open>kubeconfig\<close>) are the parameter \<open>foreign\<close>; the
  manager is the parameter \<open>call\<close>.
\<close>

subsection \<open>The command line\<close>

record flags =
  fl_metrics_addr :: string
  fl_probe_addr :: string
  fl_leader_elect :: bool
  fl_metrics_secure :: bool
  fl_webhook_cert_path :: string
  fl_webhook_cert_name :: string
  fl_webhook_cert_key :: string
  fl_metrics_cert_path :: string
  fl_metrics_cert_name :: string
  fl_metrics_cert_key :: string
  fl_enable_http2 :: bool

definition default_flags :: flags where
  "default_flags =
     \<lparr>fl_metrics_addr = ''0'', fl_probe_addr = '':8081'', fl_leader_elect = False,
      fl_metrics_secure = True,
      fl_webhook_cert_path = '''', fl_webhook_cert_name = ''tls.crt'', fl_webhook_cert_key = ''tls.key'',
      fl_metrics_cert_path = '''', fl_metrics_cert_name = ''tls.crt'', fl_metrics_cert_key = ''tls.key'',
      fl_enable_http2 = False\<rparr>"

datatype flag_var = StringVar "string \<Rightarrow> flags \<Rightarrow> flags" | BoolVar "bool \<Rightarrow> flags \<Rightarrow> flags"
  | ForeignFlag bool "string \<Rightarrow> bool" \<comment> \<open>boolean or not, the values it accepts\<close>

definition main_flags :: "(string \<times> flag_var) list" where
  "main_flags =
     [(''metrics-bind-address'', StringVar (\<lambda>v. fl_metrics_addr_update (\<lambda>_. v))),
      (''health-probe-bind-address'', StringVar (\<lambda>v. fl_probe_addr_update (\<lambda>_. v))),
      (''leader-elect'', BoolVar (\<lambda>b. fl_leader_elect_update (\<lambda>_. b))),
      (''metrics-secure'', BoolVar (\<lambda>b. fl_metrics_secure_update (\<lambda>_. b))),
      (''webhook-cert-path'', StringVar (\<lambda>v. fl_webhook_cert_path_update (\<lambda>_. v))),
      (''webhook-cert-name'', StringVar (\<lambda>v. fl_webhook_cert_name_update (\<lambda>_. v))),
      (''webhook-cert-key'', StringVar (\<lambda>v. fl_webhook_cert_key_update (\<lambda>_. v))),
      (''metrics-cert-path'', StringVar (\<lambda>v. fl_metrics_cert_path_update (\<lambda>_. v))),
      (''metrics-cert-name'', StringVar (\<lambda>v. fl_metrics_cert_name_update (\<lambda>_. v))),
      (''metrics-cert-key'', StringVar (\<lambda>v. fl_metrics_cert_key_update (\<lambda>_. v))),
      (''enable-http2'', BoolVar (\<lambda>b. fl_enable_http2_update (\<lambda>_. b)))]"

text \<open>The parser of Go's \<open>flag\<close> package.\<close>

definition parse_bool :: "string \<Rightarrow> bool option" where
  \<comment> \<open>\<open>strconv.ParseBool\<close>\<close>
  "parse_bool v =
     (if v \<in> {''1'', ''t'', ''T'', ''true'', ''TRUE'', ''True''} then Some True
      else if v \<in> {''0'', ''f'', ''F'', ''false'', ''FALSE'', ''False''} then Some False
      else None)"

datatype argument = NoFlag | Terminator | BadFlag | FlagArg string "string option"

definition split_argument :: "string \<Rightarrow> argument" where
  \<comment> \<open>one or two dashes, a name, and a value after the first equals sign\<close>
  "split_argument s =
     (if length s < 2 \<or> hd s \<noteq> CHR ''-'' then NoFlag
      else if s = ''--'' then Terminator
      else let name = (if s ! 1 = CHR ''-'' then drop 2 s else drop 1 s) in
        if name = [] \<or> hd name = CHR ''-'' \<or> hd name = CHR ''='' then BadFlag
        else let n = takeWhile (\<lambda>c. c \<noteq> CHR ''='') name in
          FlagArg n (if length n < length name then Some (drop (length n + 1) name) else None))"

definition set_flag :: "flag_var \<Rightarrow> string \<Rightarrow> flags \<Rightarrow> flags option" where
  "set_flag var v fl =
     (case var of
        StringVar f \<Rightarrow> Some (f v fl)
      | BoolVar f \<Rightarrow> map_option (\<lambda>b. f b fl) (parse_bool v)
      | ForeignFlag _ accepts \<Rightarrow> if accepts v then Some fl else None)"

fun is_bool_flag :: "flag_var \<Rightarrow> bool" where
  "is_bool_flag (StringVar _) = False"
| "is_bool_flag (BoolVar _) = True"
| "is_bool_flag (ForeignFlag b _) = b"

fun parse_flags :: "(string \<Rightarrow> flag_var option) \<Rightarrow> string list \<Rightarrow> flags \<Rightarrow> int + flags" where
  \<comment> \<open>\<open>flag.Parse\<close> of a flag set that exits on error: \<open>Inl\<close> the exit code\<close>
  "parse_flags lookup [] fl = Inr fl"
| "parse_flags lookup (a # args) fl =
     (case split_argument a of
        NoFlag \<Rightarrow> Inr fl
      | Terminator \<Rightarrow> Inr fl
      | BadFlag \<Rightarrow> Inl 2
      | FlagArg n value \<Rightarrow>
          (case lookup n of
             None \<Rightarrow> Inl (if n = ''help'' \<or> n = ''h'' then 0 else 2)
           | Some var \<Rightarrow>
               (case (value, is_bool_flag var) of
                  (Some v, _) \<Rightarrow>
                    (case set_flag var v fl of Some fl \<Rightarrow> parse_flags lookup args fl | None \<Rightarrow> Inl 2)
                | (None, True) \<Rightarrow>
                    (case set_flag var ''true'' fl of Some fl \<Rightarrow> parse_flags lookup args fl | None \<Rightarrow> Inl 2)
                | (None, False) \<Rightarrow>
                    (case args of
                       [] \<Rightarrow> Inl 2
                     | v # rest \<Rightarrow>
                         (case set_flag var v fl of
                            Some fl \<Rightarrow> parse_flags lookup rest fl | None \<Rightarrow> Inl 2)))))"

type_synonym foreign_flags = "string \<Rightarrow> (bool \<times> (string \<Rightarrow> bool)) option"

definition command_line :: "foreign_flags \<Rightarrow> string \<Rightarrow> flag_var option" where
  \<comment> \<open>the flags of \<open>main\<close> and those of the other packages on \<open>flag.CommandLine\<close>\<close>
  "command_line foreign n =
     (case map_of main_flags n of
        Some v \<Rightarrow> Some v
      | None \<Rightarrow> map_option (\<lambda>(b, accepts). ForeignFlag b accepts) (foreign n))"


subsection \<open>Server options\<close>

record tls_config =
  tls_next_protos :: "string list"

definition disableHTTP2 :: "tls_config \<Rightarrow> tls_config" where
  "disableHTTP2 c = c\<lparr>tls_next_protos := [''http/1.1'']\<rparr>"

definition tlsOpts :: "flags \<Rightarrow> (tls_config \<Rightarrow> tls_config) list" where
  "tlsOpts fl = (if \<not> fl_enable_http2 fl then [disableHTTP2] else [])"

record server_certs =
  cert_dir :: string
  cert_name :: string
  cert_key :: string

record webhook_options =
  wh_tls_opts :: "(tls_config \<Rightarrow> tls_config) list"
  wh_certs :: "server_certs option" \<comment> \<open>none: the three fields keep their zero values\<close>

definition webhookServerOptions :: "flags \<Rightarrow> webhook_options" where
  "webhookServerOptions fl =
     \<lparr>wh_tls_opts = tlsOpts fl,
      wh_certs =
        (if length (fl_webhook_cert_path fl) > 0
         then Some \<lparr>cert_dir = fl_webhook_cert_path fl, cert_name = fl_webhook_cert_name fl,
                    cert_key = fl_webhook_cert_key fl\<rparr>
         else None)\<rparr>"

record metrics_options =
  ms_bind_address :: string
  ms_secure_serving :: bool
  ms_authenticated :: bool \<comment> \<open>\<open>FilterProvider\<close> is \<open>WithAuthenticationAndAuthorization\<close>\<close>
  ms_tls_opts :: "(tls_config \<Rightarrow> tls_config) list"
  ms_certs :: "server_certs option"

definition metricsServerOptions :: "flags \<Rightarrow> metrics_options" where
  "metricsServerOptions fl =
     \<lparr>ms_bind_address = fl_metrics_addr fl,
      ms_secure_serving = fl_metrics_secure fl,
      ms_authenticated = fl_metrics_secure fl,
      ms_tls_opts = tlsOpts fl,
      ms_certs =
        (if length (fl_metrics_cert_path fl) > 0
         then Some \<lparr>cert_dir = fl_metrics_cert_path fl, cert_name = fl_metrics_cert_name fl,
                    cert_key = fl_metrics_cert_key fl\<rparr>
         else None)\<rparr>"

record mgr_options =
  mo_metrics :: metrics_options
  mo_webhook :: webhook_options
  mo_probe_address :: string
  mo_leader_election :: bool
  mo_leader_election_id :: string

definition manager_options :: "flags \<Rightarrow> mgr_options" where
  "manager_options fl =
     \<lparr>mo_metrics = metricsServerOptions fl, mo_webhook = webhookServerOptions fl,
      mo_probe_address = fl_probe_addr fl, mo_leader_election = fl_leader_elect fl,
      mo_leader_election_id = ''84dc6c97.io''\<rparr>"


subsection \<open>Startup\<close>

datatype reconciler = PCEConnectionReconciler
  | ClusterProfileReconciler string \<comment> \<open>the operator's namespace\<close>
  | SegmentationIntentReconciler | SegmentationPolicyReconciler
  | PolicyInsightReconciler | RuleViewReconciler

datatype startup_call = NewManager mgr_options | SetupWithManager reconciler
  | AddHealthzCheck string | AddReadyzCheck string | StartManager

definition operatorNamespace :: "string \<Rightarrow> string" where
  "operatorNamespace env = (if env = '''' then ''illumio-operator'' else env)"

definition startup_calls :: "flags \<Rightarrow> string \<Rightarrow> startup_call list" where
  \<comment> \<open>the calls of \<open>main\<close> after the flags, in their order; \<open>env\<close> is \<open>POD_NAMESPACE\<close>\<close>
  "startup_calls fl env =
     [NewManager (manager_options fl),
      SetupWithManager PCEConnectionReconciler,
      SetupWithManager (ClusterProfileReconciler (operatorNamespace env)),
      SetupWithManager SegmentationIntentReconciler,
      SetupWithManager SegmentationPolicyReconciler,
      SetupWithManager PolicyInsightReconciler,
      SetupWithManager RuleViewReconciler,
      AddHealthzCheck ''healthz'',
      AddReadyzCheck ''readyz'',
      StartManager]"

fun run_startup :: "(startup_call \<Rightarrow> ('w, go_error option) state) \<Rightarrow> startup_call list \<Rightarrow> ('w, int) state" where
  \<comment> \<open>\<open>if err := ...; err != nil { os.Exit(1) }\<close>, one call after the other\<close>
  "run_startup call [] = ret 0"
| "run_startup call (c # cs) = do {
     err \<leftarrow> call c;
     case err of Some _ \<Rightarrow> ret 1 | None \<Rightarrow> run_startup call cs
   }"

definition main ::
  "foreign_flags \<Rightarrow> (startup_call \<Rightarrow> ('w, go_error option) state) \<Rightarrow> string \<Rightarrow> string list
   \<Rightarrow> ('w, int) state" where
  \<comment> \<open>the exit code\<close>
  "main foreign call env args =
     (case parse_flags (command_line foreign) args default_flags of
        Inl code \<Rightarrow> ret code
      | Inr fl \<Rightarrow> run_startup call (startup_calls fl env))"

fun reconciler_watches :: "watch_lib \<Rightarrow> reconciler \<Rightarrow> watch list" where
  "reconciler_watches lib PCEConnectionReconciler = PCEConnection_watches"
| "reconciler_watches lib (ClusterProfileReconciler _) = ClusterProfile_watches lib"
| "reconciler_watches lib SegmentationIntentReconciler = SegmentationIntent_watches"
| "reconciler_watches lib SegmentationPolicyReconciler = SegmentationPolicy_watches"
| "reconciler_watches lib PolicyInsightReconciler = PolicyInsight_watches"
| "reconciler_watches lib RuleViewReconciler = RuleView_watches"

subsection \<open>What the command line can change\<close>

definition names_flag :: "string \<Rightarrow> string \<Rightarrow> bool" where
  "names_flag n a \<longleftrightarrow> (\<exists>v. split_argument a = FlagArg n v)"
definition flag_keeps :: "(string \<Rightarrow> flag_var option) \<Rightarrow> (flags \<Rightarrow> bool) \<Rightarrow> string \<Rightarrow> bool" where
  "flag_keeps lookup Q n \<longleftrightarrow>
     (\<forall>var v fl fl'. lookup n = Some var \<longrightarrow> set_flag var v fl = Some fl' \<longrightarrow> Q fl \<longrightarrow> Q fl')"

lemma parse_flags_keeps:
  assumes "\<forall>a \<in> set args. \<forall>n. names_flag n a \<longrightarrow> flag_keeps lookup Q n"
    and "parse_flags lookup args fl = Inr fl'" and "Q fl"
  shows "Q fl'"
  using assms
proof (induction lookup args fl rule: parse_flags.induct)
  case (1 lookup fl)
  then show ?case by simp
next
  case (2 lookup a args fl)
  show ?case
  proof (cases "split_argument a")
    case (FlagArg n given)
    then obtain var where var: "lookup n = Some var"
      using 2(5) by (auto split: option.splits)
    have "names_flag n a" using FlagArg by (auto simp: names_flag_def)
    with 2(4,6) var have step: "set_flag var v fl = Some fl1 \<Longrightarrow> Q fl1" for v fl1
      by (auto simp: flag_keeps_def)
    have keep: "\<forall>a \<in> set args. \<forall>n. names_flag n a \<longrightarrow> flag_keeps lookup Q n"
      using 2(4) by simp
    show ?thesis
      using 2(1-3) [OF FlagArg var] 2(5) FlagArg var keep step
      by (auto split: option.splits bool.splits list.splits)
  qed (use 2 in auto)
qed

lemma main_flags_keep:
  assumes "(n, var) \<in> set main_flags" "set_flag var v fl = Some fl'"
  shows "(n \<noteq> ''enable-http2'' \<longrightarrow> fl_enable_http2 fl' = fl_enable_http2 fl) \<and>
    (n \<noteq> ''metrics-secure'' \<longrightarrow> fl_metrics_secure fl' = fl_metrics_secure fl) \<and>
    (n \<noteq> ''metrics-bind-address'' \<longrightarrow> fl_metrics_addr fl' = fl_metrics_addr fl)"
  using assms unfolding main_flags_def list.set insert_iff empty_iff
  by (elim disjE) (auto simp: set_flag_def)

lemma command_line_keeps:
  assumes "\<And>fl fl' var v. (n, var) \<in> set main_flags \<Longrightarrow> set_flag var v fl = Some fl' \<Longrightarrow> f fl' = f fl"
  shows "flag_keeps (command_line foreign) (\<lambda>fl. f fl = c) n"
  using assms
  by (auto simp: flag_keeps_def command_line_def set_flag_def dest!: map_of_SomeD split: option.splits if_splits)

lemma flag_keeps_defaults:
  "n \<noteq> ''enable-http2'' \<Longrightarrow> flag_keeps (command_line foreign) (\<lambda>fl. fl_enable_http2 fl = False) n"
  "n \<noteq> ''metrics-secure'' \<Longrightarrow> flag_keeps (command_line foreign) (\<lambda>fl. fl_metrics_secure fl = True) n"
  "n \<noteq> ''metrics-bind-address'' \<Longrightarrow> flag_keeps (command_line foreign) (\<lambda>fl. fl_metrics_addr fl = ''0'') n"
  by (rule command_line_keeps, use main_flags_keep in blast)+

text \<open>The protocols a server offers: the options are applied in turn to its base configuration.\<close>

definition served_protocols :: "(tls_config \<Rightarrow> tls_config) list \<Rightarrow> tls_config \<Rightarrow> string list" where
  "served_protocols opts base = tls_next_protos (fold (\<lambda>f c. f c) opts base)"


subsection \<open>The calls of a startup\<close>

definition logged_call ::
  "(startup_call \<Rightarrow> ('w, go_error option) state) \<Rightarrow> startup_call
   \<Rightarrow> ('w \<times> (startup_call \<times> bool) list, go_error option) state" where
  \<comment> \<open>record each call and whether it succeeded\<close>
  "logged_call call c = State (\<lambda>(w, log).
     case run_state (call c) w of (err, w') \<Rightarrow> (err, w', log @ [(c, err = None)]))"

lemma run_logged_call:
  "run_state (logged_call call c) (w, log) =
     (case run_state (call c) w of (err, w') \<Rightarrow> (err, w', log @ [(c, err = None)]))"
  by (simp add: logged_call_def)

lemma run_startup_log:
  "run_state (run_startup (logged_call call) cs) (w, log) = (code, w', log') \<Longrightarrow>
   \<exists>ok failed. log' = log @ map (\<lambda>c. (c, True)) ok @ map (\<lambda>c. (c, False)) failed \<and>
     (code = 0 \<and> ok = cs \<and> failed = [] \<or> code = 1 \<and> (\<exists>c rest. failed = [c] \<and> cs = ok @ c # rest))"
proof (induction cs arbitrary: w log)
  case Nil
  then show ?case by simp
next
  case (Cons c cs)
  obtain err w1 where call: "run_state (call c) w = (err, w1)" by fastforce
  show ?case
  proof (cases err)
    case None
    with Cons.prems call
    have "run_state (run_startup (logged_call call) cs) (w1, log @ [(c, True)]) = (code, w', log')"
      by (simp add: run_logged_call)
    from Cons.IH [OF this] obtain ok failed where
      "log' = log @ map (\<lambda>c. (c, True)) (c # ok) @ map (\<lambda>c. (c, False)) failed"
      "code = 0 \<and> ok = cs \<and> failed = [] \<or> code = 1 \<and> (\<exists>c rest. failed = [c] \<and> cs = ok @ c # rest)"
      by auto
    then show ?thesis by (intro exI [of _ "c # ok"] exI [of _ failed]) auto
  next
    case (Some e)
    with Cons.prems call show ?thesis
      by (intro exI [of _ "[]"] exI [of _ "[c]"]) (auto simp: run_logged_call)
  qed
qed
lemma startup_log:
  assumes "run_state (main foreign (logged_call call) env args) (w, []) = (code, w', log)" "log \<noteq> []"
  shows "\<exists>fl ok failed. log = map (\<lambda>c. (c, True)) ok @ map (\<lambda>c. (c, False)) failed \<and>
    (code = 0 \<and> ok = startup_calls fl env \<and> failed = [] \<or>
     code = 1 \<and> (\<exists>c rest. failed = [c] \<and> startup_calls fl env = ok @ c # rest))"
proof -
  obtain fl where "run_state (run_startup (logged_call call) (startup_calls fl env)) (w, []) = (code, w', log)"
    using assms by (auto simp: main_def split: sum.splits)
  from run_startup_log [OF this] show ?thesis unfolding append_Nil by blast
qed

text \<open>The manager is the last call, so it is only made when the others succeeded.\<close>

definition before_manager :: "flags \<Rightarrow> string \<Rightarrow> startup_call list" where
  "before_manager fl env = butlast (startup_calls fl env)"

lemma startup_calls_split: "startup_calls fl env = before_manager fl env @ [StartManager]"
  by (simp add: before_manager_def startup_calls_def)

lemma StartManager_last: "StartManager \<notin> set (before_manager fl env)"
  by (simp add: before_manager_def startup_calls_def)

lemma started_log:
  assumes "run_state (main foreign (logged_call call) env args) (w, []) = (code, w', log)"
    and "(StartManager, ok) \<in> set log"
  shows "\<exists>fl. log = map (\<lambda>c. (c, True)) (before_manager fl env) @ [(StartManager, ok)] \<and> (code = 0 \<longleftrightarrow> ok)"
proof -
  from assms(2) have "log \<noteq> []" by auto
  from startup_log [OF assms(1) this] obtain fl before failed where
    log: "log = map (\<lambda>c. (c, True)) before @ map (\<lambda>c. (c, False)) failed" and
    "code = 0 \<and> before = startup_calls fl env \<and> failed = [] \<or>
     code = 1 \<and> (\<exists>c rest. failed = [c] \<and> startup_calls fl env = before @ c # rest)" by blast
  then consider "code = 0" "before = startup_calls fl env" "failed = []"
    | c rest where "code = 1" "failed = [c]" "startup_calls fl env = before @ c # rest" by blast
  then show ?thesis
  proof cases
    case 1
    with log assms(2) StartManager_last [of fl env] show ?thesis
      by (intro exI [of _ fl]) (auto simp: startup_calls_split)
  next
    case 2
    have "StartManager \<in> set (before @ [c])"
      using assms(2) by (auto simp: log 2(2))
    with 2(3) StartManager_last [of fl env] have "rest = []" "c = StartManager" "before = before_manager fl env"
      unfolding startup_calls_split by (auto simp: append_eq_append_conv2 Cons_eq_append_conv append_eq_Cons_conv)
    with 2 log assms(2) StartManager_last [of fl env] show ?thesis
      by (intro exI [of _ fl]) auto
  qed
qed

text \<open>The controller of each kind of custom resource.\<close>

fun own_reconciler :: "string \<Rightarrow> kind \<Rightarrow> reconciler" where
  "own_reconciler env KPCEConnection = PCEConnectionReconciler"
| "own_reconciler env KClusterProfile = ClusterProfileReconciler (operatorNamespace env)"
| "own_reconciler env KSegmentationIntent = SegmentationIntentReconciler"
| "own_reconciler env KSegmentationPolicy = SegmentationPolicyReconciler"
| "own_reconciler env KPolicyInsight = PolicyInsightReconciler"
| "own_reconciler env _ = RuleViewReconciler"

lemma own_reconciler_registered:
  "SetupWithManager (own_reconciler env kd) \<in> set (before_manager fl env)"
  by (cases kd) (simp_all add: before_manager_def startup_calls_def)

lemma own_reconciler_watches:
  "kd \<noteq> KNamespace \<Longrightarrow> \<exists>ws. reconciler_watches lib (own_reconciler env kd) = For kd # ws"
  by (cases kd)
    (simp_all add: PCEConnection_watches_def ClusterProfile_watches_def SegmentationIntent_watches_def
      SegmentationPolicy_watches_def PolicyInsight_watches_def RuleView_watches_def)

lemma own_request_enqueued:
  assumes "watch_laws lib" "kd \<noteq> KNamespace"
  shows "full_name (event_object ev) \<in>
    set (fst (run_state (enqueued lib k (reconciler_watches lib (own_reconciler env kd)) kd ev) w))"
proof -
  obtain ws where "reconciler_watches lib (own_reconciler env kd) = For kd # ws"
    using own_reconciler_watches [OF assms(2)] by blast
  moreover have "full_name (event_object ev) \<in> set (request_for_object lib ev)"
    using assms(1) by (simp add: watch_laws_def Let_def)
  ultimately show ?thesis by (simp add: split_beta)
qed

subsection \<open>Properties\<close>

text \<open>
  C38: Secure by default. Unless an argument names the flag that loosens it, the metrics
  server is not served at all, or (with an address) over TLS behind authentication and
  authorization, and neither it nor the webhook server offers HTTP/2, whatever the
  servers' own TLS configuration is and whatever the other flags are.
\<close>
theorem secure_by_default:
  assumes "parse_flags (command_line foreign) args default_flags = Inr fl"
  shows "((\<forall>a \<in> set args. \<not> names_flag ''enable-http2'' a) \<longrightarrow>
      served_protocols (ms_tls_opts (mo_metrics (manager_options fl))) base = [''http/1.1''] \<and>
      served_protocols (wh_tls_opts (mo_webhook (manager_options fl))) base = [''http/1.1'']) \<and>
    ((\<forall>a \<in> set args. \<not> names_flag ''metrics-secure'' a) \<longrightarrow>
      ms_secure_serving (mo_metrics (manager_options fl)) \<and> ms_authenticated (mo_metrics (manager_options fl))) \<and>
    ((\<forall>a \<in> set args. \<not> names_flag ''metrics-bind-address'' a) \<longrightarrow>
      ms_bind_address (mo_metrics (manager_options fl)) = ''0'')"
proof -
  have keeps: "Q fl" if "Q default_flags" "\<And>m. m \<noteq> n \<Longrightarrow> flag_keeps (command_line foreign) Q m"
    "\<forall>a \<in> set args. \<not> names_flag n a" for Q n
    by (rule parse_flags_keeps [OF _ assms]) (use that in metis)+
  note opts = manager_options_def metricsServerOptions_def webhookServerOptions_def tlsOpts_def
    served_protocols_def disableHTTP2_def
  show ?thesis
    using keeps [OF _ flag_keeps_defaults(1)] keeps [OF _ flag_keeps_defaults(2)]
      keeps [OF _ flag_keeps_defaults(3)]
    by (simp add: default_flags_def opts)
qed

text \<open>
  C37: The manager starts last and serves everything. When it is started, both probes are
  set up, every earlier call succeeded, and every event of a custom resource puts the
  resource's own request on the queue of a controller that was registered; the process
  ends with exit code 0 exactly when the manager ran without an error.
\<close>
theorem started_manager_serves:
  assumes "watch_laws lib"
    and "run_state (main foreign (logged_call call) env args) (w, []) = (code, w', log)"
    and "(StartManager, ok) \<in> set log"
  shows "(AddHealthzCheck ''healthz'', True) \<in> set log \<and> (AddReadyzCheck ''readyz'', True) \<in> set log \<and>
    (\<forall>(c, r) \<in> set log. c \<noteq> StartManager \<longrightarrow> r) \<and> (code = 0 \<longleftrightarrow> ok) \<and>
    (\<forall>kd. kd \<noteq> KNamespace \<longrightarrow> (\<exists>rc. (SetupWithManager rc, True) \<in> set log \<and>
       (\<forall>(k :: 'v kube) ev w. full_name (event_object ev) \<in>
          set (fst (run_state (enqueued lib k (reconciler_watches lib rc) kd ev) w)))))"
proof -
  obtain fl where log: "log = map (\<lambda>c. (c, True)) (before_manager fl env) @ [(StartManager, ok)]"
    and code: "code = 0 \<longleftrightarrow> ok" using started_log [OF assms(2,3)] by blast
  have "AddHealthzCheck ''healthz'' \<in> set (before_manager fl env)"
    "AddReadyzCheck ''readyz'' \<in> set (before_manager fl env)"
    by (simp_all add: before_manager_def startup_calls_def)
  moreover have "\<exists>rc. (SetupWithManager rc, True) \<in> set log \<and> (\<forall>(k :: 'v kube) ev w. full_name (event_object ev) \<in>
          set (fst (run_state (enqueued lib k (reconciler_watches lib rc) kd ev) w)))"
    if "kd \<noteq> KNamespace" for kd
    using own_reconciler_registered [of env kd fl] own_request_enqueued [OF assms(1) that]
    by (intro exI [of _ "own_reconciler env kd"]) (auto simp: log simp del: enqueued.simps)
  ultimately show ?thesis using code by (simp add: log image_iff)
qed

text \<open>Leader election and an address for the metrics, with one of zap's flags in between.\<close>

definition sim_args :: "string list" where
  "sim_args = [''--leader-elect'', ''-metrics-bind-address'', '':8443'', ''--zap-devel=true'', ''--'', ''-enable'']"

definition sim_foreign :: foreign_flags where
  "sim_foreign n = (if n = ''zap-devel'' then Some (True, \<lambda>v. parse_bool v \<noteq> None) else None)"

theorem secure_by_default_witness:
  "case parse_flags (command_line sim_foreign) sim_args default_flags of
     Inl _ \<Rightarrow> False
   | Inr fl \<Rightarrow> ms_bind_address (mo_metrics (manager_options fl)) = '':8443'' \<and>
       mo_leader_election (manager_options fl) \<and>
       ms_authenticated (mo_metrics (manager_options fl)) \<and>
       served_protocols (wh_tls_opts (mo_webhook (manager_options fl))) \<lparr>tls_next_protos = [''h2'']\<rparr> = [''http/1.1'']"
proof -
  let ?fl = "default_flags\<lparr>fl_leader_elect := True, fl_metrics_addr := '':8443''\<rparr>"
  have parse: "parse_flags (command_line sim_foreign) sim_args default_flags = Inr ?fl" by code_simp
  have http2: "\<forall>a \<in> set sim_args. \<not> names_flag ''enable-http2'' a"
    and secure: "\<forall>a \<in> set sim_args. \<not> names_flag ''metrics-secure'' a"
    by (simp_all add: sim_args_def names_flag_def split_argument_def)
  from secure_by_default [OF parse, of "\<lparr>tls_next_protos = [''h2'']\<rparr>"] http2 secure
  have "ms_authenticated (mo_metrics (manager_options ?fl)) \<and>
    served_protocols (wh_tls_opts (mo_webhook (manager_options ?fl))) \<lparr>tls_next_protos = [''h2'']\<rparr> = [''http/1.1'']"
    by blast
  then show ?thesis
    unfolding parse by (simp add: manager_options_def metricsServerOptions_def)
qed

theorem started_manager_serves_witness:
  "let log = snd (snd (run_state (main sim_foreign (logged_call (\<lambda>_. ret None)) '''' sim_args) ((), [])))
   in (StartManager, True) \<in> set log \<and>
      (\<exists>rc. (SetupWithManager rc, True) \<in> set log \<and>
         (\<exists>ev. set (fst (run_state (enqueued sim_watch_lib (sim_kube [] [] [] [] :: unit kube)
            (reconciler_watches sim_watch_lib rc) KRuleView ev) ())) \<noteq> {}))"
proof -
  let ?run = "run_state (main sim_foreign (logged_call (\<lambda>_. ret None)) '''' sim_args) ((), [])"
  obtain code log where run: "?run = (code, (), log)" by (cases "?run") (auto)
  have "list_ex (\<lambda>(c, r). (case c of StartManager \<Rightarrow> r | _ \<Rightarrow> False)) (snd (snd ?run))"
    by code_simp
  then obtain c r where "(c, r) \<in> set log" and c: "case c of StartManager \<Rightarrow> r | _ \<Rightarrow> False"
    by (auto simp: run list_ex_iff)
  then have started: "(StartManager, True) \<in> set log" by (cases c) auto
  from started_manager_serves [OF sim_watch_laws run this]
  obtain rc where "(SetupWithManager rc, True) \<in> set log" and
    "\<And>(k :: unit kube) ev w. full_name (event_object ev) \<in>
      set (fst (run_state (enqueued sim_watch_lib k (reconciler_watches sim_watch_lib rc) KRuleView ev) w))"
    by (metis kind.distinct(11))
  with started run show ?thesis unfolding Let_def by (metis empty_iff snd_conv)
qed

end
