(* ===== verification/Go_Time.thy ===== *)
theory Go_Time
  imports Api_Types
begin

section \<open>Go's calendar and RFC 3339 times\<close>

text \<open>
  The traffic query prints its window with \<open>Format(time.RFC3339)\<close> and reads back the last
  detection of a flow with \<open>time.Parse\<close>. Both are modelled on instants, in nanoseconds since
  the Unix epoch, over the proleptic Gregorian calendar; days are counted from January 1 of
  year 1. \<open>parse_rfc3339_format\<close> says that a printed time reads back to the second.
\<close>

subsection \<open>The calendar\<close>

definition leap_year :: "int \<Rightarrow> bool" where
  "leap_year y \<longleftrightarrow> 4 dvd y \<and> (\<not> 100 dvd y \<or> 400 dvd y)"

definition days_in_year :: "int \<Rightarrow> nat" where
  "days_in_year y = (if leap_year y then 366 else 365)"

definition days_in_month :: "int \<Rightarrow> nat \<Rightarrow> nat" where
  "days_in_month y m =
     (if m = 2 then (if leap_year y then 29 else 28)
      else if m \<in> {4, 6, 9, 11} then 30 else 31)"

definition days_before_year :: "int \<Rightarrow> int" where
  "days_before_year y = 365 * (y - 1) + (y - 1) div 4 - (y - 1) div 100 + (y - 1) div 400"

fun days_before_month :: "int \<Rightarrow> nat \<Rightarrow> nat" where
  "days_before_month y 0 = 0"
| "days_before_month y (Suc 0) = 0"
| "days_before_month y (Suc m) = days_before_month y m + days_in_month y m"

lemma days_in_year_pos: "0 < days_in_year y"
  by (simp add: days_in_year_def)

function year_from :: "int \<Rightarrow> nat \<Rightarrow> int \<times> nat" where
  \<comment> \<open>the year of the day \<open>d\<close> counted from the start of \<open>y\<close>, and the day within it\<close>
  "year_from y d = (if d < days_in_year y then (y, d) else year_from (y + 1) (d - days_in_year y))"
  by auto
termination by (relation "measure snd") (auto simp: days_in_year_def)

declare year_from.simps [simp del]

function month_from :: "int \<Rightarrow> nat \<Rightarrow> nat \<Rightarrow> nat \<times> nat" where
  "month_from y m d =
     (if m \<ge> 12 \<or> d < days_in_month y m then (m, d) else month_from y (m + 1) (d - days_in_month y m))"
  by auto
termination by (relation "measure (\<lambda>(y, m, d). 12 - m)") auto

declare month_from.simps [simp del]

definition date_of_day :: "int \<Rightarrow> int \<times> nat \<times> nat" where
  "date_of_day n =
     (case year_from (400 * (n div 146097) + 1) (nat (n mod 146097)) of
        (y, d) \<Rightarrow> (case month_from y 1 d of (m, r) \<Rightarrow> (y, m, r + 1)))"

definition day_of_date :: "int \<Rightarrow> nat \<Rightarrow> nat \<Rightarrow> int" where
  "day_of_date y m d = days_before_year y + int (days_before_month y m + d) - 1"

lemma days_before_year_step: "days_before_year (y + 1) = days_before_year y + int (days_in_year y)"
proof -
  have step: "y div k = (y - 1) div k + (if k dvd y then 1 else 0)" if "k > 0" for k :: int
  proof (cases "k dvd y")
    case True
    then obtain q where y: "y = k * q" by blast
    have "(y - 1) div k = q - 1"
      by (rule int_div_pos_eq [of _ _ _ "k - 1"]) (use that in \<open>simp_all add: y algebra_simps\<close>)
    with True y that show ?thesis by simp
  next
    case False
    with that have "0 < y mod k" by (simp add: dvd_eq_mod_eq_0 order_le_neq_trans)
    with pos_mod_bound [OF that, of y] have "(y - 1) div k = y div k"
      by (intro int_div_pos_eq [of _ _ _ "y mod k - 1"]) auto
    with False show ?thesis by simp
  qed
  have "(100::int) dvd y \<Longrightarrow> 4 dvd y" "(400::int) dvd y \<Longrightarrow> 100 dvd y"
    by (auto elim: dvd_trans [rotated])
  then have "int (days_in_year y) =
      365 + (if 4 dvd y then 1 else 0) - (if 100 dvd y then 1 else 0) + (if 400 dvd y then 1 else 0)"
    by (simp add: days_in_year_def leap_year_def)
  moreover note step [of 4] step [of 100] step [of 400]
  ultimately show ?thesis unfolding days_before_year_def by simp
qed

lemma year_from_correct:
  "year_from y d = (y', d') \<Longrightarrow>
   days_before_year y' + int d' = days_before_year y + int d \<and> d' < days_in_year y'"
proof (induction y d rule: year_from.induct)
  case (1 y d)
  show ?case
  proof (cases "d < days_in_year y")
    case True
    with 1(2) show ?thesis by (simp add: year_from.simps)
  next
    case False
    with 1(2) have "year_from (y + 1) (d - days_in_year y) = (y', d')" by (simp add: year_from.simps)
    from 1(1) [OF False this] False show ?thesis by (simp add: days_before_year_step)
  qed
qed

lemma month_from_correct:
  "month_from y m d = (m', d') \<Longrightarrow> 1 \<le> m \<Longrightarrow> m \<le> 12 \<Longrightarrow> d < days_in_year y - days_before_month y m \<Longrightarrow>
   days_before_month y m' + d' = days_before_month y m + d \<and> d' < days_in_month y m' \<and> 1 \<le> m' \<and> m' \<le> 12"
proof (induction y m d rule: month_from.induct)
  case (1 y m d)
  show ?case
  proof (cases "m \<ge> 12 \<or> d < days_in_month y m")
    case True
    moreover have "d < days_in_month y m"
    proof (cases "m = 12")
      case True
      then have "days_in_year y - days_before_month y m = days_in_month y m"
        by (simp add: days_in_year_def days_in_month_def numeral_eq_Suc)
      with 1(5) show ?thesis by simp
    qed (use True 1(4) in auto)
    ultimately show ?thesis using 1(2,3,4) by (simp add: month_from.simps)
  next
    case False
    then have next_month: "month_from y (m + 1) (d - days_in_month y m) = (m', d')"
      using 1(2) by (simp add: month_from.simps)
    have before: "days_before_month y (m + 1) = days_before_month y m + days_in_month y m"
      using 1(3) by (cases m) auto
    have "d - days_in_month y m < days_in_year y - days_before_month y (m + 1)"
      using 1(5) False unfolding before by arith
    from 1(1) [OF False next_month _ _ this] 1(3,4) False before show ?thesis by simp
  qed
qed

theorem day_of_date_of_day:
  assumes "date_of_day n = (y, m, d)"
  shows "day_of_date y m d = n \<and> 1 \<le> m \<and> m \<le> 12 \<and> 1 \<le> d \<and> d \<le> days_in_month y m"
proof -
  let ?c = "n div 146097"
  obtain y' d' where year: "year_from (400 * ?c + 1) (nat (n mod 146097)) = (y', d')" by fastforce
  obtain m' r where month: "month_from y' 1 d' = (m', r)" by fastforce
  from assms year month have "y = y'" "m = m'" "d = r + 1" by (auto simp: date_of_day_def)
  have "days_before_year (400 * ?c + 1) = 146097 * ?c"
    by (simp add: days_before_year_def)
  then show ?thesis
    using year_from_correct [OF year] month_from_correct [OF month]
    unfolding \<open>y = y'\<close> \<open>m = m'\<close> \<open>d = r + 1\<close> day_of_date_def by simp
qed

subsection \<open>Printing\<close>

definition pad_nat :: "nat \<Rightarrow> nat \<Rightarrow> string" where
  "pad_nat n v = pad_left n (dec_nat v)"

definition format_date :: "int \<times> nat \<times> nat \<Rightarrow> string" where
  "format_date = (\<lambda>(y, m, d).
     (if y < 0 then ''-'' else '''') @ pad_nat 4 (nat \<bar>y\<bar>) @ ''-'' @ pad_nat 2 m @ ''-'' @ pad_nat 2 d)"

definition epoch_day :: int where
  \<comment> \<open>the day of January 1, 1970\<close>
  "epoch_day = 719162"

definition format_rfc3339 :: "instant \<Rightarrow> string" where
  \<comment> \<open>\<open>t.UTC().Format(time.RFC3339)\<close>: seconds, always \<open>Z\<close>\<close>
  "format_rfc3339 t =
     (let secs = t div 10 ^ 9; s = nat (secs mod 86400) in
      format_date (date_of_day (secs div 86400 + epoch_day)) @ ''T'' @
      pad_nat 2 (s div 3600) @ '':'' @ pad_nat 2 (s div 60 mod 60) @ '':'' @ pad_nat 2 (s mod 60) @ ''Z'')"


subsection \<open>Parsing\<close>

definition digits_n :: "nat \<Rightarrow> string \<Rightarrow> (nat \<times> string) option" where
  "digits_n n s =
     (if length (take n s) = n \<and> list_all is_digit (take n s)
      then Some (digits_value (take n s), drop n s) else None)"

fun skip_char :: "char \<Rightarrow> string \<Rightarrow> string option" where
  "skip_char c (d # s) = (if c = d then Some s else None)"
| "skip_char c [] = None"

definition hour_digits :: "string \<Rightarrow> (nat \<times> string) option" where
  \<comment> \<open>Go also takes a single digit here\<close>
  "hour_digits s = (case digits_n 2 s of Some r \<Rightarrow> Some r | None \<Rightarrow> digits_n 1 s)"

fun fraction :: "string \<Rightarrow> nat \<times> string" where
  \<comment> \<open>optional fractional seconds, in nanoseconds: nine digits count, all are taken\<close>
  "fraction (c # d # s) =
     (if c \<in> {CHR ''.'', CHR '',''} \<and> is_digit d then
        let ds = takeWhile is_digit (d # s) in
        (digits_value (take 9 ds) * 10 ^ (9 - length (take 9 ds)), dropWhile is_digit (d # s))
      else (0, c # d # s))"
| "fraction s = (0, s)"

fun zone_offset :: "string \<Rightarrow> int option" where
  \<comment> \<open>the rest of the text: \<open>Z\<close> or \<open>+hh:mm\<close>, in seconds east of UTC\<close>
  "zone_offset [z] = (if z = CHR ''Z'' then Some 0 else None)"
| "zone_offset [sign, h1, h2, colon, m1, m2] =
     (case (digits_n 2 [h1, h2], digits_n 2 [m1, m2]) of
        (Some (h, _), Some (m, _)) \<Rightarrow>
          if colon = CHR '':'' \<and> h \<le> 24 \<and> m \<le> 60 then
            (if sign = CHR ''+'' then Some (int ((h * 60 + m) * 60))
             else if sign = CHR ''-'' then Some (- int ((h * 60 + m) * 60)) else None)
          else None
      | _ \<Rightarrow> None)"
| "zone_offset _ = None"

definition parse_date :: "string \<Rightarrow> (int \<times> string) option" where
  \<comment> \<open>the day and the rest of the text\<close>
  "parse_date s = do {
     (y, s) \<leftarrow> digits_n 4 s; s \<leftarrow> skip_char (CHR ''-'') s;
     (m, s) \<leftarrow> digits_n 2 s; s \<leftarrow> skip_char (CHR ''-'') s;
     (d, s) \<leftarrow> digits_n 2 s;
     if 1 \<le> m \<and> m \<le> 12 \<and> 1 \<le> d \<and> d \<le> days_in_month (int y) m
     then Some (day_of_date (int y) m d, s) else None
   }"

definition parse_clock :: "string \<Rightarrow> (nat \<times> nat \<times> string) option" where
  \<comment> \<open>the second of the day, the nanoseconds and the rest\<close>
  "parse_clock s = do {
     (h, s) \<leftarrow> hour_digits s; s \<leftarrow> skip_char (CHR '':'') s;
     (mi, s) \<leftarrow> digits_n 2 s; s \<leftarrow> skip_char (CHR '':'') s;
     (sec, s) \<leftarrow> digits_n 2 s;
     if h < 24 \<and> mi < 60 \<and> sec < 60
     then (case fraction s of (ns, s) \<Rightarrow> Some (h * 3600 + mi * 60 + sec, ns, s)) else None
   }"

definition parse_rfc3339 :: "string \<Rightarrow> instant option" where
  \<comment> \<open>\<open>time.Parse(time.RFC3339, s)\<close>; \<open>None\<close> is its error\<close>
  "parse_rfc3339 s = do {
     (day, s) \<leftarrow> parse_date s;
     s \<leftarrow> skip_char (CHR ''T'') s;
     (secs, ns, s) \<leftarrow> parse_clock s;
     off \<leftarrow> zone_offset s;
     Some (((day - epoch_day) * 86400 + int secs - off) * 10 ^ 9 + int ns)
   }"

definition zero_time :: instant where
  \<comment> \<open>Go's zero \<open>time.Time\<close>: January 1 of year 1\<close>
  "zero_time = - (719162 * 86400 * 10 ^ 9)"


subsection \<open>Reading back a printed time\<close>

lemma length_dec_nat: "v < 10 ^ Suc n \<Longrightarrow> length (dec_nat v) \<le> Suc n"
proof (induction n arbitrary: v)
  case 0
  then show ?case by (simp add: dec_nat.simps)
next
  case (Suc n)
  show ?case
  proof (cases "v < 10")
    case False
    from Suc.prems have "v div 10 < 10 ^ Suc n" by (simp add: less_mult_imp_div_less)
    from Suc.IH [OF this] False show ?thesis by (subst dec_nat.simps) simp
  qed (simp add: dec_nat.simps)
qed

lemma digits_value_replicate: "digits_value (replicate k (CHR ''0'') @ s) = digits_value s"
  by (induction k) (simp_all add: digits_value_def)

lemma digits_n_pad:
  assumes "v < 10 ^ Suc n"
  shows "digits_n (Suc n) (pad_nat (Suc n) v @ rest) = Some (v, rest)"
proof -
  have "length (pad_nat (Suc n) v) = Suc n" using length_dec_nat [OF assms] by (simp add: pad_nat_def)
  moreover have "list_all is_digit (pad_nat (Suc n) v)" "digits_value (pad_nat (Suc n) v) = v"
    using dec_nat_digits [of v] digits_value_dec_nat [of v]
    by (auto simp: pad_nat_def digits_value_replicate list_all_iff is_digit_def)
  ultimately show ?thesis by (simp add: digits_n_def)
qed

lemma digits_2_pad: "v < 100 \<Longrightarrow> digits_n 2 (pad_nat 2 v @ rest) = Some (v, rest)"
  using digits_n_pad [of v 1 rest] by (simp add: numeral_2_eq_2)

lemma digits_4_pad: "v < 10000 \<Longrightarrow> digits_n 4 (pad_nat 4 v @ rest) = Some (v, rest)"
  using digits_n_pad [of v 3 rest] by simp

lemma clock_parts: "s div 3600 * 3600 + s div 60 mod 60 * 60 + s mod 60 = (s :: nat)"
proof -
  have sum: "b * 3600 + r * 60 + q = c" if "b * 60 + r = a" "a * 60 + q = c" for a b c q r :: nat
    using that by (auto simp: algebra_simps)
  have d: "s div 3600 = s div 60 div 60" using div_mult2_eq [of s 60 60] by simp
  show ?thesis unfolding d by (rule sum [OF div_mult_mod_eq div_mult_mod_eq])
qed

lemma parse_clock_pad:
  "h < 24 \<Longrightarrow> mi < 60 \<Longrightarrow> sec < 60 \<Longrightarrow>
   parse_clock (pad_nat 2 h @ '':'' @ pad_nat 2 mi @ '':'' @ pad_nat 2 sec @ ''Z'') =
     Some (h * 3600 + mi * 60 + sec, 0, ''Z'')"
  by (simp add: parse_clock_def hour_digits_def digits_2_pad)

lemma parse_date_format:
  "0 \<le> y \<Longrightarrow> y \<le> 9999 \<Longrightarrow> 1 \<le> m \<Longrightarrow> m \<le> 12 \<Longrightarrow> 1 \<le> d \<Longrightarrow> d \<le> days_in_month y m \<Longrightarrow>
   parse_date (format_date (y, m, d) @ rest) = Some (day_of_date y m d, rest)"
proof -
  assume "0 \<le> y" "y \<le> 9999" "1 \<le> m" "m \<le> 12" "1 \<le> d" "d \<le> days_in_month y m"
  moreover have "days_in_month y m \<le> 31" by (simp add: days_in_month_def)
  ultimately have "nat \<bar>y\<bar> < 10000" "m < 100" "d < 100" by auto
  with \<open>0 \<le> y\<close> \<open>1 \<le> m\<close> \<open>m \<le> 12\<close> \<open>1 \<le> d\<close> \<open>d \<le> days_in_month y m\<close> show ?thesis
    by (simp add: parse_date_def format_date_def digits_4_pad digits_2_pad)
qed

text \<open>
  A printed time of the years 0 to 9999 parses to the same second.
\<close>

theorem parse_rfc3339_format:
  assumes "date_of_day (t div 10 ^ 9 div 86400 + epoch_day) = (y, m, d)" and "0 \<le> y" and "y \<le> 9999"
  shows "parse_rfc3339 (format_rfc3339 t) = Some (t div 10 ^ 9 * 10 ^ 9)"
proof -
  define secs where "secs = t div 10 ^ 9"
  define s where "s = nat (secs mod 86400)"
  have date: "day_of_date y m d = secs div 86400 + epoch_day \<and> 1 \<le> m \<and> m \<le> 12 \<and> 1 \<le> d \<and> d \<le> days_in_month y m"
    unfolding secs_def by (rule day_of_date_of_day [OF assms(1)])
  then have day: "parse_date (format_date (y, m, d) @ rest) = Some (secs div 86400 + epoch_day, rest)" for rest
    using parse_date_format [of y m d rest] assms(2,3) by simp
  have "s < 86400" by (simp add: s_def nat_less_iff)
  then have "s div 3600 < 24" "s div 60 mod 60 < 60" "s mod 60 < 60"
    by (simp_all add: less_mult_imp_div_less)
  from parse_clock_pad [OF this]
  have time: "parse_clock (pad_nat 2 (s div 3600) @ '':'' @ pad_nat 2 (s div 60 mod 60) @ '':'' @
      pad_nat 2 (s mod 60) @ ''Z'') = Some (s, 0, ''Z'')"
    unfolding clock_parts .
  have "secs div 86400 * 86400 + int s = secs" by (simp add: s_def)
  moreover have "format_rfc3339 t = format_date (y, m, d) @ ''T'' @ pad_nat 2 (s div 3600) @ '':'' @
      pad_nat 2 (s div 60 mod 60) @ '':'' @ pad_nat 2 (s mod 60) @ ''Z''"
    using assms(1) unfolding format_rfc3339_def secs_def s_def Let_def by simp
  moreover have "parse_rfc3339 (format_date (y, m, d) @ ''T'' @ pad_nat 2 (s div 3600) @ '':'' @
      pad_nat 2 (s div 60 mod 60) @ '':'' @ pad_nat 2 (s mod 60) @ ''Z'') =
      Some ((secs div 86400 * 86400 + int s) * 10 ^ 9)"
    using time by (simp add: parse_rfc3339_def day)
  ultimately show ?thesis unfolding secs_def by simp
qed

end
