(* ===== verification/Pce_Traffic.thy ===== *)
theory Pce_Traffic
  imports Pce_Client Go_Time
begin

section \<open>Traffic queries and rule search (traffic.go, rulesearch.go)\<close>

text \<open>
  The two read-only questions the operator asks the PCE: the observed flows of a scope, by an
  asynchronous query that is created, polled and downloaded, and the rules that protect it.
  The polling loop has no bound of its own; it ends by the completed query, the context or
  the 90 second deadline. It is modelled with fuel, and \<open>QueryTraffic_returns\<close> shows that 46
  polls are enough.
\<close>

definition DecisionAllowed :: string where "DecisionAllowed = ''allowed''"
definition DecisionPotentiallyBlocked :: string where
  "DecisionPotentiallyBlocked = ''potentially_blocked''"
definition DecisionBlocked :: string where "DecisionBlocked = ''blocked''"

record traffic_query =
  tq_name :: string
  tq_sources :: "string list"
  tq_destinations :: "string list"
  tq_from :: instant
  tq_to :: instant
  tq_max_results :: int

record traffic_flow =
  tf_src_labels :: smap
  tf_dst_labels :: smap
  tf_src_ip :: string
  tf_dst_ip :: string
  tf_port :: int
  tf_protocol :: int
  tf_policy_decision :: string
  tf_draft_policy_decision :: string
  tf_connections :: int
  tf_last_detected :: instant


subsection \<open>Wire types\<close>

definition labelActors :: "string list \<Rightarrow> json" where
  "labelActors hrefs =
     JArr (if hrefs = [] then []
           else [JArr (map (\<lambda>h. JObj [(''label'', enc_label_ref \<lparr>lref_href = h\<rparr>)]) hrefs)])"

definition enc_actor_set :: "string list \<Rightarrow> json" where
  "enc_actor_set hrefs = JObj [(''include'', labelActors hrefs), (''exclude'', JArr [])]"

definition effective_max :: "int \<Rightarrow> int" where
  "effective_max n = (if n \<le> 0 then 10000 else n)"

definition traffic_query_body :: "traffic_query \<Rightarrow> json" where
  "traffic_query_body q = JObj
     [(''query_name'', JStr (tq_name q)),
      (''start_date'', JStr (format_rfc3339 (tq_from q))),
      (''end_date'', JStr (format_rfc3339 (tq_to q))),
      (''sources'', enc_actor_set (tq_sources q)),
      (''destinations'', enc_actor_set (tq_destinations q)),
      (''services'', JObj [(''include'', JArr []), (''exclude'', JArr [])]),
      (''policy_decisions'', JArr []),
      (''max_results'', JInt (effective_max (tq_max_results q)))]"

record async_query_status =
  aq_href :: string
  aq_status :: string

definition dec_async_status :: "async_query_status decoder" where
  "dec_async_status = dec_struct (\<lambda>fs. do {
     h \<leftarrow> dec_string (jfield ''href'' fs);
     s \<leftarrow> dec_string (jfield ''status'' fs);
     Some \<lparr>aq_href = h, aq_status = s\<rparr>
   })"

definition zero_async_status :: async_query_status where
  "zero_async_status = \<lparr>aq_href = '''', aq_status = ''''\<rparr>"

record wire_endpoint =
  we_ip :: string
  we_workload :: "(string \<times> string) list option" \<comment> \<open>key and value of the workload's labels\<close>

definition dec_endpoint :: "wire_endpoint decoder" where
  "dec_endpoint = dec_struct (\<lambda>fs. do {
     ip \<leftarrow> dec_string (jfield ''ip'' fs);
     w \<leftarrow> dec_pointer (dec_struct (\<lambda>ws. dec_list (dec_struct (\<lambda>ls. do {
            k \<leftarrow> dec_string (jfield ''key'' ls);
            v \<leftarrow> dec_string (jfield ''value'' ls);
            Some (k, v)
          })) (jfield ''labels'' ws))) (jfield ''workload'' fs);
     Some \<lparr>we_ip = ip, we_workload = w\<rparr>
   })"

record wire_flow =
  wf_src :: wire_endpoint
  wf_dst :: wire_endpoint
  wf_port :: int
  wf_proto :: int
  wf_connections :: int
  wf_policy_decision :: string
  wf_draft_decision :: string
  wf_last_detected :: string

definition dec_wire_flow :: "wire_flow decoder" where
  "dec_wire_flow = dec_struct (\<lambda>fs. do {
     s \<leftarrow> dec_endpoint (jfield ''src'' fs);
     d \<leftarrow> dec_endpoint (jfield ''dst'' fs);
     (port, proto) \<leftarrow> dec_struct (\<lambda>ss. do {
        p \<leftarrow> dec_integer (jfield ''port'' ss);
        pr \<leftarrow> dec_integer (jfield ''proto'' ss);
        Some (p, pr)
      }) (jfield ''service'' fs);
     n \<leftarrow> dec_integer (jfield ''num_connections'' fs);
     pd \<leftarrow> dec_string (jfield ''policy_decision'' fs);
     dd \<leftarrow> dec_string (jfield ''draft_policy_decision'' fs);
     ld \<leftarrow> dec_struct (\<lambda>ts. dec_string (jfield ''last_detected'' ts)) (jfield ''timestamp_range'' fs);
     Some \<lparr>wf_src = s, wf_dst = d, wf_port = port, wf_proto = proto, wf_connections = n,
           wf_policy_decision = pd, wf_draft_decision = dd, wf_last_detected = ld\<rparr>
   })"

definition endpointLabels :: "wire_endpoint \<Rightarrow> smap" where
  "endpointLabels e =
     (case we_workload e of
        None \<Rightarrow> []
      | Some ls \<Rightarrow> foldl (\<lambda>m (k, v). mset_key k v m) [] ls)"

definition flow_of_wire :: "wire_flow \<Rightarrow> traffic_flow" where
  \<comment> \<open>a last detection that does not parse is the zero time\<close>
  "flow_of_wire f =
     \<lparr>tf_src_labels = endpointLabels (wf_src f), tf_dst_labels = endpointLabels (wf_dst f),
      tf_src_ip = we_ip (wf_src f), tf_dst_ip = we_ip (wf_dst f),
      tf_port = wf_port f, tf_protocol = wf_proto f,
      tf_policy_decision = wf_policy_decision f, tf_draft_policy_decision = wf_draft_decision f,
      tf_connections = wf_connections f,
      tf_last_detected = (case parse_rfc3339 (wf_last_detected f) of Some t \<Rightarrow> t | None \<Rightarrow> zero_time)\<rparr>"


subsection \<open>The asynchronous query\<close>

text \<open>
  The poll waits in a \<open>select\<close> on the context, the deadline's timer and a two second timer;
  which of them fires is up to Go's runtime: \<open>pe_wait\<close>, given the deadline.
\<close>

datatype wait_outcome = ContextDone go_error | DeadlineHit | Elapsed

record 'w poll_env =
  pe_now :: "('w, instant) state"
  pe_wait :: "instant \<Rightarrow> ('w, wait_outcome) state"

fun poll_query ::
  "'w transport \<Rightarrow> 'w poll_env \<Rightarrow> config \<Rightarrow> string \<Rightarrow> instant \<Rightarrow> nat \<Rightarrow> ('w, go_error option option) state" where
  \<comment> \<open>\<open>None\<close> is out of fuel; \<open>Some None\<close> is completed\<close>
  "poll_query http env cfg uuid deadline 0 = ret None"
| "poll_query http env cfg uuid deadline (Suc n) = do {
     st \<leftarrow> client_get http cfg (orgPath cfg (''/traffic_flows/async_queries/'' @ uuid))
             dec_async_status zero_async_status;
     case st of
       Inl e \<Rightarrow> ret (Some (Some (WrapError ''poll traffic query: '' e)))
     | Inr s \<Rightarrow>
         if aq_status s = ''completed'' \<or> aq_status s = ''done'' then ret (Some None)
         else do {
           r \<leftarrow> pe_wait env deadline;
           case r of
             ContextDone e \<Rightarrow> ret (Some (Some e))
           | DeadlineHit \<Rightarrow>
               ret (Some (Some (ErrorText (''traffic query '' @ uuid @ '' did not complete in time''))))
           | Elapsed \<Rightarrow> poll_query http env cfg uuid deadline n
         }
   }"

definition download_flows ::
  "'w transport \<Rightarrow> config \<Rightarrow> string \<Rightarrow> int \<Rightarrow> ('w, go_error + traffic_flow list \<times> bool) state" where
  "download_flows http cfg uuid max_results = do {
     r \<leftarrow> client_get http cfg (orgPath cfg (''/traffic_flows/async_queries/'' @ uuid @ ''/download''))
            (dec_list dec_wire_flow) [];
     ret (case r of
       Inl e \<Rightarrow> Inl (WrapError ''download traffic query: '' e)
     | Inr flows \<Rightarrow>
         let out = map flow_of_wire flows in Inr (out, max_results \<le> int (length out)))
   }"

definition lastPathSegment :: "string \<Rightarrow> string" where
  "lastPathSegment s = scan_back s (length s)"

definition QueryTraffic ::
  "'w transport \<Rightarrow> 'w poll_env \<Rightarrow> nat \<Rightarrow> config \<Rightarrow> traffic_query
   \<Rightarrow> ('w, (go_error + traffic_flow list \<times> bool) option) state" where
  "QueryTraffic http env fuel cfg q = do {
     created \<leftarrow> client_send http cfg MethodPost (orgPath cfg ''/traffic_flows/async_queries'')
                  (traffic_query_body q) dec_async_status zero_async_status;
     case created of
       Inl e \<Rightarrow> ret (Some (Inl (WrapError ''create traffic query: '' e)))
     | Inr created \<Rightarrow>
         let uuid = lastPathSegment (aq_href created) in
         if uuid = '''' then ret (Some (Inl (ErrorText ''traffic query returned no href'')))
         else do {
           now \<leftarrow> pe_now env;
           polled \<leftarrow> poll_query http env cfg uuid (now + 90 * second) fuel;
           case polled of
             None \<Rightarrow> ret None
           | Some (Some e) \<Rightarrow> ret (Some (Inl e))
           | Some None \<Rightarrow> do {
               r \<leftarrow> download_flows http cfg uuid (effective_max (tq_max_results q));
               ret (Some r)
             }
         }
   }"

definition max_polls :: nat where
  \<comment> \<open>one poll at the start and one after each of at most 45 waits of two seconds\<close>
  "max_polls = 46"

subsection \<open>Rule search\<close>

definition RuleTypeAllow :: string where "RuleTypeAllow = ''allow''"
definition RuleTypeOverrideDeny :: string where "RuleTypeOverrideDeny = ''override_deny''"
definition PolicyVersionActive :: string where "PolicyVersionActive = ''active''"
definition PolicyVersionDraft :: string where "PolicyVersionDraft = ''draft''"

record rule_search_query =
  rq_providers :: "string list"
  rq_policy_version :: string

record found_rule =
  fr_href :: string
  fr_ruleset_href :: string
  fr_ruleset_name :: string
  fr_ruleset_data_set :: string
  fr_enabled :: bool
  fr_type :: string
  fr_consumers :: "actor list"
  fr_services :: "ingress_service list"

record wire_found_rule =
  wr_href :: string
  wr_enabled :: bool
  wr_rule_type :: string
  wr_override_deny :: bool
  wr_consumers :: "actor list"
  wr_services :: "ingress_service list"
  wr_rule_set :: "(string \<times> string \<times> string) option" \<comment> \<open>href, name, external data set\<close>

definition dec_wire_found_rule :: "wire_found_rule decoder" where
  "dec_wire_found_rule = dec_struct (\<lambda>fs. do {
     h \<leftarrow> dec_string (jfield ''href'' fs);
     en \<leftarrow> dec_bool (jfield ''enabled'' fs);
     t \<leftarrow> dec_string (jfield ''rule_type'' fs);
     od \<leftarrow> dec_bool (jfield ''override_deny'' fs);
     cs \<leftarrow> dec_list dec_actor (jfield ''consumers'' fs);
     ss \<leftarrow> dec_list dec_ingress_service (jfield ''ingress_services'' fs);
     rs \<leftarrow> dec_pointer (dec_struct (\<lambda>rs. do {
        rh \<leftarrow> dec_string (jfield ''href'' rs);
        n \<leftarrow> dec_string (jfield ''name'' rs);
        ds \<leftarrow> dec_string (jfield ''external_data_set'' rs);
        Some (rh, n, ds)
      })) (jfield ''rule_set'' fs);
     Some \<lparr>wr_href = h, wr_enabled = en, wr_rule_type = t, wr_override_deny = od,
           wr_consumers = cs, wr_services = ss, wr_rule_set = rs\<rparr>
   })"

definition ruleType :: "wire_found_rule \<Rightarrow> string" where
  "ruleType w =
     (if wr_override_deny w then RuleTypeOverrideDeny
      else if wr_rule_type w \<noteq> '''' then wr_rule_type w else RuleTypeAllow)"

definition rule_search_body :: "rule_search_query \<Rightarrow> json" where
  "rule_search_body q = JObj [(''providers'',
     JArr (map (\<lambda>h. JObj [(''label'', enc_label_ref \<lparr>lref_href = h\<rparr>)]) (rq_providers q)))]"

definition found_of_wire :: "wire_found_rule \<Rightarrow> found_rule" where
  "found_of_wire w =
     (case (case wr_rule_set w of Some rs \<Rightarrow> rs | None \<Rightarrow> ('''', '''', '''')) of (rh, n, ds) \<Rightarrow>
       \<lparr>fr_href = wr_href w, fr_ruleset_href = rh, fr_ruleset_name = n, fr_ruleset_data_set = ds,
        fr_enabled = wr_enabled w, fr_type = ruleType w, fr_consumers = wr_consumers w,
        fr_services = wr_services w\<rparr>)"

definition SearchRules ::
  "'w transport \<Rightarrow> config \<Rightarrow> rule_search_query \<Rightarrow> ('w, go_error + found_rule list) state" where
  "SearchRules http cfg q =
     (let version = (if rq_policy_version q \<noteq> PolicyVersionDraft then PolicyVersionActive
                     else rq_policy_version q) in do {
        r \<leftarrow> client_send http cfg MethodPost
          (orgPath cfg (''/sec_policy/'' @ version @ ''/rule_search'')) (rule_search_body q)
          (dec_list dec_wire_found_rule) [];
        ret (case r of
          Inl e \<Rightarrow> Inl (WrapError ''rule search: '' e)
        | Inr wire \<Rightarrow> Inr (map found_of_wire wire))
      })"


subsection \<open>The two client interfaces (insight_client.go, ruleview_client.go)\<close>

record 'w insight_client =
  ic_find_label :: "string \<Rightarrow> string \<Rightarrow> ('w, go_error + label) state"
  ic_query_traffic :: "traffic_query \<Rightarrow> ('w, go_error + traffic_flow list \<times> bool) state"

record 'w rule_view_client =
  vc_find_label :: "string \<Rightarrow> string \<Rightarrow> ('w, go_error + label) state"
  vc_search_rules :: "rule_search_query \<Rightarrow> ('w, go_error + found_rule list) state"

definition pce_insight_client :: "'w transport \<Rightarrow> 'w poll_env \<Rightarrow> config \<Rightarrow> 'w insight_client" where
  \<comment> \<open>\<open>DefaultInsightClientFactory\<close>; out of fuel does not happen: \<open>QueryTraffic_returns\<close>\<close>
  "pce_insight_client http env cfg =
     \<lparr>ic_find_label = FindLabel http cfg,
      ic_query_traffic = (\<lambda>q. do {
        r \<leftarrow> QueryTraffic http env max_polls cfg q;
        ret (case r of Some x \<Rightarrow> x | None \<Rightarrow> Inl (ErrorText ''out of fuel''))
      })\<rparr>"

definition pce_rule_view_client :: "'w transport \<Rightarrow> config \<Rightarrow> 'w rule_view_client" where
  \<comment> \<open>\<open>DefaultRuleViewClientFactory\<close>\<close>
  "pce_rule_view_client http cfg =
     \<lparr>vc_find_label = FindLabel http cfg, vc_search_rules = SearchRules http cfg\<rparr>"


subsection \<open>The polling loop ends\<close>

text \<open>
  What the loop relies on: time does not run backwards during a request; a wait that ends by
  the two second timer took two seconds, and it began before the deadline (once the deadline
  has passed, its timer is the one that is ready).
\<close>

definition poll_clock :: "('w \<Rightarrow> instant) \<Rightarrow> 'w transport \<Rightarrow> 'w poll_env \<Rightarrow> bool" where
  "poll_clock clock http env \<longleftrightarrow>
     (\<forall>req w. clock w \<le> clock (snd (run_state (http req) w))) \<and>
     (\<forall>w. fst (run_state (pe_now env) w) = clock w \<and> clock w \<le> clock (snd (run_state (pe_now env) w))) \<and>
     (\<forall>d w. fst (run_state (pe_wait env d) w) = Elapsed \<longrightarrow>
        clock w < d \<and> clock w + 2 * second \<le> clock (snd (run_state (pe_wait env d) w)))"

lemma client_get_clock:
  assumes "poll_clock clock http env" "run_state (client_get http cfg p d z) w = (r, w')"
  shows "clock w \<le> clock w'"
proof -
  have "keeps (\<lambda>w'. clock w \<le> clock w') (client_get http cfg p d z)"
    unfolding client_get_def client_do_def using assms(1)
    by (intro keeps) (fastforce simp: keeps_def poll_clock_def intro: order_trans)
  with assms(2) show ?thesis by (auto dest: keepsD)
qed

lemma poll_clock_wait:
  "poll_clock clock http env \<Longrightarrow> run_state (pe_wait env d) w = (Elapsed, w') \<Longrightarrow>
   clock w < d \<and> clock w + 2 * second \<le> clock w'"
  unfolding poll_clock_def by (metis fst_conv snd_conv)

lemma poll_query_returns:
  assumes "poll_clock clock http env" "deadline \<le> clock w + 2 * second * int n"
  shows "fst (run_state (poll_query http env cfg uuid deadline (Suc n)) w) \<noteq> None"
  using assms(2)
proof (induction n arbitrary: w)
  case (0 w)
  obtain st w1 where get: "run_state (client_get http cfg (orgPath cfg (''/traffic_flows/async_queries/'' @ uuid))
      dec_async_status zero_async_status) w = (st, w1)" by fastforce
  with client_get_clock [OF assms(1)] 0 have "\<not> clock w1 < deadline" by fastforce
  obtain r w2 where wait: "run_state (pe_wait env deadline) w1 = (r, w2)" by fastforce
  with poll_clock_wait [OF assms(1)] \<open>\<not> clock w1 < deadline\<close> have "r \<noteq> Elapsed" by blast
  with get wait show ?case by (auto split: sum.split wait_outcome.split)
next
  case (Suc n w)
  obtain st w1 where get: "run_state (client_get http cfg (orgPath cfg (''/traffic_flows/async_queries/'' @ uuid))
      dec_async_status zero_async_status) w = (st, w1)" by fastforce
  obtain r w2 where wait: "run_state (pe_wait env deadline) w1 = (r, w2)" by fastforce
  have rest: "fst (run_state (poll_query http env cfg uuid deadline (Suc n)) w2) \<noteq> None" if "r = Elapsed"
  proof (rule Suc.IH)
    have "clock w1 + 2 * second \<le> clock w2"
      using poll_clock_wait [OF assms(1)] wait that by blast
    with client_get_clock [OF assms(1) get] Suc.prems
    show "deadline \<le> clock w2 + 2 * second * int n" by (simp add: algebra_simps)
  qed
  show ?case
    by (subst poll_query.simps)
      (use get wait rest in \<open>auto simp del: poll_query.simps split: sum.split wait_outcome.split\<close>)
qed

text \<open>
  C32: A traffic query always returns: 46 polls of its status are enough, whatever the PCE
  answers, because each wait takes two seconds and none begins after the 90 second deadline.
\<close>
theorem QueryTraffic_returns:
  assumes "poll_clock clock http env"
  shows "fst (run_state (QueryTraffic http env max_polls cfg q) w) \<noteq> None"
proof -
  have poll: "run_state (poll_query http env cfg uuid (now + 90 * second) max_polls) w2 \<noteq> (None, w3)"
    if "run_state (pe_now env) w1 = (now, w2)" for uuid now w1 w2 w3
  proof -
    have "now \<le> clock w2" using assms that unfolding poll_clock_def by (metis fst_conv snd_conv)
    then have "now + 90 * second \<le> clock w2 + 2 * second * int 45" by (simp add: second_def)
    from poll_query_returns [OF assms this, where cfg = cfg and uuid = uuid]
    show ?thesis by (auto simp: max_polls_def)
  qed
  show ?thesis
    unfolding QueryTraffic_def Let_def
    by (auto split: sum.splits option.splits prod.splits dest: poll)
qed

text \<open>A PCE whose query never completes, in a world that is only a clock: the deadline ends it.\<close>

definition sim_poll_env :: "instant poll_env" where
  "sim_poll_env =
     \<lparr>pe_now = State (\<lambda>w. (w, w)),
      pe_wait = (\<lambda>d. State (\<lambda>w. if w < d then (Elapsed, w + 2 * second) else (DeadlineHit, w)))\<rparr>"

definition sim_stuck_http :: "instant transport" where
  "sim_stuck_http req = ret (Response 202 '''' (JsonBody '''' (JObj
     [(''href'', JStr ''/orgs/1/traffic_flows/async_queries/q1''), (''status'', JStr ''working'')])))"

theorem QueryTraffic_returns_witness:
  "fst (run_state (QueryTraffic sim_stuck_http sim_poll_env max_polls
     \<lparr>cfg_pce_url = ''pce'', cfg_org_id = 1, cfg_api_key = '''', cfg_api_secret = ''''\<rparr>
     \<lparr>tq_name = ''q'', tq_sources = [], tq_destinations = [], tq_from = 0, tq_to = 0, tq_max_results = 0\<rparr>) 0)
   \<noteq> None"
proof -
  have "poll_clock id sim_stuck_http sim_poll_env"
    by (simp add: poll_clock_def sim_stuck_http_def sim_poll_env_def second_def)
  then show ?thesis by (rule QueryTraffic_returns)
qed

end
