(* ===== verification/Preflight.thy ===== *)
theory Preflight
  imports Pce_Traffic "HOL-Library.Product_Lexorder" "HOL-Library.Multiset"
begin

section \<open>Preflight findings (preflight.go)\<close>

text \<open>
  From observed flows to the findings of a PolicyInsight: the flows the draft policy would
  block, merged by peer, port and protocol, sorted, and capped. \<open>slices.SortFunc\<close> is not
  stable, so the sort is a parameter \<open>srt\<close>, of which \<open>sorts\<close> says what Go documents: the
  result is a permutation that is in order for the given comparison. The locale
  \<open>keyed_comparator\<close> holds what follows for a comparison by a key.
\<close>

subsection \<open>Sorting with a comparison function\<close>

type_synonym 'a sorter = "('a \<Rightarrow> 'a \<Rightarrow> int) \<Rightarrow> 'a list \<Rightarrow> 'a list"

definition sorts :: "'a set \<Rightarrow> 'a sorter \<Rightarrow> ('a \<Rightarrow> 'a \<Rightarrow> int) \<Rightarrow> bool" where
  \<comment> \<open>for lists over \<open>A\<close>, on which the comparison is an ordering\<close>
  "sorts A srt cmp \<longleftrightarrow>
     (\<forall>xs. set xs \<subseteq> A \<longrightarrow>
        mset (srt cmp xs) = mset xs \<and> sorted_wrt (\<lambda>a b. cmp a b \<le> 0) (srt cmp xs))"

definition cmp_compare :: "'a :: linorder \<Rightarrow> 'a \<Rightarrow> int" where
  \<comment> \<open>\<open>cmp.Compare\<close> and \<open>strings.Compare\<close>\<close>
  "cmp_compare a b = (if a < b then - 1 else if b < a then 1 else 0)"

lemma cmp_compare_simps [simp]:
  "cmp_compare a b \<le> 0 \<longleftrightarrow> a \<le> b" "cmp_compare a b = 0 \<longleftrightarrow> a = b" "0 \<le> cmp_compare a b \<longleftrightarrow> b \<le> a"
  by (auto simp: cmp_compare_def)

text \<open>Insertion sort, which Go uses for short slices, is one such sort.\<close>

fun insert_by :: "('a \<Rightarrow> 'a \<Rightarrow> int) \<Rightarrow> 'a \<Rightarrow> 'a list \<Rightarrow> 'a list" where
  "insert_by cmp x [] = [x]"
| "insert_by cmp x (y # ys) = (if cmp x y \<le> 0 then x # y # ys else y # insert_by cmp x ys)"

definition insertion_sort :: "'a sorter" where
  "insertion_sort cmp xs = foldr (insert_by cmp) xs []"

locale keyed_comparator =
  fixes A :: "'a set" and cmp :: "'a \<Rightarrow> 'a \<Rightarrow> int" and key :: "'a \<Rightarrow> 'k :: linorder"
  assumes cmp_key: "a \<in> A \<Longrightarrow> b \<in> A \<Longrightarrow> cmp a b \<le> 0 \<longleftrightarrow> key a \<le> key b"
begin

lemma perm: "sorts A srt cmp \<Longrightarrow> set xs \<subseteq> A \<Longrightarrow> mset (srt cmp xs) = mset xs"
  by (simp add: sorts_def)

lemma set_sorted: "sorts A srt cmp \<Longrightarrow> set xs \<subseteq> A \<Longrightarrow> set (srt cmp xs) = set xs"
  using perm mset_eq_setD by blast

lemma length_sorted: "sorts A srt cmp \<Longrightarrow> set xs \<subseteq> A \<Longrightarrow> length (srt cmp xs) = length xs"
  using perm mset_eq_length by blast

lemma sorted_wrt_keys:
  "set ys \<subseteq> A \<Longrightarrow> sorted_wrt (\<lambda>a b. cmp a b \<le> 0) ys \<longleftrightarrow> sorted (map key ys)"
  by (induction ys) (auto simp: cmp_key subset_iff)

lemma sorted_keys: "sorts A srt cmp \<Longrightarrow> set xs \<subseteq> A \<Longrightarrow> sorted (map key (srt cmp xs))"
  using sorted_wrt_keys [of "srt cmp xs"] set_sorted [of srt xs] by (simp add: sorts_def)

text \<open>Whatever the sort does with ties, without any it is \<open>sort_key\<close>.\<close>

lemma unique:
  assumes "sorts A srt cmp" "set xs \<subseteq> A" "inj_on key (set xs)"
  shows "srt cmp xs = sort_key key xs"
proof (rule map_inj_on [of key])
  have "sort (map key xs) = map key (srt cmp xs)"
    by (rule properties_for_sort) (simp_all add: sorted_keys [OF assms(1,2)] perm [OF assms(1,2)])
  moreover have "sort (map key xs) = map key (sort_key key xs)"
    by (rule properties_for_sort) simp_all
  ultimately show "map key (srt cmp xs) = map key (sort_key key xs)" by simp
next
  show "inj_on key (set (srt cmp xs) \<union> set (sort_key key xs))"
    using assms by (simp add: set_sorted)
qed

lemma sorts_insertion: "sorts A insertion_sort cmp"
proof -
  have insert: "insert_by cmp x ys = insort_key key x ys" if "x \<in> A" "set ys \<subseteq> A" for x ys
    using that by (induction ys) (auto simp: cmp_key)
  have sort: "insertion_sort cmp xs = sort_key key xs" if "set xs \<subseteq> A" for xs
    using that
  proof (induction xs)
    case (Cons x xs)
    then have "insertion_sort cmp (x # xs) = insert_by cmp x (sort_key key xs)"
      by (simp add: insertion_sort_def)
    with Cons.prems show ?case by (simp add: insert)
  qed (simp add: insertion_sort_def)
  show ?thesis
    using sorted_sort_key [of key] by (auto simp: sorts_def sort sorted_wrt_keys)
qed

text \<open>What a cut keeps comes before what it drops.\<close>

lemma cut_order:
  assumes "sorts A srt cmp" "set xs \<subseteq> A" "x \<in> set (take n (srt cmp xs))" "y \<in> set (drop n (srt cmp xs))"
  shows "key x \<le> key y"
proof -
  have "sorted (map key (take n (srt cmp xs) @ drop n (srt cmp xs)))"
    using sorted_keys [OF assms(1,2)] by simp
  with assms(3,4) show ?thesis unfolding map_append sorted_append by auto
qed

lemma cut_keeps_least:
  assumes "sorts A srt cmp" "set xs \<subseteq> A"
  shows "\<exists>dropped. mset xs = mset (take n (srt cmp xs)) + mset dropped \<and>
    (\<forall>x\<in>set (take n (srt cmp xs)). \<forall>y\<in>set dropped. key x \<le> key y)"
proof (intro exI conjI ballI)
  show "mset xs = mset (take n (srt cmp xs)) + mset (drop n (srt cmp xs))"
    by (metis append_take_drop_id perm [OF assms] mset_append)
qed (rule cut_order [OF assms])

end


subsection \<open>Peers and protocols\<close>

definition directionInbound :: string where "directionInbound = ''inbound''"
definition directionOutbound :: string where "directionOutbound = ''outbound''"

definition protoName :: "int \<Rightarrow> string" where
  "protoName proto = (if proto = 6 then ''TCP'' else if proto = 17 then ''UDP'' else dec_int proto)"

definition draftBlocked :: "string \<Rightarrow> bool" where
  "draftBlocked decision \<longleftrightarrow> decision = DecisionBlocked \<or> decision = DecisionPotentiallyBlocked"

definition peerKey :: "smap \<Rightarrow> string \<Rightarrow> string" where
  "peerKey labels ip =
     (if length labels = 0 then ''ip:'' @ ip
      else concat (map (\<lambda>k. k @ ''='' @ mget labels k @ '';'') (sort (map fst labels))))"

definition scopeLabelValues :: "object_meta \<Rightarrow> cluster_profile \<Rightarrow> smap" where
  "scopeLabelValues ns cp =
     (let desired = ComputeDesiredCWP (om_name ns) (om_labels ns) (om_annotations ns)
            (cps_namespace_rules (cp_spec cp)) (cps_system_namespaces (cp_spec cp)) in
      if \<not> d_managed desired then []
      else scopeLabelSubset (d_labels desired) (ScopeLabelKeys (cp_spec cp)))"


subsection \<open>Summaries and findings\<close>

definition count_flow :: "decision_counts \<Rightarrow> traffic_flow \<Rightarrow> decision_counts" where
  "count_flow c f =
     (let d = tf_draft_policy_decision f;
          c = (if d = DecisionAllowed then c\<lparr>dc_allowed := dc_allowed c + 1\<rparr>
               else if d = DecisionPotentiallyBlocked
                 then c\<lparr>dc_potentially_blocked := dc_potentially_blocked c + 1\<rparr>
               else if d = DecisionBlocked then c\<lparr>dc_blocked := dc_blocked c + 1\<rparr>
               else c\<lparr>dc_unknown := dc_unknown c + 1\<rparr>)
      in c\<lparr>dc_total := dc_total c + 1\<rparr>)"

definition summarizeFlows :: "traffic_flow list \<Rightarrow> decision_counts" where
  "summarizeFlows flows =
     foldl count_flow \<lparr>dc_allowed = 0, dc_potentially_blocked = 0, dc_blocked = 0, dc_unknown = 0,
       dc_total = 0\<rparr> flows"

type_synonym flow_key = "string \<times> int \<times> int"

definition flow_peer :: "string \<Rightarrow> traffic_flow \<Rightarrow> smap \<times> string" where
  "flow_peer direction f =
     (if direction = directionInbound then (tf_src_labels f, tf_src_ip f)
      else (tf_dst_labels f, tf_dst_ip f))"

definition flow_key_of :: "string \<Rightarrow> traffic_flow \<Rightarrow> flow_key" where
  "flow_key_of direction f =
     (peerKey (fst (flow_peer direction f)) (snd (flow_peer direction f)), tf_port f, tf_protocol f)"

definition new_finding :: "string \<Rightarrow> traffic_flow \<Rightarrow> flow_finding" where
  "new_finding direction f =
     \<lparr>ff_peer = fst (flow_peer direction f), ff_peer_ip = snd (flow_peer direction f),
      ff_port = tf_port f, ff_protocol = protoName (tf_protocol f),
      ff_connections = tf_connections f, ff_decision = tf_draft_policy_decision f,
      ff_last_detected = Some (tf_last_detected f)\<rparr>"

definition classify_step ::
  "string \<Rightarrow> (flow_key \<times> flow_finding) list \<Rightarrow> traffic_flow \<Rightarrow> (flow_key \<times> flow_finding) list" where
  \<comment> \<open>the loop body; \<open>seen\<close> and \<open>order\<close> are one list of entries in order of insertion\<close>
  "classify_step direction seen f =
     (if \<not> draftBlocked (tf_draft_policy_decision f) then seen
      else let k = flow_key_of direction f in
        case map_of seen k of
          Some e \<Rightarrow> AList.update k (e\<lparr>ff_connections := wrap64 (ff_connections e + tf_connections f)\<rparr>) seen
        | None \<Rightarrow> seen @ [(k, new_finding direction f)])"

definition finding_cmp :: "flow_finding \<Rightarrow> flow_finding \<Rightarrow> int" where
  "finding_cmp a b =
     (let c = cmp_compare (peerKey (ff_peer a) (ff_peer_ip a)) (peerKey (ff_peer b) (ff_peer_ip b)) in
      if c \<noteq> 0 then c
      else let c = cmp_compare (ff_port a) (ff_port b) in
        if c \<noteq> 0 then c else cmp_compare (ff_protocol a) (ff_protocol b))"

definition classifyFlows ::
  "flow_finding sorter \<Rightarrow> traffic_flow list \<Rightarrow> string \<Rightarrow> flow_finding list" where
  "classifyFlows srt flows direction =
     srt finding_cmp (map snd (foldl (classify_step direction) [] flows))"

definition cap_cmp :: "flow_finding \<Rightarrow> flow_finding \<Rightarrow> int" where
  \<comment> \<open>descending by connections\<close>
  "cap_cmp a b =
     (let c = cmp_compare (ff_connections b) (ff_connections a) in
      if c \<noteq> 0 then c
      else let c = cmp_compare (peerKey (ff_peer a) (ff_peer_ip a)) (peerKey (ff_peer b) (ff_peer_ip b)) in
        if c \<noteq> 0 then c else cmp_compare (ff_port a) (ff_port b))"

definition capFindings ::
  "flow_finding sorter \<Rightarrow> flow_finding list \<Rightarrow> int \<Rightarrow> flow_finding list \<times> bool" where
  "capFindings srt f n =
     (if n \<le> 0 \<or> int (length f) \<le> n then (f, False)
      else (take (nat n) (srt cap_cmp f), True))"

subsection \<open>The comparisons\<close>

type_synonym finding_key = "string \<times> int \<times> string"

definition finding_key :: "flow_finding \<Rightarrow> finding_key" where
  "finding_key x = (peerKey (ff_peer x) (ff_peer_ip x), ff_port x, ff_protocol x)"

definition cap_key :: "flow_finding \<Rightarrow> int \<times> string \<times> int" where
  "cap_key x = (- ff_connections x, peerKey (ff_peer x) (ff_peer_ip x), ff_port x)"

interpretation findings: keyed_comparator UNIV finding_cmp finding_key
  by unfold_locales (auto simp: finding_cmp_def finding_key_def Let_def less_eq_prod_def)

interpretation caps: keyed_comparator UNIV cap_cmp cap_key
  by unfold_locales (auto simp: cap_cmp_def cap_key_def Let_def less_eq_prod_def)


subsection \<open>Reference: one finding per group of flows\<close>

text \<open>
  The declarative reading of the loop: the blocked flows are grouped by peer, port and
  protocol; the finding of a group is its first flow with the connections of all of them.
\<close>

definition blocked_flows :: "traffic_flow list \<Rightarrow> traffic_flow list" where
  "blocked_flows flows = filter (\<lambda>f. draftBlocked (tf_draft_policy_decision f)) flows"

definition flow_group :: "string \<Rightarrow> traffic_flow list \<Rightarrow> flow_key \<Rightarrow> traffic_flow list" where
  "flow_group direction flows k = filter (\<lambda>f. flow_key_of direction f = k) (blocked_flows flows)"

definition group_finding :: "string \<Rightarrow> traffic_flow list \<Rightarrow> flow_finding" where
  "group_finding direction fs =
     (new_finding direction (hd fs))\<lparr>ff_connections :=
       foldl (\<lambda>n f. wrap64 (n + tf_connections f)) (tf_connections (hd fs)) (tl fs)\<rparr>"

definition flow_keys :: "string \<Rightarrow> traffic_flow list \<Rightarrow> flow_key list" where
  \<comment> \<open>in order of their first flow\<close>
  "flow_keys direction flows = rev (remdups (rev (map (flow_key_of direction) (blocked_flows flows))))"

lemma set_flow_keys: "set (flow_keys direction flows) = flow_key_of direction ` set (blocked_flows flows)"
  by (simp add: flow_keys_def)

lemma distinct_flow_keys: "distinct (flow_keys direction flows)"
  by (simp add: flow_keys_def)

lemma flow_group_nonempty: "k \<in> set (flow_keys direction flows) \<Longrightarrow> flow_group direction flows k \<noteq> []"
  by (auto simp: set_flow_keys flow_group_def filter_empty_conv)

lemma group_finding_single: "group_finding direction [f] = new_finding direction f"
  by (simp add: group_finding_def new_finding_def)

lemma group_finding_snoc:
  "fs \<noteq> [] \<Longrightarrow> group_finding direction (fs @ [f]) =
     (group_finding direction fs)\<lparr>ff_connections :=
        wrap64 (ff_connections (group_finding direction fs) + tf_connections f)\<rparr>"
  by (cases fs) (simp_all add: group_finding_def)

lemma map_of_graph: "map_of (map (\<lambda>k. (k, g k)) ks) k = (if k \<in> set ks then Some (g k) else None)"
  by (induction ks) auto

lemma update_graph:
  "k \<in> set ks \<Longrightarrow> distinct ks \<Longrightarrow>
   AList.update k v (map (\<lambda>k. (k, g k)) ks) = map (\<lambda>k'. (k', if k' = k then v else g k')) ks"
  by (induction ks) auto

lemma classify_loop:
  "foldl (classify_step direction) [] flows =
     map (\<lambda>k. (k, group_finding direction (flow_group direction flows k))) (flow_keys direction flows)"
proof (induction flows rule: rev_induct)
  case Nil
  then show ?case by (simp add: flow_keys_def blocked_flows_def)
next
  case (snoc f flows)
  let ?k = "flow_key_of direction f"
  let ?seen = "map (\<lambda>k. (k, group_finding direction (flow_group direction flows k))) (flow_keys direction flows)"
  have step: "foldl (classify_step direction) [] (flows @ [f]) = classify_step direction ?seen f"
    by (simp add: snoc)
  show ?case
  proof (cases "draftBlocked (tf_draft_policy_decision f)")
    case False
    then show ?thesis
      unfolding step by (simp add: classify_step_def flow_keys_def flow_group_def blocked_flows_def)
  next
    case True
    then have group: "flow_group direction (flows @ [f]) k =
        flow_group direction flows k @ (if k = ?k then [f] else [])" for k
      by (auto simp: flow_group_def blocked_flows_def)
    show ?thesis
    proof (cases "?k \<in> set (flow_keys direction flows)")
      case old: True
      with True have keys: "flow_keys direction (flows @ [f]) = flow_keys direction flows"
        by (auto simp: flow_keys_def blocked_flows_def)
      show ?thesis
        using True old flow_group_nonempty [OF old]
        unfolding step by (simp add: classify_step_def Let_def map_of_graph update_graph distinct_flow_keys
            keys group group_finding_snoc)
    next
      case new: False
      with True have keys: "flow_keys direction (flows @ [f]) = flow_keys direction flows @ [?k]"
        by (auto simp: flow_keys_def blocked_flows_def)
      have "flow_group direction flows ?k = []"
        using new by (auto simp: flow_group_def set_flow_keys filter_empty_conv image_iff)
      then show ?thesis
        using True new
        unfolding step by (auto simp: classify_step_def Let_def map_of_graph keys group group_finding_single)
    qed
  qed
qed

subsection \<open>Distinct groups give distinct findings\<close>

lemma dec_nat_inj: "dec_nat a = dec_nat b \<Longrightarrow> a = b"
  by (metis digits_value_dec_nat)

lemma dec_nat_is_digit: "c \<in> set (dec_nat n) \<Longrightarrow> is_digit c"
  using dec_nat_digits [of n] by (simp add: list_all_iff)

lemma dec_int_chars: "c \<in> set (dec_int i) \<Longrightarrow> is_digit c \<or> c = CHR ''-''"
  by (auto simp: dec_int_def dest: dec_nat_is_digit split: if_splits)

lemma dec_int_inj: "dec_int a = dec_int b \<Longrightarrow> a = b"
proof -
  have minus: "dec_nat n \<noteq> CHR ''-'' # s" for n s
    using dec_nat_is_digit [of "CHR ''-''" n] by (auto simp: is_digit_def)
  show "dec_int a = dec_int b \<Longrightarrow> a = b"
    using minus minus [symmetric] by (auto simp: dec_int_def dest: dec_nat_inj split: if_splits)
qed

lemma protoName_inj: "protoName a = protoName b \<Longrightarrow> a = b"
proof -
  have "CHR ''T'' \<notin> set (dec_int i)" "CHR ''U'' \<notin> set (dec_int i)" for i
    using dec_int_chars [of "CHR ''T''" i] dec_int_chars [of "CHR ''U''" i] by (auto simp: is_digit_def)
  then have "dec_int i \<noteq> ''TCP''" "dec_int i \<noteq> ''UDP''" for i by (metis list.set_intros(1))+
  then show "protoName a = protoName b \<Longrightarrow> a = b"
    by (auto simp: protoName_def dest: dec_int_inj split: if_splits dest: sym)
qed

lemma group_finding_key:
  assumes "(p, port, proto) \<in> set (flow_keys direction flows)"
  shows "finding_key (group_finding direction (flow_group direction flows (p, port, proto))) =
    (p, port, protoName proto)"
proof -
  have "hd (flow_group direction flows (p, port, proto)) \<in> set (flow_group direction flows (p, port, proto))"
    using flow_group_nonempty [OF assms] by simp
  then have "flow_key_of direction (hd (flow_group direction flows (p, port, proto))) = (p, port, proto)"
    by (auto simp: flow_group_def)
  then show ?thesis
    by (simp add: finding_key_def group_finding_def new_finding_def flow_key_of_def)
qed

lemma inj_group_finding:
  "inj_on (\<lambda>k. finding_key (group_finding direction (flow_group direction flows k))) (set (flow_keys direction flows))"
proof (rule inj_onI)
  fix k k' :: flow_key
  obtain p port proto p' port' proto' where k: "k = (p, port, proto)" "k' = (p', port', proto')"
    by (metis prod_cases3)
  assume "k \<in> set (flow_keys direction flows)" "k' \<in> set (flow_keys direction flows)"
    and "finding_key (group_finding direction (flow_group direction flows k)) =
      finding_key (group_finding direction (flow_group direction flows k'))"
  then show "k = k'"
    unfolding k by (auto simp: group_finding_key dest: protoName_inj)
qed


subsection \<open>Properties\<close>

text \<open>
  C31: The findings are one per group of would-be-blocked flows, a group being a peer, a port
  and a protocol: the first flow of the group with the connections of all its flows (so the
  decision and the last detection are those of the first), in the order of the comparison,
  without two findings of the same key. This holds for every sort Go may use.
\<close>
theorem classifyFlows_groups:
  assumes "sorts UNIV srt finding_cmp"
  shows "classifyFlows srt flows direction =
      sort_key finding_key (map (\<lambda>k. group_finding direction (flow_group direction flows k))
        (flow_keys direction flows)) \<and>
    distinct (map finding_key (classifyFlows srt flows direction))"
proof -
  let ?xs = "map (\<lambda>k. group_finding direction (flow_group direction flows k)) (flow_keys direction flows)"
  have keys: "distinct (map finding_key ?xs)"
    using distinct_flow_keys inj_group_finding by (simp add: distinct_map comp_def)
  have "inj_on finding_key (set ?xs)"
    using inj_group_finding by (simp add: inj_on_imageI comp_def)
  from findings.unique [OF assms subset_UNIV this]
  have eq: "classifyFlows srt flows direction = sort_key finding_key ?xs"
    by (simp add: classifyFlows_def classify_loop comp_def)
  have "mset (map finding_key (sort_key finding_key ?xs)) = mset (map finding_key ?xs)"
    by (simp only: mset_map mset_sort)
  with keys have "distinct (map finding_key (sort_key finding_key ?xs))"
    by (metis mset_eq_imp_distinct_iff)
  with eq show ?thesis by simp
qed

text \<open>
  C36: A cap keeps the findings with the most connections: the result has at most \<open>n\<close> entries,
  is reported as truncated exactly when something was dropped, and nothing that was dropped
  has more connections than something that was kept. No finding is invented or duplicated.
\<close>
theorem capFindings_keeps_top:
  assumes "sorts UNIV srt cap_cmp" and "0 < n" and "capFindings srt fs n = (out, truncated)"
  shows "int (length out) = min n (int (length fs)) \<and> (truncated \<longleftrightarrow> n < int (length fs)) \<and>
    (\<exists>dropped. mset fs = mset out + mset dropped \<and>
       (\<forall>x\<in>set out. \<forall>y\<in>set dropped. ff_connections y \<le> ff_connections x))"
proof (cases "int (length fs) \<le> n")
  case True
  with assms(2,3) show ?thesis by (auto simp: capFindings_def intro!: exI [of _ "[]"])
next
  case False
  then have out: "out = take (nat n) (srt cap_cmp fs)" "truncated"
    using assms(2,3) by (auto simp: capFindings_def)
  obtain dropped where "mset fs = mset out + mset dropped"
    and "\<forall>x\<in>set out. \<forall>y\<in>set dropped. cap_key x \<le> cap_key y"
    using caps.cut_keeps_least [OF assms(1) subset_UNIV, of fs "nat n"] unfolding out by blast
  moreover from this(2) have "\<forall>x\<in>set out. \<forall>y\<in>set dropped. ff_connections y \<le> ff_connections x"
    by (fastforce simp: cap_key_def less_eq_prod_def)
  ultimately show ?thesis
    using False assms(2) out caps.length_sorted [OF assms(1) subset_UNIV, of fs] by auto
qed

definition sim_flow :: "string \<Rightarrow> int \<Rightarrow> int \<Rightarrow> traffic_flow" where
  \<comment> \<open>a blocked TCP flow from an unlabelled address to a port\<close>
  "sim_flow ip port n =
     \<lparr>tf_src_labels = [], tf_dst_labels = [(''app'', ''shop'')], tf_src_ip = ip, tf_dst_ip = '''',
      tf_port = port, tf_protocol = 6, tf_policy_decision = ''allowed'',
      tf_draft_policy_decision = DecisionBlocked, tf_connections = n, tf_last_detected = n\<rparr>"

theorem classifyFlows_groups_witness:
  "let fs = classifyFlows insertion_sort [sim_flow ''10.0.0.2'' 443 5, sim_flow ''10.0.0.1'' 443 1, sim_flow ''10.0.0.2'' 443 7]
       directionInbound
   in distinct (map finding_key fs) \<and>
      map (\<lambda>x. (ff_peer_ip x, ff_connections x, ff_last_detected x)) fs =
        [(''10.0.0.1'', 1, Some 1), (''10.0.0.2'', 12, Some 5)]"
proof -
  have "distinct (map finding_key (classifyFlows insertion_sort
      [sim_flow ''10.0.0.2'' 443 5, sim_flow ''10.0.0.1'' 443 1, sim_flow ''10.0.0.2'' 443 7] directionInbound))"
    using classifyFlows_groups [OF findings.sorts_insertion] by blast
  moreover have "map (\<lambda>x. (ff_peer_ip x, ff_connections x, ff_last_detected x)) (classifyFlows insertion_sort
      [sim_flow ''10.0.0.2'' 443 5, sim_flow ''10.0.0.1'' 443 1, sim_flow ''10.0.0.2'' 443 7] directionInbound) =
      [(''10.0.0.1'', 1, Some 1), (''10.0.0.2'', 12, Some 5)]" by code_simp
  ultimately show ?thesis by (simp add: Let_def)
qed

theorem capFindings_keeps_top_witness:
  "let fs = map (new_finding directionInbound) [sim_flow ''10.0.0.1'' 80 3, sim_flow ''10.0.0.2'' 80 9]
   in \<exists>out. capFindings insertion_sort fs 1 = (out, True) \<and> length out = 1"
proof -
  let ?fs = "map (new_finding directionInbound) [sim_flow ''10.0.0.1'' 80 3, sim_flow ''10.0.0.2'' 80 9]"
  obtain out t where cap: "capFindings insertion_sort ?fs 1 = (out, t)" by fastforce
  from capFindings_keeps_top [OF caps.sorts_insertion _ cap] have "length out = 1" "t" by simp_all
  with cap show ?thesis by (simp add: Let_def)
qed

end
