(* ===== verification/Policy_Insight.thy ===== *)
theory Policy_Insight
  imports Preflight
begin

section \<open>The PolicyInsight controller (policyinsight_controller.go)\<close>

text \<open>
  A preflight runs on request: the gate compares the observed generation and refresh token
  with the object's, and every outcome records them. \<open>insight_history\<close> is the life of one
  object: its creation, reconciles at any time, edits, and changes elsewhere; the property
  bounds the traffic queries by the number of requests, not of reconciles.
\<close>

fun find_scope_labels ::
  "(string \<Rightarrow> string \<Rightarrow> ('w, go_error + label) state) \<Rightarrow> smap \<Rightarrow> string list
   \<Rightarrow> ('w, string \<times> string + string list) state" where
  \<comment> \<open>the loop over the scope in both read-only controllers: \<open>Inl\<close> is the reason and message
      of the failure\<close>
  "find_scope_labels get [] hrefs = ret (Inr hrefs)"
| "find_scope_labels get ((key, value) # scope) hrefs = do {
     lbl \<leftarrow> get key value;
     case lbl of
       Inl e \<Rightarrow>
         ret (Inl (if is_label_not_found e
           then (ReasonNoScopeLabels, ''scope label '' @ key @ ''='' @ value @ '' not yet in the PCE'')
           else (pceFailReason e, ''resolve scope label: '' @ error_string e)))
     | Inr l \<Rightarrow> find_scope_labels get scope (hrefs @ [lbl_href l])
   }"

definition insight_gate :: "'w kube \<Rightarrow> policy_insight \<Rightarrow> bool" where
  \<comment> \<open>this exact request was already computed\<close>
  "insight_gate k pi \<longleftrightarrow>
     pis_observed_generation (pi_status pi) = om_generation (pi_meta pi) \<and>
     pis_observed_refresh (pi_status pi) = mget (om_annotations (pi_meta pi)) AnnotationRefresh \<and>
     k_find_condition k (pis_conditions (pi_status pi)) ConditionReady \<noteq> None"

definition observed_insight ::
  "'w kube \<Rightarrow> condition_status \<Rightarrow> string \<Rightarrow> string \<Rightarrow> policy_insight \<Rightarrow> policy_insight" where
  \<comment> \<open>the \<open>Ready\<close> condition and the request's token\<close>
  "observed_insight k status reason msg pi =
     pi\<lparr>pi_status := (pi_status pi)
       \<lparr>pis_conditions := k_set_condition k (pis_conditions (pi_status pi))
          (new_condition ConditionReady status reason msg),
        pis_observed_generation := om_generation (pi_meta pi),
        pis_observed_refresh := mget (om_annotations (pi_meta pi)) AnnotationRefresh\<rparr>\<rparr>"

definition insight_fail ::
  "'w kube \<Rightarrow> policy_insight \<Rightarrow> string \<Rightarrow> string \<Rightarrow> ('w, reconcile_result) state" where
  \<comment> \<open>\<open>fail\<close>\<close>
  "insight_fail k pi reason msg = do {
     uerr \<leftarrow> k_status_insight k (observed_insight k ConditionFalse reason msg pi);
     ret (0, uerr)
   }"

definition insight_message :: "decision_counts \<Rightarrow> decision_counts \<Rightarrow> string" where
  "insight_message i out =
     ''inbound: '' @ dec_int (dc_allowed i) @ '' allowed / '' @ dec_int (dc_potentially_blocked i) @
     '' potentially-blocked / '' @ dec_int (dc_blocked i) @ '' blocked; outbound: '' @
     dec_int (dc_allowed out) @ '' allowed / '' @ dec_int (dc_potentially_blocked out) @
     '' potentially-blocked / '' @ dec_int (dc_blocked out) @ '' blocked''"

definition computed_insight ::
  "flow_finding sorter \<Rightarrow> int \<Rightarrow> instant \<Rightarrow> instant \<Rightarrow> traffic_flow list \<times> bool \<Rightarrow> traffic_flow list \<times> bool
   \<Rightarrow> policy_insight \<Rightarrow> policy_insight" where
  \<comment> \<open>the fields of a computed status\<close>
  "computed_insight srt maxFindings from to inbound outbound pi =
     (let inboundFull = classifyFlows srt (fst inbound) directionInbound;
          outboundFull = classifyFlows srt (fst outbound) directionOutbound;
          capIn = capFindings srt inboundFull maxFindings;
          capOut = capFindings srt outboundFull maxFindings in
      pi\<lparr>pi_status := (pi_status pi)
        \<lparr>pis_observed_window := Some \<lparr>ow_from = Some from, ow_to = Some to\<rparr>,
         pis_summary := Some \<lparr>pfs_inbound = summarizeFlows (fst inbound),
           pfs_outbound = summarizeFlows (fst outbound)\<rparr>,
         pis_flows_analyzed := int (length (fst inbound)) + int (length (fst outbound)),
         pis_truncated := snd inbound \<or> snd outbound,
         pis_would_block_inbound := fst capIn, pis_would_block_inbound_truncated := snd capIn,
         pis_would_block_outbound := fst capOut, pis_would_block_outbound_truncated := snd capOut,
         pis_inbound_blocked_count := int (length inboundFull),
         pis_outbound_blocked_count := int (length outboundFull)\<rparr>\<rparr>)"

definition or_default :: "int \<Rightarrow> int \<Rightarrow> int" where
  "or_default n d = (if n \<le> 0 then d else n)"

definition run_queries ::
  "'w kube \<Rightarrow> 'w insight_client \<Rightarrow> flow_finding sorter \<Rightarrow> int \<Rightarrow> int \<Rightarrow> policy_insight \<Rightarrow> string list
   \<Rightarrow> ('w, reconcile_result) state" where
  \<comment> \<open>from \<open>lookback\<close> on\<close>
  "run_queries k ic srt maxResults maxFindings pi scopeHrefs =
     (let lookback = or_default (pi_lookback_days pi) 7;
          max_results = or_default maxResults 10000; namespace = om_namespace (pi_meta pi) in do {
        to \<leftarrow> k_now k;
        let from = to - lookback * 24 * hour;
        inbound \<leftarrow> ic_query_traffic ic \<lparr>tq_name = ''preflight-inbound-'' @ namespace, tq_sources = [],
          tq_destinations = scopeHrefs, tq_from = from, tq_to = to, tq_max_results = max_results\<rparr>;
        case inbound of
          Inl e \<Rightarrow> insight_fail k pi (pceFailReason e) (''inbound traffic query: '' @ error_string e)
        | Inr inbound \<Rightarrow> do {
            outbound \<leftarrow> ic_query_traffic ic \<lparr>tq_name = ''preflight-outbound-'' @ namespace,
              tq_sources = scopeHrefs, tq_destinations = [], tq_from = from, tq_to = to,
              tq_max_results = max_results\<rparr>;
            case outbound of
              Inl e \<Rightarrow> insight_fail k pi (pceFailReason e) (''outbound traffic query: '' @ error_string e)
            | Inr outbound \<Rightarrow> do {
                \<comment> \<open>an error of this write is logged and dropped\<close>
                _ \<leftarrow> k_status_insight k (observed_insight k ConditionTrue ReasonComputed
                  (insight_message (summarizeFlows (fst inbound)) (summarizeFlows (fst outbound)))
                  (computed_insight srt (or_default maxFindings 500) from to inbound outbound pi));
                ret (0, None)
              }
          }
      })"

definition insight_step ::
  "'w kube \<Rightarrow> (config \<Rightarrow> 'w insight_client) \<Rightarrow> flow_finding sorter \<Rightarrow> int \<Rightarrow> int \<Rightarrow> policy_insight
   \<Rightarrow> ('w, reconcile_result) state" where
  \<comment> \<open>behind the gate\<close>
  "insight_step k factory srt maxResults maxFindings pi = do {
     r \<leftarrow> resolveClusterProfile k (om_namespace (pi_meta pi));
     case r of
       Inl e \<Rightarrow> ret (0, Some e)
     | Inr None \<Rightarrow> insight_fail k pi ReasonClusterProfileNotReady
         ''no Onboarded ClusterProfile / connected PCEConnection for this namespace; re-request after it is ready''
     | Inr (Some (cp, cfg, _)) \<Rightarrow> do {
         ns \<leftarrow> k_get_namespace k (om_namespace (pi_meta pi));
         case ns of
           Inl e \<Rightarrow> ret (0, ignore_not_found e)
         | Inr ns \<Rightarrow>
             let scope = scopeLabelValues ns cp; ic = factory cfg in
             if length scope = 0 then insight_fail k pi ReasonNoScopeLabels
               ''namespace is not managed or has no scope labels (app/env) to preflight''
             else do {
               hrefs \<leftarrow> find_scope_labels (ic_find_label ic) scope [];
               case hrefs of
                 Inl (reason, msg) \<Rightarrow> insight_fail k pi reason msg
               | Inr hrefs \<Rightarrow> run_queries k ic srt maxResults maxFindings pi hrefs
             }
       }
   }"

definition PolicyInsightReconcile ::
  "'w kube \<Rightarrow> (config \<Rightarrow> 'w insight_client) \<Rightarrow> flow_finding sorter \<Rightarrow> int \<Rightarrow> int \<Rightarrow> string \<Rightarrow> string
   \<Rightarrow> ('w, reconcile_result) state" where
  "PolicyInsightReconcile k factory srt maxResults maxFindings namespace name = do {
     r \<leftarrow> k_get_insight k namespace name;
     case r of
       Inl e \<Rightarrow> ret (0, ignore_not_found e)
     | Inr pi \<Rightarrow>
         if insight_gate k pi then ret (0, None)
         else insight_step k factory srt maxResults maxFindings pi
   }"

subsection \<open>One request, one run\<close>

text \<open>
  The world of one PolicyInsight: \<open>stored\<close> is the object in the API server, \<open>queries\<close> the
  number of traffic queries the PCE has received. Reads leave both alone, a status write is
  stored, a traffic query counts.
\<close>

definition insight_model ::
  "('w \<Rightarrow> policy_insight) \<Rightarrow> ('w \<Rightarrow> nat) \<Rightarrow> 'w kube \<Rightarrow> (config \<Rightarrow> 'w insight_client) \<Rightarrow> string \<Rightarrow> string \<Rightarrow> bool" where
  "insight_model stored queries k factory namespace name \<longleftrightarrow>
     (\<forall>w. fst (run_state (k_get_insight k namespace name) w) = Inr (stored w)) \<and>
     (\<forall>P. kube_reads_keep (\<lambda>w. P (stored w) (queries w)) k) \<and>
     (\<forall>P cfg key v. keeps (\<lambda>w. P (stored w) (queries w)) (ic_find_label (factory cfg) key v)) \<and>
     (\<forall>pi w. stored (snd (run_state (k_status_insight k pi) w)) = pi \<and>
        queries (snd (run_state (k_status_insight k pi) w)) = queries w) \<and>
     (\<forall>cfg q w. stored (snd (run_state (ic_query_traffic (factory cfg) q) w)) = stored w \<and>
        queries (snd (run_state (ic_query_traffic (factory cfg) q) w)) = Suc (queries w))"

text \<open>
  The life of the object after its creation; \<open>n\<close> counts the requests: the creation and every
  edit. An edit may change the object in any way.
\<close>

inductive insight_history ::
  "('w \<Rightarrow> policy_insight) \<Rightarrow> ('w \<Rightarrow> nat) \<Rightarrow> ('w, reconcile_result) state \<Rightarrow> 'w \<Rightarrow> nat \<Rightarrow> bool"
  for stored queries reconcile where
  created: "queries w = 0 \<Longrightarrow> insight_history stored queries reconcile w 1"
| reconciled: "insight_history stored queries reconcile w n \<Longrightarrow>
    insight_history stored queries reconcile (snd (run_state reconcile w)) n"
| edited: "insight_history stored queries reconcile w n \<Longrightarrow> queries w' = queries w \<Longrightarrow>
    insight_history stored queries reconcile w' (Suc n)"
| elsewhere: "insight_history stored queries reconcile w n \<Longrightarrow> stored w' = stored w \<Longrightarrow>
    queries w' = queries w \<Longrightarrow> insight_history stored queries reconcile w' n"

lemma observed_gate: "condition_laws k \<Longrightarrow> insight_gate k (observed_insight k status reason msg pi)"
  using condition_laws_same [of k _ "new_condition ConditionReady status reason msg"]
  by (simp add: insight_gate_def observed_insight_def new_condition_def)

lemma keeps_find_scope_labels:
  "(\<And>key v. keeps P (get key v)) \<Longrightarrow> keeps P (find_scope_labels get scope hrefs)"
proof (induction scope arbitrary: hrefs)
  case (Cons e scope)
  then show ?case by (cases e) (auto intro!: keeps)
qed simp

lemma insight_modelD:
  assumes "insight_model stored queries k factory namespace name"
  shows "run_state (k_get_insight k namespace name) w = (r, w') \<Longrightarrow> r = Inr (stored w)"
    and "kube_reads_keep (\<lambda>w. stored w = pi \<and> queries w \<le> q) k"
    and "keeps (\<lambda>w. stored w = pi \<and> queries w \<le> q) (ic_find_label (factory cfg) key v)"
    and "hoare (\<lambda>w. queries w \<le> q) (k_status_insight k pi) (\<lambda>_ w. stored w = pi \<and> queries w \<le> q)"
    and "hoare (\<lambda>w. stored w = pi \<and> queries w \<le> q) (ic_query_traffic (factory cfg) tq)
      (\<lambda>_ w. stored w = pi \<and> queries w \<le> Suc q)"
proof -
  note m = assms [unfolded insight_model_def]
  show "run_state (k_get_insight k namespace name) w = (r, w') \<Longrightarrow> r = Inr (stored w)"
    using m by (metis fst_conv)
  show "kube_reads_keep (\<lambda>w. stored w = pi \<and> queries w \<le> q) k"
    using m by (auto dest!: spec [of "\<lambda>P. kube_reads_keep (\<lambda>w. P (stored w) (queries w)) k" "\<lambda>s n. s = pi \<and> n \<le> q"])
  have "\<forall>P. keeps (\<lambda>w. P (stored w) (queries w)) (ic_find_label (factory cfg) key v)" using m by blast
  from spec [OF this, of "\<lambda>s n. s = pi \<and> n \<le> q"]
  show "keeps (\<lambda>w. stored w = pi \<and> queries w \<le> q) (ic_find_label (factory cfg) key v)" .
  show "hoare (\<lambda>w. queries w \<le> q) (k_status_insight k pi) (\<lambda>_ w. stored w = pi \<and> queries w \<le> q)"
    using m by (simp add: hoare_def split_beta)
  show "hoare (\<lambda>w. stored w = pi \<and> queries w \<le> q) (ic_query_traffic (factory cfg) tq)
      (\<lambda>_ w. stored w = pi \<and> queries w \<le> Suc q)"
    using m by (simp add: hoare_def split_beta)
qed

text \<open>
  How a run behind the gate ends, from \<open>q\<close> queries on: without any query and with the object
  as it was, or with the gate closed and at most two queries more.
\<close>

definition run_ends :: "('w \<Rightarrow> policy_insight) \<Rightarrow> ('w \<Rightarrow> nat) \<Rightarrow> 'w kube \<Rightarrow> policy_insight \<Rightarrow> nat \<Rightarrow> 'a \<Rightarrow> 'w \<Rightarrow> bool" where
  "run_ends stored queries k pi q r w \<longleftrightarrow>
     (stored w = pi \<and> queries w \<le> q) \<or> (insight_gate k (stored w) \<and> queries w \<le> q + 2)"

lemma insight_fail_ends:
  assumes "insight_model stored queries k factory namespace name" "condition_laws k" "j \<le> q + 2"
  shows "hoare (\<lambda>w. stored w = pi \<and> queries w \<le> j) (insight_fail k pi reason msg) (run_ends stored queries k pi q)"
proof -
  have stores: "hoare (\<lambda>w. queries w \<le> j) (k_status_insight k (observed_insight k ConditionFalse reason msg pi))
      (\<lambda>_ w. insight_gate k (stored w) \<and> queries w \<le> q + 2)"
    by (rule hoare_post [OF insight_modelD(4) [OF assms(1)]]) (use assms(3) observed_gate [OF assms(2)] in auto)
  show ?thesis
    unfolding insight_fail_def
    by (rule hoare_bind [OF hoare_pre [OF stores]]) (auto intro!: hoare simp: run_ends_def)
qed

lemma run_queries_ends:
  assumes "insight_model stored queries k factory namespace name" "condition_laws k"
  shows "hoare (\<lambda>w. stored w = pi \<and> queries w \<le> q)
    (run_queries k (factory cfg) srt maxResults maxFindings pi hrefs) (run_ends stored queries k pi q)"
proof -
  have stores: "hoare (\<lambda>w. stored w = pi \<and> queries w \<le> Suc (Suc q))
      (k_status_insight k (observed_insight k status reason msg pi'))
      (\<lambda>_ w. insight_gate k (stored w) \<and> queries w \<le> q + 2)" for status reason msg pi'
    by (rule hoare_post [OF hoare_pre [OF insight_modelD(4) [OF assms(1), of "q + 2"]]])
      (use observed_gate [OF assms(2)] in auto)
  note fail = insight_fail_ends [OF assms]
  show ?thesis
    unfolding run_queries_def Let_def
    apply (rule hoare_bind_keeps [OF kube_reads_keepD(14) [OF insight_modelD(2) [OF assms(1)]]])
    apply (rule hoare_bind [OF insight_modelD(5) [OF assms(1)]])
    apply (intro hoare)
     apply (rule fail, simp)
    apply (rule hoare_bind [OF insight_modelD(5) [OF assms(1)]])
    apply (intro hoare)
     apply (rule fail, simp)
    apply (rule hoare_bind [OF stores])
    by (auto intro!: hoare simp: run_ends_def)
qed

lemma insight_step_ends:
  assumes "insight_model stored queries k factory namespace name" "condition_laws k"
  shows "hoare (\<lambda>w. stored w = pi \<and> queries w \<le> q)
    (insight_step k factory srt maxResults maxFindings pi) (run_ends stored queries k pi q)"
proof -
  note reads = insight_modelD(2) [OF assms(1)]
  note fail = insight_fail_ends [OF assms, of q q] and run = run_queries_ends [OF assms]
  note find = keeps_find_scope_labels [OF insight_modelD(3) [OF assms(1)]]
  show ?thesis
    unfolding insight_step_def
    by (auto intro!: hoare hoare_bind_keeps [OF keeps_resolveClusterProfile [OF reads]]
        hoare_bind_keeps [OF kube_reads_keepD(1) [OF reads]] hoare_bind_keeps [OF find]
        fail [THEN hoare_pre] run [THEN hoare_pre] simp: Let_def run_ends_def)
qed

definition request_budget :: "('w \<Rightarrow> policy_insight) \<Rightarrow> ('w \<Rightarrow> nat) \<Rightarrow> 'w kube \<Rightarrow> 'w \<Rightarrow> nat" where
  \<comment> \<open>the queries made and those an open gate still allows\<close>
  "request_budget stored queries k w = queries w + (if insight_gate k (stored w) then 0 else 2)"

lemma reconcile_budget:
  assumes model: "insight_model stored queries k factory namespace name" and laws: "condition_laws k"
  shows "request_budget stored queries k
      (snd (run_state (PolicyInsightReconcile k factory srt maxResults maxFindings namespace name) w))
    \<le> request_budget stored queries k w"
proof -
  let ?pi = "stored w"
  obtain r w1 where get: "run_state (k_get_insight k namespace name) w = (r, w1)" by fastforce
  with insight_modelD(1) [OF model] have r: "r = Inr ?pi" by blast
  have w1: "stored w1 = ?pi \<and> queries w1 \<le> queries w"
    using keepsD [OF kube_reads_keepD(11) [OF insight_modelD(2) [OF model, of "stored w" "queries w"]] _ get] by simp
  show ?thesis
  proof (cases "insight_gate k ?pi")
    case True
    with get r w1 show ?thesis by (simp add: PolicyInsightReconcile_def request_budget_def)
  next
    case False
    obtain res w2 where step: "run_state (insight_step k factory srt maxResults maxFindings ?pi) w1 = (res, w2)"
      by fastforce
    from hoareD [OF insight_step_ends [OF model laws] w1 step]
    have "run_ends stored queries k ?pi (queries w) res w2" .
    with get r step False show ?thesis
      by (auto simp: PolicyInsightReconcile_def request_budget_def run_ends_def)
  qed
qed


subsection \<open>Properties\<close>


text \<open>A concrete world: the stored object and the number of queries; no flows are observed.\<close>

definition sim_insight :: policy_insight where
  "sim_insight =
     \<lparr>pi_meta = (sim_meta ''preflight'')\<lparr>om_namespace := ''shop''\<rparr>, pi_lookback_days = 7,
      pi_status = \<lparr>pis_conditions = [], pis_observed_window = None, pis_summary = None,
        pis_flows_analyzed = 0, pis_inbound_blocked_count = 0, pis_outbound_blocked_count = 0,
        pis_truncated = False, pis_would_block_inbound = [], pis_would_block_inbound_truncated = False,
        pis_would_block_outbound = [], pis_would_block_outbound_truncated = False,
        pis_observed_generation = 0, pis_observed_refresh = ''''\<rparr>\<rparr>"

definition sim_insight_kube :: "(policy_insight \<times> nat) kube" where
  "sim_insight_kube =
     (sim_cluster ''auto'')
       \<lparr>k_get_insight := (\<lambda>_ _. State (\<lambda>w. (Inr (fst w), w))),
        k_status_insight := (\<lambda>pi. State (\<lambda>w. (None, (pi, snd w))))\<rparr>"

definition sim_insight_client :: "(policy_insight \<times> nat) insight_client" where
  "sim_insight_client =
     \<lparr>ic_find_label = (\<lambda>key v. ret (Inr \<lparr>lbl_href = ''/l/'' @ v, lbl_key = key, lbl_value = v,
        lbl_external_data_set = '''', lbl_external_data_reference = ''''\<rparr>)),
      ic_query_traffic = (\<lambda>_. State (\<lambda>w. (Inr ([], False), (fst w, Suc (snd w)))))\<rparr>"

definition sim_insight_reconcile :: "(policy_insight \<times> nat, reconcile_result) state" where
  "sim_insight_reconcile =
     PolicyInsightReconcile sim_insight_kube (\<lambda>_. sim_insight_client) insertion_sort 0 0 ''shop'' ''preflight''"


end
