(* ===== verification/Rule_View.thy ===== *)
theory Rule_View
  imports Policy_Insight
begin

section \<open>Rule views (ruleview.go, ruleview_controller.go)\<close>

text \<open>
  A RuleView mirrors the PCE's rules for the namespace's app: \<open>mapRules\<close> turns found rules
  into summaries, and the controller repeats the search once per interval. Every status it
  writes is stamped with the time, the generation and the refresh token, which is what the
  time gate looks at.
\<close>

subsection \<open>Summaries\<close>

definition lastPathSegmentPub :: "string \<Rightarrow> string" where
  "lastPathSegmentPub s = after_last_index s"

definition renderActors :: "actor list \<Rightarrow> string list" where
  "renderActors actors =
     List.map_filter (\<lambda>a.
       if ac_actors a = ActorAllWorkloads then Some ActorAllWorkloads
       else case ac_label a of
              Some l \<Rightarrow> if lref_href l \<noteq> '''' then Some (''label:'' @ lastPathSegmentPub (lref_href l)) else None
            | None \<Rightarrow> None) actors"

definition renderServices :: "ingress_service list \<Rightarrow> string list" where
  "renderServices svcs =
     map (\<lambda>s. if is_href s \<noteq> '''' \<and> is_port s = 0 \<and> is_proto s = 0 then ''All Services''
              else dec_int (is_port s) @ ''/'' @ protoName (is_proto s)) svcs"

definition operator_owned :: "string \<Rightarrow> found_rule \<Rightarrow> bool" where
  "operator_owned eds f \<longleftrightarrow> eds \<noteq> '''' \<and> fr_ruleset_data_set f = eds"

definition summarize_rule :: "string \<Rightarrow> found_rule \<Rightarrow> rule_summary" where
  "summarize_rule eds f =
     \<lparr>rsm_href = fr_href f, rsm_ruleset_name = fr_ruleset_name f,
      rsm_owned_by = (if operator_owned eds f then RuleOwnedByOperator else RuleOwnedByExternal),
      rsm_type = fr_type f, rsm_enabled = fr_enabled f,
      rsm_consumers = renderActors (fr_consumers f), rsm_services = renderServices (fr_services f)\<rparr>"

fun map_loop ::
  "string \<Rightarrow> found_rule list \<Rightarrow> rule_summary list \<times> int \<times> int \<Rightarrow> rule_summary list \<times> int \<times> int" where
  \<comment> \<open>the loop over the found rules: summaries, owned, external\<close>
  "map_loop eds [] s = s"
| "map_loop eds (f # fs) (all_rules, owned, external) =
     map_loop eds fs
       (all_rules @ [summarize_rule eds f],
        if operator_owned eds f then owned + 1 else owned,
        if operator_owned eds f then external else external + 1)"

definition rule_cmp :: "rule_summary \<Rightarrow> rule_summary \<Rightarrow> int" where
  "rule_cmp a b =
     (if rsm_owned_by a \<noteq> rsm_owned_by b
      then (if rsm_owned_by a = RuleOwnedByOperator then - 1 else 1)
      else if rsm_ruleset_name a \<noteq> rsm_ruleset_name b
      then cmp_compare (rsm_ruleset_name a) (rsm_ruleset_name b)
      else cmp_compare (rsm_href a) (rsm_href b))"

definition mapRules ::
  "rule_summary sorter \<Rightarrow> found_rule list \<Rightarrow> string \<Rightarrow> int \<Rightarrow> rule_summary list \<times> int \<times> int \<times> bool" where
  "mapRules srt found eds capN =
     (case map_loop eds found ([], 0, 0) of
        (all_rules, owned, external) \<Rightarrow>
          let sorted_rules = srt rule_cmp all_rules in
          if capN > 0 \<and> int (length sorted_rules) > capN
          then (take (nat capN) sorted_rules, owned, external, True)
          else (sorted_rules, owned, external, False))"


subsection \<open>The controller\<close>

definition view_interval :: "rule_view \<Rightarrow> duration" where
  "view_interval rv =
     (let i = wrap64 (rvs_refresh_interval_minutes (rv_spec rv) * minute) in
      if i \<le> 0 then 5 * minute else i)"

definition time_sub :: "instant \<Rightarrow> instant \<Rightarrow> duration" where
  \<comment> \<open>\<open>Time.Sub\<close> saturates\<close>
  "time_sub a b = max (- (2 ^ 63)) (min (2 ^ 63 - 1) (a - b))"

definition stamped_view ::
  "'w kube \<Rightarrow> instant \<Rightarrow> condition_status \<Rightarrow> string \<Rightarrow> string \<Rightarrow> rule_view \<Rightarrow> rule_view" where
  \<comment> \<open>\<open>ObservedAt\<close>, the \<open>Ready\<close> condition and the request's token\<close>
  "stamped_view k now status reason msg rv =
     rv\<lparr>rv_status := (rv_status rv)
       \<lparr>rvst_observed_at := Some now,
        rvst_conditions := k_set_condition k (rvst_conditions (rv_status rv))
          (new_condition ConditionReady status reason msg),
        rvst_observed_generation := om_generation (rv_meta rv),
        rvst_observed_refresh := mget (om_annotations (rv_meta rv)) AnnotationRefresh\<rparr>\<rparr>"

definition write_view ::
  "'w kube \<Rightarrow> rule_view \<Rightarrow> duration \<Rightarrow> ('w, reconcile_result) state" where
  "write_view k rv interval = do {
     uerr \<leftarrow> k_status_rule_view k rv;
     ret (case uerr of Some e \<Rightarrow> (0, Some e) | None \<Rightarrow> (interval, None))
   }"

definition view_fail ::
  "'w kube \<Rightarrow> rule_view \<Rightarrow> duration \<Rightarrow> string \<Rightarrow> string \<Rightarrow> ('w, reconcile_result) state" where
  \<comment> \<open>\<open>fail\<close>\<close>
  "view_fail k rv interval reason msg = do {
     now \<leftarrow> k_now k;
     write_view k (stamped_view k now ConditionFalse reason msg rv) interval
   }"

definition synced_view ::
  "int \<Rightarrow> rule_summary list \<times> int \<times> int \<times> bool \<Rightarrow> rule_view \<Rightarrow> rule_view" where
  "synced_view found_count = (\<lambda>(rules, owned, external, truncated) rv.
     rv\<lparr>rv_status := (rv_status rv)
       \<lparr>rvst_rule_count := found_count, rvst_owned_count := owned, rvst_external_count := external,
        rvst_truncated := truncated, rvst_rules := rules\<rparr>\<rparr>)"

definition synced_message :: "int \<Rightarrow> rule_summary list \<times> int \<times> int \<times> bool \<Rightarrow> string" where
  "synced_message found_count = (\<lambda>(_, owned, external, _).
     dec_int found_count @ '' rules protect this app ('' @ dec_int owned @ '' owned, '' @
     dec_int external @ '' external)'')"

definition sync_step ::
  "'w kube \<Rightarrow> 'w rule_view_client \<Rightarrow> rule_summary sorter \<Rightarrow> int \<Rightarrow> string \<Rightarrow> rule_view \<Rightarrow> string list
   \<Rightarrow> ('w, reconcile_result) state" where
  \<comment> \<open>from the call of \<open>SearchRules\<close> on\<close>
  "sync_step k vc srt maxRules eds rv scopeHrefs = do {
     found \<leftarrow> vc_search_rules vc \<lparr>rq_providers = scopeHrefs,
                rq_policy_version = rvs_policy_version (rv_spec rv)\<rparr>;
     case found of
       Inl e \<Rightarrow> view_fail k rv (view_interval rv) (pceFailReason e) (''rule search: '' @ error_string e)
     | Inr found \<Rightarrow>
         let mapped = mapRules srt found eds (or_default maxRules 200); n = int (length found) in do {
           now \<leftarrow> k_now k;
           write_view k (stamped_view k now ConditionTrue ReasonSynced (synced_message n mapped)
             (synced_view n mapped rv)) (view_interval rv)
         }
   }"

definition view_step ::
  "'w kube \<Rightarrow> (config \<Rightarrow> 'w rule_view_client) \<Rightarrow> rule_summary sorter \<Rightarrow> int \<Rightarrow> rule_view
   \<Rightarrow> ('w, reconcile_result) state" where
  \<comment> \<open>behind the time gate\<close>
  "view_step k factory srt maxRules rv = do {
     r \<leftarrow> resolveClusterProfile k (om_namespace (rv_meta rv));
     case r of
       Inl e \<Rightarrow> ret (0, Some e)
     | Inr None \<Rightarrow> view_fail k rv (view_interval rv) ReasonClusterProfileNotReady
         ''no Onboarded ClusterProfile / connected PCEConnection for this namespace''
     | Inr (Some (cp, cfg, eds)) \<Rightarrow> do {
         ns \<leftarrow> k_get_namespace k (om_namespace (rv_meta rv));
         case ns of
           Inl e \<Rightarrow> ret (0, ignore_not_found e)
         | Inr ns \<Rightarrow>
             let scope = scopeLabelValues ns cp; vc = factory cfg in
             if length scope = 0 then view_fail k rv (view_interval rv) ReasonNoScopeLabels
               ''namespace is not managed or has no scope labels (app/env)''
             else do {
               hrefs \<leftarrow> find_scope_labels (vc_find_label vc) scope [];
               case hrefs of
                 Inl (reason, msg) \<Rightarrow> view_fail k rv (view_interval rv) reason msg
               | Inr hrefs \<Rightarrow> sync_step k vc srt maxRules eds rv hrefs
             }
       }
   }"

definition view_observed :: "'w kube \<Rightarrow> rule_view \<Rightarrow> instant option" where
  \<comment> \<open>when this generation and refresh token were last synced\<close>
  "view_observed k rv =
     (if rvst_observed_generation (rv_status rv) = om_generation (rv_meta rv) \<and>
         rvst_observed_refresh (rv_status rv) = mget (om_annotations (rv_meta rv)) AnnotationRefresh \<and>
         k_find_condition k (rvst_conditions (rv_status rv)) ConditionReady \<noteq> None
      then rvst_observed_at (rv_status rv) else None)"

definition RuleViewReconcile ::
  "'w kube \<Rightarrow> (config \<Rightarrow> 'w rule_view_client) \<Rightarrow> rule_summary sorter \<Rightarrow> int \<Rightarrow> string \<Rightarrow> string
   \<Rightarrow> ('w, reconcile_result) state" where
  "RuleViewReconcile k factory srt maxRules namespace name = do {
     r \<leftarrow> k_get_rule_view k namespace name;
     case r of
       Inl e \<Rightarrow> ret (0, ignore_not_found e)
     | Inr rv \<Rightarrow>
         (case view_observed k rv of
            Some t \<Rightarrow> do {
              now \<leftarrow> k_now k;
              let elapsed = time_sub now t in
              if elapsed < view_interval rv then ret (wrap64 (view_interval rv - elapsed), None)
              else view_step k factory srt maxRules rv
            }
          | None \<Rightarrow> view_step k factory srt maxRules rv)
   }"

subsection \<open>Order and counts\<close>

definition rule_key :: "rule_summary \<Rightarrow> bool \<times> string \<times> string" where
  "rule_key r = (rsm_owned_by r \<noteq> RuleOwnedByOperator, rsm_ruleset_name r, rsm_href r)"

definition known_owners :: "rule_summary set" where
  "known_owners = {r. rsm_owned_by r \<in> {RuleOwnedByOperator, RuleOwnedByExternal}}"

interpretation rules: keyed_comparator known_owners rule_cmp rule_key
proof
  fix a b
  assume "a \<in> known_owners" "b \<in> known_owners"
  moreover have "RuleOwnedByExternal \<noteq> RuleOwnedByOperator"
    by (simp add: RuleOwnedByOperator_def RuleOwnedByExternal_def)
  ultimately show "rule_cmp a b \<le> 0 \<longleftrightarrow> rule_key a \<le> rule_key b"
    by (cases "rsm_owned_by a = RuleOwnedByOperator"; cases "rsm_owned_by b = RuleOwnedByOperator")
      (auto simp: known_owners_def rule_cmp_def rule_key_def less_eq_prod_def)
qed

lemma map_loop_result:
  "map_loop eds found (rs, owned, external) =
     (rs @ map (summarize_rule eds) found,
      owned + int (length (filter (operator_owned eds) found)),
      external + int (length (filter (\<lambda>f. \<not> operator_owned eds f) found)))"
  by (induction found arbitrary: rs owned external) auto

lemma summaries_known: "set (map (summarize_rule eds) found) \<subseteq> known_owners"
  by (auto simp: known_owners_def summarize_rule_def)

text \<open>
  C35: The mirrored rules are the found rules, summarized: the counts are over all of them,
  also when the list is capped; the list is in order, with the operator's own rules first,
  and a cap drops only rules that come after every rule it keeps.
\<close>
theorem mapRules_exact:
  assumes "sorts known_owners srt rule_cmp"
    and "mapRules srt found eds capN = (rules, owned, external, truncated)"
  shows "owned = int (length (filter (operator_owned eds) found)) \<and>
    owned + external = int (length found) \<and>
    (truncated \<longleftrightarrow> 0 < capN \<and> capN < int (length found)) \<and>
    int (length rules) = (if truncated then capN else int (length found)) \<and>
    sorted (map rule_key rules) \<and>
    (\<exists>dropped. image_mset (summarize_rule eds) (mset found) = mset rules + mset dropped \<and>
       (\<forall>x\<in>set rules. \<forall>y\<in>set dropped. rule_key x \<le> rule_key y))"
proof -
  let ?xs = "map (summarize_rule eds) found" let ?ys = "srt rule_cmp ?xs"
  let ?n = "if 0 < capN then nat capN else length found"
  note len = rules.length_sorted [OF assms(1) summaries_known, of eds found]
  from assms(2) len have rules: "rules = take ?n ?ys"
    and rest: "owned = int (length (filter (operator_owned eds) found))"
      "external = int (length (filter (\<lambda>f. \<not> operator_owned eds f) found))"
      "truncated \<longleftrightarrow> 0 < capN \<and> capN < int (length found)"
    by (auto simp: mapRules_def map_loop_result Let_def split: if_splits)
  have "sorted (map rule_key (take ?n ?ys))"
    using rules.sorted_keys [OF assms(1) summaries_known] by (simp add: take_map [symmetric] sorted_wrt_take)
  moreover obtain dropped where "mset ?xs = mset rules + mset dropped"
    "\<forall>x\<in>set rules. \<forall>y\<in>set dropped. rule_key x \<le> rule_key y"
    using rules.cut_keeps_least [OF assms(1) summaries_known, of eds found ?n] unfolding rules by blast
  moreover have "int (length (filter (operator_owned eds) found)) +
      int (length (filter (\<lambda>f. \<not> operator_owned eds f) found)) = int (length found)"
    using sum_length_filter_compl [of "operator_owned eds" found] by linarith
  ultimately show ?thesis
    using rest len by (auto simp: rules)
qed

definition sim_found :: "string \<Rightarrow> string \<Rightarrow> found_rule" where
  "sim_found href ds =
     \<lparr>fr_href = href, fr_ruleset_href = '''', fr_ruleset_name = ''rs'', fr_ruleset_data_set = ds,
      fr_enabled = True, fr_type = RuleTypeAllow, fr_consumers = [AllWorkloadsActor], fr_services = []\<rparr>"

theorem mapRules_exact_witness:
  "\<exists>rules external. mapRules insertion_sort [sim_found ''/r/1'' ''ui'', sim_found ''/r/2'' ''op''] ''op'' 1 =
     (rules, 1, external, True) \<and> length rules = 1 \<and> external = 1"
proof -
  obtain rules owned external truncated where
    run: "mapRules insertion_sort [sim_found ''/r/1'' ''ui'', sim_found ''/r/2'' ''op''] ''op'' 1 =
      (rules, owned, external, truncated)" by (metis prod_cases4)
  have own: "filter (operator_owned ''op'') [sim_found ''/r/1'' ''ui'', sim_found ''/r/2'' ''op''] =
      [sim_found ''/r/2'' ''op'']"
    by (simp add: operator_owned_def sim_found_def)
  from mapRules_exact [OF rules.sorts_insertion run, unfolded own]
  have "owned = 1" "owned + external = 2" and t: "truncated"
    and "int (length rules) = (if truncated then 1 else 2)" by simp_all
  then have "length rules = 1" by simp
  note t this \<open>owned = 1\<close> \<open>owned + external = 2\<close>
  with run show ?thesis by simp
qed


subsection \<open>The time gate\<close>

text \<open>
  A synced view is left alone for its interval: a reconcile at a time \<open>t'\<close> less than an
  interval after the stamp \<open>t\<close>, with the spec and the refresh token unchanged, makes no PCE
  call and writes nothing; it only reads the object and the clock and asks to be called again
  when the interval ends. The stamp may come from a sync or from a recorded failure.
\<close>
theorem RuleView_time_gate:
  assumes "condition_laws k"
    and "run_state (k_get_rule_view k namespace name) w = (Inr (stamped_view k t status reason msg rv), w1)"
    and "run_state (k_now k) w1 = (t', w2)"
    and "t \<le> t'" and "t' < t + view_interval rv"
  shows "run_state (RuleViewReconcile k factory srt maxRules namespace name) w =
      ((t + view_interval rv - t', None), w2)"
proof -
  let ?rv = "stamped_view k t status reason msg rv"
  have interval: "view_interval ?rv = view_interval rv" by (simp add: stamped_view_def view_interval_def)
  have bound: "view_interval rv < 2 ^ 63"
    using wrap64_bounds by (simp add: view_interval_def Let_def minute_def second_def)
  have "view_observed k ?rv = Some t"
    using condition_laws_same [OF assms(1), of _ "new_condition ConditionReady status reason msg"]
    by (simp add: view_observed_def stamped_view_def new_condition_def)
  moreover have "time_sub t' t = t' - t" using assms(4,5) bound by (simp add: time_sub_def)
  moreover have "wrap64 (view_interval rv - (t' - t)) = t + view_interval rv - t'"
    using assms(4,5) bound by (subst wrap64_id) auto
  ultimately show ?thesis
    using assms(2,3,5) by (simp add: RuleViewReconcile_def interval Let_def)
qed

definition sim_view :: rule_view where
  "sim_view =
     \<lparr>rv_meta = (sim_meta ''view'')\<lparr>om_namespace := ''shop''\<rparr>,
      rv_spec = \<lparr>rvs_refresh_interval_minutes = 5, rvs_policy_version = ''active''\<rparr>,
      rv_status = \<lparr>rvst_conditions = [], rvst_observed_at = None, rvst_rule_count = 0,
        rvst_owned_count = 0, rvst_external_count = 0, rvst_truncated = False, rvst_rules = [],
        rvst_observed_generation = 0, rvst_observed_refresh = ''''\<rparr>\<rparr>"

theorem RuleView_time_gate_witness:
  "\<forall>factory srt. let k = (sim_cluster ''auto'' :: unit kube);
       k = k\<lparr>k_get_rule_view := (\<lambda>_ _. ret (Inr (stamped_view k 0 ConditionFalse ReasonQueryFailed '''' sim_view))),
             k_now := ret minute\<rparr>
   in run_state (RuleViewReconcile k factory srt 0 ''shop'' ''view'') () = ((4 * minute, None), ())"
proof -
  let ?k0 = "sim_cluster ''auto'' :: unit kube"
  let ?k = "?k0\<lparr>k_get_rule_view := (\<lambda>_ _. ret (Inr (stamped_view ?k0 0 ConditionFalse ReasonQueryFailed '''' sim_view))),
             k_now := ret minute\<rparr>"
  have "condition_laws ?k"
    using sim_condition_laws [of "[sim_profile ''auto'']" "[sim_meta ''shop'']" "[]" "[]"]
    by (simp add: condition_laws_def sim_cluster_def)
  moreover have "run_state (k_get_rule_view ?k ''shop'' ''view'') () =
      (Inr (stamped_view ?k 0 ConditionFalse ReasonQueryFailed '''' sim_view), ())"
    by (simp add: stamped_view_def)
  moreover have "view_interval sim_view = 5 * minute"
    by (simp add: view_interval_def sim_view_def wrap64_def minute_def second_def)
  ultimately show ?thesis
    using RuleView_time_gate [of ?k "''shop''" "''view''" "()" 0 ConditionFalse ReasonQueryFailed "''''" sim_view "()"
        minute "()" _ _ 0]
    by (simp add: Let_def minute_def second_def)
qed

end
