(* ===== verification/Observer_Status.thy ===== *)
theory Observer_Status
  imports Rule_View
begin

section \<open>The statuses of the two observers are true\<close>

text \<open>
  A PolicyInsight and a RuleView report what the PCE said about the scope of their namespace.
  Any call may fail; when it answers, the reads answer with the profile \<open>cp\<close> and the
  namespace \<open>m\<close>, a label lookup with the href \<open>L\<close> gives the label, a search with the rules \<open>R\<close>
  has for it and a traffic query with the flows \<open>T\<close> has. \<open>stored\<close> is the object in the API server.
\<close>

definition answers_with :: "('w, 'e + 'a) state \<Rightarrow> 'a \<Rightarrow> bool" where
  \<comment> \<open>an error, or this answer\<close>
  "answers_with m x \<longleftrightarrow> returns m (\<lambda>r. \<forall>y. r = Inr y \<longrightarrow> y = x)"

definition scope_reads ::
  "('w \<Rightarrow> bool) \<Rightarrow> 'w kube \<Rightarrow> string \<Rightarrow> cluster_profile \<Rightarrow> config \<Rightarrow> string \<Rightarrow> object_meta \<Rightarrow> bool" where
  \<comment> \<open>the reads every observer starts with\<close>
  "scope_reads P k namespace cp cfg eds m \<longleftrightarrow>
     kube_reads_keep P k \<and> answers_with (k_get_namespace k namespace) m \<and>
     returns (resolveClusterProfile k namespace) (\<lambda>r. \<forall>x. r = Inr (Some x) \<longrightarrow> x = (cp, cfg, eds))"

definition finds_labels ::
  "('w \<Rightarrow> bool) \<Rightarrow> (string \<Rightarrow> string \<Rightarrow> ('w, go_error + label) state) \<Rightarrow> (string \<Rightarrow> string \<Rightarrow> string) \<Rightarrow> bool" where
  "finds_labels P get L \<longleftrightarrow>
     (\<forall>key v. keeps P (get key v) \<and> returns (get key v) (\<lambda>r. \<forall>l. r = Inr l \<longrightarrow> lbl_href l = L key v))"

definition stores :: "('w \<Rightarrow> 'a) \<Rightarrow> ('a \<Rightarrow> ('w, 'r) state) \<Rightarrow> bool" where
  \<comment> \<open>a status write that fails may have had its effect or not\<close>
  "stores stored write \<longleftrightarrow>
     (\<forall>old new. hoare (\<lambda>w. stored w = old) (write new) (\<lambda>_ w. stored w = old \<or> stored w = new))"

lemma answers_withD:
  "keeps P m \<Longrightarrow> answers_with m x \<Longrightarrow> hoare P m (\<lambda>r w. P w \<and> (\<forall>y. r = Inr y \<longrightarrow> y = x))"
  unfolding answers_with_def by (rule hoare_keepsI)

lemma scope_readsD:
  assumes "scope_reads P k namespace cp cfg eds m"
  shows "kube_reads_keep P k"
    "hoare P (k_get_namespace k namespace) (\<lambda>r w. P w \<and> (\<forall>y. r = Inr y \<longrightarrow> y = m))"
    "hoare P (resolveClusterProfile k namespace) (\<lambda>r w. P w \<and> (\<forall>x. r = Inr (Some x) \<longrightarrow> x = (cp, cfg, eds)))"
proof -
  from assms show reads: "kube_reads_keep P k" by (simp add: scope_reads_def)
  from assms show "hoare P (k_get_namespace k namespace) (\<lambda>r w. P w \<and> (\<forall>y. r = Inr y \<longrightarrow> y = m))"
    by (intro answers_withD kube_reads_keepD reads) (simp add: scope_reads_def)
  from assms show "hoare P (resolveClusterProfile k namespace)
      (\<lambda>r w. P w \<and> (\<forall>x. r = Inr (Some x) \<longrightarrow> x = (cp, cfg, eds)))"
    by (intro hoare_keepsI keeps_resolveClusterProfile reads) (simp add: scope_reads_def)
qed

definition reads_stored_object :: "('w \<Rightarrow> 'a) \<Rightarrow> ('w, go_error + 'a) state \<Rightarrow> bool" where
  "reads_stored_object stored get \<longleftrightarrow>
     (\<forall>x. hoare (\<lambda>w. stored w = x) get (\<lambda>r w. stored w = x \<and> (\<forall>y. r = Inr y \<longrightarrow> y = x)))"

lemma reads_stored_objectD:
  "reads_stored_object stored get \<Longrightarrow> hoare (\<lambda>w. stored w = x) get (\<lambda>r w. stored w = x \<and> (\<forall>y. r = Inr y \<longrightarrow> y = x))"
  by (simp add: reads_stored_object_def)

lemma storesD: "stores stored write \<Longrightarrow> hoare (\<lambda>w. stored w = old) (write new) (\<lambda>_ w. stored w = old \<or> stored w = new)"
  by (simp add: stores_def)

lemma find_scope_hrefs:
  assumes "finds_labels P get L"
  shows "hoare P (find_scope_labels get scope hrefs)
    (\<lambda>r w. P w \<and> (\<forall>hs. r = Inr hs \<longrightarrow> hs = hrefs @ map (\<lambda>(key, v). L key v) scope))"
proof (induction scope arbitrary: hrefs)
  case (Cons e scope)
  obtain key v where e: "e = (key, v)" by fastforce
  have get: "hoare P (get key v) (\<lambda>r w. P w \<and> (\<forall>l. r = Inr l \<longrightarrow> lbl_href l = L key v))"
    using assms by (auto simp: finds_labels_def intro!: hoare_keepsI)
  show ?case
    unfolding e find_scope_labels.simps
    by (rule hoare_bind_pure [OF get]) (auto intro!: hoare_case_sum hoare_return hoare_post [OF Cons.IH])
qed (simp add: hoare_return)

definition ready_is :: "'w kube \<Rightarrow> condition list \<Rightarrow> condition_status \<Rightarrow> bool" where
  "ready_is k cs s \<longleftrightarrow> map_option c_status (k_find_condition k cs ConditionReady) = Some s"

lemma ready_set:
  "condition_laws k \<Longrightarrow> ready_is k (k_set_condition k cs (new_condition ConditionReady s reason msg)) s"
  using condition_laws_same [of k cs "new_condition ConditionReady s reason msg"]
  by (simp add: ready_is_def new_condition_def)

abbreviation scope_hrefs ::
  "(string \<Rightarrow> string \<Rightarrow> string) \<Rightarrow> object_meta \<Rightarrow> cluster_profile \<Rightarrow> string list" where
  "scope_hrefs L m cp \<equiv> map (\<lambda>(key, v). L key v) (scopeLabelValues m cp)"


subsection \<open>Rule views\<close>

definition view_failed :: "'w kube \<Rightarrow> rule_view \<Rightarrow> rule_view \<Rightarrow> bool" where
  \<comment> \<open>not ready, with the rules of the last sync\<close>
  "view_failed k rv new \<longleftrightarrow>
     ready_is k (rvst_conditions (rv_status new)) ConditionFalse \<and>
     rvst_rules (rv_status new) = rvst_rules (rv_status rv) \<and>
     rvst_rule_count (rv_status new) = rvst_rule_count (rv_status rv)"

definition view_mirrors ::
  "'w kube \<Rightarrow> rule_summary sorter \<Rightarrow> string \<Rightarrow> int \<Rightarrow> found_rule list \<Rightarrow> rule_view \<Rightarrow> bool" where
  \<comment> \<open>ready, with what \<open>mapRules\<close> makes of the found rules\<close>
  "view_mirrors k srt eds capN found new \<longleftrightarrow>
     ready_is k (rvst_conditions (rv_status new)) ConditionTrue \<and>
     rvst_rule_count (rv_status new) = int (length found) \<and>
     mapRules srt found eds capN =
       (rvst_rules (rv_status new), rvst_owned_count (rv_status new), rvst_external_count (rv_status new),
        rvst_truncated (rv_status new))"

definition view_outcomes ::
  "'w kube \<Rightarrow> rule_summary sorter \<Rightarrow> string \<Rightarrow> int \<Rightarrow> found_rule list \<Rightarrow> rule_view \<Rightarrow> rule_view set" where
  "view_outcomes k srt eds capN found rv =
     {new. new = rv \<or> view_failed k rv new \<or> view_mirrors k srt eds capN found new}"

lemma view_outcome:
  "rv \<in> view_outcomes k srt eds capN found rv"
  "view_failed k rv new \<Longrightarrow> new \<in> view_outcomes k srt eds capN found rv"
  "view_mirrors k srt eds capN found new \<Longrightarrow> new \<in> view_outcomes k srt eds capN found rv"
  by (simp_all add: view_outcomes_def)

lemma write_view_stores:
  assumes "stores stored (k_status_rule_view k)" "rv \<in> S" "new \<in> S"
  shows "hoare (\<lambda>w. stored w = rv) (write_view k new interval) (\<lambda>_ w. stored w \<in> S)"
  unfolding write_view_def
  by (rule hoare_bind [OF storesD [OF assms(1)]]) (use assms(2,3) in \<open>auto intro!: hoare_return\<close>)

lemma view_fail_stores:
  assumes "stores stored (k_status_rule_view k)" "condition_laws k" "kube_reads_keep (\<lambda>w. stored w = rv) k"
  shows "hoare (\<lambda>w. stored w = rv) (view_fail k rv interval reason msg)
    (\<lambda>_ w. stored w \<in> view_outcomes k srt eds capN found rv)"
  unfolding view_fail_def
  by (rule hoare_bind_keeps [OF kube_reads_keepD(14) [OF assms(3)]], rule write_view_stores [OF assms(1) view_outcome(1)],
      rule view_outcome(2)) (simp add: view_failed_def stamped_view_def ready_set [OF assms(2)])

lemma synced_mirrors:
  "condition_laws k \<Longrightarrow> view_mirrors k srt eds capN found
     (stamped_view k now ConditionTrue reason msg
        (synced_view (int (length found)) (mapRules srt found eds capN) rv))"
  by (auto simp: view_mirrors_def stamped_view_def synced_view_def ready_set split: prod.split)

lemma sync_step_stores:
  assumes "stores stored (k_status_rule_view k)" "condition_laws k" "kube_reads_keep (\<lambda>w. stored w = rv) k"
    and "keeps (\<lambda>w. stored w = rv) (vc_search_rules vc q)" "answers_with (vc_search_rules vc q) found"
    and "q = \<lparr>rq_providers = hrefs, rq_policy_version = rvs_policy_version (rv_spec rv)\<rparr>"
  shows "hoare (\<lambda>w. stored w = rv) (sync_step k vc srt maxRules eds rv hrefs)
    (\<lambda>_ w. stored w \<in> view_outcomes k srt eds (or_default maxRules 200) found rv)"
  unfolding sync_step_def Let_def assms(6) [symmetric]
  apply (rule hoare_bind_pure [OF answers_withD [OF assms(4,5)]], rule hoare_case_sum)
   apply (rule view_fail_stores [OF assms(1-3)])
  apply (rule hoare_bind_keeps [OF kube_reads_keepD(14) [OF assms(3)]], rule write_view_stores [OF assms(1) view_outcome(1)],
      rule view_outcome(3))
  by (simp add: synced_mirrors [OF assms(2)])

lemma view_step_stores:
  assumes "stores stored (k_status_rule_view k)" "condition_laws k"
    and reads: "scope_reads (\<lambda>w. stored w = rv) k (om_namespace (rv_meta rv)) cp cfg eds m"
    and labels: "finds_labels (\<lambda>w. stored w = rv) (vc_find_label (factory cfg)) L"
    and search: "\<And>q. keeps (\<lambda>w. stored w = rv) (vc_search_rules (factory cfg) q)"
      "\<And>q. answers_with (vc_search_rules (factory cfg) q) (R q)"
  shows "hoare (\<lambda>w. stored w = rv) (view_step k factory srt maxRules rv)
    (\<lambda>_ w. stored w \<in> view_outcomes k srt eds (or_default maxRules 200)
      (R \<lparr>rq_providers = scope_hrefs L m cp, rq_policy_version = rvs_policy_version (rv_spec rv)\<rparr>) rv)"
proof -
  note kube = scope_readsD(1) [OF reads]
  note fail = view_fail_stores [OF assms(1,2) kube]
  note sync = sync_step_stores [OF assms(1,2) kube search refl]
  show ?thesis
    unfolding view_step_def Let_def
    apply (rule hoare_bind_pure [OF scope_readsD(3) [OF reads]])
    apply (intro hoare_case_sum hoare_case_option hoare_case_prod fail)
     apply (rule hoare_return, simp add: view_outcome(1))
    apply (rule hoare_bind_pure [OF scope_readsD(2) [OF reads]])
    apply (intro hoare_case_sum hoare_if fail)
     apply (rule hoare_return, simp add: view_outcome(1))
    apply clarsimp
    apply (rule hoare_bind_pure [OF find_scope_hrefs [OF labels]])
    by (auto intro!: hoare_case_sum fail sync)
qed

subsection \<open>Insights\<close>

definition insight_failed :: "'w kube \<Rightarrow> policy_insight \<Rightarrow> policy_insight \<Rightarrow> bool" where
  \<comment> \<open>not ready, with the report of the last run\<close>
  "insight_failed k pi new \<longleftrightarrow>
     ready_is k (pis_conditions (pi_status new)) ConditionFalse \<and>
     pis_would_block_inbound (pi_status new) = pis_would_block_inbound (pi_status pi) \<and>
     pis_would_block_outbound (pi_status new) = pis_would_block_outbound (pi_status pi) \<and>
     pis_summary (pi_status new) = pis_summary (pi_status pi) \<and>
     pis_observed_window (pi_status new) = pis_observed_window (pi_status pi)"

definition insight_query :: "policy_insight \<Rightarrow> int \<Rightarrow> instant \<Rightarrow> string \<Rightarrow> string list \<Rightarrow> string list \<Rightarrow> traffic_query" where
  \<comment> \<open>the query of a direction over the days before \<open>to\<close> that the spec asks for\<close>
  "insight_query pi maxResults to direction sources destinations =
     \<lparr>tq_name = ''preflight-'' @ direction @ ''-'' @ om_namespace (pi_meta pi), tq_sources = sources,
      tq_destinations = destinations, tq_from = to - or_default (pi_lookback_days pi) 7 * 24 * hour,
      tq_to = to, tq_max_results = or_default maxResults 10000\<rparr>"

definition insight_reports ::
  "'w kube \<Rightarrow> flow_finding sorter \<Rightarrow> int \<Rightarrow> (traffic_query \<Rightarrow> traffic_flow list \<times> bool) \<Rightarrow>
   traffic_query \<Rightarrow> traffic_query \<Rightarrow> policy_insight \<Rightarrow> bool" where
  \<comment> \<open>ready, with the findings of the flows of two queries\<close>
  "insight_reports k srt capN T inQ outQ new \<longleftrightarrow>
     (let inbound = T inQ; outbound = T outQ; findings = (\<lambda>flows d. classifyFlows srt (fst flows) d) in
      pis_observed_window (pi_status new) = Some \<lparr>ow_from = Some (tq_from inQ), ow_to = Some (tq_to inQ)\<rparr> \<and>
      ready_is k (pis_conditions (pi_status new)) ConditionTrue \<and>
      pis_summary (pi_status new) = Some \<lparr>pfs_inbound = summarizeFlows (fst inbound),
        pfs_outbound = summarizeFlows (fst outbound)\<rparr> \<and>
      pis_flows_analyzed (pi_status new) = int (length (fst inbound)) + int (length (fst outbound)) \<and>
      (pis_truncated (pi_status new) \<longleftrightarrow> snd inbound \<or> snd outbound) \<and>
      (pis_would_block_inbound (pi_status new), pis_would_block_inbound_truncated (pi_status new)) =
        capFindings srt (findings inbound directionInbound) capN \<and>
      (pis_would_block_outbound (pi_status new), pis_would_block_outbound_truncated (pi_status new)) =
        capFindings srt (findings outbound directionOutbound) capN \<and>
      pis_inbound_blocked_count (pi_status new) = int (length (findings inbound directionInbound)) \<and>
      pis_outbound_blocked_count (pi_status new) = int (length (findings outbound directionOutbound)))"

definition insight_outcomes ::
  "'w kube \<Rightarrow> flow_finding sorter \<Rightarrow> int \<Rightarrow> int \<Rightarrow> (traffic_query \<Rightarrow> traffic_flow list \<times> bool) \<Rightarrow> string list \<Rightarrow>
   policy_insight \<Rightarrow> policy_insight set" where
  "insight_outcomes k srt capN maxResults T hrefs pi =
     {new. new = pi \<or> insight_failed k pi new \<or>
        (\<exists>to. insight_reports k srt capN T (insight_query pi maxResults to ''inbound'' [] hrefs)
           (insight_query pi maxResults to ''outbound'' hrefs []) new)}"

lemma insight_outcome:
  "pi \<in> insight_outcomes k srt capN maxResults T hrefs pi"
  "insight_failed k pi new \<Longrightarrow> new \<in> insight_outcomes k srt capN maxResults T hrefs pi"
  "insight_reports k srt capN T (insight_query pi maxResults to ''inbound'' [] hrefs)
     (insight_query pi maxResults to ''outbound'' hrefs []) new \<Longrightarrow>
   new \<in> insight_outcomes k srt capN maxResults T hrefs pi"
  by (auto simp: insight_outcomes_def)

lemma insight_status_stores:
  assumes "stores stored (k_status_insight k)" "pi \<in> S" "new \<in> S"
  shows "hoare (\<lambda>w. stored w = pi) (do { e \<leftarrow> k_status_insight k new; ret (0, f e) }) (\<lambda>_ w. stored w \<in> S)"
  by (rule hoare_bind [OF storesD [OF assms(1)]]) (use assms(2,3) in \<open>auto intro!: hoare_return\<close>)

lemma insight_fail_stores:
  assumes "stores stored (k_status_insight k)" "condition_laws k"
  shows "hoare (\<lambda>w. stored w = pi) (insight_fail k pi reason msg)
    (\<lambda>_ w. stored w \<in> insight_outcomes k srt capN maxResults T hrefs pi)"
  unfolding insight_fail_def
  by (rule insight_status_stores [OF assms(1) insight_outcome(1)], rule insight_outcome(2))
    (simp add: insight_failed_def observed_insight_def ready_set [OF assms(2)])

lemma computed_reports:
  "condition_laws k \<Longrightarrow> inQ = insight_query pi maxResults to ''inbound'' [] hrefs \<Longrightarrow>
   insight_reports k srt capN T inQ outQ (observed_insight k ConditionTrue reason msg
     (computed_insight srt capN (to - or_default (pi_lookback_days pi) 7 * 24 * hour) to (T inQ) (T outQ) pi))"
  by (simp add: insight_reports_def observed_insight_def computed_insight_def insight_query_def Let_def ready_set)

lemma run_queries_stores:
  assumes "stores stored (k_status_insight k)" "condition_laws k" "kube_reads_keep (\<lambda>w. stored w = pi) k"
    and "\<And>q. keeps (\<lambda>w. stored w = pi) (ic_query_traffic ic q)" "\<And>q. answers_with (ic_query_traffic ic q) (T q)"
  shows "hoare (\<lambda>w. stored w = pi) (run_queries k ic srt maxResults maxFindings pi hrefs)
    (\<lambda>_ w. stored w \<in> insight_outcomes k srt (or_default maxFindings 500) maxResults T hrefs pi)"
proof -
  note query = answers_withD [OF assms(4,5)]
  have inq: "\<lparr>tq_name = ''preflight-inbound-'' @ om_namespace (pi_meta pi), tq_sources = [], tq_destinations = hrefs,
      tq_from = to - or_default (pi_lookback_days pi) 7 * 24 * hour, tq_to = to,
      tq_max_results = or_default maxResults 10000\<rparr> = insight_query pi maxResults to ''inbound'' [] hrefs"
    and outq: "\<lparr>tq_name = ''preflight-outbound-'' @ om_namespace (pi_meta pi), tq_sources = hrefs, tq_destinations = [],
      tq_from = to - or_default (pi_lookback_days pi) 7 * 24 * hour, tq_to = to,
      tq_max_results = or_default maxResults 10000\<rparr> = insight_query pi maxResults to ''outbound'' hrefs []" for to
    by (simp_all add: insight_query_def)
  show ?thesis
    unfolding run_queries_def Let_def inq outq
    apply (rule hoare_bind_keeps [OF kube_reads_keepD(14) [OF assms(3)]])
    apply (rule hoare_bind_pure [OF query], rule hoare_case_sum, rule insight_fail_stores [OF assms(1,2)])
    apply (rule hoare_bind_pure [OF query], rule hoare_case_sum, rule insight_fail_stores [OF assms(1,2)])
    by (rule insight_status_stores [OF assms(1) insight_outcome(1)], simp)
      (rule insight_outcome(3), rule computed_reports [OF assms(2) refl])
qed

lemma insight_step_stores:
  assumes "stores stored (k_status_insight k)" "condition_laws k"
    and reads: "scope_reads (\<lambda>w. stored w = pi) k (om_namespace (pi_meta pi)) cp cfg eds m"
    and labels: "finds_labels (\<lambda>w. stored w = pi) (ic_find_label (factory cfg)) L"
    and query: "\<And>q. keeps (\<lambda>w. stored w = pi) (ic_query_traffic (factory cfg) q)"
      "\<And>q. answers_with (ic_query_traffic (factory cfg) q) (T q)"
  shows "hoare (\<lambda>w. stored w = pi) (insight_step k factory srt maxResults maxFindings pi)
    (\<lambda>_ w. stored w \<in> insight_outcomes k srt (or_default maxFindings 500) maxResults T (scope_hrefs L m cp) pi)"
proof -
  note kube = scope_readsD(1) [OF reads]
  note fail = insight_fail_stores [OF assms(1,2)]
  note run = run_queries_stores [OF assms(1,2) kube query]
  show ?thesis
    unfolding insight_step_def Let_def
    apply (rule hoare_bind_pure [OF scope_readsD(3) [OF reads]])
    apply (intro hoare_case_sum hoare_case_option hoare_case_prod fail)
     apply (rule hoare_return, simp add: insight_outcome(1))
    apply (rule hoare_bind_pure [OF scope_readsD(2) [OF reads]])
    apply (intro hoare_case_sum hoare_if fail)
     apply (rule hoare_return, simp add: insight_outcome(1))
    apply clarsimp
    apply (rule hoare_bind_pure [OF find_scope_hrefs [OF labels]])
    by (auto intro!: hoare_case_sum fail run)
qed


subsection \<open>Properties\<close>

text \<open>
  C33: A RuleView tells the truth. Whichever calls fail, a reconcile leaves the view as it was,
  or marks it not ready and keeps the rules of the last sync, or marks it ready with exactly
  what \<open>mapRules\<close> makes of the rules the PCE has for all labels of the namespace's scope in
  the requested policy version, with their exact count.
\<close>
theorem RuleView_truthful:
  assumes "stores stored (k_status_rule_view k)" and "condition_laws k"
    and "reads_stored_object stored (k_get_rule_view k namespace name)"
    and "scope_reads (\<lambda>w. stored w = rv) k (om_namespace (rv_meta rv)) cp cfg eds m"
    and "finds_labels (\<lambda>w. stored w = rv) (vc_find_label (factory cfg)) L"
    and "\<And>q. keeps (\<lambda>w. stored w = rv) (vc_search_rules (factory cfg) q)"
    and "\<And>q. answers_with (vc_search_rules (factory cfg) q) (R q)"
  shows "hoare (\<lambda>w. stored w = rv) (RuleViewReconcile k factory srt maxRules namespace name)
    (\<lambda>_ w. stored w = rv \<or> view_failed k rv (stored w) \<or>
       view_mirrors k srt eds (or_default maxRules 200)
         (R \<lparr>rq_providers = scope_hrefs L m cp, rq_policy_version = rvs_policy_version (rv_spec rv)\<rparr>) (stored w))"
proof -
  note kube = scope_readsD(1) [OF assms(4)]
  note step = view_step_stores [where factory = factory, OF assms(1,2,4,5) assms(6,7)]
  have "hoare (\<lambda>w. stored w = rv) (RuleViewReconcile k factory srt maxRules namespace name) (\<lambda>_ w. stored w \<in>
      view_outcomes k srt eds (or_default maxRules 200)
        (R \<lparr>rq_providers = scope_hrefs L m cp, rq_policy_version = rvs_policy_version (rv_spec rv)\<rparr>) rv)"
    unfolding RuleViewReconcile_def Let_def
    apply (rule hoare_bind_pure [OF reads_stored_objectD [OF assms(3)]])
    by (auto intro!: hoare_case_sum hoare_case_option hoare_if hoare_return step view_outcome(1)
        hoare_bind_keeps [OF kube_reads_keepD(14) [OF kube]])
  then show ?thesis by (rule hoare_post) (simp add: view_outcomes_def)
qed

text \<open>
  C34: A PolicyInsight tells the truth. Whichever calls fail, a reconcile leaves the insight as
  it was, or marks it not ready and keeps the report of the last run, or marks it ready with
  exactly the findings, counts and summaries of the flows the PCE returned for two queries:
  to and from all labels of the namespace's scope, over the requested days up to now.
\<close>
theorem PolicyInsight_truthful:
  assumes "stores stored (k_status_insight k)" and "condition_laws k"
    and "reads_stored_object stored (k_get_insight k namespace name)"
    and "scope_reads (\<lambda>w. stored w = pi) k (om_namespace (pi_meta pi)) cp cfg eds m"
    and "finds_labels (\<lambda>w. stored w = pi) (ic_find_label (factory cfg)) L"
    and "\<And>q. keeps (\<lambda>w. stored w = pi) (ic_query_traffic (factory cfg) q)"
    and "\<And>q. answers_with (ic_query_traffic (factory cfg) q) (T q)"
  shows "hoare (\<lambda>w. stored w = pi) (PolicyInsightReconcile k factory srt maxResults maxFindings namespace name)
    (\<lambda>_ w. stored w = pi \<or> insight_failed k pi (stored w) \<or>
       (\<exists>to. insight_reports k srt (or_default maxFindings 500) T
          (insight_query pi maxResults to ''inbound'' [] (scope_hrefs L m cp))
          (insight_query pi maxResults to ''outbound'' (scope_hrefs L m cp) []) (stored w)))"
proof -
  note step = insight_step_stores [where factory = factory, OF assms(1,2,4,5) assms(6,7)]
  have "hoare (\<lambda>w. stored w = pi) (PolicyInsightReconcile k factory srt maxResults maxFindings namespace name)
    (\<lambda>_ w. stored w \<in> insight_outcomes k srt (or_default maxFindings 500) maxResults T (scope_hrefs L m cp) pi)"
    unfolding PolicyInsightReconcile_def Let_def
    apply (rule hoare_bind_pure [OF reads_stored_objectD [OF assms(3)]])
    by (auto intro!: hoare_case_sum hoare_if hoare_return step insight_outcome(1))
  then show ?thesis by (rule hoare_post) (simp add: insight_outcomes_def)
qed

text \<open>
  A world that is the stored object, with the cluster of \<open>sim_cluster\<close>; the PCE has one rule
  for the label \<open>app=shop\<close> and one blocked flow to it.
\<close>

definition sim_href :: "string \<Rightarrow> string \<Rightarrow> string" where
  "sim_href key v = ''/l/'' @ v"

definition sim_lookup :: "string \<Rightarrow> string \<Rightarrow> ('w, go_error + label) state" where
  "sim_lookup key v = ret (Inr \<lparr>lbl_href = sim_href key v, lbl_key = key, lbl_value = v,
     lbl_external_data_set = '''', lbl_external_data_reference = ''''\<rparr>)"

definition sim_view_kube :: "rule_view kube" where
  "sim_view_kube = (sim_cluster ''manual'')
     \<lparr>k_get_rule_view := (\<lambda>_ _. State (\<lambda>w. (Inr w, w))), k_status_rule_view := (\<lambda>v. State (\<lambda>_. (None, v)))\<rparr>"

definition sim_rules_for :: "rule_search_query \<Rightarrow> found_rule list" where
  "sim_rules_for q = (if rq_providers q = [''/l/shop''] then [sim_found ''/r/1'' ''op''] else [])"

definition sim_view_client :: "rule_view rule_view_client" where
  "sim_view_client = \<lparr>vc_find_label = sim_lookup, vc_search_rules = (\<lambda>q. ret (Inr (sim_rules_for q)))\<rparr>"

definition sim_report_kube :: "policy_insight kube" where
  "sim_report_kube = (sim_cluster ''manual'')
     \<lparr>k_get_insight := (\<lambda>_ _. State (\<lambda>w. (Inr w, w))), k_status_insight := (\<lambda>p. State (\<lambda>_. (None, p)))\<rparr>"

definition sim_flows_for :: "traffic_query \<Rightarrow> traffic_flow list \<times> bool" where
  "sim_flows_for q = (if tq_destinations q = [''/l/shop''] then [sim_flow ''10.0.0.2'' 443 5] else [], False)"

definition sim_report_client :: "policy_insight insight_client" where
  "sim_report_client = \<lparr>ic_find_label = sim_lookup, ic_query_traffic = (\<lambda>q. ret (Inr (sim_flows_for q)))\<rparr>"

lemma sim_finds: "finds_labels P sim_lookup sim_href"
  by (simp add: finds_labels_def sim_lookup_def hoare_def)

definition sim_cfg :: config where
  "sim_cfg = \<lparr>cfg_pce_url = ''pce'', cfg_org_id = 1, cfg_api_key = ''k'', cfg_api_secret = ''s''\<rparr>"

lemma sim_resolved:
  "run_state (resolveClusterProfile (sim_cluster ''manual'') ''shop'') w =
     (Inr (Some (sim_profile ''manual'', sim_cfg, defaultExternalDataSet)), w)"
proof -
  have managed: "d_managed (ComputeDesiredCWP ''shop'' [] []
      (cps_namespace_rules (cp_spec (sim_profile ''manual''))) (cps_system_namespaces (cp_spec (sim_profile ''manual''))))"
    by code_simp
  then show ?thesis
    by (simp add: resolveClusterProfile_def sim_cluster_def sim_kube_def sim_meta_def)
      (simp add: sim_profile_def sim_connection_def sim_meta_def new_condition_def Let_def sim_cfg_def
        ConditionOnboarded_def ConditionConnected_def defaultExternalDataSet_def mget_def)
qed

lemma sim_scope_reads:
  assumes "\<And>w. run_state (resolveClusterProfile k ''shop'') w = run_state (resolveClusterProfile (sim_cluster ''manual'') ''shop'') w"
    and "kube_reads_keep P k" "k_get_namespace k ''shop'' = ret (Inr (sim_meta ''shop''))"
  shows "scope_reads P k ''shop'' (sim_profile ''manual'') sim_cfg defaultExternalDataSet (sim_meta ''shop'')"
  using assms(2,3) by (simp add: scope_reads_def answers_with_def hoare_def assms(1) sim_resolved)

lemma sim_view_laws:
  "stores (\<lambda>w. w) (k_status_rule_view sim_view_kube)" "condition_laws sim_view_kube"
  "reads_stored_object (\<lambda>w. w) (k_get_rule_view sim_view_kube namespace name)"
  "scope_reads P sim_view_kube ''shop'' (sim_profile ''manual'') sim_cfg defaultExternalDataSet (sim_meta ''shop'')"
proof -
  show "condition_laws sim_view_kube"
    using sim_condition_laws [of "[]" "[]" "[]" "[]"]
    by (simp add: condition_laws_def sim_view_kube_def sim_cluster_def sim_kube_def)
  show "scope_reads P sim_view_kube ''shop'' (sim_profile ''manual'') sim_cfg defaultExternalDataSet (sim_meta ''shop'')"
    by (rule sim_scope_reads)
      (simp_all add: sim_view_kube_def resolveClusterProfile_def sim_cluster_def sim_kube_def kube_reads_keep_def
        keeps_def sim_meta_def)
qed (simp_all add: stores_def reads_stored_object_def hoare_def sim_view_kube_def)

lemma sim_report_laws:
  "stores (\<lambda>w. w) (k_status_insight sim_report_kube)" "condition_laws sim_report_kube"
  "reads_stored_object (\<lambda>w. w) (k_get_insight sim_report_kube namespace name)"
  "scope_reads P sim_report_kube ''shop'' (sim_profile ''manual'') sim_cfg defaultExternalDataSet (sim_meta ''shop'')"
proof -
  show "condition_laws sim_report_kube"
    using sim_condition_laws [of "[]" "[]" "[]" "[]"]
    by (simp add: condition_laws_def sim_report_kube_def sim_cluster_def sim_kube_def)
  show "scope_reads P sim_report_kube ''shop'' (sim_profile ''manual'') sim_cfg defaultExternalDataSet (sim_meta ''shop'')"
    by (rule sim_scope_reads)
      (simp_all add: sim_report_kube_def resolveClusterProfile_def sim_cluster_def sim_kube_def kube_reads_keep_def
        keeps_def sim_meta_def)
qed (simp_all add: stores_def reads_stored_object_def hoare_def sim_report_kube_def)

lemma sim_scope: "scope_hrefs sim_href (sim_meta ''shop'') (sim_profile ''manual'') = [''/l/shop'']"
  by code_simp

theorem RuleView_truthful_witness:
  "let v = snd (run_state (RuleViewReconcile sim_view_kube (\<lambda>_. sim_view_client) insertion_sort 0 ''shop'' ''view'') sim_view)
   in view_mirrors sim_view_kube insertion_sort defaultExternalDataSet 200 [sim_found ''/r/1'' ''op''] v \<and>
      rvst_rule_count (rv_status v) = 1"
proof -
  let ?run = "RuleViewReconcile sim_view_kube (\<lambda>_. sim_view_client) insertion_sort 0 ''shop'' ''view''"
  obtain r v where run: "run_state ?run sim_view = (r, v)" by fastforce
  have ns: "om_namespace (rv_meta sim_view) = ''shop''" "rvst_rule_count (rv_status sim_view) = 0"
    by (simp_all add: sim_view_def)
  have "rvst_rule_count (rv_status (snd (run_state ?run sim_view))) = 1" by code_simp
  moreover have "hoare (\<lambda>w. w = sim_view) ?run
    (\<lambda>_ w. w = sim_view \<or> view_failed sim_view_kube sim_view w \<or>
       view_mirrors sim_view_kube insertion_sort defaultExternalDataSet (or_default 0 200)
         (sim_rules_for \<lparr>rq_providers = scope_hrefs sim_href (sim_meta ''shop'') (sim_profile ''manual''),
            rq_policy_version = rvs_policy_version (rv_spec sim_view)\<rparr>) w)"
    by (rule RuleView_truthful [where cfg = sim_cfg and eds = defaultExternalDataSet and stored = "\<lambda>w. w"]) (simp_all add: sim_view_laws ns sim_view_client_def sim_finds answers_with_def hoare_def)
  from hoareD [OF this _ run] have "v = sim_view \<or> view_failed sim_view_kube sim_view v \<or>
      view_mirrors sim_view_kube insertion_sort defaultExternalDataSet 200 [sim_found ''/r/1'' ''op''] v"
    by (simp add: sim_scope sim_rules_for_def or_default_def)
  ultimately show ?thesis using ns(2) by (auto simp: run Let_def view_failed_def)
qed

theorem PolicyInsight_truthful_witness:
  "let v = snd (run_state (PolicyInsightReconcile sim_report_kube (\<lambda>_. sim_report_client) insertion_sort 0 0 ''shop'' ''preflight'') sim_insight)
   in \<exists>to. insight_reports sim_report_kube insertion_sort 500 sim_flows_for
        (insight_query sim_insight 0 to ''inbound'' [] [''/l/shop'']) (insight_query sim_insight 0 to ''outbound'' [''/l/shop''] []) v \<and>
      pis_inbound_blocked_count (pi_status v) = 1"
proof -
  let ?run = "PolicyInsightReconcile sim_report_kube (\<lambda>_. sim_report_client) insertion_sort 0 0 ''shop'' ''preflight''"
  obtain r v where run: "run_state ?run sim_insight = (r, v)" by fastforce
  have ns: "om_namespace (pi_meta sim_insight) = ''shop''" "pis_summary (pi_status sim_insight) = None"
    by (simp_all add: sim_insight_def)
  have "(let s = pi_status (snd (run_state ?run sim_insight)) in
      pis_inbound_blocked_count s = 1 \<and> pis_summary s \<noteq> None)" by code_simp
  moreover have "hoare (\<lambda>w. w = sim_insight) ?run
    (\<lambda>_ w. w = sim_insight \<or> insight_failed sim_report_kube sim_insight w \<or>
       (\<exists>to. insight_reports sim_report_kube insertion_sort (or_default 0 500) sim_flows_for
          (insight_query sim_insight 0 to ''inbound'' [] (scope_hrefs sim_href (sim_meta ''shop'') (sim_profile ''manual'')))
          (insight_query sim_insight 0 to ''outbound'' (scope_hrefs sim_href (sim_meta ''shop'') (sim_profile ''manual'')) [])
          w))"
    by (rule PolicyInsight_truthful [where cfg = sim_cfg and eds = defaultExternalDataSet and stored = "\<lambda>w. w"])
      (simp_all add: sim_report_laws ns sim_report_client_def sim_finds answers_with_def hoare_def)
  from hoareD [OF this _ run] have "v = sim_insight \<or> insight_failed sim_report_kube sim_insight v \<or>
      (\<exists>to. insight_reports sim_report_kube insertion_sort 500 sim_flows_for
        (insight_query sim_insight 0 to ''inbound'' [] [''/l/shop'']) (insight_query sim_insight 0 to ''outbound'' [''/l/shop''] []) v)"
    by (simp add: sim_scope or_default_def)
  ultimately show ?thesis using ns(2) by (auto simp: run Let_def insight_failed_def)
qed

end
