(* ===== verification/Mock_Pce.thy ===== *)
theory Mock_Pce
  imports Pce_Client
begin

section \<open>The mock PCE of the tests (internal/pce/pcetest/server.go)\<close>

text \<open>
  A server with registered routes that records the body of every request. A path that ends
  in a star is a prefix. \<open>dispatch\<close> is the server's handler; \<open>find_route\<close> states which route
  it should pick. Registered handlers are pure functions of the request; the lock, which
  makes each operation one step, is not modelled.
\<close>

record mock_request =
  mr_method :: string
  mr_path :: string \<comment> \<open>\<open>r.URL.Path\<close>\<close>
  mr_body :: string

record mock_response =
  ms_status :: int
  ms_content_type :: string
  ms_body :: string

type_synonym mock_handler = "mock_request \<Rightarrow> mock_response"

record mock_route =
  rt_method :: string
  rt_path :: string
  rt_prefix :: bool
  rt_handler :: mock_handler

record mock_server =
  mk_routes :: "mock_route list"
  mk_reqs :: "string list gomap" \<comment> \<open>bodies by method and path\<close>
  mk_errors :: "string list" \<comment> \<open>\<open>t.Errorf\<close>\<close>

definition new_mock :: mock_server where
  "new_mock = \<lparr>mk_routes = [], mk_reqs = [], mk_errors = []\<rparr>"

definition trim_star :: "string \<Rightarrow> string" where
  \<comment> \<open>\<open>strings.TrimSuffix(path, "*")\<close>\<close>
  "trim_star path = (if path \<noteq> [] \<and> last path = CHR ''*'' then butlast path else path)"

definition add_route :: "string \<Rightarrow> string \<Rightarrow> mock_handler \<Rightarrow> mock_server \<Rightarrow> mock_server" where
  \<comment> \<open>\<open>Route\<close>\<close>
  "add_route method path h s =
     s\<lparr>mk_routes := mk_routes s @
        [\<lparr>rt_method = method, rt_path = trim_star path,
          rt_prefix = (path \<noteq> [] \<and> last path = CHR ''*''), rt_handler = h\<rparr>]\<rparr>"

definition add_json :: "string \<Rightarrow> string \<Rightarrow> int \<Rightarrow> string \<Rightarrow> mock_server \<Rightarrow> mock_server" where
  \<comment> \<open>\<open>JSON\<close>\<close>
  "add_json method path status body =
     add_route method path
       (\<lambda>_. \<lparr>ms_status = status, ms_content_type = ''application/json'', ms_body = body\<rparr>)"

definition request_key :: "string \<Rightarrow> string \<Rightarrow> string" where
  "request_key method path = method @ '' '' @ path"

definition recorded :: "mock_server \<Rightarrow> string \<Rightarrow> string list" where
  \<comment> \<open>\<open>s.reqs[key]\<close>\<close>
  "recorded s key = (case map_of (mk_reqs s) key of Some bs \<Rightarrow> bs | None \<Rightarrow> [])"

definition LastBody :: "mock_server \<Rightarrow> string \<Rightarrow> string \<Rightarrow> string option" where
  "LastBody s method path =
     (let b = recorded s (request_key method path) in
      if length b = 0 then None else Some (b ! (length b - 1)))"

definition Count :: "mock_server \<Rightarrow> string \<Rightarrow> string \<Rightarrow> nat" where
  "Count s method path = length (recorded s (request_key method path))"

definition trim_api :: "string \<Rightarrow> string" where
  \<comment> \<open>\<open>strings.TrimPrefix(r.URL.Path, "/api/v2")\<close>\<close>
  "trim_api p = (if prefix ''/api/v2'' p then drop 7 p else p)"

fun scan_routes :: "string \<Rightarrow> string \<Rightarrow> mock_route list \<Rightarrow> mock_handler option \<Rightarrow> mock_handler option" where
  \<comment> \<open>the loop over the routes: the handler found so far, left at an exact match\<close>
  "scan_routes method p [] h = h"
| "scan_routes method p (rt # rts) h =
     (if rt_method rt \<noteq> method then scan_routes method p rts h
      else if rt_prefix rt then
        (if prefix (rt_path rt) p then scan_routes method p rts (Some (rt_handler rt))
         else scan_routes method p rts h)
      else if p = rt_path rt then Some (rt_handler rt)
      else scan_routes method p rts h)"

definition dispatch :: "mock_request \<Rightarrow> (mock_server, mock_response) state" where
  "dispatch r = State (\<lambda>s.
     let p = trim_api (mr_path r);
         key = request_key (mr_method r) p;
         s = s\<lparr>mk_reqs := mset_key key (recorded s key @ [mr_body r]) (mk_reqs s)\<rparr>
     in case scan_routes (mr_method r) p (mk_routes s) None of
          None \<Rightarrow> (\<lparr>ms_status = 404, ms_content_type = '''', ms_body = ''''\<rparr>,
            s\<lparr>mk_errors := mk_errors s @ [''pcetest: unhandled request '' @ mr_method r @ '' '' @ p]\<rparr>)
        | Some h \<Rightarrow> (h r, s))"


subsection \<open>Which route answers\<close>

definition exact_match :: "string \<Rightarrow> string \<Rightarrow> mock_route \<Rightarrow> bool" where
  "exact_match method p rt \<longleftrightarrow> rt_method rt = method \<and> \<not> rt_prefix rt \<and> rt_path rt = p"

definition prefix_match :: "string \<Rightarrow> string \<Rightarrow> mock_route \<Rightarrow> bool" where
  "prefix_match method p rt \<longleftrightarrow> rt_method rt = method \<and> rt_prefix rt \<and> prefix (rt_path rt) p"

definition find_route :: "string \<Rightarrow> string \<Rightarrow> mock_route list \<Rightarrow> mock_route option" where
  \<comment> \<open>the first exact match, else the last prefix match\<close>
  "find_route method p rts =
     (case List.find (exact_match method p) rts of
        Some rt \<Rightarrow> Some rt
      | None \<Rightarrow> List.find (prefix_match method p) (rev rts))"

lemma find_append:
  "List.find P (xs @ ys) = (case List.find P xs of Some x \<Rightarrow> Some x | None \<Rightarrow> List.find P ys)"
  by (induction xs) auto

lemma scan_routes_find:
  "scan_routes method p rts h =
     (case find_route method p rts of Some rt \<Rightarrow> Some (rt_handler rt) | None \<Rightarrow> h)"
  by (induction rts arbitrary: h)
    (auto simp: find_route_def exact_match_def prefix_match_def find_append split: option.splits)

lemma recorded_set:
  "recorded (s\<lparr>mk_reqs := mset_key key bs (mk_reqs s)\<rparr>) key' = (if key' = key then bs else recorded s key')"
  by (simp add: recorded_def)

subsection \<open>A client against the mock\<close>

text \<open>
  \<open>Client\<close> wires the real client to the server. What net/http and encoding/json do on the
  way is a parameter: the path of a URL, the text of a document and the document of a text.
\<close>

definition mock_transport ::
  "(string \<Rightarrow> string) \<Rightarrow> (json \<Rightarrow> string) \<Rightarrow> (string \<Rightarrow> json option) \<Rightarrow> mock_server transport" where
  "mock_transport url_path marshal unmarshal req = do {
     resp \<leftarrow> dispatch \<lparr>mr_method = req_method req, mr_path = url_path (req_url req),
                      mr_body = (case req_body req of None \<Rightarrow> '''' | Some j \<Rightarrow> marshal j)\<rparr>;
     ret (Response (ms_status resp) ''''
       (if ms_body resp = '''' then EmptyBody
        else case unmarshal (ms_body resp) of
               Some j \<Rightarrow> JsonBody (ms_body resp) j | None \<Rightarrow> OtherBody (ms_body resp)))
   }"

text \<open>
  A registered document reaches the client, unless an exact route registered before it
  answers; the request is recorded with its body.
\<close>

lemma find_route_added:
  assumes "List.find (exact_match method p) (mk_routes s) = None" "p = [] \<or> last p \<noteq> CHR ''*''"
  shows "find_route method p (mk_routes (add_json method p status body s)) =
    Some \<lparr>rt_method = method, rt_path = p, rt_prefix = False,
          rt_handler = (\<lambda>_. \<lparr>ms_status = status, ms_content_type = ''application/json'', ms_body = body\<rparr>)\<rparr>"
  using assms
  by (auto simp: find_route_def add_json_def add_route_def find_append exact_match_def trim_star_def)

lemma dispatch_run:
  "run_state (dispatch r) s =
     (let p = trim_api (mr_path r); key = request_key (mr_method r) p;
          s' = s\<lparr>mk_reqs := mset_key key (recorded s key @ [mr_body r]) (mk_reqs s)\<rparr>
      in case find_route (mr_method r) p (mk_routes s) of
           Some rt \<Rightarrow> (rt_handler rt r, s')
         | None \<Rightarrow> (\<lparr>ms_status = 404, ms_content_type = '''', ms_body = ''''\<rparr>,
             s'\<lparr>mk_errors := mk_errors s @ [''pcetest: unhandled request '' @ mr_method r @ '' '' @ p]\<rparr>))"
  by (simp add: dispatch_def Let_def scan_routes_find split: option.split)

theorem mock_answers_client:
  assumes path: "url_path (''https://'' @ cfg_pce_url cfg @ ''/api/v2'' @ p) = ''/api/v2'' @ p"
    and free: "List.find (exact_match method p) (mk_routes s) = None" "p = [] \<or> last p \<noteq> CHR ''*''"
    and body: "body \<noteq> ''''" "unmarshal body = Some j" and ok: "200 \<le> status" "status < 300"
  shows "\<exists>s'. run_state (client_send (mock_transport url_path marshal unmarshal) cfg method p doc d zero)
        (add_json method p status body s) =
      (case d j of Some x \<Rightarrow> Inr x
       | None \<Rightarrow> Inl (WrapError ''decode response: '' (ErrorText ''cannot unmarshal'')), s') \<and>
    LastBody s' method p = Some (marshal doc) \<and> Count s' method p = Suc (Count s method p)"
proof -
  have trim: "trim_api (''/api/v2'' @ p) = p" by (simp add: trim_api_def)
  have same: "recorded (add_json method p status body s) = recorded s"
    by (simp add: add_json_def add_route_def recorded_def fun_eq_iff)
  show ?thesis
    using body ok trim
    by (simp add: client_send_def client_do_def pce_request_def mock_transport_def dispatch_run path [simplified]
        find_route_added [OF free] Let_def LastBody_def Count_def recorded_set same nth_append
        split: option.split)
qed


subsection \<open>Properties\<close>

text \<open>
  C39: The loop of the mock picks the handler of the first route that matches exactly and
  only without one that of the last matching prefix route, in any order of registration;
  a request without a route is answered 404 and reported; and every request, handled or
  not, is recorded under its method and path and under no other.
\<close>
theorem dispatch_routes:
  "case run_state (dispatch r) s of (resp, s') \<Rightarrow>
     let p = trim_api (mr_path r); key = request_key (mr_method r) p in
     (case find_route (mr_method r) p (mk_routes s) of
        Some rt \<Rightarrow> resp = rt_handler rt r \<and> mk_errors s' = mk_errors s
      | None \<Rightarrow> ms_status resp = 404 \<and> length (mk_errors s') = Suc (length (mk_errors s))) \<and>
     mk_routes s' = mk_routes s \<and>
     recorded s' = (recorded s)(key := recorded s key @ [mr_body r]) \<and>
     LastBody s' (mr_method r) p = Some (mr_body r) \<and>
     Count s' (mr_method r) p = Suc (Count s (mr_method r) p)"
  by (auto simp: dispatch_run Let_def LastBody_def Count_def recorded_def fun_eq_iff nth_append split: option.split)

end
