(* ===== verification/Go_Memory.thy ===== *)
theory Go_Memory
  imports Prelude
begin

section \<open>Memory with references\<close>

text \<open>
  Elsewhere a Go value is a HOL value. Here references are kept, for the generated deep
  copies: whether two values share memory is what those are about. Memory is a list of
  cells; an address is a position in it, and allocation appends. \<open>gty\<close> are the types of the
  structs, \<open>deref\<close> reads the value of a type together with the addresses it reaches.
\<close>

datatype gval =
    Scalar string \<comment> \<open>a string, number or flag\<close>
  | Nil_Ref \<comment> \<open>a nil pointer, slice or map\<close>
  | Addr nat \<comment> \<open>a pointer or a map\<close>
  | Slice nat nat nat \<comment> \<open>array, offset and length\<close>
  | Struct "(string \<times> gval) list"

datatype cell =
    Elems "gval list" \<comment> \<open>an array; a variable has one element\<close>
  | Entries "(string \<times> gval) list" \<comment> \<open>a map\<close>

type_synonym memory = "cell list"

datatype gty =
    Plain \<comment> \<open>a scalar type\<close>
  | Pointer gty
  | SliceOf gty
  | MapTo gty
  | Fields "(string \<times> gty) list"

datatype tree =
    Leaf string | Nil_Value | Pointee tree | Items "tree list" | Keyed "(string \<times> tree) list" | Node "(string \<times> tree) list"

definition cell_at :: "memory \<Rightarrow> nat \<Rightarrow> cell option" where
  "cell_at h a = (if a < length h then Some (h ! a) else None)"

definition collect :: "(tree list \<Rightarrow> tree) \<Rightarrow> (tree \<times> nat list) option list \<Rightarrow> (tree \<times> nat list) option" where
  \<comment> \<open>the parts put together, with all their addresses\<close>
  "collect f parts = map_option (\<lambda>ps. (f (map fst ps), concat (map snd ps))) (those parts)"

definition at_address :: "nat \<Rightarrow> (tree \<times> nat list) option \<Rightarrow> (tree \<times> nat list) option" where
  "at_address a = map_option (\<lambda>(t, F). (t, a # F))"

lemma field_size: "(f, ty) \<in> set fs \<Longrightarrow> size ty < size (Fields fs)"
  by (induction fs) auto

function (sequential) deref :: "memory \<Rightarrow> gty \<Rightarrow> gval \<Rightarrow> (tree \<times> nat list) option" where
  "deref h Plain (Scalar s) = Some (Leaf s, [])"
| "deref h (Pointer ty) Nil_Ref = Some (Nil_Value, [])"
| "deref h (SliceOf ty) Nil_Ref = Some (Nil_Value, [])"
| "deref h (MapTo ty) Nil_Ref = Some (Nil_Value, [])"
| "deref h (Pointer ty) (Addr a) =
     (case cell_at h a of
        Some (Elems [x]) \<Rightarrow> at_address a (collect (\<lambda>ts. Pointee (hd ts)) [deref h ty x])
      | _ \<Rightarrow> None)"
| "deref h (SliceOf ty) (Slice a i n) =
     (case cell_at h a of
        Some (Elems xs) \<Rightarrow>
          if i + n \<le> length xs
          then at_address a (collect Items (map (deref h ty) (take n (drop i xs)))) else None
      | _ \<Rightarrow> None)"
| "deref h (MapTo ty) (Addr a) =
     (case cell_at h a of
        Some (Entries kvs) \<Rightarrow>
          if distinct (map fst kvs)
          then at_address a (collect (\<lambda>ts. Keyed (zip (map fst kvs) ts)) (map (deref h ty) (map snd kvs))) else None
      | _ \<Rightarrow> None)"
| "deref h (Fields fs) (Struct vs) =
     (if map fst vs = map fst fs
      then collect (\<lambda>ts. Node (zip (map fst fs) ts)) (map (\<lambda>(ty, x). deref h ty x) (zip (map snd fs) (map snd vs)))
      else None)"
| "deref h _ _ = None"
  by pat_completeness auto
termination
proof (relation "measure (\<lambda>(h, ty, v). size ty)")
  fix fs :: "(string \<times> gty) list" and vs :: "(string \<times> gval) list" and h :: memory and z ty x
  assume "z \<in> set (zip (map snd fs) (map snd vs))" "(ty, x) = z"
  then have "ty \<in> snd ` set fs" by (auto dest: set_zip_leftD)
  then obtain f where "(f, ty) \<in> set fs" by auto
  then have "size ty < size (Fields fs)" by (rule field_size)
  then show "((h, ty, x), h, Fields fs, Struct vs) \<in> measure (\<lambda>(h, ty, v). size ty)" by simp
qed auto

subsection \<open>Copying\<close>

type_synonym copier = "gval \<Rightarrow> (memory, gval) state"

definition load :: "nat \<Rightarrow> (memory, cell option) state" where
  "load a = State (\<lambda>h. (cell_at h a, h))"

definition alloc :: "cell \<Rightarrow> (memory, nat) state" where
  "alloc c = State (\<lambda>h. (length h, h @ [c]))"

fun copy_all :: "(copier \<times> gval) list \<Rightarrow> (memory, gval list) state" where
  \<comment> \<open>the elements or fields one after the other\<close>
  "copy_all [] = ret []"
| "copy_all ((c, x) # ps) = do { y \<leftarrow> c x; ys \<leftarrow> copy_all ps; ret (y # ys) }"

definition copy_flat :: copier where
  \<comment> \<open>an assignment\<close>
  "copy_flat v = ret v"

definition copy_pointer :: "copier \<Rightarrow> copier" where
  \<comment> \<open>\<open>if in.F != nil { *out = new(T); (*in).DeepCopyInto(*out) }\<close>\<close>
  "copy_pointer c v =
     (case v of
        Addr a \<Rightarrow> do {
          x \<leftarrow> load a;
          case x of
            Some (Elems [x]) \<Rightarrow> do { y \<leftarrow> c x; b \<leftarrow> alloc (Elems [y]); ret (Addr b) }
          | _ \<Rightarrow> ret v
        }
      | _ \<Rightarrow> ret v)"

definition copy_slice :: "copier \<Rightarrow> copier" where
  \<comment> \<open>\<open>if in.F != nil { *out = make([]T, len( *in)); ... }\<close> with a loop, or with \<open>copy\<close>\<close>
  "copy_slice c v =
     (case v of
        Slice a i n \<Rightarrow> do {
          xs \<leftarrow> load a;
          case xs of
            Some (Elems xs) \<Rightarrow> do {
              ys \<leftarrow> copy_all (map (Pair c) (take n (drop i xs)));
              b \<leftarrow> alloc (Elems ys);
              ret (Slice b 0 (length ys))
            }
          | _ \<Rightarrow> ret v
        }
      | _ \<Rightarrow> ret v)"

definition copy_map :: "copier \<Rightarrow> copier" where
  \<comment> \<open>\<open>if in.F != nil { *out = make(map[string]T, len( *in)); for key, val := range *in ... }\<close>\<close>
  "copy_map c v =
     (case v of
        Addr a \<Rightarrow> do {
          kvs \<leftarrow> load a;
          case kvs of
            Some (Entries kvs) \<Rightarrow> do {
              ys \<leftarrow> copy_all (map (Pair c) (map snd kvs));
              b \<leftarrow> alloc (Entries (zip (map fst kvs) ys));
              ret (Addr b)
            }
          | _ \<Rightarrow> ret v
        }
      | _ \<Rightarrow> ret v)"

definition step_for :: "(string \<times> copier) list \<Rightarrow> string \<Rightarrow> copier" where
  "step_for steps f = (case map_of steps f of Some c \<Rightarrow> c | None \<Rightarrow> copy_flat)"

definition copy_fields :: "(string \<times> copier) list \<Rightarrow> copier" where
  \<comment> \<open>\<open>*out = *in\<close>, then the listed fields over it\<close>
  "copy_fields steps v =
     (case v of
        Struct vs \<Rightarrow> do {
          ys \<leftarrow> copy_all (map (\<lambda>(f, x). (step_for steps f, x)) vs);
          ret (Struct (zip (map fst vs) ys))
        }
      | _ \<Rightarrow> ret v)"

subsection \<open>What a write leaves alone\<close>

lemma those_Some: "those xs = Some ys \<longleftrightarrow> xs = map Some ys"
  by (induction xs arbitrary: ys) (auto split: option.splits simp: map_eq_Cons_conv)

lemma collect_Some:
  "collect f parts = Some (t, F) \<longleftrightarrow> (\<exists>ps. parts = map Some ps \<and> t = f (map fst ps) \<and> F = concat (map snd ps))"
  by (auto simp: collect_def those_Some)

lemma at_address_Some: "at_address a r = Some (t, F) \<longleftrightarrow> (\<exists>F'. r = Some (t, F') \<and> F = a # F')"
  by (cases r) (auto simp: at_address_def)

lemma collect_cong_parts:
  assumes "collect f (map g xs) = Some (t, F)"
    and "\<And>x t' F'. x \<in> set xs \<Longrightarrow> g x = Some (t', F') \<Longrightarrow> set F' \<subseteq> set F \<Longrightarrow> g' x = Some (t', F')"
  shows "collect f (map g' xs) = Some (t, F)"
proof -
  obtain ps where ps: "map g xs = map Some ps" "t = f (map fst ps)" "F = concat (map snd ps)"
    using assms(1) by (auto simp: collect_Some)
  have "map g' xs = map Some ps"
  proof (rule nth_equalityI)
    show len: "length (map g' xs) = length (map Some ps)" using map_eq_imp_length_eq [OF ps(1)] by simp
    fix i assume "i < length (map g' xs)"
    then have i: "i < length xs" "i < length ps" using len by simp_all
    then have "g (xs ! i) = Some (ps ! i)" using ps(1) by (metis nth_map)
    moreover have "set (snd (ps ! i)) \<subseteq> set F" using i(2) ps(3) by (auto intro: bexI [OF _ nth_mem])
    ultimately have "g' (xs ! i) = Some (ps ! i)"
      using assms(2) [of "xs ! i" "fst (ps ! i)" "snd (ps ! i)"] i(1) by simp
    with i show "map g' xs ! i = map Some ps ! i" by simp
  qed
  with ps show ?thesis by (auto simp: collect_Some)
qed

lemma deref_frame:
  "deref h ty v = Some (t, F) \<Longrightarrow> (\<And>a. a \<in> set F \<Longrightarrow> cell_at h' a = cell_at h a) \<Longrightarrow> deref h' ty v = Some (t, F)"
proof (induction h ty v arbitrary: t F rule: deref.induct)
  case (5 h ty a)
  then obtain x F' where x: "cell_at h a = Some (Elems [x])" and F: "F = a # F'"
    and part: "collect (\<lambda>ts. Pointee (hd ts)) (map (deref h ty) [x]) = Some (t, F')"
    by (auto split: option.splits cell.splits list.splits simp: at_address_Some)
  have "collect (\<lambda>ts. Pointee (hd ts)) (map (deref h' ty) [x]) = Some (t, F')"
  proof (rule collect_cong_parts [OF part])
    fix y t' F'' assume y: "y \<in> set [x]" "deref h ty y = Some (t', F'')" and sub: "set F'' \<subseteq> set F'"
    have "deref h ty x = Some (t', F'')" using y by simp
    then have "deref h' ty x = Some (t', F'')"
      by (rule 5(1) [OF x refl refl refl]) (use 5(3) F sub in auto)
    then show "deref h' ty y = Some (t', F'')" using y(1) by simp
  qed
  then show ?case using 5(3) [of a] x F by (simp add: at_address_Some)
next
  case (6 h ty a i n)
  then obtain xs F' where x: "cell_at h a = Some (Elems xs)" "i + n \<le> length xs" and F: "F = a # F'"
    and part: "collect Items (map (deref h ty) (take n (drop i xs))) = Some (t, F')"
    by (auto split: option.splits cell.splits if_splits simp: at_address_Some)
  have "collect Items (map (deref h' ty) (take n (drop i xs))) = Some (t, F')"
  proof (rule collect_cong_parts [OF part])
    fix y t' F'' assume y: "y \<in> set (take n (drop i xs))" "deref h ty y = Some (t', F'')" and sub: "set F'' \<subseteq> set F'"
    show "deref h' ty y = Some (t', F'')"
      by (rule 6(1) [OF x(1) refl x(2) y]) (use 6(3) F sub in auto)
  qed
  then show ?case using 6(3) [of a] x F by (simp add: at_address_Some)
next
  case (7 h ty a)
  then obtain kvs F' where x: "cell_at h a = Some (Entries kvs)" "distinct (map fst kvs)" and F: "F = a # F'"
    and part: "collect (\<lambda>ts. Keyed (zip (map fst kvs) ts)) (map (deref h ty) (map snd kvs)) = Some (t, F')"
    by (auto split: option.splits cell.splits if_splits simp: at_address_Some)
  have "collect (\<lambda>ts. Keyed (zip (map fst kvs) ts)) (map (deref h' ty) (map snd kvs)) = Some (t, F')"
  proof (rule collect_cong_parts [OF part])
    fix y t' F'' assume y: "y \<in> set (map snd kvs)" "deref h ty y = Some (t', F'')" and sub: "set F'' \<subseteq> set F'"
    show "deref h' ty y = Some (t', F'')"
      by (rule 7(1) [OF x(1) refl x(2) y]) (use 7(3) F sub in auto)
  qed
  then show ?case using 7(3) [of a] x F by (simp add: at_address_Some)
next
  case (8 h fs vs)
  then have names: "map fst vs = map fst fs" and part: "collect (\<lambda>ts. Node (zip (map fst fs) ts))
      (map (\<lambda>(ty, x). deref h ty x) (zip (map snd fs) (map snd vs))) = Some (t, F)"
    by (auto split: if_splits)
  have "collect (\<lambda>ts. Node (zip (map fst fs) ts)) (map (\<lambda>(ty, x). deref h' ty x) (zip (map snd fs) (map snd vs))) =
      Some (t, F)"
  proof (rule collect_cong_parts [OF part])
    fix z t' F'' assume z: "z \<in> set (zip (map snd fs) (map snd vs))"
      and y: "(\<lambda>(ty, x). deref h ty x) z = Some (t', F'')" and sub: "set F'' \<subseteq> set F"
    obtain ty x where zz: "z = (ty, x)" by (cases z)
    have "deref h' ty x = Some (t', F'')"
      by (rule 8(1) [OF names z zz [symmetric]]) (use y zz 8(3) sub in auto)
    then show "(\<lambda>(ty, x). deref h' ty x) z = Some (t', F'')" using zz by simp
  qed
  then show ?case using names by simp
qed auto

lemma collect_reach:
  assumes "collect f parts = Some (t, F)" and "\<And>t' F'. Some (t', F') \<in> set parts \<Longrightarrow> P (set F')"
    and "P {}" and "\<And>A B. P A \<Longrightarrow> P B \<Longrightarrow> P (A \<union> B)"
  shows "P (set F)"
proof -
  obtain ps where ps: "parts = map Some ps" "F = concat (map snd ps)" using assms(1) by (auto simp: collect_Some)
  have "\<forall>p \<in> set ps. P (set (snd p))" using assms(2) ps(1) by force
  then have "P (set (concat (map snd ps)))" by (induction ps) (auto intro: assms(3,4))
  with ps(2) show ?thesis by simp
qed

lemma cell_at_Some: "cell_at h a = Some c \<longleftrightarrow> a < length h \<and> h ! a = c"
  by (auto simp: cell_at_def)

lemma deref_reach: "deref h ty v = Some (t, F) \<Longrightarrow> set F \<subseteq> {..<length h}"
proof (induction h ty v arbitrary: t F rule: deref.induct)
  case (5 h ty a)
  then obtain x F' where x: "cell_at h a = Some (Elems [x])" and F: "F = a # F'"
    and part: "collect (\<lambda>ts. Pointee (hd ts)) [deref h ty x] = Some (t, F')"
    by (auto split: option.splits cell.splits list.splits simp: at_address_Some)
  have "set F' \<subseteq> {..<length h}"
  proof (rule collect_reach [OF part])
    fix t' F'' assume "Some (t', F'') \<in> set [deref h ty x]"
    then have "deref h ty x = Some (t', F'')" by simp
    then show "set F'' \<subseteq> {..<length h}" by (rule 5(1) [OF x refl refl refl])
  qed auto
  then show ?case using x F by (auto simp: cell_at_Some)
next
  case (6 h ty a i n)
  then obtain xs F' where x: "cell_at h a = Some (Elems xs)" "i + n \<le> length xs" and F: "F = a # F'"
    and part: "collect Items (map (deref h ty) (take n (drop i xs))) = Some (t, F')"
    by (auto split: option.splits cell.splits if_splits simp: at_address_Some)
  have "set F' \<subseteq> {..<length h}"
  proof (rule collect_reach [OF part])
    fix t' F'' assume "Some (t', F'') \<in> set (map (deref h ty) (take n (drop i xs)))"
    then obtain y where "y \<in> set (take n (drop i xs))" "deref h ty y = Some (t', F'')" by auto
    then show "set F'' \<subseteq> {..<length h}" by (rule 6(1) [OF x(1) refl x(2)])
  qed auto
  then show ?case using x F by (auto simp: cell_at_Some)
next
  case (7 h ty a)
  then obtain kvs F' where x: "cell_at h a = Some (Entries kvs)" "distinct (map fst kvs)" and F: "F = a # F'"
    and part: "collect (\<lambda>ts. Keyed (zip (map fst kvs) ts)) (map (deref h ty) (map snd kvs)) = Some (t, F')"
    by (auto split: option.splits cell.splits if_splits simp: at_address_Some)
  have "set F' \<subseteq> {..<length h}"
  proof (rule collect_reach [OF part])
    fix t' F'' assume "Some (t', F'') \<in> set (map (deref h ty) (map snd kvs))"
    then obtain y where "y \<in> set (map snd kvs)" "deref h ty y = Some (t', F'')" by force
    then show "set F'' \<subseteq> {..<length h}" by (rule 7(1) [OF x(1) refl x(2)])
  qed auto
  then show ?case using x F by (auto simp: cell_at_Some)
next
  case (8 h fs vs)
  then have names: "map fst vs = map fst fs" and part: "collect (\<lambda>ts. Node (zip (map fst fs) ts))
      (map (\<lambda>(ty, x). deref h ty x) (zip (map snd fs) (map snd vs))) = Some (t, F)"
    by (auto split: if_splits)
  show ?case
  proof (rule collect_reach [OF part])
    fix t' F'' assume "Some (t', F'') \<in> set (map (\<lambda>(ty, x). deref h ty x) (zip (map snd fs) (map snd vs)))"
    then obtain ty x where "(ty, x) \<in> set (zip (map snd fs) (map snd vs))" "deref h ty x = Some (t', F'')" by auto
    then show "set F'' \<subseteq> {..<length h}" by (rule 8(1) [OF names _ refl])
  qed auto
qed auto

lemma deref_append: "deref h ty v = Some (t, F) \<Longrightarrow> deref (h @ e) ty v = Some (t, F)"
  by (frule deref_reach, erule deref_frame) (auto simp: cell_at_def nth_append)

lemma map2_deref_append:
  "map2 (deref h) tys xs = map Some rs \<Longrightarrow> map2 (deref (h @ e)) tys xs = map Some rs"
proof (induction tys arbitrary: xs rs)
  case (Cons ty tys)
  then show ?case
    by (cases xs; cases rs) (auto intro: deref_append simp del: split_paired_All)
qed simp

fun flat :: "gty \<Rightarrow> bool" where
  \<comment> \<open>no reference in it\<close>
  "flat Plain = True"
| "flat (Fields fs) = list_all (\<lambda>(f, ty). flat ty) fs"
| "flat _ = False"

lemma deref_flat: "deref h ty v = Some (t, F) \<Longrightarrow> flat ty \<Longrightarrow> F = []"
proof (induction h ty v arbitrary: t F rule: deref.induct)
  case (8 h fs vs)
  then have names: "map fst vs = map fst fs" and part: "collect (\<lambda>ts. Node (zip (map fst fs) ts))
      (map (\<lambda>(ty, x). deref h ty x) (zip (map snd fs) (map snd vs))) = Some (t, F)"
    by (auto split: if_splits)
  have "set F = {}"
  proof (rule collect_reach [OF part])
    fix t' F'' assume "Some (t', F'') \<in> set (map (\<lambda>(ty, x). deref h ty x) (zip (map snd fs) (map snd vs)))"
    then obtain ty x where z: "(ty, x) \<in> set (zip (map snd fs) (map snd vs))" "deref h ty x = Some (t', F'')" by auto
    have "flat ty" using set_zip_leftD [OF z(1)] 8(3) by (auto simp: list_all_iff)
    then show "set F'' = {}" using 8(1) [OF names z(1) refl z(2)] by simp
  qed auto
  then show ?case by simp
qed auto

subsection \<open>Deep copiers\<close>

definition deep_copier :: "gty \<Rightarrow> copier \<Rightarrow> bool" where
  \<comment> \<open>the copy has the value of the original, in memory that is new\<close>
  "deep_copier ty c \<longleftrightarrow>
     (\<forall>h v t F. deref h ty v = Some (t, F) \<longrightarrow>
        (\<exists>e v' F'. run_state (c v) h = (v', h @ e) \<and> deref (h @ e) ty v' = Some (t, F') \<and>
           set F' \<subseteq> {length h..<length (h @ e)}))"

lemma deep_copierE:
  assumes "deep_copier ty c" "deref h ty v = Some (t, F)"
  obtains e v' F' where "run_state (c v) h = (v', h @ e)" "deref (h @ e) ty v' = Some (t, F')"
    "set F' \<subseteq> {length h..<length (h @ e)}"
  using assms unfolding deep_copier_def by blast

lemma copy_flat_deep: "flat ty \<Longrightarrow> deep_copier ty copy_flat"
  by (fastforce simp: deep_copier_def copy_flat_def dest: deref_flat)

lemma copy_all_deep:
  assumes "list_all2 deep_copier tys cs" "length xs = length cs" "map2 (deref h) tys xs = map Some rs"
  shows "\<exists>e ys rs'. run_state (copy_all (zip cs xs)) h = (ys, h @ e) \<and> length ys = length xs \<and>
           map2 (deref (h @ e)) tys ys = map Some rs' \<and> map fst rs' = map fst rs \<and>
           set (concat (map snd rs')) \<subseteq> {length h..<length (h @ e)}"
  using assms
proof (induction arbitrary: xs h rs rule: list_all2_induct)
  case Nil
  then show ?case by (intro exI [of _ "[]"]) simp
next
  case (Cons ty tys c cs)
  then obtain x xs' t F rs' where xs: "xs = x # xs'" "length xs' = length cs" and rs: "rs = (t, F) # rs'"
    and d: "deref h ty x = Some (t, F)" "map2 (deref h) tys xs' = map Some rs'"
    by (cases xs) (auto simp: Cons_eq_map_conv)
  from Cons(1) d(1) obtain e1 y F1 where 1: "run_state (c x) h = (y, h @ e1)"
    "deref (h @ e1) ty y = Some (t, F1)" "set F1 \<subseteq> {length h..<length (h @ e1)}" by (rule deep_copierE)
  have "map2 (deref (h @ e1)) tys xs' = map Some rs'"
    by (rule map2_deref_append) (rule d(2))
  from Cons(3) [OF xs(2) this] obtain e2 ys rs2 where 2: "run_state (copy_all (zip cs xs')) (h @ e1) = (ys, (h @ e1) @ e2)"
    "length ys = length xs'" "map2 (deref ((h @ e1) @ e2)) tys ys = map Some rs2" "map fst rs2 = map fst rs'"
    "set (concat (map snd rs2)) \<subseteq> {length (h @ e1)..<length ((h @ e1) @ e2)}" by blast
  show ?case
    by (rule exI [of _ "e1 @ e2"], rule exI [of _ "y # ys"], rule exI [of _ "(t, F1) # rs2"])
      (use 1 2 xs rs deref_append [OF 1(2), of e2] in auto)
qed

lemma copy_pointer_deep:
  assumes "deep_copier ty c"
  shows "deep_copier (Pointer ty) (copy_pointer c)"
  unfolding deep_copier_def
proof (intro allI impI)
  fix h v t F assume r: "deref h (Pointer ty) v = Some (t, F)"
  consider (nil) "v = Nil_Ref" | (addr) a where "v = Addr a" using r by (cases v) auto
  then show "\<exists>e v' F'. run_state (copy_pointer c v) h = (v', h @ e) \<and>
      deref (h @ e) (Pointer ty) v' = Some (t, F') \<and> set F' \<subseteq> {length h..<length (h @ e)}"
  proof cases
    case nil
    then show ?thesis using r by (intro exI [of _ "[]"]) (simp add: copy_pointer_def)
  next
    case addr
    then obtain x F1 t1 where x: "cell_at h a = Some (Elems [x])" "deref h ty x = Some (t1, F1)" and t: "t = Pointee t1"
      using r by (auto split: option.splits cell.splits list.splits simp: at_address_Some collect_Some Cons_eq_map_conv)
    obtain e y F' where y: "run_state (c x) h = (y, h @ e)" "deref (h @ e) ty y = Some (t1, F')"
      "set F' \<subseteq> {length h..<length (h @ e)}" using assms x(2) by (rule deep_copierE)
    have "run_state (copy_pointer c v) h = (Addr (length (h @ e)), h @ e @ [Elems [y]])"
      using addr x(1) y(1) by (simp add: copy_pointer_def load_def alloc_def)
    moreover have "deref ((h @ e) @ [Elems [y]]) (Pointer ty) (Addr (length (h @ e))) = Some (t, length (h @ e) # F')"
      using deref_append [OF y(2), of "[Elems [y]]"] t by (simp add: cell_at_def at_address_def collect_def)
    ultimately show ?thesis using y(3) by (intro exI conjI) (assumption, simp, auto)
  qed
qed

lemma map2_replicate: "length xs = n \<Longrightarrow> map2 f (replicate n a) xs = map (f a) xs"
  by (induction xs arbitrary: n) auto

lemma copy_slice_deep:
  assumes "deep_copier ty c"
  shows "deep_copier (SliceOf ty) (copy_slice c)"
  unfolding deep_copier_def
proof (intro allI impI)
  fix h v t F assume r: "deref h (SliceOf ty) v = Some (t, F)"
  consider (nil) "v = Nil_Ref" | (slice) a i n where "v = Slice a i n" using r by (cases v) auto
  then show "\<exists>e v' F'. run_state (copy_slice c v) h = (v', h @ e) \<and>
      deref (h @ e) (SliceOf ty) v' = Some (t, F') \<and> set F' \<subseteq> {length h..<length (h @ e)}"
  proof cases
    case nil
    then show ?thesis using r by (intro exI [of _ "[]"]) (simp add: copy_slice_def)
  next
    case slice
    define part where "part xs = take n (drop i xs)" for xs :: "gval list"
    from slice r obtain xs rs where x: "cell_at h a = Some (Elems xs)"
      and rs: "map (deref h ty) (part xs) = map Some rs" and t: "t = Items (map fst rs)"
      by (auto split: option.splits cell.splits if_splits simp: at_address_Some collect_Some part_def)
    let ?n = "length (part xs)"
    have "list_all2 deep_copier (replicate ?n ty) (replicate ?n c)" using assms by (simp add: list_all2_conv_all_nth)
    moreover have "map2 (deref h) (replicate ?n ty) (part xs) = map Some rs" using rs by (simp add: map2_replicate)
    ultimately obtain e ys rs' where y: "run_state (copy_all (zip (replicate ?n c) (part xs))) h = (ys, h @ e)"
      "length ys = ?n" "map2 (deref (h @ e)) (replicate ?n ty) ys = map Some rs'" "map fst rs' = map fst rs"
      "set (concat (map snd rs')) \<subseteq> {length h..<length (h @ e)}"
      using copy_all_deep [of "replicate ?n ty" "replicate ?n c" "part xs" h rs] by auto
    have "map2 (deref ((h @ e) @ [Elems ys])) (replicate ?n ty) ys = map Some rs'"
      using y(3) by (rule map2_deref_append)
    then have m: "map (deref ((h @ e) @ [Elems ys]) ty) ys = map Some rs'" using y(2) by (simp add: map2_replicate)
    have "run_state (copy_slice c v) h = (Slice (length (h @ e)) 0 (length ys), h @ e @ [Elems ys])"
      using slice x y(1) by (simp add: copy_slice_def load_def alloc_def zip_replicate1 flip: part_def)
    moreover have "deref ((h @ e) @ [Elems ys]) (SliceOf ty) (Slice (length (h @ e)) 0 (length ys)) =
        Some (t, length (h @ e) # concat (map snd rs'))"
      using m t y(4) by (simp add: cell_at_def at_address_Some collect_Some)
    ultimately show ?thesis using y(5) by (intro exI conjI) (assumption, simp, auto)
  qed
qed

lemma copy_map_deep:
  assumes "deep_copier ty c"
  shows "deep_copier (MapTo ty) (copy_map c)"
  unfolding deep_copier_def
proof (intro allI impI)
  fix h v t F assume r: "deref h (MapTo ty) v = Some (t, F)"
  consider (nil) "v = Nil_Ref" | (addr) a where "v = Addr a" using r by (cases v) auto
  then show "\<exists>e v' F'. run_state (copy_map c v) h = (v', h @ e) \<and>
      deref (h @ e) (MapTo ty) v' = Some (t, F') \<and> set F' \<subseteq> {length h..<length (h @ e)}"
  proof cases
    case nil
    then show ?thesis using r by (intro exI [of _ "[]"]) (simp add: copy_map_def)
  next
    case addr
    from addr r obtain kvs rs where x: "cell_at h a = Some (Entries kvs)" "distinct (map fst kvs)"
      and rs: "map (deref h ty) (map snd kvs) = map Some rs" and t: "t = Keyed (zip (map fst kvs) (map fst rs))"
      by (auto split: option.splits cell.splits if_splits simp: at_address_Some collect_Some)
    let ?xs = "map snd kvs" and ?n = "length kvs"
    have "list_all2 deep_copier (replicate ?n ty) (replicate ?n c)" using assms by (simp add: list_all2_conv_all_nth)
    moreover have "map2 (deref h) (replicate ?n ty) ?xs = map Some rs" using rs by (simp add: map2_replicate)
    ultimately obtain e ys rs' where y: "run_state (copy_all (zip (replicate ?n c) ?xs)) h = (ys, h @ e)"
      "length ys = ?n" "map2 (deref (h @ e)) (replicate ?n ty) ys = map Some rs'" "map fst rs' = map fst rs"
      "set (concat (map snd rs')) \<subseteq> {length h..<length (h @ e)}"
      using copy_all_deep [of "replicate ?n ty" "replicate ?n c" ?xs h rs] by auto
    let ?cell = "Entries (zip (map fst kvs) ys)"
    have "map2 (deref ((h @ e) @ [?cell])) (replicate ?n ty) ys = map Some rs'"
      using y(3) by (rule map2_deref_append)
    then have m: "map (deref ((h @ e) @ [?cell]) ty) ys = map Some rs'" using y(2) by (simp add: map2_replicate)
    have "run_state (copy_map c v) h = (Addr (length (h @ e)), h @ e @ [?cell])"
      using addr x y(1) by (simp add: copy_map_def load_def alloc_def zip_replicate1)
    moreover have "deref ((h @ e) @ [?cell]) (MapTo ty) (Addr (length (h @ e))) =
        Some (t, length (h @ e) # concat (map snd rs'))"
      using m t y(2,4) x(2) by (simp add: cell_at_def at_address_Some collect_Some)
    ultimately show ?thesis using y(5) by (intro exI conjI) (assumption, simp, auto)
  qed
qed

lemma copy_fields_deep:
  assumes "list_all (\<lambda>(f, ty). deep_copier ty (step_for steps f)) fs"
  shows "deep_copier (Fields fs) (copy_fields steps)"
  unfolding deep_copier_def
proof (intro allI impI)
  fix h v t F assume r: "deref h (Fields fs) v = Some (t, F)"
  then obtain vs where v: "v = Struct vs" by (cases v) auto
  with r obtain rs where names: "map fst vs = map fst fs"
    and rs: "map2 (deref h) (map snd fs) (map snd vs) = map Some rs" and t: "t = Node (zip (map fst fs) (map fst rs))"
    by (auto split: if_splits simp: collect_Some)
  let ?cs = "map (step_for steps) (map fst vs)"
  have "list_all2 deep_copier (map snd fs) ?cs"
    using assms names by (auto simp: list_all2_conv_all_nth list_all_length split: prod.splits)
  moreover have "length (map snd vs) = length ?cs" by simp
  ultimately obtain e ys rs' where y: "run_state (copy_all (zip ?cs (map snd vs))) h = (ys, h @ e)"
    "length ys = length vs" "map2 (deref (h @ e)) (map snd fs) ys = map Some rs'" "map fst rs' = map fst rs"
    "set (concat (map snd rs')) \<subseteq> {length h..<length (h @ e)}"
    using copy_all_deep [OF _ _ rs, of ?cs] by auto
  have zip: "map (\<lambda>(f, x). (step_for steps f, x)) vs = zip ?cs (map snd vs)" by (induction vs) auto
  have "run_state (copy_fields steps v) h = (Struct (zip (map fst vs) ys), h @ e)"
    using v y(1) by (simp add: copy_fields_def zip)
  moreover have "deref (h @ e) (Fields fs) (Struct (zip (map fst vs) ys)) = Some (t, concat (map snd rs'))"
  proof -
    have "length ys = length fs" using y(2) arg_cong [OF names, of length] by simp
    then show ?thesis using y(3,4) names t by (auto simp: collect_Some intro!: exI [of _ rs'])
  qed
  ultimately show "\<exists>e v' F'. run_state (copy_fields steps v) h = (v', h @ e) \<and>
      deref (h @ e) (Fields fs) v' = Some (t, F') \<and> set F' \<subseteq> {length h..<length (h @ e)}"
    using y(5) by blast
qed

lemma step_for_simps [simp]:
  "step_for [] f = copy_flat"
  "step_for ((g, c) # steps) f = (if f = g then c else step_for steps f)"
  by (auto simp: step_for_def)

definition copy_unless_nil :: "copier \<Rightarrow> copier" where
  \<comment> \<open>\<open>if in.F != nil { *out = (*in).DeepCopy() }\<close>\<close>
  "copy_unless_nil c v = (if v = Nil_Ref then ret v else c v)"

lemma copy_unless_nil_deep:
  assumes "deep_copier (Pointer ty) c"
  shows "deep_copier (Pointer ty) (copy_unless_nil c)"
  using assms unfolding deep_copier_def copy_unless_nil_def
  by (auto intro!: exI [of _ "[]"])

lemmas copiers_deep = copy_flat_deep copy_pointer_deep copy_slice_deep copy_map_deep copy_unless_nil_deep

subsection \<open>Objects\<close>

type_synonym object_copier = "gval \<Rightarrow> (memory, gval option) state"

definition copy_object :: "copier \<Rightarrow> object_copier" where
  \<comment> \<open>the interface value, \<open>None\<close> when it is nil\<close>
  "copy_object c v = do { w \<leftarrow> c v; ret (if w \<noteq> Nil_Ref then Some w else None) }"

definition writes :: "(nat \<times> cell) list \<Rightarrow> memory \<Rightarrow> memory" where
  "writes ws h = fold (\<lambda>(a, c) h. h[a := c]) ws h"

lemma deref_writes:
  "deref h ty v = Some (t, F) \<Longrightarrow> fst ` set ws \<inter> set F = {} \<Longrightarrow> deref (writes ws h) ty v = Some (t, F)"
proof (induction ws arbitrary: h)
  case (Cons w ws)
  obtain a c where w: "w = (a, c)" by (cases w)
  have "deref (h[a := c]) ty v = Some (t, F)"
    using Cons.prems(1)
  proof (rule deref_frame)
    fix b assume "b \<in> set F"
    then have "b \<noteq> a" using Cons.prems(2) w by auto
    then show "cell_at (h[a := c]) b = cell_at h b" by (simp add: cell_at_def)
  qed
  then have "deref (writes ws (h[a := c])) ty v = Some (t, F)" by (rule Cons.IH) (use Cons.prems(2) in auto)
  then show ?case using w by (simp add: writes_def)
qed (simp add: writes_def)

lemma copy_object_isolated:
  assumes "deep_copier (Pointer ty) c" "deref h (Pointer ty) v = Some (t, F)" "v \<noteq> Nil_Ref"
  shows "\<exists>w h' F'. run_state (copy_object c v) h = (Some w, h') \<and>
      set F \<inter> set F' = {} \<and>
      (\<forall>ws. fst ` set ws \<inter> set F = {} \<longrightarrow> deref (writes ws h') (Pointer ty) v = Some (t, F)) \<and>
      (\<forall>ws. fst ` set ws \<inter> set F' = {} \<longrightarrow> deref (writes ws h') (Pointer ty) w = Some (t, F'))"
proof -
  from assms(1,2) obtain e w F' where w: "run_state (c v) h = (w, h @ e)" "deref (h @ e) (Pointer ty) w = Some (t, F')"
    "set F' \<subseteq> {length h..<length (h @ e)}" by (rule deep_copierE)
  have "t \<noteq> Nil_Value" using assms(2,3) by (cases v)
      (auto split: option.splits cell.splits list.splits simp: at_address_Some collect_Some)
  then have "w \<noteq> Nil_Ref" using w(2) by auto
  then have "run_state (copy_object c v) h = (Some w, h @ e)" using w(1) by (simp add: copy_object_def)
  moreover have "set F \<inter> set F' = {}" using deref_reach [OF assms(2)] w(3) by fastforce
  ultimately show ?thesis using deref_writes [OF deref_append [OF assms(2)]] deref_writes [OF w(2)] by blast
qed


end
