(* ===== verification/Deep_Copies.thy ===== *)
theory Deep_Copies
  imports Go_Memory
begin

section \<open>The generated deep copies (api/v1alpha1/zz_generated.deepcopy.go)\<close>

text \<open>
  For each struct of the package its fields (\<open>X_type\<close>, from the \<open>_types.go\<close> files), the
  generated \<open>DeepCopyInto\<close>, \<open>DeepCopy\<close> and, for the kinds of the API, \<open>DeepCopyObject\<close>.
  \<open>DeepCopyInto\<close> takes the struct to copy and returns what it leaves in \<open>out\<close>: the shallow
  \<open>*out = *in\<close> with the listed fields copied over it. The structs of apimachinery that the
  resources embed, and their copies, are the parameter \<open>meta_lib\<close>; \<open>meta_laws\<close> is what is
  relied on: their \<open>DeepCopy\<close> methods are deep. Where the code calls \<open>new\<close> before it
  copies the content, the cell is allocated after it, a difference no caller can see.
\<close>

subsection \<open>The structs of apimachinery\<close>

record meta_lib =
  TypeMeta_type :: gty
  ObjectMeta_type :: gty
  ListMeta_type :: gty
  Condition_type :: gty
  LabelSelector_type :: gty
  Time_type :: gty
  ObjectMeta_DeepCopyInto :: copier
  ListMeta_DeepCopyInto :: copier
  Condition_DeepCopyInto :: copier
  LabelSelector_DeepCopyInto :: copier
  Time_DeepCopy :: copier

definition meta_laws :: "meta_lib \<Rightarrow> bool" where
  \<comment> \<open>\<open>TypeMeta\<close> holds two strings; the others have deep copies\<close>
  "meta_laws m \<longleftrightarrow>
     flat (TypeMeta_type m) \<and>
     deep_copier (ObjectMeta_type m) (ObjectMeta_DeepCopyInto m) \<and>
     deep_copier (ListMeta_type m) (ListMeta_DeepCopyInto m) \<and>
     deep_copier (Condition_type m) (Condition_DeepCopyInto m) \<and>
     deep_copier (LabelSelector_type m) (LabelSelector_DeepCopyInto m) \<and>
     deep_copier (Pointer (Time_type m)) (Time_DeepCopy m)"

record known_type =
  kt_kind :: string
  kt_type :: gty
  kt_copy :: object_copier


subsection \<open>ClusterProfile\<close>

definition LocalObjectReference_type :: gty where
  "LocalObjectReference_type =
     Fields
       [(''Name'', Plain)]"

definition DeepCopyInto_LocalObjectReference :: copier where
  "DeepCopyInto_LocalObjectReference = copy_fields []"

definition DeepCopy_LocalObjectReference :: copier where
  "DeepCopy_LocalObjectReference = copy_pointer DeepCopyInto_LocalObjectReference"

definition NodePairingProfileSpec_type :: gty where
  "NodePairingProfileSpec_type =
     Fields
       [(''ExistingName'', Plain), (''Labels'', MapTo Plain), (''EnforcementMode'', Plain)]"

definition DeepCopyInto_NodePairingProfileSpec :: copier where
  "DeepCopyInto_NodePairingProfileSpec =
     copy_fields
       [(''Labels'', copy_map copy_flat)]"

definition DeepCopy_NodePairingProfileSpec :: copier where
  "DeepCopy_NodePairingProfileSpec = copy_pointer DeepCopyInto_NodePairingProfileSpec"

definition NamespaceMatch_type :: gty where
  "NamespaceMatch_type =
     Fields
       [(''NamePattern'', Plain), (''Labels'', MapTo Plain)]"

definition DeepCopyInto_NamespaceMatch :: copier where
  "DeepCopyInto_NamespaceMatch =
     copy_fields
       [(''Labels'', copy_map copy_flat)]"

definition DeepCopy_NamespaceMatch :: copier where
  "DeepCopy_NamespaceMatch = copy_pointer DeepCopyInto_NamespaceMatch"

definition LabelAssignment_type :: gty where
  "LabelAssignment_type =
     Fields
       [(''Value'', Plain), (''FromNamespaceLabel'', Plain)]"

definition DeepCopyInto_LabelAssignment :: copier where
  "DeepCopyInto_LabelAssignment = copy_fields []"

definition DeepCopy_LabelAssignment :: copier where
  "DeepCopy_LabelAssignment = copy_pointer DeepCopyInto_LabelAssignment"

definition NamespaceRule_type :: gty where
  "NamespaceRule_type =
     Fields
       [(''Match'', NamespaceMatch_type), (''Managed'', Plain), (''AssignLabels'', MapTo LabelAssignment_type),
        (''EnforcementMode'', Plain)]"

definition DeepCopyInto_NamespaceRule :: copier where
  "DeepCopyInto_NamespaceRule =
     copy_fields
       [(''Match'', DeepCopyInto_NamespaceMatch), (''AssignLabels'', copy_map copy_flat)]"

definition DeepCopy_NamespaceRule :: copier where
  "DeepCopy_NamespaceRule = copy_pointer DeepCopyInto_NamespaceRule"

definition SystemNamespacesSpec_type :: gty where
  "SystemNamespacesSpec_type =
     Fields
       [(''Manage'', Plain), (''Patterns'', SliceOf Plain), (''Labels'', MapTo Plain),
        (''EnforcementMode'', Plain)]"

definition DeepCopyInto_SystemNamespacesSpec :: copier where
  "DeepCopyInto_SystemNamespacesSpec =
     copy_fields
       [(''Patterns'', copy_slice copy_flat), (''Labels'', copy_map copy_flat)]"

definition DeepCopy_SystemNamespacesSpec :: copier where
  "DeepCopy_SystemNamespacesSpec = copy_pointer DeepCopyInto_SystemNamespacesSpec"

definition OnboardingSpec_type :: gty where
  "OnboardingSpec_type =
     Fields
       [(''Mode'', Plain), (''ContainerClusterName'', Plain), (''CredentialsOutputSecret'', Plain),
        (''NodePairingProfile'', NodePairingProfileSpec_type)]"

definition DeepCopyInto_OnboardingSpec :: copier where
  "DeepCopyInto_OnboardingSpec =
     copy_fields
       [(''NodePairingProfile'', DeepCopyInto_NodePairingProfileSpec)]"

definition DeepCopy_OnboardingSpec :: copier where
  "DeepCopy_OnboardingSpec = copy_pointer DeepCopyInto_OnboardingSpec"

definition ClusterProfileSpec_type :: gty where
  "ClusterProfileSpec_type =
     Fields
       [(''PCEConnectionRef'', LocalObjectReference_type), (''Onboarding'', OnboardingSpec_type),
        (''ProvisioningMode'', Plain), (''PolicyScopeLabels'', SliceOf Plain), (''UnknownLabelMode'', Plain),
        (''SystemNamespaces'', SystemNamespacesSpec_type), (''NamespaceRules'', SliceOf NamespaceRule_type)]"

definition DeepCopyInto_ClusterProfileSpec :: copier where
  "DeepCopyInto_ClusterProfileSpec =
     copy_fields
       [(''PCEConnectionRef'', copy_flat), (''Onboarding'', DeepCopyInto_OnboardingSpec),
        (''PolicyScopeLabels'', copy_slice copy_flat),
        (''SystemNamespaces'', DeepCopyInto_SystemNamespacesSpec),
        (''NamespaceRules'', copy_slice DeepCopyInto_NamespaceRule)]"

definition DeepCopy_ClusterProfileSpec :: copier where
  "DeepCopy_ClusterProfileSpec = copy_pointer DeepCopyInto_ClusterProfileSpec"

definition ClusterProfileStatus_type :: "meta_lib \<Rightarrow> gty" where
  "ClusterProfileStatus_type m =
     Fields
       [(''Conditions'', SliceOf (Condition_type m)), (''ContainerClusterHref'', Plain),
        (''ContainerClusterID'', Plain), (''ManagedNamespaces'', Plain), (''ObservedGeneration'', Plain)]"

definition DeepCopyInto_ClusterProfileStatus :: "meta_lib \<Rightarrow> copier" where
  "DeepCopyInto_ClusterProfileStatus m =
     copy_fields
       [(''Conditions'', copy_slice (Condition_DeepCopyInto m))]"

definition DeepCopy_ClusterProfileStatus :: "meta_lib \<Rightarrow> copier" where
  "DeepCopy_ClusterProfileStatus m = copy_pointer (DeepCopyInto_ClusterProfileStatus m)"

definition ClusterProfile_type :: "meta_lib \<Rightarrow> gty" where
  "ClusterProfile_type m =
     Fields
       [(''TypeMeta'', TypeMeta_type m), (''ObjectMeta'', ObjectMeta_type m),
        (''Spec'', ClusterProfileSpec_type), (''Status'', ClusterProfileStatus_type m)]"

definition DeepCopyInto_ClusterProfile :: "meta_lib \<Rightarrow> copier" where
  "DeepCopyInto_ClusterProfile m =
     copy_fields
       [(''TypeMeta'', copy_flat), (''ObjectMeta'', ObjectMeta_DeepCopyInto m),
        (''Spec'', DeepCopyInto_ClusterProfileSpec), (''Status'', DeepCopyInto_ClusterProfileStatus m)]"

definition DeepCopy_ClusterProfile :: "meta_lib \<Rightarrow> copier" where
  "DeepCopy_ClusterProfile m = copy_pointer (DeepCopyInto_ClusterProfile m)"

definition DeepCopyObject_ClusterProfile :: "meta_lib \<Rightarrow> object_copier" where
  "DeepCopyObject_ClusterProfile m = copy_object (DeepCopy_ClusterProfile m)"

definition ClusterProfileList_type :: "meta_lib \<Rightarrow> gty" where
  "ClusterProfileList_type m =
     Fields
       [(''TypeMeta'', TypeMeta_type m), (''ListMeta'', ListMeta_type m),
        (''Items'', SliceOf (ClusterProfile_type m))]"

definition DeepCopyInto_ClusterProfileList :: "meta_lib \<Rightarrow> copier" where
  "DeepCopyInto_ClusterProfileList m =
     copy_fields
       [(''TypeMeta'', copy_flat), (''ListMeta'', ListMeta_DeepCopyInto m),
        (''Items'', copy_slice (DeepCopyInto_ClusterProfile m))]"

definition DeepCopy_ClusterProfileList :: "meta_lib \<Rightarrow> copier" where
  "DeepCopy_ClusterProfileList m = copy_pointer (DeepCopyInto_ClusterProfileList m)"

definition DeepCopyObject_ClusterProfileList :: "meta_lib \<Rightarrow> object_copier" where
  "DeepCopyObject_ClusterProfileList m = copy_object (DeepCopy_ClusterProfileList m)"

definition register_ClusterProfile :: "meta_lib \<Rightarrow> known_type list" where
  "register_ClusterProfile m =
     [known_type.make ''ClusterProfile'' (ClusterProfile_type m) (DeepCopyObject_ClusterProfile m),
      known_type.make ''ClusterProfileList'' (ClusterProfileList_type m) (DeepCopyObject_ClusterProfileList m)]"


subsection \<open>PCEConnection\<close>

definition SecretReference_type :: gty where
  "SecretReference_type =
     Fields
       [(''Name'', Plain), (''Namespace'', Plain)]"

definition DeepCopyInto_SecretReference :: copier where
  "DeepCopyInto_SecretReference = copy_fields []"

definition DeepCopy_SecretReference :: copier where
  "DeepCopy_SecretReference = copy_pointer DeepCopyInto_SecretReference"

definition PCEConnectionSpec_type :: gty where
  "PCEConnectionSpec_type =
     Fields
       [(''PCEURL'', Plain), (''OrgID'', Plain), (''CredentialsSecretRef'', SecretReference_type),
        (''ExternalDataSet'', Plain)]"

definition DeepCopyInto_PCEConnectionSpec :: copier where
  "DeepCopyInto_PCEConnectionSpec =
     copy_fields
       [(''CredentialsSecretRef'', copy_flat)]"

definition DeepCopy_PCEConnectionSpec :: copier where
  "DeepCopy_PCEConnectionSpec = copy_pointer DeepCopyInto_PCEConnectionSpec"

definition PCEConnectionStatus_type :: "meta_lib \<Rightarrow> gty" where
  "PCEConnectionStatus_type m =
     Fields
       [(''Conditions'', SliceOf (Condition_type m)), (''ObservedGeneration'', Plain)]"

definition DeepCopyInto_PCEConnectionStatus :: "meta_lib \<Rightarrow> copier" where
  "DeepCopyInto_PCEConnectionStatus m =
     copy_fields
       [(''Conditions'', copy_slice (Condition_DeepCopyInto m))]"

definition DeepCopy_PCEConnectionStatus :: "meta_lib \<Rightarrow> copier" where
  "DeepCopy_PCEConnectionStatus m = copy_pointer (DeepCopyInto_PCEConnectionStatus m)"

definition PCEConnection_type :: "meta_lib \<Rightarrow> gty" where
  "PCEConnection_type m =
     Fields
       [(''TypeMeta'', TypeMeta_type m), (''ObjectMeta'', ObjectMeta_type m),
        (''Spec'', PCEConnectionSpec_type), (''Status'', PCEConnectionStatus_type m)]"

definition DeepCopyInto_PCEConnection :: "meta_lib \<Rightarrow> copier" where
  "DeepCopyInto_PCEConnection m =
     copy_fields
       [(''TypeMeta'', copy_flat), (''ObjectMeta'', ObjectMeta_DeepCopyInto m), (''Spec'', copy_flat),
        (''Status'', DeepCopyInto_PCEConnectionStatus m)]"

definition DeepCopy_PCEConnection :: "meta_lib \<Rightarrow> copier" where
  "DeepCopy_PCEConnection m = copy_pointer (DeepCopyInto_PCEConnection m)"

definition DeepCopyObject_PCEConnection :: "meta_lib \<Rightarrow> object_copier" where
  "DeepCopyObject_PCEConnection m = copy_object (DeepCopy_PCEConnection m)"

definition PCEConnectionList_type :: "meta_lib \<Rightarrow> gty" where
  "PCEConnectionList_type m =
     Fields
       [(''TypeMeta'', TypeMeta_type m), (''ListMeta'', ListMeta_type m),
        (''Items'', SliceOf (PCEConnection_type m))]"

definition DeepCopyInto_PCEConnectionList :: "meta_lib \<Rightarrow> copier" where
  "DeepCopyInto_PCEConnectionList m =
     copy_fields
       [(''TypeMeta'', copy_flat), (''ListMeta'', ListMeta_DeepCopyInto m),
        (''Items'', copy_slice (DeepCopyInto_PCEConnection m))]"

definition DeepCopy_PCEConnectionList :: "meta_lib \<Rightarrow> copier" where
  "DeepCopy_PCEConnectionList m = copy_pointer (DeepCopyInto_PCEConnectionList m)"

definition DeepCopyObject_PCEConnectionList :: "meta_lib \<Rightarrow> object_copier" where
  "DeepCopyObject_PCEConnectionList m = copy_object (DeepCopy_PCEConnectionList m)"

definition register_PCEConnection :: "meta_lib \<Rightarrow> known_type list" where
  "register_PCEConnection m =
     [known_type.make ''PCEConnection'' (PCEConnection_type m) (DeepCopyObject_PCEConnection m),
      known_type.make ''PCEConnectionList'' (PCEConnectionList_type m) (DeepCopyObject_PCEConnectionList m)]"


subsection \<open>PolicyInsight\<close>

definition PolicyInsightSpec_type :: gty where
  "PolicyInsightSpec_type =
     Fields
       [(''LookbackDays'', Plain)]"

definition DeepCopyInto_PolicyInsightSpec :: copier where
  "DeepCopyInto_PolicyInsightSpec = copy_fields []"

definition DeepCopy_PolicyInsightSpec :: copier where
  "DeepCopy_PolicyInsightSpec = copy_pointer DeepCopyInto_PolicyInsightSpec"

definition FlowFinding_type :: "meta_lib \<Rightarrow> gty" where
  "FlowFinding_type m =
     Fields
       [(''Peer'', MapTo Plain), (''PeerIP'', Plain), (''Port'', Plain), (''Protocol'', Plain),
        (''Connections'', Plain), (''Decision'', Plain), (''LastDetected'', Pointer (Time_type m))]"

definition DeepCopyInto_FlowFinding :: "meta_lib \<Rightarrow> copier" where
  "DeepCopyInto_FlowFinding m =
     copy_fields
       [(''Peer'', copy_map copy_flat), (''LastDetected'', copy_unless_nil (Time_DeepCopy m))]"

definition DeepCopy_FlowFinding :: "meta_lib \<Rightarrow> copier" where
  "DeepCopy_FlowFinding m = copy_pointer (DeepCopyInto_FlowFinding m)"

definition ObservationWindow_type :: "meta_lib \<Rightarrow> gty" where
  "ObservationWindow_type m =
     Fields
       [(''From'', Pointer (Time_type m)), (''To'', Pointer (Time_type m))]"

definition DeepCopyInto_ObservationWindow :: "meta_lib \<Rightarrow> copier" where
  "DeepCopyInto_ObservationWindow m =
     copy_fields
       [(''From'', copy_unless_nil (Time_DeepCopy m)), (''To'', copy_unless_nil (Time_DeepCopy m))]"

definition DeepCopy_ObservationWindow :: "meta_lib \<Rightarrow> copier" where
  "DeepCopy_ObservationWindow m = copy_pointer (DeepCopyInto_ObservationWindow m)"

definition DecisionCounts_type :: gty where
  "DecisionCounts_type =
     Fields
       [(''Allowed'', Plain), (''PotentiallyBlocked'', Plain), (''Blocked'', Plain), (''Unknown'', Plain),
        (''Total'', Plain)]"

definition DeepCopyInto_DecisionCounts :: copier where
  "DeepCopyInto_DecisionCounts = copy_fields []"

definition DeepCopy_DecisionCounts :: copier where
  "DeepCopy_DecisionCounts = copy_pointer DeepCopyInto_DecisionCounts"

definition PreflightSummary_type :: gty where
  "PreflightSummary_type =
     Fields
       [(''Inbound'', DecisionCounts_type), (''Outbound'', DecisionCounts_type)]"

definition DeepCopyInto_PreflightSummary :: copier where
  "DeepCopyInto_PreflightSummary =
     copy_fields
       [(''Inbound'', copy_flat), (''Outbound'', copy_flat)]"

definition DeepCopy_PreflightSummary :: copier where
  "DeepCopy_PreflightSummary = copy_pointer DeepCopyInto_PreflightSummary"

definition PolicyInsightStatus_type :: "meta_lib \<Rightarrow> gty" where
  "PolicyInsightStatus_type m =
     Fields
       [(''Conditions'', SliceOf (Condition_type m)), (''ObservedWindow'', Pointer (ObservationWindow_type m)),
        (''Summary'', Pointer PreflightSummary_type), (''FlowsAnalyzed'', Plain),
        (''InboundBlockedCount'', Plain), (''OutboundBlockedCount'', Plain), (''Truncated'', Plain),
        (''WouldBlockInbound'', SliceOf (FlowFinding_type m)), (''WouldBlockInboundTruncated'', Plain),
        (''WouldBlockOutbound'', SliceOf (FlowFinding_type m)), (''WouldBlockOutboundTruncated'', Plain),
        (''ObservedGeneration'', Plain), (''ObservedRefresh'', Plain)]"

definition DeepCopyInto_PolicyInsightStatus :: "meta_lib \<Rightarrow> copier" where
  "DeepCopyInto_PolicyInsightStatus m =
     copy_fields
       [(''Conditions'', copy_slice (Condition_DeepCopyInto m)),
        (''ObservedWindow'', copy_pointer (DeepCopyInto_ObservationWindow m)),
        (''Summary'', copy_pointer copy_flat), (''WouldBlockInbound'', copy_slice (DeepCopyInto_FlowFinding m)),
        (''WouldBlockOutbound'', copy_slice (DeepCopyInto_FlowFinding m))]"

definition DeepCopy_PolicyInsightStatus :: "meta_lib \<Rightarrow> copier" where
  "DeepCopy_PolicyInsightStatus m = copy_pointer (DeepCopyInto_PolicyInsightStatus m)"

definition PolicyInsight_type :: "meta_lib \<Rightarrow> gty" where
  "PolicyInsight_type m =
     Fields
       [(''TypeMeta'', TypeMeta_type m), (''ObjectMeta'', ObjectMeta_type m),
        (''Spec'', PolicyInsightSpec_type), (''Status'', PolicyInsightStatus_type m)]"

definition DeepCopyInto_PolicyInsight :: "meta_lib \<Rightarrow> copier" where
  "DeepCopyInto_PolicyInsight m =
     copy_fields
       [(''TypeMeta'', copy_flat), (''ObjectMeta'', ObjectMeta_DeepCopyInto m), (''Spec'', copy_flat),
        (''Status'', DeepCopyInto_PolicyInsightStatus m)]"

definition DeepCopy_PolicyInsight :: "meta_lib \<Rightarrow> copier" where
  "DeepCopy_PolicyInsight m = copy_pointer (DeepCopyInto_PolicyInsight m)"

definition DeepCopyObject_PolicyInsight :: "meta_lib \<Rightarrow> object_copier" where
  "DeepCopyObject_PolicyInsight m = copy_object (DeepCopy_PolicyInsight m)"

definition PolicyInsightList_type :: "meta_lib \<Rightarrow> gty" where
  "PolicyInsightList_type m =
     Fields
       [(''TypeMeta'', TypeMeta_type m), (''ListMeta'', ListMeta_type m),
        (''Items'', SliceOf (PolicyInsight_type m))]"

definition DeepCopyInto_PolicyInsightList :: "meta_lib \<Rightarrow> copier" where
  "DeepCopyInto_PolicyInsightList m =
     copy_fields
       [(''TypeMeta'', copy_flat), (''ListMeta'', ListMeta_DeepCopyInto m),
        (''Items'', copy_slice (DeepCopyInto_PolicyInsight m))]"

definition DeepCopy_PolicyInsightList :: "meta_lib \<Rightarrow> copier" where
  "DeepCopy_PolicyInsightList m = copy_pointer (DeepCopyInto_PolicyInsightList m)"

definition DeepCopyObject_PolicyInsightList :: "meta_lib \<Rightarrow> object_copier" where
  "DeepCopyObject_PolicyInsightList m = copy_object (DeepCopy_PolicyInsightList m)"

definition register_PolicyInsight :: "meta_lib \<Rightarrow> known_type list" where
  "register_PolicyInsight m =
     [known_type.make ''PolicyInsight'' (PolicyInsight_type m) (DeepCopyObject_PolicyInsight m),
      known_type.make ''PolicyInsightList'' (PolicyInsightList_type m) (DeepCopyObject_PolicyInsightList m)]"


subsection \<open>RuleView\<close>

definition RuleViewSpec_type :: gty where
  "RuleViewSpec_type =
     Fields
       [(''RefreshIntervalMinutes'', Plain), (''PolicyVersion'', Plain)]"

definition DeepCopyInto_RuleViewSpec :: copier where
  "DeepCopyInto_RuleViewSpec = copy_fields []"

definition DeepCopy_RuleViewSpec :: copier where
  "DeepCopy_RuleViewSpec = copy_pointer DeepCopyInto_RuleViewSpec"

definition RuleSummary_type :: gty where
  "RuleSummary_type =
     Fields
       [(''Href'', Plain), (''RulesetName'', Plain), (''OwnedBy'', Plain), (''Type'', Plain),
        (''Enabled'', Plain), (''Consumers'', SliceOf Plain), (''Services'', SliceOf Plain)]"

definition DeepCopyInto_RuleSummary :: copier where
  "DeepCopyInto_RuleSummary =
     copy_fields
       [(''Consumers'', copy_slice copy_flat), (''Services'', copy_slice copy_flat)]"

definition DeepCopy_RuleSummary :: copier where
  "DeepCopy_RuleSummary = copy_pointer DeepCopyInto_RuleSummary"

definition RuleViewStatus_type :: "meta_lib \<Rightarrow> gty" where
  "RuleViewStatus_type m =
     Fields
       [(''Conditions'', SliceOf (Condition_type m)), (''ObservedAt'', Pointer (Time_type m)),
        (''RuleCount'', Plain), (''OwnedCount'', Plain), (''ExternalCount'', Plain), (''Truncated'', Plain),
        (''Rules'', SliceOf RuleSummary_type), (''ObservedGeneration'', Plain), (''ObservedRefresh'', Plain)]"

definition DeepCopyInto_RuleViewStatus :: "meta_lib \<Rightarrow> copier" where
  "DeepCopyInto_RuleViewStatus m =
     copy_fields
       [(''Conditions'', copy_slice (Condition_DeepCopyInto m)),
        (''ObservedAt'', copy_unless_nil (Time_DeepCopy m)), (''Rules'', copy_slice DeepCopyInto_RuleSummary)]"

definition DeepCopy_RuleViewStatus :: "meta_lib \<Rightarrow> copier" where
  "DeepCopy_RuleViewStatus m = copy_pointer (DeepCopyInto_RuleViewStatus m)"

definition RuleView_type :: "meta_lib \<Rightarrow> gty" where
  "RuleView_type m =
     Fields
       [(''TypeMeta'', TypeMeta_type m), (''ObjectMeta'', ObjectMeta_type m), (''Spec'', RuleViewSpec_type),
        (''Status'', RuleViewStatus_type m)]"

definition DeepCopyInto_RuleView :: "meta_lib \<Rightarrow> copier" where
  "DeepCopyInto_RuleView m =
     copy_fields
       [(''TypeMeta'', copy_flat), (''ObjectMeta'', ObjectMeta_DeepCopyInto m), (''Spec'', copy_flat),
        (''Status'', DeepCopyInto_RuleViewStatus m)]"

definition DeepCopy_RuleView :: "meta_lib \<Rightarrow> copier" where
  "DeepCopy_RuleView m = copy_pointer (DeepCopyInto_RuleView m)"

definition DeepCopyObject_RuleView :: "meta_lib \<Rightarrow> object_copier" where
  "DeepCopyObject_RuleView m = copy_object (DeepCopy_RuleView m)"

definition RuleViewList_type :: "meta_lib \<Rightarrow> gty" where
  "RuleViewList_type m =
     Fields
       [(''TypeMeta'', TypeMeta_type m), (''ListMeta'', ListMeta_type m), (''Items'', SliceOf (RuleView_type m))]"

definition DeepCopyInto_RuleViewList :: "meta_lib \<Rightarrow> copier" where
  "DeepCopyInto_RuleViewList m =
     copy_fields
       [(''TypeMeta'', copy_flat), (''ListMeta'', ListMeta_DeepCopyInto m),
        (''Items'', copy_slice (DeepCopyInto_RuleView m))]"

definition DeepCopy_RuleViewList :: "meta_lib \<Rightarrow> copier" where
  "DeepCopy_RuleViewList m = copy_pointer (DeepCopyInto_RuleViewList m)"

definition DeepCopyObject_RuleViewList :: "meta_lib \<Rightarrow> object_copier" where
  "DeepCopyObject_RuleViewList m = copy_object (DeepCopy_RuleViewList m)"

definition register_RuleView :: "meta_lib \<Rightarrow> known_type list" where
  "register_RuleView m =
     [known_type.make ''RuleView'' (RuleView_type m) (DeepCopyObject_RuleView m),
      known_type.make ''RuleViewList'' (RuleViewList_type m) (DeepCopyObject_RuleViewList m)]"


subsection \<open>SegmentationIntent\<close>

definition IntentPort_type :: gty where
  "IntentPort_type =
     Fields
       [(''Port'', Plain), (''Protocol'', Plain)]"

definition DeepCopyInto_IntentPort :: copier where
  "DeepCopyInto_IntentPort = copy_fields []"

definition DeepCopy_IntentPort :: copier where
  "DeepCopy_IntentPort = copy_pointer DeepCopyInto_IntentPort"

definition IntentAllow_type :: gty where
  "IntentAllow_type =
     Fields
       [(''From'', MapTo Plain), (''FromIntraNamespace'', MapTo Plain), (''Ports'', SliceOf IntentPort_type)]"

definition DeepCopyInto_IntentAllow :: copier where
  "DeepCopyInto_IntentAllow =
     copy_fields
       [(''From'', copy_map copy_flat), (''FromIntraNamespace'', copy_map copy_flat),
        (''Ports'', copy_slice copy_flat)]"

definition DeepCopy_IntentAllow :: copier where
  "DeepCopy_IntentAllow = copy_pointer DeepCopyInto_IntentAllow"

definition SegmentationIntentSpec_type :: gty where
  "SegmentationIntentSpec_type =
     Fields
       [(''Provider'', MapTo Plain), (''Allow'', SliceOf IntentAllow_type), (''AllowIntraNamespace'', Plain),
        (''Enforcement'', Plain)]"

definition DeepCopyInto_SegmentationIntentSpec :: copier where
  "DeepCopyInto_SegmentationIntentSpec =
     copy_fields
       [(''Provider'', copy_map copy_flat), (''Allow'', copy_slice DeepCopyInto_IntentAllow)]"

definition DeepCopy_SegmentationIntentSpec :: copier where
  "DeepCopy_SegmentationIntentSpec = copy_pointer DeepCopyInto_SegmentationIntentSpec"

definition SegmentationIntentStatus_type :: "meta_lib \<Rightarrow> gty" where
  "SegmentationIntentStatus_type m =
     Fields
       [(''Conditions'', SliceOf (Condition_type m)), (''WorkloadsAffected'', Plain),
        (''EffectiveEnforcement'', Plain), (''EnforcementSetBy'', Plain), (''UnknownLabelMode'', Plain),
        (''UnknownLabelModeSetBy'', Plain), (''DeferredLabels'', SliceOf Plain),
        (''CreatedLabels'', SliceOf Plain), (''ObservedGeneration'', Plain)]"

definition DeepCopyInto_SegmentationIntentStatus :: "meta_lib \<Rightarrow> copier" where
  "DeepCopyInto_SegmentationIntentStatus m =
     copy_fields
       [(''Conditions'', copy_slice (Condition_DeepCopyInto m)), (''DeferredLabels'', copy_slice copy_flat),
        (''CreatedLabels'', copy_slice copy_flat)]"

definition DeepCopy_SegmentationIntentStatus :: "meta_lib \<Rightarrow> copier" where
  "DeepCopy_SegmentationIntentStatus m = copy_pointer (DeepCopyInto_SegmentationIntentStatus m)"

definition SegmentationIntent_type :: "meta_lib \<Rightarrow> gty" where
  "SegmentationIntent_type m =
     Fields
       [(''TypeMeta'', TypeMeta_type m), (''ObjectMeta'', ObjectMeta_type m),
        (''Spec'', SegmentationIntentSpec_type), (''Status'', SegmentationIntentStatus_type m)]"

definition DeepCopyInto_SegmentationIntent :: "meta_lib \<Rightarrow> copier" where
  "DeepCopyInto_SegmentationIntent m =
     copy_fields
       [(''TypeMeta'', copy_flat), (''ObjectMeta'', ObjectMeta_DeepCopyInto m),
        (''Spec'', DeepCopyInto_SegmentationIntentSpec), (''Status'', DeepCopyInto_SegmentationIntentStatus m)]"

definition DeepCopy_SegmentationIntent :: "meta_lib \<Rightarrow> copier" where
  "DeepCopy_SegmentationIntent m = copy_pointer (DeepCopyInto_SegmentationIntent m)"

definition DeepCopyObject_SegmentationIntent :: "meta_lib \<Rightarrow> object_copier" where
  "DeepCopyObject_SegmentationIntent m = copy_object (DeepCopy_SegmentationIntent m)"

definition SegmentationIntentList_type :: "meta_lib \<Rightarrow> gty" where
  "SegmentationIntentList_type m =
     Fields
       [(''TypeMeta'', TypeMeta_type m), (''ListMeta'', ListMeta_type m),
        (''Items'', SliceOf (SegmentationIntent_type m))]"

definition DeepCopyInto_SegmentationIntentList :: "meta_lib \<Rightarrow> copier" where
  "DeepCopyInto_SegmentationIntentList m =
     copy_fields
       [(''TypeMeta'', copy_flat), (''ListMeta'', ListMeta_DeepCopyInto m),
        (''Items'', copy_slice (DeepCopyInto_SegmentationIntent m))]"

definition DeepCopy_SegmentationIntentList :: "meta_lib \<Rightarrow> copier" where
  "DeepCopy_SegmentationIntentList m = copy_pointer (DeepCopyInto_SegmentationIntentList m)"

definition DeepCopyObject_SegmentationIntentList :: "meta_lib \<Rightarrow> object_copier" where
  "DeepCopyObject_SegmentationIntentList m = copy_object (DeepCopy_SegmentationIntentList m)"

definition register_SegmentationIntent :: "meta_lib \<Rightarrow> known_type list" where
  "register_SegmentationIntent m =
     [known_type.make ''SegmentationIntent'' (SegmentationIntent_type m) (DeepCopyObject_SegmentationIntent m),
      known_type.make ''SegmentationIntentList'' (SegmentationIntentList_type m) (DeepCopyObject_SegmentationIntentList m)]"


subsection \<open>SegmentationPolicy\<close>

definition NetworkPolicyPeer_type :: "meta_lib \<Rightarrow> gty" where
  "NetworkPolicyPeer_type m =
     Fields
       [(''PodSelector'', Pointer (LabelSelector_type m)),
        (''NamespaceSelector'', Pointer (LabelSelector_type m))]"

definition DeepCopyInto_NetworkPolicyPeer :: "meta_lib \<Rightarrow> copier" where
  "DeepCopyInto_NetworkPolicyPeer m =
     copy_fields
       [(''PodSelector'', copy_pointer (LabelSelector_DeepCopyInto m)),
        (''NamespaceSelector'', copy_pointer (LabelSelector_DeepCopyInto m))]"

definition DeepCopy_NetworkPolicyPeer :: "meta_lib \<Rightarrow> copier" where
  "DeepCopy_NetworkPolicyPeer m = copy_pointer (DeepCopyInto_NetworkPolicyPeer m)"

definition NetworkPolicyPort_type :: gty where
  "NetworkPolicyPort_type =
     Fields
       [(''Port'', Plain), (''Protocol'', Plain)]"

definition DeepCopyInto_NetworkPolicyPort :: copier where
  "DeepCopyInto_NetworkPolicyPort = copy_fields []"

definition DeepCopy_NetworkPolicyPort :: copier where
  "DeepCopy_NetworkPolicyPort = copy_pointer DeepCopyInto_NetworkPolicyPort"

definition IngressRule_type :: "meta_lib \<Rightarrow> gty" where
  "IngressRule_type m =
     Fields
       [(''From'', SliceOf (NetworkPolicyPeer_type m)), (''Ports'', SliceOf NetworkPolicyPort_type)]"

definition DeepCopyInto_IngressRule :: "meta_lib \<Rightarrow> copier" where
  "DeepCopyInto_IngressRule m =
     copy_fields
       [(''From'', copy_slice (DeepCopyInto_NetworkPolicyPeer m)), (''Ports'', copy_slice copy_flat)]"

definition DeepCopy_IngressRule :: "meta_lib \<Rightarrow> copier" where
  "DeepCopy_IngressRule m = copy_pointer (DeepCopyInto_IngressRule m)"

definition SegmentationPolicySpec_type :: "meta_lib \<Rightarrow> gty" where
  "SegmentationPolicySpec_type m =
     Fields
       [(''PodSelector'', LabelSelector_type m), (''Ingress'', SliceOf (IngressRule_type m)),
        (''PolicyTypes'', SliceOf Plain), (''Enforcement'', Plain)]"

definition DeepCopyInto_SegmentationPolicySpec :: "meta_lib \<Rightarrow> copier" where
  "DeepCopyInto_SegmentationPolicySpec m =
     copy_fields
       [(''PodSelector'', LabelSelector_DeepCopyInto m), (''Ingress'', copy_slice (DeepCopyInto_IngressRule m)),
        (''PolicyTypes'', copy_slice copy_flat)]"

definition DeepCopy_SegmentationPolicySpec :: "meta_lib \<Rightarrow> copier" where
  "DeepCopy_SegmentationPolicySpec m = copy_pointer (DeepCopyInto_SegmentationPolicySpec m)"

definition SegmentationPolicyStatus_type :: "meta_lib \<Rightarrow> gty" where
  "SegmentationPolicyStatus_type m =
     Fields
       [(''Conditions'', SliceOf (Condition_type m)), (''WorkloadsAffected'', Plain),
        (''EffectiveEnforcement'', Plain), (''EnforcementSetBy'', Plain), (''UnknownLabelMode'', Plain),
        (''UnknownLabelModeSetBy'', Plain), (''DeferredLabels'', SliceOf Plain),
        (''CreatedLabels'', SliceOf Plain), (''ObservedGeneration'', Plain)]"

definition DeepCopyInto_SegmentationPolicyStatus :: "meta_lib \<Rightarrow> copier" where
  "DeepCopyInto_SegmentationPolicyStatus m =
     copy_fields
       [(''Conditions'', copy_slice (Condition_DeepCopyInto m)), (''DeferredLabels'', copy_slice copy_flat),
        (''CreatedLabels'', copy_slice copy_flat)]"

definition DeepCopy_SegmentationPolicyStatus :: "meta_lib \<Rightarrow> copier" where
  "DeepCopy_SegmentationPolicyStatus m = copy_pointer (DeepCopyInto_SegmentationPolicyStatus m)"

definition SegmentationPolicy_type :: "meta_lib \<Rightarrow> gty" where
  "SegmentationPolicy_type m =
     Fields
       [(''TypeMeta'', TypeMeta_type m), (''ObjectMeta'', ObjectMeta_type m),
        (''Spec'', SegmentationPolicySpec_type m), (''Status'', SegmentationPolicyStatus_type m)]"

definition DeepCopyInto_SegmentationPolicy :: "meta_lib \<Rightarrow> copier" where
  "DeepCopyInto_SegmentationPolicy m =
     copy_fields
       [(''TypeMeta'', copy_flat), (''ObjectMeta'', ObjectMeta_DeepCopyInto m),
        (''Spec'', DeepCopyInto_SegmentationPolicySpec m), (''Status'', DeepCopyInto_SegmentationPolicyStatus m)]"

definition DeepCopy_SegmentationPolicy :: "meta_lib \<Rightarrow> copier" where
  "DeepCopy_SegmentationPolicy m = copy_pointer (DeepCopyInto_SegmentationPolicy m)"

definition DeepCopyObject_SegmentationPolicy :: "meta_lib \<Rightarrow> object_copier" where
  "DeepCopyObject_SegmentationPolicy m = copy_object (DeepCopy_SegmentationPolicy m)"

definition SegmentationPolicyList_type :: "meta_lib \<Rightarrow> gty" where
  "SegmentationPolicyList_type m =
     Fields
       [(''TypeMeta'', TypeMeta_type m), (''ListMeta'', ListMeta_type m),
        (''Items'', SliceOf (SegmentationPolicy_type m))]"

definition DeepCopyInto_SegmentationPolicyList :: "meta_lib \<Rightarrow> copier" where
  "DeepCopyInto_SegmentationPolicyList m =
     copy_fields
       [(''TypeMeta'', copy_flat), (''ListMeta'', ListMeta_DeepCopyInto m),
        (''Items'', copy_slice (DeepCopyInto_SegmentationPolicy m))]"

definition DeepCopy_SegmentationPolicyList :: "meta_lib \<Rightarrow> copier" where
  "DeepCopy_SegmentationPolicyList m = copy_pointer (DeepCopyInto_SegmentationPolicyList m)"

definition DeepCopyObject_SegmentationPolicyList :: "meta_lib \<Rightarrow> object_copier" where
  "DeepCopyObject_SegmentationPolicyList m = copy_object (DeepCopy_SegmentationPolicyList m)"

definition register_SegmentationPolicy :: "meta_lib \<Rightarrow> known_type list" where
  "register_SegmentationPolicy m =
     [known_type.make ''SegmentationPolicy'' (SegmentationPolicy_type m) (DeepCopyObject_SegmentationPolicy m),
      known_type.make ''SegmentationPolicyList'' (SegmentationPolicyList_type m) (DeepCopyObject_SegmentationPolicyList m)]"


subsection \<open>The kinds of the API\<close>

definition AddToScheme :: "meta_lib \<Rightarrow> known_type list" where
  \<comment> \<open>the functions registered by the \<open>init\<close> of each file\<close>
  "AddToScheme m =
     register_ClusterProfile m @ register_PCEConnection m @ register_PolicyInsight m @
     register_RuleView m @ register_SegmentationIntent m @ register_SegmentationPolicy m"


subsection \<open>Each copy is deep\<close>

named_theorems deep

lemma meta_laws_deep [deep]:
  assumes "meta_laws m"
  shows "flat (TypeMeta_type m)" "deep_copier (ObjectMeta_type m) (ObjectMeta_DeepCopyInto m)"
    "deep_copier (ListMeta_type m) (ListMeta_DeepCopyInto m)" "deep_copier (Condition_type m) (Condition_DeepCopyInto m)"
    "deep_copier (LabelSelector_type m) (LabelSelector_DeepCopyInto m)"
    "deep_copier (Pointer (Time_type m)) (Time_DeepCopy m)"
  using assms by (simp_all add: meta_laws_def)

lemma LocalObjectReference_flat [simp]: "flat LocalObjectReference_type"
  by (simp add: LocalObjectReference_type_def)

lemma LabelAssignment_flat [simp]: "flat LabelAssignment_type"
  by (simp add: LabelAssignment_type_def)

lemma SecretReference_flat [simp]: "flat SecretReference_type"
  by (simp add: SecretReference_type_def)

lemma PCEConnectionSpec_flat [simp]: "flat PCEConnectionSpec_type"
  by (simp add: PCEConnectionSpec_type_def)

lemma PolicyInsightSpec_flat [simp]: "flat PolicyInsightSpec_type"
  by (simp add: PolicyInsightSpec_type_def)

lemma DecisionCounts_flat [simp]: "flat DecisionCounts_type"
  by (simp add: DecisionCounts_type_def)

lemma PreflightSummary_flat [simp]: "flat PreflightSummary_type"
  by (simp add: PreflightSummary_type_def)

lemma RuleViewSpec_flat [simp]: "flat RuleViewSpec_type"
  by (simp add: RuleViewSpec_type_def)

lemma IntentPort_flat [simp]: "flat IntentPort_type"
  by (simp add: IntentPort_type_def)

lemma NetworkPolicyPort_flat [simp]: "flat NetworkPolicyPort_type"
  by (simp add: NetworkPolicyPort_type_def)

lemma DeepCopyInto_LocalObjectReference_deep [deep]:
  "deep_copier LocalObjectReference_type DeepCopyInto_LocalObjectReference"
  unfolding LocalObjectReference_type_def DeepCopyInto_LocalObjectReference_def
  by (rule copy_fields_deep) (simp add: deep copiers_deep)

lemma DeepCopyInto_NodePairingProfileSpec_deep [deep]:
  "deep_copier NodePairingProfileSpec_type DeepCopyInto_NodePairingProfileSpec"
  unfolding NodePairingProfileSpec_type_def DeepCopyInto_NodePairingProfileSpec_def
  by (rule copy_fields_deep) (simp add: deep copiers_deep)

lemma DeepCopyInto_NamespaceMatch_deep [deep]: "deep_copier NamespaceMatch_type DeepCopyInto_NamespaceMatch"
  unfolding NamespaceMatch_type_def DeepCopyInto_NamespaceMatch_def
  by (rule copy_fields_deep) (simp add: deep copiers_deep)

lemma DeepCopyInto_LabelAssignment_deep [deep]:
  "deep_copier LabelAssignment_type DeepCopyInto_LabelAssignment"
  unfolding LabelAssignment_type_def DeepCopyInto_LabelAssignment_def
  by (rule copy_fields_deep) (simp add: deep copiers_deep)

lemma DeepCopyInto_NamespaceRule_deep [deep]: "deep_copier NamespaceRule_type DeepCopyInto_NamespaceRule"
  unfolding NamespaceRule_type_def DeepCopyInto_NamespaceRule_def
  by (rule copy_fields_deep) (simp add: deep copiers_deep)

lemma DeepCopyInto_SystemNamespacesSpec_deep [deep]:
  "deep_copier SystemNamespacesSpec_type DeepCopyInto_SystemNamespacesSpec"
  unfolding SystemNamespacesSpec_type_def DeepCopyInto_SystemNamespacesSpec_def
  by (rule copy_fields_deep) (simp add: deep copiers_deep)

lemma DeepCopyInto_OnboardingSpec_deep [deep]: "deep_copier OnboardingSpec_type DeepCopyInto_OnboardingSpec"
  unfolding OnboardingSpec_type_def DeepCopyInto_OnboardingSpec_def
  by (rule copy_fields_deep) (simp add: deep copiers_deep)

lemma DeepCopyInto_ClusterProfileSpec_deep [deep]:
  "deep_copier ClusterProfileSpec_type DeepCopyInto_ClusterProfileSpec"
  unfolding ClusterProfileSpec_type_def DeepCopyInto_ClusterProfileSpec_def
  by (rule copy_fields_deep) (simp add: deep copiers_deep)

lemma DeepCopyInto_ClusterProfileStatus_deep [deep]:
  "meta_laws m \<Longrightarrow> deep_copier (ClusterProfileStatus_type m) (DeepCopyInto_ClusterProfileStatus m)"
  unfolding ClusterProfileStatus_type_def DeepCopyInto_ClusterProfileStatus_def
  by (rule copy_fields_deep) (simp add: deep copiers_deep)

lemma DeepCopyInto_ClusterProfile_deep [deep]:
  "meta_laws m \<Longrightarrow> deep_copier (ClusterProfile_type m) (DeepCopyInto_ClusterProfile m)"
  unfolding ClusterProfile_type_def DeepCopyInto_ClusterProfile_def
  by (rule copy_fields_deep) (simp add: deep copiers_deep)

lemma DeepCopyInto_ClusterProfileList_deep [deep]:
  "meta_laws m \<Longrightarrow> deep_copier (ClusterProfileList_type m) (DeepCopyInto_ClusterProfileList m)"
  unfolding ClusterProfileList_type_def DeepCopyInto_ClusterProfileList_def
  by (rule copy_fields_deep) (simp add: deep copiers_deep)

lemma DeepCopyInto_SecretReference_deep [deep]:
  "deep_copier SecretReference_type DeepCopyInto_SecretReference"
  unfolding SecretReference_type_def DeepCopyInto_SecretReference_def
  by (rule copy_fields_deep) (simp add: deep copiers_deep)

lemma DeepCopyInto_PCEConnectionSpec_deep [deep]:
  "deep_copier PCEConnectionSpec_type DeepCopyInto_PCEConnectionSpec"
  unfolding PCEConnectionSpec_type_def DeepCopyInto_PCEConnectionSpec_def
  by (rule copy_fields_deep) (simp add: deep copiers_deep)

lemma DeepCopyInto_PCEConnectionStatus_deep [deep]:
  "meta_laws m \<Longrightarrow> deep_copier (PCEConnectionStatus_type m) (DeepCopyInto_PCEConnectionStatus m)"
  unfolding PCEConnectionStatus_type_def DeepCopyInto_PCEConnectionStatus_def
  by (rule copy_fields_deep) (simp add: deep copiers_deep)

lemma DeepCopyInto_PCEConnection_deep [deep]:
  "meta_laws m \<Longrightarrow> deep_copier (PCEConnection_type m) (DeepCopyInto_PCEConnection m)"
  unfolding PCEConnection_type_def DeepCopyInto_PCEConnection_def
  by (rule copy_fields_deep) (simp add: deep copiers_deep)

lemma DeepCopyInto_PCEConnectionList_deep [deep]:
  "meta_laws m \<Longrightarrow> deep_copier (PCEConnectionList_type m) (DeepCopyInto_PCEConnectionList m)"
  unfolding PCEConnectionList_type_def DeepCopyInto_PCEConnectionList_def
  by (rule copy_fields_deep) (simp add: deep copiers_deep)

lemma DeepCopyInto_PolicyInsightSpec_deep [deep]:
  "deep_copier PolicyInsightSpec_type DeepCopyInto_PolicyInsightSpec"
  unfolding PolicyInsightSpec_type_def DeepCopyInto_PolicyInsightSpec_def
  by (rule copy_fields_deep) (simp add: deep copiers_deep)

lemma DeepCopyInto_FlowFinding_deep [deep]:
  "meta_laws m \<Longrightarrow> deep_copier (FlowFinding_type m) (DeepCopyInto_FlowFinding m)"
  unfolding FlowFinding_type_def DeepCopyInto_FlowFinding_def
  by (rule copy_fields_deep) (simp add: deep copiers_deep)

lemma DeepCopyInto_ObservationWindow_deep [deep]:
  "meta_laws m \<Longrightarrow> deep_copier (ObservationWindow_type m) (DeepCopyInto_ObservationWindow m)"
  unfolding ObservationWindow_type_def DeepCopyInto_ObservationWindow_def
  by (rule copy_fields_deep) (simp add: deep copiers_deep)

lemma DeepCopyInto_DecisionCounts_deep [deep]: "deep_copier DecisionCounts_type DeepCopyInto_DecisionCounts"
  unfolding DecisionCounts_type_def DeepCopyInto_DecisionCounts_def
  by (rule copy_fields_deep) (simp add: deep copiers_deep)

lemma DeepCopyInto_PreflightSummary_deep [deep]:
  "deep_copier PreflightSummary_type DeepCopyInto_PreflightSummary"
  unfolding PreflightSummary_type_def DeepCopyInto_PreflightSummary_def
  by (rule copy_fields_deep) (simp add: deep copiers_deep)

lemma DeepCopyInto_PolicyInsightStatus_deep [deep]:
  "meta_laws m \<Longrightarrow> deep_copier (PolicyInsightStatus_type m) (DeepCopyInto_PolicyInsightStatus m)"
  unfolding PolicyInsightStatus_type_def DeepCopyInto_PolicyInsightStatus_def
  by (rule copy_fields_deep) (simp add: deep copiers_deep)

lemma DeepCopyInto_PolicyInsight_deep [deep]:
  "meta_laws m \<Longrightarrow> deep_copier (PolicyInsight_type m) (DeepCopyInto_PolicyInsight m)"
  unfolding PolicyInsight_type_def DeepCopyInto_PolicyInsight_def
  by (rule copy_fields_deep) (simp add: deep copiers_deep)

lemma DeepCopyInto_PolicyInsightList_deep [deep]:
  "meta_laws m \<Longrightarrow> deep_copier (PolicyInsightList_type m) (DeepCopyInto_PolicyInsightList m)"
  unfolding PolicyInsightList_type_def DeepCopyInto_PolicyInsightList_def
  by (rule copy_fields_deep) (simp add: deep copiers_deep)

lemma DeepCopyInto_RuleViewSpec_deep [deep]: "deep_copier RuleViewSpec_type DeepCopyInto_RuleViewSpec"
  unfolding RuleViewSpec_type_def DeepCopyInto_RuleViewSpec_def
  by (rule copy_fields_deep) (simp add: deep copiers_deep)

lemma DeepCopyInto_RuleSummary_deep [deep]: "deep_copier RuleSummary_type DeepCopyInto_RuleSummary"
  unfolding RuleSummary_type_def DeepCopyInto_RuleSummary_def
  by (rule copy_fields_deep) (simp add: deep copiers_deep)

lemma DeepCopyInto_RuleViewStatus_deep [deep]:
  "meta_laws m \<Longrightarrow> deep_copier (RuleViewStatus_type m) (DeepCopyInto_RuleViewStatus m)"
  unfolding RuleViewStatus_type_def DeepCopyInto_RuleViewStatus_def
  by (rule copy_fields_deep) (simp add: deep copiers_deep)

lemma DeepCopyInto_RuleView_deep [deep]:
  "meta_laws m \<Longrightarrow> deep_copier (RuleView_type m) (DeepCopyInto_RuleView m)"
  unfolding RuleView_type_def DeepCopyInto_RuleView_def
  by (rule copy_fields_deep) (simp add: deep copiers_deep)

lemma DeepCopyInto_RuleViewList_deep [deep]:
  "meta_laws m \<Longrightarrow> deep_copier (RuleViewList_type m) (DeepCopyInto_RuleViewList m)"
  unfolding RuleViewList_type_def DeepCopyInto_RuleViewList_def
  by (rule copy_fields_deep) (simp add: deep copiers_deep)

lemma DeepCopyInto_IntentPort_deep [deep]: "deep_copier IntentPort_type DeepCopyInto_IntentPort"
  unfolding IntentPort_type_def DeepCopyInto_IntentPort_def
  by (rule copy_fields_deep) (simp add: deep copiers_deep)

lemma DeepCopyInto_IntentAllow_deep [deep]: "deep_copier IntentAllow_type DeepCopyInto_IntentAllow"
  unfolding IntentAllow_type_def DeepCopyInto_IntentAllow_def
  by (rule copy_fields_deep) (simp add: deep copiers_deep)

lemma DeepCopyInto_SegmentationIntentSpec_deep [deep]:
  "deep_copier SegmentationIntentSpec_type DeepCopyInto_SegmentationIntentSpec"
  unfolding SegmentationIntentSpec_type_def DeepCopyInto_SegmentationIntentSpec_def
  by (rule copy_fields_deep) (simp add: deep copiers_deep)

lemma DeepCopyInto_SegmentationIntentStatus_deep [deep]:
  "meta_laws m \<Longrightarrow> deep_copier (SegmentationIntentStatus_type m) (DeepCopyInto_SegmentationIntentStatus m)"
  unfolding SegmentationIntentStatus_type_def DeepCopyInto_SegmentationIntentStatus_def
  by (rule copy_fields_deep) (simp add: deep copiers_deep)

lemma DeepCopyInto_SegmentationIntent_deep [deep]:
  "meta_laws m \<Longrightarrow> deep_copier (SegmentationIntent_type m) (DeepCopyInto_SegmentationIntent m)"
  unfolding SegmentationIntent_type_def DeepCopyInto_SegmentationIntent_def
  by (rule copy_fields_deep) (simp add: deep copiers_deep)

lemma DeepCopyInto_SegmentationIntentList_deep [deep]:
  "meta_laws m \<Longrightarrow> deep_copier (SegmentationIntentList_type m) (DeepCopyInto_SegmentationIntentList m)"
  unfolding SegmentationIntentList_type_def DeepCopyInto_SegmentationIntentList_def
  by (rule copy_fields_deep) (simp add: deep copiers_deep)

lemma DeepCopyInto_NetworkPolicyPeer_deep [deep]:
  "meta_laws m \<Longrightarrow> deep_copier (NetworkPolicyPeer_type m) (DeepCopyInto_NetworkPolicyPeer m)"
  unfolding NetworkPolicyPeer_type_def DeepCopyInto_NetworkPolicyPeer_def
  by (rule copy_fields_deep) (simp add: deep copiers_deep)

lemma DeepCopyInto_NetworkPolicyPort_deep [deep]:
  "deep_copier NetworkPolicyPort_type DeepCopyInto_NetworkPolicyPort"
  unfolding NetworkPolicyPort_type_def DeepCopyInto_NetworkPolicyPort_def
  by (rule copy_fields_deep) (simp add: deep copiers_deep)

lemma DeepCopyInto_IngressRule_deep [deep]:
  "meta_laws m \<Longrightarrow> deep_copier (IngressRule_type m) (DeepCopyInto_IngressRule m)"
  unfolding IngressRule_type_def DeepCopyInto_IngressRule_def
  by (rule copy_fields_deep) (simp add: deep copiers_deep)

lemma DeepCopyInto_SegmentationPolicySpec_deep [deep]:
  "meta_laws m \<Longrightarrow> deep_copier (SegmentationPolicySpec_type m) (DeepCopyInto_SegmentationPolicySpec m)"
  unfolding SegmentationPolicySpec_type_def DeepCopyInto_SegmentationPolicySpec_def
  by (rule copy_fields_deep) (simp add: deep copiers_deep)

lemma DeepCopyInto_SegmentationPolicyStatus_deep [deep]:
  "meta_laws m \<Longrightarrow> deep_copier (SegmentationPolicyStatus_type m) (DeepCopyInto_SegmentationPolicyStatus m)"
  unfolding SegmentationPolicyStatus_type_def DeepCopyInto_SegmentationPolicyStatus_def
  by (rule copy_fields_deep) (simp add: deep copiers_deep)

lemma DeepCopyInto_SegmentationPolicy_deep [deep]:
  "meta_laws m \<Longrightarrow> deep_copier (SegmentationPolicy_type m) (DeepCopyInto_SegmentationPolicy m)"
  unfolding SegmentationPolicy_type_def DeepCopyInto_SegmentationPolicy_def
  by (rule copy_fields_deep) (simp add: deep copiers_deep)

lemma DeepCopyInto_SegmentationPolicyList_deep [deep]:
  "meta_laws m \<Longrightarrow> deep_copier (SegmentationPolicyList_type m) (DeepCopyInto_SegmentationPolicyList m)"
  unfolding SegmentationPolicyList_type_def DeepCopyInto_SegmentationPolicyList_def
  by (rule copy_fields_deep) (simp add: deep copiers_deep)

definition deep_kind :: "known_type \<Rightarrow> bool" where
  "deep_kind k \<longleftrightarrow> (\<exists>c. kt_copy k = copy_object (copy_pointer c) \<and> deep_copier (kt_type k) c)"

lemma deep_kind_make: "deep_copier ty c \<Longrightarrow> deep_kind (known_type.make n ty (copy_object (copy_pointer c)))"
  by (auto simp: deep_kind_def known_type.defs)

lemma AddToScheme_deep:
  assumes "meta_laws m"
  shows "list_all deep_kind (AddToScheme m)"
proof -
  note regs = register_ClusterProfile_def register_PCEConnection_def register_PolicyInsight_def
    register_RuleView_def register_SegmentationIntent_def register_SegmentationPolicy_def
  note copies = DeepCopyObject_ClusterProfile_def DeepCopyObject_ClusterProfileList_def
    DeepCopyObject_PCEConnection_def DeepCopyObject_PCEConnectionList_def
    DeepCopyObject_PolicyInsight_def DeepCopyObject_PolicyInsightList_def
    DeepCopyObject_RuleView_def DeepCopyObject_RuleViewList_def
    DeepCopyObject_SegmentationIntent_def DeepCopyObject_SegmentationIntentList_def
    DeepCopyObject_SegmentationPolicy_def DeepCopyObject_SegmentationPolicyList_def
    DeepCopy_ClusterProfile_def DeepCopy_ClusterProfileList_def DeepCopy_PCEConnection_def
    DeepCopy_PCEConnectionList_def DeepCopy_PolicyInsight_def DeepCopy_PolicyInsightList_def
    DeepCopy_RuleView_def DeepCopy_RuleViewList_def DeepCopy_SegmentationIntent_def
    DeepCopy_SegmentationIntentList_def DeepCopy_SegmentationPolicy_def DeepCopy_SegmentationPolicyList_def
  show ?thesis
    unfolding AddToScheme_def regs copies using assms by (simp add: deep_kind_make deep)
qed

subsection \<open>A copy shares nothing with the original\<close>

text \<open>
  C19: The \<open>DeepCopyObject\<close> of every kind that \<open>AddToScheme\<close> registers returns an object with
  the value of the original in memory of its own: whatever is later written outside the
  original's cells, the copy's included, the original keeps its value, and the copy keeps its own
  whatever is written outside the copy's cells. A controller that changes an object it was handed
  as a copy leaves the one in the cache alone. The copy of a nil object is the nil interface.
\<close>
theorem deep_copies_isolated:
  assumes "meta_laws m" "k \<in> set (AddToScheme m)" "deref h (Pointer (kt_type k)) v = Some (t, F)"
  shows "(v = Nil_Ref \<longrightarrow> run_state (kt_copy k v) h = (None, h)) \<and>
    (v \<noteq> Nil_Ref \<longrightarrow>
      (\<exists>w h' F'. run_state (kt_copy k v) h = (Some w, h') \<and> set F \<inter> set F' = {} \<and>
        (\<forall>ws. fst ` set ws \<inter> set F = {} \<longrightarrow> deref (writes ws h') (Pointer (kt_type k)) v = Some (t, F)) \<and>
        (\<forall>ws. fst ` set ws \<inter> set F' = {} \<longrightarrow> deref (writes ws h') (Pointer (kt_type k)) w = Some (t, F'))))"
proof -
  obtain c where c: "kt_copy k = copy_object (copy_pointer c)" "deep_copier (kt_type k) c"
    using AddToScheme_deep [OF assms(1)] assms(2) by (auto simp: list_all_iff deep_kind_def)
  have "run_state (kt_copy k Nil_Ref) h = (None, h)"
    by (simp add: c(1) copy_object_def copy_pointer_def)
  moreover have "v \<noteq> Nil_Ref \<Longrightarrow>
      \<exists>w h' F'. run_state (kt_copy k v) h = (Some w, h') \<and> set F \<inter> set F' = {} \<and>
        (\<forall>ws. fst ` set ws \<inter> set F = {} \<longrightarrow> deref (writes ws h') (Pointer (kt_type k)) v = Some (t, F)) \<and>
        (\<forall>ws. fst ` set ws \<inter> set F' = {} \<longrightarrow> deref (writes ws h') (Pointer (kt_type k)) w = Some (t, F'))"
    unfolding c(1) by (rule copy_object_isolated [OF copy_pointer_deep [OF c(2)] assms(3)])
  ultimately show ?thesis by simp
qed

definition sample_meta :: meta_lib where
  "sample_meta =
     \<lparr>TypeMeta_type = Fields [(''Kind'', Plain), (''APIVersion'', Plain)],
      ObjectMeta_type = Fields [(''Name'', Plain), (''Labels'', MapTo Plain)],
      ListMeta_type = Fields [(''ResourceVersion'', Plain)],
      Condition_type = Fields [(''Type'', Plain), (''Status'', Plain)],
      LabelSelector_type = Fields [(''MatchLabels'', MapTo Plain)],
      Time_type = Plain,
      ObjectMeta_DeepCopyInto = copy_fields [(''Labels'', copy_map copy_flat)],
      ListMeta_DeepCopyInto = copy_fields [],
      Condition_DeepCopyInto = copy_fields [],
      LabelSelector_DeepCopyInto = copy_fields [(''MatchLabels'', copy_map copy_flat)],
      Time_DeepCopy = copy_pointer copy_flat\<rparr>"

lemma sample_meta_laws: "meta_laws sample_meta"
  by (simp add: meta_laws_def sample_meta_def copy_fields_deep copiers_deep)

definition sample_memory :: memory where
  \<comment> \<open>at 3 a PolicyInsight with one blocked flow, whose peer labels are the map at 0\<close>
  "sample_memory =
     [Entries [(''app'', Scalar ''web''), (''env'', Scalar ''prod'')],
      Elems [Scalar ''2026-01-01T00:00:00Z''],
      Elems [Struct
        [(''Peer'', Addr 0), (''PeerIP'', Scalar ''''), (''Port'', Scalar ''443''), (''Protocol'', Scalar ''TCP''),
         (''Connections'', Scalar ''7''), (''Decision'', Scalar ''blocked''), (''LastDetected'', Addr 1)]],
      Elems [Struct
        [(''TypeMeta'', Struct [(''Kind'', Scalar ''PolicyInsight''), (''APIVersion'', Scalar ''v1alpha1'')]),
         (''ObjectMeta'', Struct [(''Name'', Scalar ''web''), (''Labels'', Nil_Ref)]),
         (''Spec'', Struct [(''LookbackDays'', Scalar ''7'')]),
         (''Status'', Struct
           [(''Conditions'', Nil_Ref), (''ObservedWindow'', Nil_Ref), (''Summary'', Nil_Ref),
            (''FlowsAnalyzed'', Scalar ''1''), (''InboundBlockedCount'', Scalar ''1''),
            (''OutboundBlockedCount'', Scalar ''0''), (''Truncated'', Scalar ''false''),
            (''WouldBlockInbound'', Slice 2 0 1), (''WouldBlockInboundTruncated'', Scalar ''false''),
            (''WouldBlockOutbound'', Nil_Ref), (''WouldBlockOutboundTruncated'', Scalar ''false''),
            (''ObservedGeneration'', Scalar ''1''), (''ObservedRefresh'', Scalar '''')])]]]"

lemmas sample_types = PolicyInsight_type_def PolicyInsightSpec_type_def PolicyInsightStatus_type_def
  FlowFinding_type_def ObservationWindow_type_def PreflightSummary_type_def DecisionCounts_type_def

lemma sample_deref:
  "\<exists>t. deref sample_memory (Pointer (PolicyInsight_type sample_meta)) (Addr 3) = Some (t, [3, 2, 0, 1])"
  by (simp add: sample_memory_def sample_meta_def sample_types cell_at_def at_address_def collect_def)

theorem deep_copies_isolated_witness:
  "\<exists>t w h'. deref sample_memory (Pointer (PolicyInsight_type sample_meta)) (Addr 3) = Some (t, [3, 2, 0, 1]) \<and>
     run_state (DeepCopyObject_PolicyInsight sample_meta (Addr 3)) sample_memory = (Some w, h') \<and>
     (\<forall>x. deref (writes [(4, x), (5, x), (6, x), (7, x)] h') (Pointer (PolicyInsight_type sample_meta)) (Addr 3) =
        Some (t, [3, 2, 0, 1]))"
proof -
  let ?k = "\<lparr>kt_kind = ''PolicyInsight'', kt_type = PolicyInsight_type sample_meta,
    kt_copy = DeepCopyObject_PolicyInsight sample_meta\<rparr>"
  have k: "?k \<in> set (AddToScheme sample_meta)" by (simp add: AddToScheme_def register_PolicyInsight_def known_type.defs)
  obtain t where t: "deref sample_memory (Pointer (PolicyInsight_type sample_meta)) (Addr 3) = Some (t, [3, 2, 0, 1])"
    using sample_deref by blast
  from deep_copies_isolated [OF sample_meta_laws k, of sample_memory "Addr 3" t "[3, 2, 0, 1]"] t
  obtain w h' where "run_state (DeepCopyObject_PolicyInsight sample_meta (Addr 3)) sample_memory = (Some w, h')"
    "\<forall>ws. fst ` set ws \<inter> set [3, 2, 0, 1] = {} \<longrightarrow>
      deref (writes ws h') (Pointer (PolicyInsight_type sample_meta)) (Addr 3) = Some (t, [3, 2, 0, 1])"
    by auto
  with t show ?thesis by (intro exI conjI) auto
qed

end
