(* ===== verification/Test_Utils.thy ===== *)
theory Test_Utils
  imports Go_Lib
begin

section \<open>The helpers of the end-to-end tests (test/utils/utils.go)\<close>

text \<open>
  Commands run in the project directory, the installation of cert-manager, and
  \<open>UncommentCode\<close>, which rewrites a file. The operating system is the record \<open>os_calls\<close>;
  what is printed to ginkgo's writer is not modelled. Writes to a \<open>bytes.Buffer\<close> do not fail.
\<close>

subsection \<open>Strings\<close>

fun index_of :: "string \<Rightarrow> string \<Rightarrow> nat option" where
  \<comment> \<open>\<open>strings.Index\<close>; \<open>None\<close> is \<open>-1\<close>\<close>
  "index_of [] sub = (if sub = [] then Some 0 else None)"
| "index_of (c # s) sub =
     (if take (length sub) (c # s) = sub then Some 0 else map_option Suc (index_of s sub))"

definition string_contains :: "string \<Rightarrow> string \<Rightarrow> bool" where
  \<comment> \<open>\<open>strings.Contains\<close>\<close>
  "string_contains s sub = (index_of s sub \<noteq> None)"

definition trim_prefix :: "string \<Rightarrow> string \<Rightarrow> string" where
  \<comment> \<open>\<open>strings.TrimPrefix\<close>\<close>
  "trim_prefix s p = (if take (length p) s = p then drop (length p) s else s)"

function delete_all :: "string \<Rightarrow> string \<Rightarrow> string" where
  \<comment> \<open>\<open>strings.ReplaceAll(s, old, "")\<close> with a nonempty \<open>old\<close>\<close>
  "delete_all s old =
     (if s = [] \<or> old = [] then s
      else if take (length old) s = old then delete_all (drop (length old) s) old
      else hd s # delete_all (tl s) old)"
  by auto
termination by (relation "measure (\<lambda>(s, old). length s)") auto

declare delete_all.simps [simp del]

definition newline :: char where "newline = CHR 0x0A"
definition carriage_return :: char where "carriage_return = CHR 0x0D"

fun split_newlines :: "string \<Rightarrow> string list" where
  \<comment> \<open>\<open>strings.SplitSeq(s, "\n")\<close>\<close>
  "split_newlines [] = [[]]"
| "split_newlines (c # s) =
     (if c = newline then [] # split_newlines s
      else (case split_newlines s of l # ls \<Rightarrow> (c # l) # ls | [] \<Rightarrow> [[c]]))"

definition drop_cr :: "string \<Rightarrow> string" where
  "drop_cr l = (if l \<noteq> [] \<and> last l = carriage_return then butlast l else l)"

definition max_token :: nat where
  \<comment> \<open>\<open>bufio.MaxScanTokenSize\<close>, the size of the largest buffer\<close>
  "max_token = 65536"

function scan_lines :: "string \<Rightarrow> string list" where
  \<comment> \<open>the tokens of a \<open>bufio.Scanner\<close> until \<open>Scan\<close> returns false: at the end of the input, or
      at a line that fills the buffer (\<open>ErrTooLong\<close>)\<close>
  "scan_lines s =
     (if s = [] then []
      else let l = takeWhile (\<lambda>c. c \<noteq> newline) s in
        if max_token \<le> length l then []
        else drop_cr l # scan_lines (drop (Suc (length l)) s))"
  by auto
termination by (relation "measure length") auto

declare scan_lines.simps [simp del]


subsection \<open>The operating system\<close>

record command =
  cmd_args :: "string list"
  cmd_dir :: string
  cmd_env :: "string list"

definition exec_command :: "string list \<Rightarrow> command" where
  \<comment> \<open>\<open>exec.Command(name, arg...)\<close>\<close>
  "exec_command args = \<lparr>cmd_args = args, cmd_dir = '''', cmd_env = []\<rparr>"

record 'w os_calls =
  os_read_file :: "string \<Rightarrow> ('w, go_error + string) state"
  os_write_file :: "string \<Rightarrow> string \<Rightarrow> ('w, go_error option) state"
  os_getwd :: "('w, string \<times> go_error option) state"
  os_chdir :: "string \<Rightarrow> ('w, go_error option) state"
  os_environ :: "('w, string list) state"
  os_lookup_env :: "string \<Rightarrow> ('w, string option) state"
  os_combined_output :: "command \<Rightarrow> ('w, string \<times> go_error option) state"


subsection \<open>Commands\<close>

definition GetProjectDir :: "'w os_calls \<Rightarrow> ('w, string \<times> go_error option) state" where
  "GetProjectDir os = do {
     (wd, err) \<leftarrow> os_getwd os;
     case err of
       Some e \<Rightarrow> ret (wd, Some (WrapError ''failed to get current working directory: '' e))
     | None \<Rightarrow> ret (delete_all wd ''/test/e2e'', None)
   }"

definition Run :: "'w os_calls \<Rightarrow> command \<Rightarrow> ('w, string \<times> go_error option) state" where
  "Run os cmd = do {
     (dir, _) \<leftarrow> GetProjectDir os;
     _ \<leftarrow> os_chdir os dir;
     env \<leftarrow> os_environ os;
     let line = join_sep '' '' (cmd_args cmd);
     (output, err) \<leftarrow> os_combined_output os (cmd\<lparr>cmd_dir := dir, cmd_env := env @ [''GO111MODULE=on'']\<rparr>);
     case err of
       Some e \<Rightarrow>
         ret (output, Some (WrapError (go_quote line @ '' failed with error '' @ go_quote output @ '': '') e))
     | None \<Rightarrow> ret (output, None)
   }"

definition certmanagerVersion :: string where
  "certmanagerVersion = ''v1.20.2''"

definition certmanagerURLTmpl :: "string \<Rightarrow> string" where
  "certmanagerURLTmpl v =
     ''https://github.com/cert-manager/cert-manager/releases/download/'' @ v @ ''/cert-manager.yaml''"

definition defaultKindBinary :: string where
  "defaultKindBinary = ''kind''"

definition defaultKindCluster :: string where
  "defaultKindCluster = ''kind''"

fun delete_leases :: "'w os_calls \<Rightarrow> string list \<Rightarrow> ('w, unit) state" where
  \<comment> \<open>the loop of \<open>UninstallCertManager\<close>; errors are only warned about\<close>
  "delete_leases os [] = ret ()"
| "delete_leases os (lease # leases) = do {
     _ \<leftarrow> Run os (exec_command [''kubectl'', ''delete'', ''lease'', lease, ''-n'', ''kube-system'',
       ''--ignore-not-found'', ''--force'', ''--grace-period=0'']);
     delete_leases os leases
   }"

definition UninstallCertManager :: "'w os_calls \<Rightarrow> ('w, unit) state" where
  "UninstallCertManager os = do {
     _ \<leftarrow> Run os (exec_command [''kubectl'', ''delete'', ''-f'', certmanagerURLTmpl certmanagerVersion]);
     delete_leases os [''cert-manager-cainjector-leader-election'', ''cert-manager-controller'']
   }"

definition InstallCertManager :: "'w os_calls \<Rightarrow> ('w, go_error option) state" where
  "InstallCertManager os = do {
     (_, err) \<leftarrow> Run os (exec_command [''kubectl'', ''apply'', ''-f'', certmanagerURLTmpl certmanagerVersion]);
     case err of
       Some e \<Rightarrow> ret (Some e)
     | None \<Rightarrow> do {
         (_, err) \<leftarrow> Run os (exec_command [''kubectl'', ''wait'', ''deployment.apps/cert-manager-webhook'',
           ''--for'', ''condition=Available'', ''--namespace'', ''cert-manager'', ''--timeout'', ''5m'']);
         ret err
       }
   }"

definition GetNonEmptyLines :: "string \<Rightarrow> string list" where
  "GetNonEmptyLines output = filter (\<lambda>element. element \<noteq> '''') (split_newlines output)"

definition certManagerCRDs :: "string list" where
  "certManagerCRDs =
     [''certificates.cert-manager.io'', ''issuers.cert-manager.io'', ''clusterissuers.cert-manager.io'',
      ''certificaterequests.cert-manager.io'', ''orders.acme.cert-manager.io'', ''challenges.acme.cert-manager.io'']"

definition IsCertManagerCRDsInstalled :: "'w os_calls \<Rightarrow> ('w, bool) state" where
  "IsCertManagerCRDsInstalled os = do {
     (output, err) \<leftarrow> Run os (exec_command [''kubectl'', ''get'', ''crds'']);
     case err of
       Some _ \<Rightarrow> ret False
     | None \<Rightarrow>
         ret (list_ex (\<lambda>crd. list_ex (\<lambda>line. string_contains line crd) (GetNonEmptyLines output)) certManagerCRDs)
   }"

definition LoadImageToKindClusterWithName :: "'w os_calls \<Rightarrow> string \<Rightarrow> ('w, go_error option) state" where
  "LoadImageToKindClusterWithName os name = do {
     c \<leftarrow> os_lookup_env os ''KIND_CLUSTER'';
     let cluster = (case c of Some v \<Rightarrow> v | None \<Rightarrow> defaultKindCluster);
     b \<leftarrow> os_lookup_env os ''KIND'';
     let kindBinary = (case b of Some v \<Rightarrow> v | None \<Rightarrow> defaultKindBinary);
     (_, err) \<leftarrow> Run os (exec_command [kindBinary, ''load'', ''docker-image'', name, ''--name'', cluster]);
     ret err
   }"


subsection \<open>Uncommenting code\<close>

fun uncomment_loop :: "string \<Rightarrow> string list \<Rightarrow> string \<Rightarrow> string" where
  \<comment> \<open>\<open>for { out.WriteString(...); if !scanner.Scan() { break }; out.WriteString("\n") }\<close>\<close>
  "uncomment_loop pre [] out = out"
| "uncomment_loop pre (text # rest) out =
     (let out = out @ trim_prefix text pre in
      if rest = [] then out else uncomment_loop pre rest (out @ [newline]))"

definition UncommentCode :: "'w os_calls \<Rightarrow> string \<Rightarrow> string \<Rightarrow> string \<Rightarrow> ('w, go_error option) state" where
  "UncommentCode os filename target pre = do {
     content \<leftarrow> os_read_file os filename;
     case content of
       Inl e \<Rightarrow> ret (Some (WrapError (''failed to read file '' @ go_quote filename @ '': '') e))
     | Inr content \<Rightarrow>
         (case index_of content target of
            None \<Rightarrow> ret (Some (ErrorText (''unable to find the code '' @ go_quote target @ '' to be uncommented'')))
          | Some idx \<Rightarrow>
              let texts = scan_lines target in
              if texts = [] then ret None
              else do {
                let out = uncomment_loop pre texts (take idx content) @ drop (idx + length target) content;
                err \<leftarrow> os_write_file os filename out;
                case err of
                  Some e \<Rightarrow> ret (Some (WrapError (''failed to write file '' @ go_quote filename @ '': '') e))
                | None \<Rightarrow> ret None
              })
   }"


subsection \<open>What the string functions compute\<close>

lemma index_of_Some:
  "index_of s sub = Some i \<Longrightarrow> i + length sub \<le> length s \<and> take (length sub) (drop i s) = sub"
proof (induction s arbitrary: i)
  case Nil
  then show ?case by (auto split: if_splits)
next
  case (Cons c s)
  show ?case
  proof (cases "take (length sub) (c # s) = sub")
    case True
    then have "length sub \<le> length (c # s)" by (metis length_take min.cobounded1)
    with True Cons.prems show ?thesis by auto
  next
    case False
    with Cons.prems obtain j where "index_of s sub = Some j" "i = Suc j" by auto
    with Cons.IH [of j] show ?thesis by simp
  qed
qed

lemma index_of_None: "index_of s sub = None \<longleftrightarrow> (\<nexists>a b. s = a @ sub @ b)"
proof (induction s)
  case (Cons c s)
  have "(\<exists>a b. c # s = a @ sub @ b) \<longleftrightarrow> take (length sub) (c # s) = sub \<or> (\<exists>a b. s = a @ sub @ b)"
    (is "?l \<longleftrightarrow> ?r")
  proof
    assume ?l
    then obtain a b where "c # s = a @ sub @ b" by blast
    then show ?r by (cases a) (auto intro: exI)
  next
    assume ?r
    then show ?l
      by (metis append_Cons append_Nil append_take_drop_id)
  qed
  with Cons.IH show ?case by auto
qed auto

lemma string_contains_iff: "string_contains s sub \<longleftrightarrow> (\<exists>a b. s = a @ sub @ b)"
  unfolding string_contains_def index_of_None by blast

lemma split_newlines_not_Nil [simp]: "split_newlines s \<noteq> []"
  by (cases s) (auto split: list.splits)

lemma split_newlines_join: "join_sep [newline] (split_newlines s) = s"
proof (induction s)
  case (Cons c s)
  obtain l ls where "split_newlines s = l # ls" by (cases "split_newlines s") auto
  with Cons.IH show ?case by (cases ls) auto
qed simp

lemma split_newlines_lines: "l \<in> set (split_newlines s) \<Longrightarrow> newline \<notin> set l"
  by (induction s arbitrary: l) (auto split: list.splits if_splits)

lemma scan_lines_Nil [simp]: "scan_lines [] = []"
  by (simp add: scan_lines.simps)

definition clean_line :: "string \<Rightarrow> bool" where
  "clean_line l \<longleftrightarrow> newline \<notin> set l \<and> length l < max_token \<and> (l = [] \<or> last l \<noteq> carriage_return)"

lemma takeWhile_line: "newline \<notin> set l \<Longrightarrow> takeWhile (\<lambda>c. c \<noteq> newline) (l @ newline # s) = l"
  by (subst takeWhile_append2) auto

lemma takeWhile_last_line: "newline \<notin> set l \<Longrightarrow> takeWhile (\<lambda>c. c \<noteq> newline) l = l"
  by (subst takeWhile_eq_all_conv) auto

lemma scan_lines_join:
  "list_all clean_line ls \<Longrightarrow> ls \<noteq> [] \<Longrightarrow> last ls \<noteq> [] \<Longrightarrow> scan_lines (join_sep [newline] ls) = ls"
proof (induction ls rule: induct_list012)
  case (2 l)
  then show ?case
    by (subst scan_lines.simps) (auto simp: clean_line_def takeWhile_last_line drop_cr_def Let_def)
next
  case (3 l l' ls)
  then have "scan_lines (join_sep [newline] (l' # ls)) = l' # ls" by simp
  with 3(3) show ?case
    by (subst scan_lines.simps) (auto simp: clean_line_def takeWhile_line drop_cr_def Let_def)
qed simp

lemma join_sep_step: "ls \<noteq> [] \<Longrightarrow> join_sep sep (l # ls) = l @ sep @ join_sep sep ls"
  by (cases ls) auto

lemma uncomment_loop_join:
  "ls \<noteq> [] \<Longrightarrow> uncomment_loop pre ls out = out @ join_sep [newline] (map (\<lambda>l. trim_prefix l pre) ls)"
  by (induction ls arbitrary: out) (auto simp: Let_def join_sep_step)

lemma trim_prefix_append [simp]: "trim_prefix (p @ s) p = s"
  by (simp add: trim_prefix_def)


subsection \<open>The file after uncommenting\<close>

definition file_laws :: "'w os_calls \<Rightarrow> ('w \<Rightarrow> string \<Rightarrow> string option) \<Rightarrow> bool" where
  \<comment> \<open>reading a file gives its content and changes none, writing one changes only that one\<close>
  "file_laws os files \<longleftrightarrow>
     (\<forall>F f s. F f = Some s \<longrightarrow>
        hoare (\<lambda>w. files w = F) (os_read_file os f) (\<lambda>r w. files w = F \<and> r = Inr s) \<and>
        (\<forall>t. hoare (\<lambda>w. files w = F) (os_write_file os f t) (\<lambda>r w. files w = F(f \<mapsto> t) \<and> r = None)))"

lemma hoare_if_nil: "hoare (\<lambda>w. P w \<and> x = None) (case x of None \<Rightarrow> ret None | Some e \<Rightarrow> ret (f e)) (\<lambda>r w. r = None \<and> P w)"
  by (cases x) (simp_all add: hoare_def)

lemma UncommentCode_writes:
  assumes "file_laws os files" "F filename = Some (before @ target @ after)"
    and "index_of (before @ target @ after) target = Some (length before)" "scan_lines target = texts" "texts \<noteq> []"
  shows "hoare (\<lambda>w. files w = F) (UncommentCode os filename target pre)
    (\<lambda>r w. r = None \<and>
       files w = F(filename \<mapsto> before @ join_sep [newline] (map (\<lambda>l. trim_prefix l pre) texts) @ after))"
proof -
  have read: "hoare (\<lambda>w. files w = F) (os_read_file os filename)
      (\<lambda>r w. files w = F \<and> r = Inr (before @ target @ after))"
    and written: "hoare (\<lambda>w. files w = F) (os_write_file os filename t) (\<lambda>r w. files w = F(filename \<mapsto> t) \<and> r = None)" for t
    using assms(1,2) unfolding file_laws_def by blast+
  show ?thesis
    unfolding UncommentCode_def
    by (rule hoare_bind_pure [where Q = "\<lambda>r. r = Inr (before @ target @ after)", OF read])
      (use assms(3-5) in \<open>auto simp: Let_def uncomment_loop_join intro!: hoare_bind [OF written] hoare_if_nil\<close>)
qed

text \<open>
  C40: \<open>UncommentCode\<close> takes back a commenting out: if the target is the lines of some code, each
  behind the comment prefix, then the file holds these lines without it, in the same place, with
  everything around them unchanged. The lines must be clean: short enough for the scanner's
  buffer and not ending in a carriage return, and the last one not empty.
\<close>
theorem UncommentCode_uncomments:
  assumes "file_laws os files"
    and "target = join_sep [newline] (map (\<lambda>l. pre @ l) code)" "code \<noteq> []" "last code \<noteq> []"
    and "list_all (\<lambda>l. clean_line (pre @ l)) code"
    and "F filename = Some (before @ target @ after)"
    and "index_of (before @ target @ after) target = Some (length before)"
  shows "hoare (\<lambda>w. files w = F) (UncommentCode os filename target pre)
    (\<lambda>r w. r = None \<and> files w = F(filename \<mapsto> before @ join_sep [newline] code @ after))"
proof -
  have "scan_lines target = map (\<lambda>l. pre @ l) code"
    unfolding assms(2) by (rule scan_lines_join) (use assms(3-5) in \<open>auto simp: list.pred_map comp_def last_map\<close>)
  from UncommentCode_writes [OF assms(1) _ _ this, of F filename before after pre] assms(6,7) assms(3) show ?thesis
    by (simp add: comp_def)
qed

definition sample_os :: "(string \<Rightarrow> string option) os_calls" where
  "sample_os =
     \<lparr>os_read_file = (\<lambda>f. State (\<lambda>F. (case F f of Some s \<Rightarrow> Inr s | None \<Rightarrow> Inl (ErrorText ''no such file''), F))),
      os_write_file = (\<lambda>f t. State (\<lambda>F. (None, F(f \<mapsto> t)))),
      os_getwd = ret (''/src/test/e2e'', None), os_chdir = (\<lambda>_. ret None), os_environ = ret [],
      os_lookup_env = (\<lambda>_. ret None), os_combined_output = (\<lambda>_. ret ('''', None))\<rparr>"

lemma sample_os_laws: "file_laws sample_os (\<lambda>F. F)"
  by (simp add: file_laws_def hoare_def sample_os_def)

theorem UncommentCode_uncomments_witness:
  "let file = ''patches:'' @ [newline] @ ''#- a'' @ [newline] @ ''#- b'' @ [newline];
       (r, F) = run_state (UncommentCode sample_os ''k.yaml'' (''#- a'' @ [newline] @ ''#- b'') ''#'')
         [''k.yaml'' \<mapsto> file]
   in r = None \<and> F ''k.yaml'' = Some (''patches:'' @ [newline] @ ''- a'' @ [newline] @ ''- b'' @ [newline])"
proof -
  let ?target = "join_sep [newline] (map (\<lambda>l. ''#'' @ l) [''- a'', ''- b''])"
  let ?before = "''patches:'' @ [newline]"
  have "list_all (\<lambda>l. clean_line (''#'' @ l)) [''- a'', ''- b'']"
    by (simp add: clean_line_def newline_def carriage_return_def max_token_def)
  moreover have "index_of (?before @ ?target @ [newline]) ?target = Some (length ?before)"
    by code_simp
  ultimately have "hoare (\<lambda>F. F = [''k.yaml'' \<mapsto> ?before @ ?target @ [newline]])
      (UncommentCode sample_os ''k.yaml'' ?target ''#'')
      (\<lambda>r F. r = None \<and>
        F = [''k.yaml'' \<mapsto> ?before @ ?target @ [newline], ''k.yaml'' \<mapsto> ?before @ join_sep [newline] [''- a'', ''- b''] @ [newline]])"
    by (intro UncommentCode_uncomments [OF sample_os_laws refl]) simp_all
  then show ?thesis by (simp add: hoare_def Let_def split: prod.splits)
qed

text \<open>Two inputs the scanner does not return whole: a final newline, and a line that fills its buffer.\<close>

lemma final_newline_lost: "clean_line l \<Longrightarrow> scan_lines (l @ [newline]) = [l]"
  by (subst scan_lines.simps) (auto simp: clean_line_def takeWhile_line drop_cr_def Let_def)

lemma long_line_lost:
  assumes "clean_line l" "newline \<notin> set m" "max_token \<le> length m"
  shows "scan_lines (l @ newline # m) = [l]"
proof -
  have "scan_lines m = []"
    using assms(2,3) by (subst scan_lines.simps) (simp add: takeWhile_last_line Let_def)
  with assms(1) show ?thesis
    by (subst scan_lines.simps) (auto simp: clean_line_def takeWhile_line drop_cr_def Let_def)
qed

lemma UncommentCode_joins_lines:
  \<comment> \<open>a target that ends with its newline: the line after it moves up\<close>
  assumes "file_laws os files" "clean_line (pre @ l)" "F filename = Some (before @ (pre @ l @ [newline]) @ after)"
    and "index_of (before @ (pre @ l @ [newline]) @ after) (pre @ l @ [newline]) = Some (length before)"
  shows "hoare (\<lambda>w. files w = F) (UncommentCode os filename (pre @ l @ [newline]) pre)
    (\<lambda>r w. r = None \<and> files w = F(filename \<mapsto> before @ l @ after))"
  using UncommentCode_writes [OF assms(1) _ _ final_newline_lost [OF assms(2)], of F filename before after pre] assms(3,4) by simp

lemma UncommentCode_drops_long_line:
  \<comment> \<open>a line that fills the scanner's buffer is removed from the file, with no error\<close>
  assumes "file_laws os files" "clean_line (pre @ l)" "newline \<notin> set m" "max_token \<le> length m"
    and "F filename = Some (before @ (pre @ l @ newline # m) @ after)"
    and "index_of (before @ (pre @ l @ newline # m) @ after) (pre @ l @ newline # m) = Some (length before)"
  shows "hoare (\<lambda>w. files w = F) (UncommentCode os filename (pre @ l @ newline # m) pre)
    (\<lambda>r w. r = None \<and> files w = F(filename \<mapsto> before @ l @ after))"
  using UncommentCode_writes [OF assms(1) _ _ long_line_lost [OF assms(2-4)], of F filename before after pre] assms(5,6) by simp

end
