(* ===== verification/Spec2Isabelle.thy ===== *)
theory Spec2Isabelle
  imports Policy_Progress Policy_Lifecycle Connection_Controller Cluster_To_Policy
    Manager_Setup Observer_Status Mock_Pce Deep_Copies Test_Utils
begin

text \<open>
  A model of the Illumio Kubernetes utility operator (a kubebuilder operator in Go): six
  controllers that read custom resources and namespaces from a Kubernetes API server and
  drive the REST API of an Illumio Policy Compute Engine (PCE).

  \<^bold>\<open>The program.\<close> A \<open>PCEConnection\<close> holds a PCE's address and credentials and is checked by a
  ping. A \<open>ClusterProfile\<close> onboards the cluster at a connected PCE (container cluster,
  pairing profile, pairing key, a Secret with the credentials) and brings the workload
  profile of every namespace to what its rules and the namespace's annotations ask for. A
  \<open>SegmentationIntent\<close> and a \<open>SegmentationPolicy\<close> are compiled to one draft ruleset each,
  which is provisioned when the profile allows it and removed by a finalizer. A
  \<open>PolicyInsight\<close> asks the PCE on request which observed flows the draft policy would block;
  a \<open>RuleView\<close> mirrors the PCE's rules once per interval. The controllers share the resolution
  of a namespace's profile, the desired configuration of a namespace and the PCE client.

  \<^bold>\<open>Conventions.\<close> Except in \<open>Go_Memory\<close> and \<open>Deep_Copies\<close>, where sharing is the point, values
  are HOL values: a Go struct is a record, a pointer an option, \<open>(T, error)\<close> a sum, a lone
  \<open>error\<close> an option, a string map an association list whose order stands for the visiting
  order of \<open>range\<close>. Code that calls the API server or the PCE is a value of the state monad
  over a world \<open>'w\<close> that is left open. The API server and the helpers of its libraries are the
  record \<open>kube\<close>, an HTTP transport is a function from requests to results, the PCE interfaces of
  the controllers are records of calls (\<open>policy_client\<close>, \<open>onboarding_client\<close>, \<open>insight_client\<close>,
  \<open>rule_view_client\<close>) with the client of \<open>internal/pce\<close> as an instance for every transport.
  Each raise and each early return of the source is a branch of the model. Durations and
  connection counts are 64-bit and wrap (\<open>wrap64\<close>).

  \<^bold>\<open>Theories and code.\<close>
  \<^item> \<open>Prelude\<close>: string maps, the program logic (\<open>keeps\<close>, \<open>hoare\<close>, \<open>returns\<close>) and its rule
    collections. \<open>Go_Lib\<close>: errors, decimal and quoted output, durations, \<open>strings\<close> helpers.
    \<open>Go_Path\<close>: \<open>path.Match\<close>, with termination. \<open>Go_Time\<close>: calendar and RFC 3339.
  \<^item> \<open>Api_Types\<close>: api/v1alpha1 (the resources, \<open>labelmode.go\<close>, \<open>scope.go\<close>). \<open>Pce_Types\<close>,
    \<open>Pce_Json\<close>: the PCE objects and their wire format by the struct tags.
  \<^item> \<open>Cwp_Match\<close>: internal/controller/cwpmatch.go, the desired configuration of a namespace.
  \<^item> \<open>Policy_IR\<close>: policyir.go, both compilers, \<open>BuildRuleSet\<close>, \<open>BuildRules\<close>, enforcement modes.
  \<^item> \<open>Kube\<close>: the interface to the API server. \<open>Policy_Backend\<close>: policybackend.go,
    enforcement.go, labelcreate.go, policy_client.go. \<open>Sim_World\<close>: a small concrete cluster and
    PCE draft, the input of the witnesses.
  \<^item> \<open>Policy_Frame\<close> (what a reconcile may touch), \<open>Policy_Result\<close> (what it reports),
    \<open>Policy_Draft\<close> (the draft it leaves), \<open>Policy_Lookup\<close> (the contract of the lookups),
    \<open>Policy_Semantics\<close> (what the rules in the PCE admit), \<open>Policy_Progress\<close> (it gets there),
    \<open>Policy_Lifecycle\<close> (from creation to removal, over any history of the resource).
  \<^item> \<open>Pce_Client\<close>: internal/pce/client.go, labels.go, policy.go, errors.go. \<open>Pce_Onboarding\<close>:
    containercluster.go, pairingprofile.go, cwp.go, onboarding_client.go. \<open>Pce_Traffic\<close>:
    traffic.go, rulesearch.go, insight_client.go, ruleview_client.go.
  \<^item> \<open>Connection_Controller\<close>, \<open>Policy_Controllers\<close>, \<open>Policy_Insight\<close>, \<open>Rule_View\<close>: the controllers
    of these resources. \<open>Namespace_Sync\<close>, \<open>Cluster_Profile\<close>: clusterprofile_controller.go and
    labelmap.go, \<open>Namespace_Updates\<close>: what the namespace pass may write, \<open>Onboarding_Lifecycle\<close>:
    the one-time token over the history of a profile, \<open>Onboarding_Progress\<close>: an onboarding
    gets there, \<open>Cluster_To_Policy\<close>: the two main controllers in sequence.
    \<open>Preflight\<close>: preflight.go. \<open>Observer_Status\<close>: what the statuses of the two
    read-only controllers say.
  \<^item> \<open>Watches\<close>: the \<open>SetupWithManager\<close> methods, which events reach which queue.
    \<open>Manager_Setup\<close>: cmd/main.go. \<open>Mock_Pce\<close>: internal/pce/pcetest/server.go.
  \<^item> \<open>Go_Memory\<close>: values with references in a memory of cells, and how Go code copies them.
    \<open>Deep_Copies\<close>: api/v1alpha1/zz_generated.deepcopy.go and the registered kinds.
    \<open>Test_Utils\<close>: test/utils/utils.go.

  \<^bold>\<open>What the lemmas show.\<close> The central refinement goes in steps: the compilers accept exactly
  their subset and preserve what a resource permits (\<open>Policy_IR\<close>), strict mode resolves labels
  without loss or rejects (\<open>Policy_Lookup\<close>, \<open>Pce_Client\<close>), the ruleset is rebuilt to exactly the
  built rules (\<open>Policy_Draft\<close>), and so the rules in the PCE admit exactly what the resource
  permits (\<open>Policy_Semantics\<close>); with a PCE that answers this state is reached in one reconcile
  (\<open>Policy_Progress\<close>). Over every history of reconciles, user and service steps no ruleset of
  a removed resource stays in the draft, as long as a usable profile exists when it is
  deleted; without one the finalizer is released and nothing is cleaned
  (\<open>Policy_Lifecycle\<close>). Skip mode is described exactly, and is shown to widen an allow. The
  frame theorems are stated for an arbitrary invariant of the world, which makes every other
  call impossible: no provisioning without approval, writes only on the own ruleset, no
  creation in adopt mode, read-only observers. The wire formats read back what they write.
  The namespace pass converges, accounts for every namespace and writes only well-formed
  updates; the events that the watches filter out change nothing it computes; the manager
  starts only with all controllers and probes registered and is secure by default. The
  one-time token of a recorded cluster is never lost, and with a cluster and a PCE that answer
  one reconcile onboards a profile, after which one reconcile of a policy makes the PCE admit
  what it permits (\<open>Cluster_To_Policy\<close>). The generated deep copies share no memory with the
  original. The preflight groups, sorts and caps exactly; a traffic
  query ends; an insight queries on request only; a view searches once per interval; and
  whatever fails, both report either the last result or exactly what the PCE answered.
  \<open>UncommentCode\<close> takes back a commenting out, but joins lines at a target's final newline and
  drops lines that fill its buffer.

  \<^bold>\<open>Interfaces.\<close> \<open>lookup_contract\<close> (the lookups of a policy client) is interpreted on the client
  of \<open>internal/pce\<close> over any transport, \<open>wire_codec\<close> on the structs with both directions of the
  wire format, \<open>keyed_comparator\<close> on the three comparison functions that are sorted by. What
  code outside the repository promises is a named hypothesis: \<open>condition_laws\<close> and
  \<open>finalizer_laws\<close> (apimachinery's \<open>meta\<close> and controller-runtime's \<open>controllerutil\<close>), \<open>sorts\<close>
  (\<open>slices.SortFunc\<close>, any algorithm, stable or not), \<open>poll_clock\<close> (timer and clock of the
  polling loop), \<open>draft_rules_laws\<close>, \<open>rule_store\<close>, \<open>cleanup_laws\<close> and \<open>responsive\<close> (the draft
  objects of the PCE's REST API), \<open>object_laws\<close> and \<open>onboarding_laws\<close> (what the API server stores of an
  update), \<open>cluster_answers\<close>, \<open>pce_answers\<close>, \<open>scope_reads\<close> and \<open>stores\<close> (which calls are answered,
  and with what), \<open>cluster_serves\<close> (the objects a new cluster starts from), \<open>meta_laws\<close> (the
  deep copies of apimachinery's structs), \<open>file_laws\<close> (reading and writing a file),
  \<open>watch_laws\<close> (controller-runtime's predicates and handlers), \<open>serves_labels\<close> and the
  \<open>admitted\<close> predicates of \<open>Namespace_Updates\<close> (the PCE's labels, the validation of the CRDs).
  Each theorem with a hypothesis has a witness with concrete functions.

  \<^bold>\<open>Fuel.\<close> The one loop without a structural bound is the polling loop of \<open>QueryTraffic\<close>: it
  polls, then waits two seconds or until the deadline, ninety seconds after the start. Under
  \<open>poll_clock\<close> there are at most 46 polls, one at the start and one after each of 45 waits, so
  fuel 46 (\<open>max_polls\<close>) is enough. Every other loop recurs on a list
  or has a measure.

  \<^bold>\<open>Not modelled.\<close> Logging; a missing event recorder; the queues and caches of
  controller-runtime; the scheme's tables behind \<open>AddKnownTypes\<close>; the text of JSON documents,
  TLS, the HTTP client's timeout and the wording of library errors, which belong to the
  transport; the end-to-end test suites, which
  ginkgo runs against a cluster. A call to the API server or the PCE is one step, and two
  reconciles of the same resource do not overlap, as the work queue of controller-runtime
  guarantees; other writers are covered as far as a call may change the world in any way
  its hypotheses leave open.
\<close>


section \<open>Properties that span components\<close>

text \<open>The three ways the source cuts an href give the same identifier.\<close>

lemma last_segments_agree:
  "lastPathSegmentPub s = ContainerClusterUUID s" "lastPathSegment s = ContainerClusterUUID s"
  by (simp_all add: lastPathSegmentPub_def lastPathSegment_def ContainerClusterUUID_def
      after_last_index_segment scan_back_segment)

text \<open>The requests of the two controllers that only observe.\<close>

definition observer_request :: "http_request \<Rightarrow> bool" where
  "observer_request req \<longleftrightarrow> (\<exists>cfg.
     (\<exists>path. req = pce_request cfg MethodGet path None) \<or>
     (\<exists>q. req = pce_request cfg MethodPost (orgPath cfg ''/traffic_flows/async_queries'')
        (Some (traffic_query_body q))) \<or>
     (\<exists>version q. version \<in> {PolicyVersionActive, PolicyVersionDraft} \<and>
        req = pce_request cfg MethodPost (orgPath cfg (''/sec_policy/'' @ version @ ''/rule_search''))
          (Some (rule_search_body q))))"

lemma observer_requests:
  "observer_request (pce_request cfg MethodGet p None)"
  "observer_request (pce_request cfg MethodPost (orgPath cfg ''/traffic_flows/async_queries'')
     (Some (traffic_query_body q)))"
  "version \<in> {PolicyVersionActive, PolicyVersionDraft} \<Longrightarrow>
   observer_request (pce_request cfg MethodPost (orgPath cfg (''/sec_policy/'' @ version @ ''/rule_search''))
     (Some (rule_search_body rq)))"
  unfolding observer_request_def by blast+

definition env_keeps :: "('w \<Rightarrow> bool) \<Rightarrow> 'w poll_env \<Rightarrow> bool" where
  "env_keeps P env \<longleftrightarrow> keeps P (pe_now env) \<and> (\<forall>d. keeps P (pe_wait env d))"

lemma keeps_observer_get: "keeps (sent observer_request) (client_get (logged http) cfg p d z)"
  by (rule keeps_client_calls observer_requests)+

lemma keeps_observer_find: "keeps (sent observer_request) (FindLabel (logged http) cfg key v)"
  unfolding FindLabel_def by (rule keeps keeps_observer_get)+

lemma keeps_poll_query:
  "env_keeps (sent observer_request) env \<Longrightarrow>
   keeps (sent observer_request) (poll_query (logged http) env cfg uuid deadline n)"
proof (induction n)
  case (Suc n)
  then have "keeps (sent observer_request) (pe_wait env deadline)" by (simp add: env_keeps_def)
  with Suc show ?case by (auto intro!: keeps keeps_observer_get split: wait_outcome.split)
qed simp

lemma keeps_QueryTraffic:
  assumes "env_keeps (sent observer_request) env"
  shows "keeps (sent observer_request) (QueryTraffic (logged http) env fuel cfg q)"
proof -
  have create: "keeps (sent observer_request) (client_send (logged http) cfg MethodPost
      (orgPath cfg ''/traffic_flows/async_queries'') (traffic_query_body q) dec_async_status zero_async_status)"
    by (rule keeps_client_calls observer_requests)+
  have now: "keeps (sent observer_request) (pe_now env)" using assms by (simp add: env_keeps_def)
  show ?thesis
    unfolding QueryTraffic_def download_flows_def
    by (auto intro!: keeps create now keeps_poll_query [OF assms] keeps_observer_get)
qed

lemma keeps_SearchRules: "keeps (sent observer_request) (SearchRules (logged http) cfg q)"
  unfolding SearchRules_def Let_def
  by (rule keeps_bind, rule keeps_client_calls, rule observer_requests) simp_all

text \<open>
  C30: PolicyInsight and RuleView only observe: whatever the PCE answers and the cluster holds,
  their requests are GETs, the creation of a traffic query, or a rule search. They create,
  change, delete and provision nothing.
\<close>
theorem observers_read_only:
  assumes "kube_reads_keep (sent observer_request) k"
    and "\<And>pi. keeps (sent observer_request) (k_status_insight k pi)"
    and "\<And>rv. keeps (sent observer_request) (k_status_rule_view k rv)"
    and "env_keeps (sent observer_request) env"
  shows "keeps (sent observer_request)
      (PolicyInsightReconcile k (pce_insight_client (logged http) env) srt maxResults maxFindings namespace name) \<and>
    keeps (sent observer_request)
      (RuleViewReconcile k (pce_rule_view_client (logged http)) rsrt maxRules namespace name)"
proof
  note reads = assms(1)
  have traffic: "keeps (sent observer_request) (ic_query_traffic (pce_insight_client (logged http) env cfg) q)" for cfg q
    by (auto simp: pce_insight_client_def intro!: keeps keeps_QueryTraffic assms(4))
  have find: "keeps (sent observer_request) (find_scope_labels (ic_find_label (pce_insight_client (logged http) env cfg)) s hs)"
    "keeps (sent observer_request) (find_scope_labels (vc_find_label (pce_rule_view_client (logged http) cfg)) s hs)"
    for cfg s hs
    by (rule keeps_find_scope_labels; simp add: pce_insight_client_def pce_rule_view_client_def keeps_observer_find)+
  show "keeps (sent observer_request)
      (PolicyInsightReconcile k (pce_insight_client (logged http) env) srt maxResults maxFindings namespace name)"
    unfolding PolicyInsightReconcile_def insight_step_def run_queries_def insight_fail_def
    by (auto intro!: keeps reads assms(2) traffic find simp: Let_def)
  have search: "keeps (sent observer_request) (vc_search_rules (pce_rule_view_client (logged http) cfg) q)" for cfg q
    by (simp add: pce_rule_view_client_def keeps_SearchRules)
  show "keeps (sent observer_request)
      (RuleViewReconcile k (pce_rule_view_client (logged http)) rsrt maxRules namespace name)"
    unfolding RuleViewReconcile_def view_step_def sync_step_def view_fail_def write_view_def
    by (auto intro!: keeps reads assms(3) search find simp: Let_def)
qed

theorem observers_read_only_witness:
  "let k = (sim_cluster ''auto'')\<lparr>k_get_rule_view := (\<lambda>_ _. ret (Inr sim_view))\<rparr>;
       log = snd (snd (run_state (RuleViewReconcile k (pce_rule_view_client (logged sim_http)) insertion_sort 0
         ''shop'' ''view'') ((), [])))
   in list_all observer_request log \<and> map req_method log = [''GET'', ''POST'']"
proof -
  let ?k = "(sim_cluster ''auto'')\<lparr>k_get_rule_view := (\<lambda>_ _. ret (Inr sim_view))\<rparr> :: (unit \<times> http_request list) kube"
  let ?env = "\<lparr>pe_now = ret 0, pe_wait = (\<lambda>_. ret DeadlineHit)\<rparr> :: (unit \<times> http_request list) poll_env"
  let ?run = "RuleViewReconcile ?k (pce_rule_view_client (logged sim_http)) insertion_sort 0 ''shop'' ''view''"
  have "kube_reads_keep (sent observer_request) ?k"
    "keeps (sent observer_request) (k_status_insight ?k pi)"
    "keeps (sent observer_request) (k_status_rule_view ?k rv)"
    "env_keeps (sent observer_request) ?env" for pi rv
    by (simp_all add: kube_reads_keep_def sim_cluster_def sim_kube_def env_keeps_def)
  from observers_read_only [OF this, of sim_http] have "keeps (sent observer_request) ?run" by blast
  then have "list_all observer_request (snd (snd (run_state ?run ((), []))))"
    by (simp add: keeps_def sent_def)
  moreover have "map req_method (snd (snd (run_state ?run ((), [])))) = [''GET'', ''POST'']" by code_simp
  ultimately show ?thesis by (simp add: Let_def)
qed

end
